(* ===== verification/WS_Prelude.thy ===== *)
theory WS_Prelude
  imports Main "HOL-Library.AList" "HOL-Library.Char_ord" "HOL-Library.List_Lexorder"
begin

text \<open>
  What every component shares: the dynamic Python values the documents and request bodies
  are made of, the exceptions the code raises, the result type of a fallible function with
  its sequencing combinator, dictionaries as association lists in insertion order, and the
  few string operations of the standard library the code uses.

  A Python \<open>str\<close> is an Isabelle \<open>string\<close>; a character stands for a code point below 128, and
  the operations that depend on Unicode tables (\<open>strip\<close>, \<open>upper\<close>, \<open>isdigit\<close>) are the ASCII
  ones. A Python \<open>int\<close> is an \<open>int\<close>. A Python \<open>float\<close> is represented by the text of its
  \<open>repr\<close>: no code modelled here computes with one, it only tells it from the other types,
  compares it and prints it.
\<close>

named_theorems result_iffs "when a fallible computation succeeds"

section \<open>Dynamic values\<close>

datatype pyval =
    PNone
  | PBool bool
  | PInt int
  | PFloat string
  | PStr string
  | PList "pyval list"
  | PDict "(string \<times> pyval) list"

type_synonym dict = "(string \<times> pyval) list"

fun is_str :: "pyval \<Rightarrow> bool" where
  "is_str (PStr _) = True"
| "is_str _ = False"

fun is_dict :: "pyval \<Rightarrow> bool" where
  "is_dict (PDict _) = True"
| "is_dict _ = False"

fun is_list :: "pyval \<Rightarrow> bool" where
  "is_list (PList _) = True"
| "is_list _ = False"

text \<open>\<open>type(v) is int\<close>: a \<open>bool\<close> does not count, although it is an instance of \<open>int\<close>.\<close>

fun is_int :: "pyval \<Rightarrow> bool" where
  "is_int (PInt _) = True"
| "is_int _ = False"

fun str_of :: "pyval \<Rightarrow> string" where
  "str_of (PStr s) = s"
| "str_of _ = []"

fun int_of :: "pyval \<Rightarrow> int" where
  "int_of (PInt i) = i"
| "int_of _ = 0"

fun dict_of :: "pyval \<Rightarrow> dict" where
  "dict_of (PDict d) = d"
| "dict_of _ = []"

fun list_of :: "pyval \<Rightarrow> pyval list" where
  "list_of (PList xs) = xs"
| "list_of _ = []"

text \<open>The truth value Python's \<open>if v\<close> and \<open>v or w\<close> take.\<close>

definition float_is_zero :: "string \<Rightarrow> bool" where
  "float_is_zero r \<longleftrightarrow> r = ''0.0'' \<or> r = ''-0.0''"

fun truthy :: "pyval \<Rightarrow> bool" where
  "truthy PNone = False"
| "truthy (PBool b) = b"
| "truthy (PInt i) = (i \<noteq> 0)"
| "truthy (PFloat r) = (\<not> float_is_zero r)"
| "truthy (PStr s) = (s \<noteq> [])"
| "truthy (PList xs) = (xs \<noteq> [])"
| "truthy (PDict d) = (d \<noteq> [])"

definition por :: "pyval \<Rightarrow> pyval \<Rightarrow> pyval" where
  "por v w = (if truthy v then v else w)"

lemma is_str_iff: "is_str v \<longleftrightarrow> (\<exists>s. v = PStr s)" by (cases v) auto
lemma is_int_iff: "is_int v \<longleftrightarrow> (\<exists>i. v = PInt i)" by (cases v) auto
lemma is_dict_iff: "is_dict v \<longleftrightarrow> (\<exists>d. v = PDict d)" by (cases v) auto
lemma is_list_iff: "is_list v \<longleftrightarrow> (\<exists>xs. v = PList xs)" by (cases v) auto

section \<open>Exceptions and results\<close>

text \<open>
  The classes of \<open>service_errors.py\<close>: every one is a \<open>DomainError\<close> with its own \<open>code\<close>.
\<close>

datatype domain_kind =
    Invalid_Request | Task_Display_Id_Authority | Not_Found | Revision_Conflict
  | Revision_Exhausted | Idempotency_Conflict | Checkpoint_Transition_Conflict
  | Work_Session_Conflict | Stale_Capture | Source_Revision_Conflict
  | Reply_Receipt_Conflict | Capture_Unlink_Undo_Conflict | Snapshot_Disclosure_Required
  | Snapshot_Export_Conflict | Snapshot_Store_Not_Ready | Snapshot_Export_Refused

datatype pyexc =
    DomainError domain_kind string dict
  | ValueErr string
  | StoreCorruptError string
  | PlanningStatusValidationError string
  | OutcomeWriteInvariantError string dict
  | TaskDisplayIdError string
  | TaskDeletionTransactionError string string int
  | MutationNoticeError string
  | MutationReceiptError string string dict
  | CheckpointTransitionError string
  | CheckpointChangeError
  | CaptureUnlinkPolicyError string
  | IntentContractError string
  | CanonicalJsonError string string
  | CaptureUnlinkReceiptError string
  | StoreExternalChangeError
  | KeyError string
  | IndexError
  | OverflowError
  | TypeError
  | AttributeError

type_synonym 'a result = "pyexc + 'a"

definition bind_r :: "'a result \<Rightarrow> ('a \<Rightarrow> 'b result) \<Rightarrow> 'b result" where
  "bind_r m f = (case m of Inl e \<Rightarrow> Inl e | Inr x \<Rightarrow> f x)"

lemma bind_r_simps [simp]:
  "bind_r (Inl e) f = Inl e"
  "bind_r (Inr x) f = f x"
  by (simp_all add: bind_r_def)

lemma bind_r_Inr [result_iffs]: "bind_r m f = Inr y \<longleftrightarrow> (\<exists>x. m = Inr x \<and> f x = Inr y)"
  by (cases m) auto

lemma bind_r_Inl: "bind_r m f = Inl e \<longleftrightarrow> m = Inl e \<or> (\<exists>x. m = Inr x \<and> f x = Inl e)"
  by (cases m) auto

lemma bind_r_assoc: "bind_r (bind_r m f) g = bind_r m (\<lambda>x. bind_r (f x) g)"
  by (cases m) auto

lemma bind_r_cong [fundef_cong]:
  "m = m' \<Longrightarrow> (\<And>x. m' = Inr x \<Longrightarrow> f x = f' x) \<Longrightarrow> bind_r m f = bind_r m' f'"
  by (cases m') auto

lemma if_Inl_eq_Inr [result_iffs]: "(if b then Inl e else m) = Inr y \<longleftrightarrow> \<not> b \<and> m = Inr y"
  by simp

lemma if_else_Inl_eq_Inr [result_iffs]: "(if b then m else Inl e) = Inr y \<longleftrightarrow> b \<and> m = Inr y"
  by simp

text \<open>\<open>try: m / except E as e: raise h(e)\<close>, for the errors \<open>h\<close> is defined on.\<close>

definition catch_r :: "'a result \<Rightarrow> (pyexc \<Rightarrow> pyexc option) \<Rightarrow> 'a result" where
  "catch_r m h = (case m of Inl e \<Rightarrow> Inl (case h e of None \<Rightarrow> e | Some e' \<Rightarrow> e') | Inr x \<Rightarrow> Inr x)"

lemma catch_r_simps [simp]: "catch_r (Inr x) h = Inr x"
  by (simp add: catch_r_def)

lemma catch_r_Inr [result_iffs]: "catch_r m h = Inr x \<longleftrightarrow> m = Inr x"
  by (cases m) (simp_all add: catch_r_def)

text \<open>List comprehensions and loops whose body may raise.\<close>

fun map_r :: "('a \<Rightarrow> 'b result) \<Rightarrow> 'a list \<Rightarrow> 'b list result" where
  "map_r f [] = Inr []"
| "map_r f (x # xs) = bind_r (f x) (\<lambda>y. bind_r (map_r f xs) (\<lambda>ys. Inr (y # ys)))"

fun fold_r :: "('a \<Rightarrow> 's \<Rightarrow> 's result) \<Rightarrow> 'a list \<Rightarrow> 's \<Rightarrow> 's result" where
  "fold_r f [] s = Inr s"
| "fold_r f (x # xs) s = bind_r (f x s) (fold_r f xs)"

lemma map_r_Inr: "map_r f xs = Inr ys \<longleftrightarrow> list_all2 (\<lambda>x y. f x = Inr y) xs ys"
  by (induction xs arbitrary: ys) (auto simp: result_iffs list_all2_Cons1)

lemma map_r_pure: "(\<And>x. x \<in> set xs \<Longrightarrow> f x = Inr (g x)) \<Longrightarrow> map_r f xs = Inr (map g xs)"
  by (induction xs) auto

lemma map_r_cong: "(\<And>x. x \<in> set xs \<Longrightarrow> f x = g x) \<Longrightarrow> map_r f xs = map_r g xs"
  by (induction xs) auto

lemma map_r_append:
  "map_r f (xs @ ys) = bind_r (map_r f xs) (\<lambda>us. bind_r (map_r f ys) (\<lambda>vs. Inr (us @ vs)))"
  by (induction xs) (auto simp: bind_r_assoc bind_r_def split: sum.splits)

lemma fold_r_append: "fold_r f (xs @ ys) s = bind_r (fold_r f xs s) (fold_r f ys)"
  by (induction xs arbitrary: s) (auto simp: bind_r_assoc intro!: bind_r_cong)

lemma fold_r_invariant:
  assumes "fold_r f xs s = Inr t" and "I s"
    and "\<And>x s t. x \<in> set xs \<Longrightarrow> I s \<Longrightarrow> f x s = Inr t \<Longrightarrow> I t"
  shows "I t"
  using assms by (induction xs arbitrary: s) (auto simp: result_iffs)

lemma fold_r_unit_Inr: "fold_r f xs () = Inr () \<longleftrightarrow> (\<forall>x \<in> set xs. f x () = Inr ())"
  by (induction xs) (auto simp: result_iffs)

lemma list_all2_left: "list_all2 P xs ys \<Longrightarrow> x \<in> set xs \<Longrightarrow> \<exists>y \<in> set ys. P x y"
  by (induction xs ys rule: list_all2_induct) auto

lemma list_all2_right: "list_all2 P xs ys \<Longrightarrow> y \<in> set ys \<Longrightarrow> \<exists>x \<in> set xs. P x y"
  by (induction xs ys rule: list_all2_induct) auto

section \<open>Dictionaries\<close>

definition dhas :: "dict \<Rightarrow> string \<Rightarrow> bool" where
  "dhas d k \<longleftrightarrow> map_of d k \<noteq> None"

definition dget_or :: "dict \<Rightarrow> string \<Rightarrow> pyval \<Rightarrow> pyval" where
  "dget_or d k w = (case map_of d k of None \<Rightarrow> w | Some v \<Rightarrow> v)"

definition dget :: "dict \<Rightarrow> string \<Rightarrow> pyval" where
  "dget d k = dget_or d k PNone"

definition dset :: "dict \<Rightarrow> string \<Rightarrow> pyval \<Rightarrow> dict" where
  "dset d k v = AList.update k v d"

definition ddel :: "dict \<Rightarrow> string \<Rightarrow> dict" where
  "ddel d k = filter (\<lambda>p. fst p \<noteq> k) d"

definition dupdate :: "dict \<Rightarrow> dict \<Rightarrow> dict" where
  "dupdate d e = foldl (\<lambda>m (k, v). dset m k v) d e"

definition dsetdefault :: "dict \<Rightarrow> string \<Rightarrow> pyval \<Rightarrow> dict" where
  "dsetdefault d k v = (if dhas d k then d else dset d k v)"

definition dkeys :: "dict \<Rightarrow> string list" where
  "dkeys d = map fst d"

text \<open>\<open>d[k]\<close>: a missing key raises.\<close>

definition dindex :: "dict \<Rightarrow> string \<Rightarrow> pyval result" where
  "dindex d k = (case map_of d k of None \<Rightarrow> Inl (KeyError k) | Some v \<Rightarrow> Inr v)"

lemma map_of_dset [simp]: "map_of (dset d k v) = (map_of d)(k \<mapsto> v)"
  by (simp add: dset_def update_conv')

lemma map_of_ddel [simp]: "map_of (ddel d k) = (map_of d)(k := None)"
proof
  show "map_of (ddel d k) x = ((map_of d)(k := None)) x" for x
    by (induction d) (auto simp: ddel_def)
qed

lemma dhas_dset [simp]: "dhas (dset d k v) x \<longleftrightarrow> x = k \<or> dhas d x"
  by (simp add: dhas_def)

lemma dhas_iff: "dhas d k \<longleftrightarrow> k \<in> set (dkeys d)"
  by (simp add: dhas_def dkeys_def map_of_eq_None_iff)

lemma dget_dset [simp]: "dget (dset d k v) x = (if x = k then v else dget d x)"
  by (simp add: dget_def dget_or_def)

lemma dget_or_dset [simp]: "dget_or (dset d k v) x w = (if x = k then v else dget_or d x w)"
  by (simp add: dget_or_def)

lemma dindex_dset [simp]: "dindex (dset d k v) x = (if x = k then Inr v else dindex d x)"
  by (simp add: dindex_def)

lemma dget_ddel [simp]: "dget (ddel d k) x = (if x = k then PNone else dget d x)"
  by (simp add: dget_def dget_or_def)

lemma dhas_ddel [simp]: "dhas (ddel d k) x \<longleftrightarrow> x \<noteq> k \<and> dhas d x"
  by (simp add: dhas_def)

lemma dget_dsetdefault [simp]:
  "dget (dsetdefault d k v) x = (if x = k \<and> \<not> dhas d k then v else dget d x)"
  by (simp add: dsetdefault_def)

lemma dhas_dsetdefault [simp]: "dhas (dsetdefault d k v) x \<longleftrightarrow> x = k \<or> dhas d x"
  by (auto simp: dsetdefault_def)

lemma dindex_Inr [result_iffs]: "dindex d k = Inr v \<longleftrightarrow> map_of d k = Some v"
  by (simp add: dindex_def split: option.splits)

lemma dget_map_of: "map_of d k = Some v \<Longrightarrow> dget d k = v"
  by (simp add: dget_def dget_or_def)

lemma dhas_map_of: "map_of d k = Some v \<Longrightarrow> dhas d k"
  by (simp add: dhas_def)

lemma dget_neq_None: "dget d k = v \<Longrightarrow> v \<noteq> PNone \<Longrightarrow> map_of d k = Some v"
  by (auto simp: dget_def dget_or_def split: option.splits)

lemma dget_absent: "\<not> dhas d k \<Longrightarrow> dget d k = PNone"
  by (simp add: dhas_def dget_def dget_or_def)

lemma dkeys_dset: "dkeys (dset d k v) = (if k \<in> set (dkeys d) then dkeys d else dkeys d @ [k])"
  by (simp add: dset_def dkeys_def update_keys)

lemma distinct_dset [simp]: "distinct (dkeys (dset d k v)) = distinct (dkeys d)"
  by (simp add: dkeys_dset)

lemma distinct_ddel [simp]: "distinct (dkeys d) \<Longrightarrow> distinct (dkeys (ddel d k))"
  by (simp add: dkeys_def ddel_def distinct_map_filter)

lemma map_of_dupdate:
  "distinct (dkeys e) \<Longrightarrow> map_of (dupdate d e) = map_of d ++ map_of e"
proof (induction e arbitrary: d)
  case (Cons p e)
  obtain k v where p: "p = (k, v)" by (cases p)
  from Cons.prems p have k: "map_of e k = None" and e: "distinct (dkeys e)"
    by (auto simp: dkeys_def map_of_eq_None_iff)
  have "map_of (dupdate d (p # e)) = map_of (dupdate (dset d k v) e)" by (simp add: p dupdate_def)
  also have "\<dots> = (map_of d)(k \<mapsto> v) ++ map_of e" by (simp only: Cons.IH [OF e] map_of_dset)
  also have "\<dots> = map_of d ++ map_of (p # e)"
    using k by (auto simp: fun_eq_iff map_add_def p split: option.splits)
  finally show ?case .
qed (simp add: dupdate_def)

text \<open>Exactly these fields: \<open>set(d) == {...}\<close>.\<close>

definition exact_keys :: "dict \<Rightarrow> string list \<Rightarrow> bool" where
  "exact_keys d ks \<longleftrightarrow> (\<forall>k \<in> set (dkeys d). k \<in> set ks) \<and> (\<forall>k \<in> set ks. dhas d k)"

lemma exact_keys_iff: "exact_keys d ks \<longleftrightarrow> set (dkeys d) = set ks"
  by (auto simp: exact_keys_def dhas_iff)

text \<open>The same operations on a value that may not be a dictionary.\<close>

definition as_dict :: "pyval \<Rightarrow> dict result" where
  "as_dict v = (case v of PDict d \<Rightarrow> Inr d | _ \<Rightarrow> Inl AttributeError)"

definition getitem :: "pyval \<Rightarrow> string \<Rightarrow> pyval result" where
  "getitem v k = (case v of PDict d \<Rightarrow> dindex d k | _ \<Rightarrow> Inl TypeError)"

definition vget :: "pyval \<Rightarrow> string \<Rightarrow> pyval result" where
  "vget v k = bind_r (as_dict v) (\<lambda>d. Inr (dget d k))"

definition vget_or :: "pyval \<Rightarrow> string \<Rightarrow> pyval \<Rightarrow> pyval result" where
  "vget_or v k w = bind_r (as_dict v) (\<lambda>d. Inr (dget_or d k w))"

lemma as_dict_simps [simp]: "as_dict (PDict d) = Inr d"
  by (simp add: as_dict_def)

lemma as_dict_Inr [result_iffs]: "as_dict v = Inr d \<longleftrightarrow> v = PDict d"
  by (cases v) (auto simp: as_dict_def)

lemma getitem_PDict [simp]: "getitem (PDict d) k = dindex d k"
  by (simp add: getitem_def)

lemma getitem_Inr [result_iffs]: "getitem v k = Inr x \<longleftrightarrow> (\<exists>d. v = PDict d \<and> map_of d k = Some x)"
  by (cases v) (auto simp: getitem_def result_iffs)

lemma vget_PDict [simp]: "vget (PDict d) k = Inr (dget d k)"
  by (simp add: vget_def)

lemma vget_or_PDict [simp]: "vget_or (PDict d) k w = Inr (dget_or d k w)"
  by (simp add: vget_or_def)

text \<open>
  Iterating over a value: a list yields its items, a string its characters and a
  dictionary its keys; the other values raise.
\<close>

fun iter_r :: "pyval \<Rightarrow> pyval list result" where
  "iter_r (PList xs) = Inr xs"
| "iter_r (PStr s) = Inr (map (\<lambda>c. PStr [c]) s)"
| "iter_r (PDict d) = Inr (map (\<lambda>p. PStr (fst p)) d)"
| "iter_r _ = Inl TypeError"

text \<open>\<open>len(v)\<close>, and the list behind \<open>v.append(...)\<close>.\<close>

fun len_r :: "pyval \<Rightarrow> nat result" where
  "len_r (PList xs) = Inr (length xs)"
| "len_r (PStr s) = Inr (length s)"
| "len_r (PDict d) = Inr (length d)"
| "len_r _ = Inl TypeError"

definition as_list :: "pyval \<Rightarrow> pyval list result" where
  "as_list v = (case v of PList xs \<Rightarrow> Inr xs | _ \<Rightarrow> Inl AttributeError)"

lemma as_list_PList [simp]: "as_list (PList xs) = Inr xs"
  by (simp add: as_list_def)

lemma as_list_Inr [result_iffs]: "as_list v = Inr xs \<longleftrightarrow> v = PList xs"
  by (cases v) (auto simp: as_list_def)

section \<open>Equality of values\<close>

text \<open>
  Python's \<open>==\<close>: numbers compare by value across \<open>bool\<close>, \<open>int\<close> and \<open>float\<close>, dictionaries
  without regard to the order of their keys. The integral value of a float is read off
  its \<open>repr\<close>, which prints it as \<open>digits.0\<close> below \<open>10^16\<close> and as \<open>d[.ddd]e+XX\<close> above.
\<close>

definition is_digit :: "char \<Rightarrow> bool" where
  "is_digit c \<longleftrightarrow> 48 \<le> (of_char c :: nat) \<and> (of_char c :: nat) \<le> 57"

definition digits_val :: "string \<Rightarrow> nat" where
  "digits_val s = foldl (\<lambda>a c. 10 * a + ((of_char c :: nat) - 48)) 0 s"

definition float_abs_int :: "string \<Rightarrow> nat option" where
  "float_abs_int r =
     (let m = takeWhile (\<lambda>c. c \<noteq> CHR ''e'') r;
          x = drop (length m + 2) r;
          a = takeWhile is_digit m;
          f = drop (length a + 1) m
      in if m = r
         then (if a \<noteq> [] \<and> f = ''0'' then Some (digits_val a) else None)
         else if take 1 (drop (length m + 1) r) = ''+'' \<and> length f \<le> digits_val x
         then Some (digits_val (a @ f) * 10 ^ (digits_val x - length f))
         else None)"

definition float_int :: "string \<Rightarrow> int option" where
  "float_int r = (if take 1 r = ''-'' then map_option (\<lambda>n. - int n) (float_abs_int (drop 1 r))
                  else map_option int (float_abs_int r))"

fun num_int :: "pyval \<Rightarrow> int option" where
  "num_int (PBool b) = Some (if b then 1 else 0)"
| "num_int (PInt i) = Some i"
| "num_int (PFloat r) = float_int r"
| "num_int _ = None"

fun is_number :: "pyval \<Rightarrow> bool" where
  "is_number (PBool _) = True"
| "is_number (PInt _) = True"
| "is_number (PFloat _) = True"
| "is_number _ = False"

definition num_eq :: "pyval \<Rightarrow> pyval \<Rightarrow> bool" where
  "num_eq v w = (is_number w \<and>
     (case (num_int v, num_int w) of
        (Some i, Some j) \<Rightarrow> i = j
      | (None, None) \<Rightarrow> v = w \<and> v \<noteq> PFloat ''nan''
      | _ \<Rightarrow> False))"

primrec py_eq :: "pyval \<Rightarrow> pyval \<Rightarrow> bool" where
  "py_eq PNone = (\<lambda>w. w = PNone)"
| "py_eq (PBool b) = num_eq (PBool b)"
| "py_eq (PInt i) = num_eq (PInt i)"
| "py_eq (PFloat r) = num_eq (PFloat r)"
| "py_eq (PStr s) = (\<lambda>w. w = PStr s)"
| "py_eq (PList xs) =
     (\<lambda>w. case w of PList ys \<Rightarrow> list_all2 (\<lambda>f y. f y) (map py_eq xs) ys | _ \<Rightarrow> False)"
| "py_eq (PDict d) =
     (\<lambda>w. case w of
         PDict e \<Rightarrow> length d = length e \<and>
           list_all (\<lambda>(k, f). case map_of e k of None \<Rightarrow> False | Some y \<Rightarrow> f y)
             (map (map_prod id py_eq) d)
       | _ \<Rightarrow> False)"

lemma num_eq_PStr [simp]: "\<not> num_eq v (PStr s)"
  by (simp add: num_eq_def)

lemma num_eq_PNone [simp]: "\<not> num_eq v PNone"
  by (simp add: num_eq_def)

lemma py_eq_PStr [simp]: "py_eq v (PStr s) \<longleftrightarrow> v = PStr s"
  by (cases v) auto

lemma py_eq_PNone [simp]: "py_eq v PNone \<longleftrightarrow> v = PNone"
  by (cases v) auto

lemma py_eq_PInt: "py_eq v (PInt i) \<longleftrightarrow> is_number v \<and> num_int v = Some i"
  by (cases v) (auto simp: num_eq_def split: option.splits)

lemma py_eq_PInt_PInt [simp]: "py_eq (PInt i) (PInt j) \<longleftrightarrow> i = j"
  using py_eq_PInt [of "PInt i" j] by simp

text \<open>
  An \<open>int\<close> against a value: \<open>n < v\<close> and \<open>n > v\<close>. A float that is no integer lies strictly
  between its floor, read off the digits before the point, and the next integer.
\<close>

definition float_floor :: "string \<Rightarrow> int" where
  "float_floor r =
     (let neg = (take 1 r = ''-'');
          b = (if neg then drop 1 r else r);
          n = (if CHR ''e'' \<in> set b then 0 else int (digits_val (takeWhile is_digit b)))
      in if neg then - n - 1 else n)"

fun int_less_r :: "int \<Rightarrow> pyval \<Rightarrow> bool result" where
  "int_less_r n (PInt m) = Inr (n < m)"
| "int_less_r n (PBool b) = Inr (n < (if b then 1 else 0))"
| "int_less_r n (PFloat r) =
     (case float_int r of
        Some m \<Rightarrow> Inr (n < m)
      | None \<Rightarrow> Inr (r = ''inf'' \<or> r \<noteq> ''nan'' \<and> r \<noteq> ''-inf'' \<and> n \<le> float_floor r))"
| "int_less_r _ _ = Inl TypeError"

fun int_greater_r :: "int \<Rightarrow> pyval \<Rightarrow> bool result" where
  "int_greater_r n (PInt m) = Inr (m < n)"
| "int_greater_r n (PBool b) = Inr ((if b then 1 else 0) < n)"
| "int_greater_r n (PFloat r) =
     (case float_int r of
        Some m \<Rightarrow> Inr (m < n)
      | None \<Rightarrow> Inr (r = ''-inf'' \<or> r \<noteq> ''nan'' \<and> r \<noteq> ''inf'' \<and> float_floor r < n))"
| "int_greater_r _ _ = Inl TypeError"

text \<open>\<open>v in ss\<close> for a tuple of strings, and for a set, where an unhashable value raises.\<close>

definition in_tuple :: "pyval \<Rightarrow> string list \<Rightarrow> bool" where
  "in_tuple v ss = list_ex (\<lambda>s. v = PStr s) ss"

definition in_set_r :: "pyval \<Rightarrow> string list \<Rightarrow> bool result" where
  "in_set_r v ss = (if is_list v \<or> is_dict v then Inl TypeError else Inr (in_tuple v ss))"

lemma in_tuple_iff: "in_tuple v ss \<longleftrightarrow> (\<exists>s \<in> set ss. v = PStr s)"
  by (auto simp: in_tuple_def list_ex_iff)

lemma in_tuple_PStr [simp]: "in_tuple (PStr s) ss \<longleftrightarrow> s \<in> set ss"
  by (auto simp: in_tuple_iff)

end
