(* ===== verification/WS_Text.thy ===== *)
theory WS_Text
  imports WS_Prelude
begin

text \<open>
  The string operations of the standard library the code uses: \<open>strip\<close>, \<open>upper\<close>, decimal
  numerals with zero padding, \<open>join\<close>, \<open>str\<close>/\<open>repr\<close> of a value, and \<open>sorted(set(...))\<close>, with the
  laws the components need: stripping and upper-casing are idempotent, printing a number
  and reading it back is the identity.
\<close>

section \<open>Stripping and case\<close>

definition py_space :: "char \<Rightarrow> bool" where
  "py_space c \<longleftrightarrow> (let n = (of_char c :: nat) in 9 \<le> n \<and> n \<le> 13 \<or> 28 \<le> n \<and> n \<le> 32)"

definition py_strip :: "string \<Rightarrow> string" where
  "py_strip s = rev (dropWhile py_space (rev (dropWhile py_space s)))"

definition char_upper :: "char \<Rightarrow> char" where
  "char_upper c = (let n = (of_char c :: nat) in
     if 97 \<le> n \<and> n \<le> 122 then char_of (n - 32) else c)"

definition py_upper :: "string \<Rightarrow> string" where
  "py_upper s = map char_upper s"

definition upper_strip :: "string \<Rightarrow> string" where
  "upper_strip s = py_upper (py_strip s)"

text \<open>A string is trimmed when \<open>strip\<close> has nothing to remove.\<close>

definition trimmed :: "string \<Rightarrow> bool" where
  "trimmed s \<longleftrightarrow> s = [] \<or> \<not> py_space (hd s) \<and> \<not> py_space (last s)"

lemma dropWhile_not: "dropWhile P s = [] \<or> \<not> P (hd (dropWhile P s))"
  by (induction s) auto

lemma trimmed_strip: "trimmed (py_strip s)"
proof (cases "py_strip s = []")
  case False
  let ?a = "dropWhile py_space s"
  let ?b = "dropWhile py_space (rev ?a)"
  from False have b: "?b \<noteq> []" by (simp add: py_strip_def)
  have a: "?a \<noteq> []" using b by (cases ?a) auto
  have "last (py_strip s) = hd ?b" using b by (simp add: py_strip_def last_rev)
  moreover have "hd (py_strip s) = hd ?a"
  proof -
    obtain us where us: "rev ?a = us @ ?b"
      by (metis takeWhile_dropWhile_id)
    then have "?a = rev ?b @ rev us" by (metis rev_append rev_rev_ident)
    then have "hd ?a = hd (rev ?b)" using b by (metis hd_append2 rev_is_Nil_conv)
    then show ?thesis by (simp add: py_strip_def)
  qed
  moreover have "\<not> py_space (hd ?a)" using a dropWhile_not [of py_space s] by blast
  moreover have "\<not> py_space (hd ?b)" using b dropWhile_not [of py_space "rev ?a"] by blast
  ultimately show ?thesis by (simp add: trimmed_def)
qed (simp add: trimmed_def)

lemma strip_trimmed:
  assumes "trimmed s" shows "py_strip s = s"
proof (cases "s = []")
  case False
  with assms have h: "\<not> py_space (hd s)" and l: "\<not> py_space (hd (rev s))"
    by (simp_all add: trimmed_def hd_rev)
  from h False have "dropWhile py_space s = s" by (cases s) auto
  moreover from l False have "dropWhile py_space (rev s) = rev s" by (cases "rev s") auto
  ultimately show ?thesis by (simp add: py_strip_def)
qed (simp add: py_strip_def)

lemma strip_strip [simp]: "py_strip (py_strip s) = py_strip s"
  by (simp add: strip_trimmed trimmed_strip)

lemma strip_Nil [simp]: "py_strip [] = []"
  by (simp add: py_strip_def)

lemma of_char_upper:
  "(of_char (char_upper c) :: nat) =
     (if 97 \<le> (of_char c :: nat) \<and> (of_char c :: nat) \<le> 122 then of_char c - 32 else of_char c)"
proof -
  have "((of_char c :: nat) - 32) mod 256 = of_char c - 32"
    by (rule mod_less) (rule le_less_trans [OF diff_le_self nat_of_char_less_256])
  then show ?thesis by (simp add: char_upper_def Let_def)
qed

lemma char_upper_idem [simp]: "char_upper (char_upper c) = char_upper c"
proof -
  have "(of_char (char_upper (char_upper c)) :: nat) = of_char (char_upper c)"
    unfolding of_char_upper by (auto split: if_splits)
  then show ?thesis by simp
qed

lemma space_upper [simp]: "py_space (char_upper c) \<longleftrightarrow> py_space c"
  by (auto simp: py_space_def Let_def of_char_upper split: if_splits)

lemma upper_idem [simp]: "py_upper (py_upper s) = py_upper s"
  by (simp add: py_upper_def)

lemma trimmed_upper [simp]: "trimmed (py_upper s) \<longleftrightarrow> trimmed s"
  by (cases s) (auto simp: trimmed_def py_upper_def last_map)

lemma upper_Nil_iff [simp]: "py_upper s = [] \<longleftrightarrow> s = []"
  by (simp add: py_upper_def)

lemma upper_strip_idem [simp]: "upper_strip (upper_strip s) = upper_strip s"
  by (simp add: upper_strip_def strip_trimmed trimmed_strip)

section \<open>Decimal numerals\<close>

definition digit_char :: "nat \<Rightarrow> char" where
  "digit_char d = char_of (48 + d)"

fun nat_str :: "nat \<Rightarrow> string" where
  "nat_str n = (if n < 10 then [digit_char n] else nat_str (n div 10) @ [digit_char (n mod 10)])"

declare nat_str.simps [simp del]

definition int_str :: "int \<Rightarrow> string" where
  "int_str i = (if i < 0 then CHR ''-'' # nat_str (nat (- i)) else nat_str (nat i))"

text \<open>\<open>"{:0wd}".format(n)\<close> for a natural number.\<close>

definition pad_nat :: "nat \<Rightarrow> nat \<Rightarrow> string" where
  "pad_nat w n = (let s = nat_str n in replicate (w - length s) (CHR ''0'') @ s)"

definition all_digits :: "string \<Rightarrow> bool" where
  "all_digits s = list_all is_digit s"

lemma of_char_digit [simp]: "d < 10 \<Longrightarrow> (of_char (digit_char d) :: nat) = 48 + d"
  by (simp add: digit_char_def)

lemma is_digit_digit_char [simp]: "d < 10 \<Longrightarrow> is_digit (digit_char d)"
  by (simp add: is_digit_def)

lemma all_digits_append [simp]: "all_digits (s @ t) \<longleftrightarrow> all_digits s \<and> all_digits t"
  by (simp add: all_digits_def)

lemma all_digits_replicate [simp]: "all_digits (replicate k (CHR ''0''))"
  by (simp add: all_digits_def is_digit_def list_all_iff)

lemma all_digits_nat_str [simp]: "all_digits (nat_str n)"
  by (induction n rule: nat_str.induct)
    (subst nat_str.simps, simp add: all_digits_def)

lemma nat_str_nonempty [simp]: "nat_str n \<noteq> []"
  by (subst nat_str.simps) simp

lemma digits_val_snoc: "digits_val (s @ [c]) = 10 * digits_val s + (of_char c - 48)"
  by (simp add: digits_val_def)

lemma digits_val_Nil [simp]: "digits_val [] = 0"
  by (simp add: digits_val_def)

lemma digits_val_nat_str [simp]: "digits_val (nat_str n) = n"
proof (induction n rule: nat_str.induct)
  case (1 n)
  show ?case
  proof (cases "n < 10")
    case True
    then show ?thesis by (subst nat_str.simps) (simp add: digits_val_def)
  next
    case False
    with 1 show ?thesis by (subst nat_str.simps) (simp add: digits_val_snoc)
  qed
qed

lemma foldl_zeros:
  "foldl (\<lambda>a c. 10 * a + ((of_char c :: nat) - 48)) 0 (replicate k (CHR ''0'') @ s) =
   foldl (\<lambda>a c. 10 * a + ((of_char c :: nat) - 48)) 0 s"
  by (induction k) simp_all

lemma digits_val_zeros [simp]: "digits_val (replicate k (CHR ''0'') @ s) = digits_val s"
  unfolding digits_val_def by (rule foldl_zeros)

lemma digits_val_pad_nat [simp]: "digits_val (pad_nat w n) = n"
  by (simp add: pad_nat_def Let_def)

lemma all_digits_pad_nat [simp]: "all_digits (pad_nat w n)"
  by (simp add: pad_nat_def Let_def)

lemma length_pad_nat: "w \<le> length (pad_nat w n)"
  by (simp add: pad_nat_def Let_def)

lemma pad_nat_nonempty [simp]: "pad_nat w n \<noteq> []"
  by (simp add: pad_nat_def Let_def)

lemma pad_nat_inject [simp]: "pad_nat w n = pad_nat w m \<longleftrightarrow> n = m"
  by (metis digits_val_pad_nat)

lemma char_upper_digit: "is_digit c \<Longrightarrow> char_upper c = c"
  by (auto simp: is_digit_def char_upper_def Let_def)

lemma upper_digits: "all_digits s \<Longrightarrow> py_upper s = s"
  by (induction s) (auto simp: all_digits_def py_upper_def char_upper_digit)

lemma digit_not_space: "is_digit c \<Longrightarrow> \<not> py_space c"
  by (auto simp: is_digit_def py_space_def Let_def)

section \<open>Joining, sorting\<close>

fun py_join :: "string \<Rightarrow> string list \<Rightarrow> string" where
  "py_join sep [] = []"
| "py_join sep [s] = s"
| "py_join sep (s # ss) = s @ sep @ py_join sep ss"

text \<open>\<open>sorted(set(xs))\<close>: strings compare by code point, as the list order on \<open>char\<close> does.\<close>

definition sorted_set :: "string list \<Rightarrow> string list" where
  "sorted_set xs = sort (remdups xs)"

lemma set_sorted_set [simp]: "set (sorted_set xs) = set xs"
  by (simp add: sorted_set_def)

lemma sorted_sorted_set [simp]: "sorted (sorted_set xs)"
  by (simp add: sorted_set_def)

lemma distinct_sorted_set [simp]: "distinct (sorted_set xs)"
  by (simp add: sorted_set_def)

lemma sorted_set_unique:
  "sorted ys \<Longrightarrow> distinct ys \<Longrightarrow> set ys = set xs \<Longrightarrow> sorted_set xs = ys"
  by (metis sorted_set_def sorted_distinct_set_unique set_sorted_set sorted_sorted_set distinct_sorted_set)

lemma sorted_set_id: "sorted xs \<Longrightarrow> distinct xs \<Longrightarrow> sorted_set xs = xs"
  by (rule sorted_set_unique) simp_all

lemma sorted_set_idem [simp]: "sorted_set (sorted_set xs) = sorted_set xs"
  by (rule sorted_set_id) simp_all

definition strs :: "string list \<Rightarrow> pyval" where
  "strs ss = PList (map PStr ss)"

lemma map_str_of_PStr [simp]: "map (str_of \<circ> PStr) ss = ss"
  by (induction ss) auto

section \<open>\<open>str\<close> and \<open>repr\<close>\<close>

definition hex_digit :: "nat \<Rightarrow> char" where
  "hex_digit n = (if n < 10 then char_of (48 + n) else char_of (87 + n))"

definition repr_char :: "char \<Rightarrow> char \<Rightarrow> string" where
  "repr_char q c = (let n = (of_char c :: nat) in
     if c = q \<or> n = 92 then [char_of (92 :: nat), c]
     else if n = 9 then [char_of (92 :: nat), CHR ''t'']
     else if n = 10 then [char_of (92 :: nat), CHR ''n'']
     else if n = 13 then [char_of (92 :: nat), CHR ''r'']
     else if n < 32 \<or> 127 \<le> n
     then [char_of (92 :: nat), CHR ''x'', hex_digit (n div 16), hex_digit (n mod 16)]
     else [c])"

definition repr_str :: "string \<Rightarrow> string" where
  "repr_str s = (let sq = char_of (39 :: nat); dq = char_of (34 :: nat);
       q = (if List.member s sq \<and> \<not> List.member s dq then dq else sq)
     in q # concat (map (repr_char q) s) @ [q])"

primrec py_repr :: "pyval \<Rightarrow> string" where
  "py_repr PNone = ''None''"
| "py_repr (PBool b) = (if b then ''True'' else ''False'')"
| "py_repr (PInt i) = int_str i"
| "py_repr (PFloat r) = r"
| "py_repr (PStr s) = repr_str s"
| "py_repr (PList xs) = ''['' @ py_join '', '' (map py_repr xs) @ '']''"
| "py_repr (PDict d) =
     ''{'' @ py_join '', '' (map (\<lambda>(k, r). repr_str k @ '': '' @ r) (map (map_prod id py_repr) d)) @ ''}''"

definition py_str :: "pyval \<Rightarrow> string" where
  "py_str v = (case v of PStr s \<Rightarrow> s | _ \<Rightarrow> py_repr v)"

lemma py_str_PStr [simp]: "py_str (PStr s) = s"
  by (simp add: py_str_def)

section \<open>Matching\<close>

text \<open>
  \<open>fullmatch\<close> of a prefix followed by a class of characters, the shape of most of the
  patterns in the code.
\<close>

definition strip_prefix :: "string \<Rightarrow> string \<Rightarrow> string option" where
  "strip_prefix p s = (if take (length p) s = p then Some (drop (length p) s) else None)"

lemma strip_prefix_append [simp]: "strip_prefix p (p @ s) = Some s"
  by (simp add: strip_prefix_def)

lemma strip_prefix_Some: "strip_prefix p s = Some t \<longleftrightarrow> s = p @ t"
  by (auto simp: strip_prefix_def) (metis append_take_drop_id)

definition is_alnum :: "char \<Rightarrow> bool" where
  "is_alnum c = (let n = (of_char c :: nat) in
     48 \<le> n \<and> n \<le> 57 \<or> 65 \<le> n \<and> n \<le> 90 \<or> 97 \<le> n \<and> n \<le> 122)"

definition is_lower_hex :: "char \<Rightarrow> bool" where
  "is_lower_hex c = (let n = (of_char c :: nat) in 48 \<le> n \<and> n \<le> 57 \<or> 97 \<le> n \<and> n \<le> 102)"

text \<open>\<open>sha256:[0-9a-f]{64}\<close>\<close>

definition is_sha256 :: "string \<Rightarrow> bool" where
  "is_sha256 s = (case strip_prefix ''sha256:'' s of
     None \<Rightarrow> False | Some h \<Rightarrow> length h = 64 \<and> list_all is_lower_hex h)"

section \<open>Evaluation on the bits of a character\<close>

text \<open>The character classes and \<open>upper\<close> as functions of the eight bits, which evaluate quickly.\<close>

definition low_1_26 :: "bool \<Rightarrow> bool \<Rightarrow> bool \<Rightarrow> bool \<Rightarrow> bool \<Rightarrow> bool" where
  "low_1_26 b0 b1 b2 b3 b4 \<longleftrightarrow> (b0 \<or> b1 \<or> b2 \<or> b3 \<or> b4) \<and> \<not> (b4 \<and> b3 \<and> (b2 \<or> b1 \<and> b0))"

lemma is_digit_bits [code]:
  "is_digit (Char b0 b1 b2 b3 b4 b5 b6 b7) \<longleftrightarrow> \<not> b7 \<and> \<not> b6 \<and> b5 \<and> b4 \<and> (\<not> b3 \<or> \<not> b2 \<and> \<not> b1)"
  unfolding is_digit_def of_char_Char
  by (cases b0; cases b1; cases b2; cases b3; cases b4; cases b5; cases b6; cases b7) simp_all

lemma py_space_bits [code]:
  "py_space (Char b0 b1 b2 b3 b4 b5 b6 b7) \<longleftrightarrow> \<not> b7 \<and> \<not> b6 \<and>
     (if b5 then \<not> b4 \<and> \<not> b3 \<and> \<not> b2 \<and> \<not> b1 \<and> \<not> b0
      else if b4 then b3 \<and> b2 else b3 \<and> (b2 \<or> b1 \<or> b0) \<and> \<not> (b2 \<and> b1))"
  unfolding py_space_def of_char_Char Let_def
  by (cases b0; cases b1; cases b2; cases b3; cases b4; cases b5; cases b6; cases b7) simp_all

lemma char_upper_bits [code]:
  "char_upper (Char b0 b1 b2 b3 b4 b5 b6 b7) =
     Char b0 b1 b2 b3 b4 (b5 \<and> \<not> (\<not> b7 \<and> b6 \<and> low_1_26 b0 b1 b2 b3 b4)) b6 b7"
  unfolding char_upper_def of_char_Char Let_def low_1_26_def
  by (cases b0; cases b1; cases b2; cases b3; cases b4; cases b5; cases b6; cases b7) (simp_all add: char_of_def bit_Suc_0_iff)

lemma is_alnum_bits [code]:
  "is_alnum (Char b0 b1 b2 b3 b4 b5 b6 b7) \<longleftrightarrow>
     is_digit (Char b0 b1 b2 b3 b4 b5 b6 b7) \<or> \<not> b7 \<and> b6 \<and> low_1_26 b0 b1 b2 b3 b4"
  unfolding is_alnum_def is_digit_def of_char_Char Let_def low_1_26_def
  by (cases b0; cases b1; cases b2; cases b3; cases b4; cases b5; cases b6; cases b7) simp_all

lemma is_lower_hex_bits [code]:
  "is_lower_hex (Char b0 b1 b2 b3 b4 b5 b6 b7) \<longleftrightarrow>
     is_digit (Char b0 b1 b2 b3 b4 b5 b6 b7) \<or>
     \<not> b7 \<and> b6 \<and> b5 \<and> \<not> b4 \<and> \<not> b3 \<and> (b2 \<or> b1 \<or> b0) \<and> \<not> (b2 \<and> b1 \<and> b0)"
  unfolding is_lower_hex_def is_digit_def of_char_Char Let_def
  by (cases b0; cases b1; cases b2; cases b3; cases b4; cases b5; cases b6; cases b7) simp_all

end
