(* ===== verification/WS_Dates.thy ===== *)
theory WS_Dates
  imports WS_Text
begin

text \<open>
  The calendar part of Python's \<open>datetime\<close> the code relies on: \<open>date.fromisoformat\<close>,
  \<open>date.isoformat\<close> and \<open>datetime.fromisoformat\<close>, in the grammar of Python 3.11 and later
  (calendar and week dates, with and without separators, any one-character separator before
  the time). Positions past the end of a string read as NUL, as they do in CPython's parser.
  A date is a triple of year, month and day; an instant keeps its UTC offset apart, since
  the code asks for it.
\<close>

type_synonym ymd = "nat \<times> nat \<times> nat"

section \<open>The calendar\<close>

definition is_leap :: "nat \<Rightarrow> bool" where
  "is_leap y \<longleftrightarrow> y mod 4 = 0 \<and> (y mod 100 \<noteq> 0 \<or> y mod 400 = 0)"

definition days_in_month :: "nat \<Rightarrow> nat \<Rightarrow> nat" where
  "days_in_month y m =
     (if m = 2 then (if is_leap y then 29 else 28) else if m \<in> {4, 6, 9, 11} then 30 else 31)"

fun valid_date :: "ymd \<Rightarrow> bool" where
  "valid_date (y, m, d) \<longleftrightarrow>
     1 \<le> y \<and> y \<le> 9999 \<and> 1 \<le> m \<and> m \<le> 12 \<and> 1 \<le> d \<and> d \<le> days_in_month y m"

definition days_before_year :: "nat \<Rightarrow> nat" where
  "days_before_year y = (let p = y - 1 in p * 365 + p div 4 - p div 100 + p div 400)"

definition days_before_month :: "nat \<Rightarrow> nat \<Rightarrow> nat" where
  "days_before_month y m = sum_list (map (days_in_month y) [1..<m])"

fun ymd2ord :: "ymd \<Rightarrow> nat" where
  "ymd2ord (y, m, d) = days_before_year y + days_before_month y m + d"

text \<open>The year and the day within it of an ordinal, then the month, by search.\<close>

fun find_month :: "nat \<Rightarrow> nat list \<Rightarrow> nat \<Rightarrow> ymd" where
  "find_month y [] r = (y, 12, r)"
| "find_month y (m # ms) r =
     (if r \<le> days_in_month y m then (y, m, r) else find_month y ms (r - days_in_month y m))"

definition ord2ymd :: "nat \<Rightarrow> ymd" where
  "ord2ymd n0 =
     (let n = n0 - 1; n400 = n div 146097; n = n mod 146097;
          n100 = n div 36524; n = n mod 36524;
          n4 = n div 1461; n = n mod 1461;
          n1 = n div 365; n = n mod 365;
          y = n400 * 400 + n100 * 100 + n4 * 4 + n1
      in if n1 = 4 \<or> n100 = 4 then (y, 12, 31) else find_month (y + 1) [1..<13] (n + 1))"

definition isoweek1monday :: "nat \<Rightarrow> int" where
  "isoweek1monday y =
     (let firstday = int (ymd2ord (y, 1, 1)); firstweekday = (firstday + 6) mod 7;
          monday = firstday - firstweekday
      in if firstweekday > 3 then monday + 7 else monday)"

definition iso_to_ymd :: "nat \<Rightarrow> nat \<Rightarrow> nat \<Rightarrow> ymd option" where
  "iso_to_ymd y w d =
     (let wd = ymd2ord (y, 1, 1) mod 7;
          long = (wd = 4 \<or> (wd = 3 \<and> is_leap y));
          n = isoweek1monday y + (int w - 1) * 7 + (int d - 1)
      in if 1 \<le> y \<and> y \<le> 9999 \<and> 1 \<le> w \<and> (w \<le> 52 \<or> (w = 53 \<and> long)) \<and> 1 \<le> d \<and> d \<le> 7 \<and> 1 \<le> n
         then Some (ord2ymd (nat n)) else None)"

section \<open>Parsing\<close>

definition char_at :: "string \<Rightarrow> nat \<Rightarrow> char" where
  "char_at s i = (if i < length s then s ! i else char_of (0 :: nat))"

definition parse_digits :: "string \<Rightarrow> nat \<Rightarrow> nat \<Rightarrow> nat option" where
  "parse_digits s i n =
     (let t = take n (drop i s) in if length t = n \<and> all_digits t then Some (digits_val t) else None)"

definition parse_iso_date :: "string \<Rightarrow> ymd option" where
  "parse_iso_date s =
     (case parse_digits s 0 4 of None \<Rightarrow> None | Some y \<Rightarrow>
       (let sep = (char_at s 4 = CHR ''-''); p = (if sep then 5 else 4) in
        if char_at s p = CHR ''W'' then
          (case parse_digits s (p + 1) 2 of None \<Rightarrow> None | Some w \<Rightarrow>
            if p + 3 < length s then
              (if sep \<and> char_at s (p + 3) \<noteq> CHR ''-'' then None
               else case parse_digits s (if sep then p + 4 else p + 3) 1 of
                   None \<Rightarrow> None | Some d \<Rightarrow> iso_to_ymd y w d)
            else iso_to_ymd y w 1)
        else
          (case parse_digits s p 2 of None \<Rightarrow> None | Some m \<Rightarrow>
            if sep \<and> char_at s (p + 2) \<noteq> CHR ''-'' then None
            else case parse_digits s (if sep then p + 3 else p + 2) 2 of
                None \<Rightarrow> None | Some d \<Rightarrow> Some (y, m, d))))"

definition date_fromisoformat :: "string \<Rightarrow> ymd option" where
  "date_fromisoformat s =
     (if length s \<in> {7, 8, 10}
      then case parse_iso_date s of
          None \<Rightarrow> None | Some d \<Rightarrow> (if valid_date d then Some d else None)
      else None)"

fun date_isoformat :: "ymd \<Rightarrow> string" where
  "date_isoformat (y, m, d) = pad_nat 4 y @ ''-'' @ pad_nat 2 m @ ''-'' @ pad_nat 2 d"

text \<open>\<open>fromisoformat(s).isoformat() == s\<close>, the test by which the code admits a date.\<close>

definition canonical_date :: "string \<Rightarrow> bool" where
  "canonical_date s \<longleftrightarrow>
     (case date_fromisoformat s of None \<Rightarrow> False | Some d \<Rightarrow> date_isoformat d = s)"

section \<open>Instants\<close>

definition datetime_separator :: "string \<Rightarrow> nat option" where
  "datetime_separator s =
     (let n = length s in
      if n < 7 then None
      else if n = 7 then Some 7
      else if char_at s 4 = CHR ''-'' then
        (if char_at s 5 = CHR ''W'' then
           (if 8 < n \<and> char_at s 8 = CHR ''-'' then
              (if n = 9 then None
               else if 10 < n \<and> is_digit (char_at s 10) then Some 8 else Some 10)
            else Some 8)
         else Some 10)
      else if char_at s 4 = CHR ''W'' then
        (let p = 7 + length (takeWhile is_digit (drop 7 s)) in
         if p < 9 then Some p else if even p then Some 7 else Some 8)
      else Some 8)"

text \<open>
  \<open>parse_hh_mm_ss_ff\<close>: the components read between two positions, and whether input is
  left over. The loop over hour, minute and second takes the component's number and the
  values read so far.
\<close>

definition read_fraction :: "string \<Rightarrow> nat \<Rightarrow> nat \<Rightarrow> (nat \<times> bool) option" where
  "read_fraction s p e =
     (let k = min 6 (e - p) in
      if k = 0 then None
      else case parse_digits s p k of None \<Rightarrow> None | Some v \<Rightarrow>
        Some (v * 10 ^ (6 - k),
              p + k + length (takeWhile is_digit (drop (p + k) s)) < length s))"

fun read_components ::
  "string \<Rightarrow> nat \<Rightarrow> nat \<Rightarrow> nat list \<Rightarrow> bool \<Rightarrow> nat list \<Rightarrow> (nat list \<times> nat \<times> bool) option" where
  "read_components s e p [] sep vs =
     map_option (\<lambda>(us, rest). (vs, us, rest)) (read_fraction s p e)"
| "read_components s e p (i # is) sep vs =
     (case parse_digits s p 2 of None \<Rightarrow> None | Some v \<Rightarrow>
       (let c = char_at s (p + 2); sep' = (if i = 0 then c = CHR '':'' else sep);
            vs' = vs @ [v] in
        if e \<le> p + 3 then Some (vs', 0, c \<noteq> char_of (0 :: nat))
        else if sep' \<and> c = CHR '':'' then read_components s e (p + 3) is sep' vs'
        else if c = CHR ''.'' \<or> c = CHR '','' then
          map_option (\<lambda>(us, rest). (vs', us, rest)) (read_fraction s (p + 3) e)
        else if \<not> sep' then read_components s e (p + 2) is sep' vs'
        else None))"

definition parse_hms :: "string \<Rightarrow> nat \<Rightarrow> nat \<Rightarrow> (nat \<times> nat \<times> nat \<times> nat \<times> bool) option" where
  "parse_hms s p e =
     map_option (\<lambda>(vs, us, rest).
         ((vs @ [0, 0, 0]) ! 0, (vs @ [0, 0, 0]) ! 1, (vs @ [0, 0, 0]) ! 2, us, rest))
       (read_components s e p [0, 1, 2] True [])"

text \<open>An instant: date, hour, minute, second, microsecond, and the offset in microseconds.\<close>

record instant =
  i_date :: ymd
  i_hour :: nat
  i_minute :: nat
  i_second :: nat
  i_micro :: nat
  i_offset :: "int option"

definition is_tz_start :: "char \<Rightarrow> bool" where
  "is_tz_start c \<longleftrightarrow> c = CHR ''+'' \<or> c = CHR ''-'' \<or> c = CHR ''Z''"

definition parse_iso_time :: "string \<Rightarrow> ymd \<Rightarrow> instant option" where
  "parse_iso_time t d =
     (let n = length t; z = length (takeWhile (\<lambda>c. \<not> is_tz_start c) t) in
      case parse_hms t 0 z of None \<Rightarrow> None | Some (h, m, s, us, rest) \<Rightarrow>
        (let i = \<lparr>i_date = d, i_hour = h, i_minute = m, i_second = s, i_micro = us, i_offset = None\<rparr> in
         if z = n then (if rest then None else Some i)
         else if t ! z = CHR ''Z'' then (if z + 1 < n then None else Some (i\<lparr>i_offset := Some 0\<rparr>))
         else case parse_hms t (z + 1) n of None \<Rightarrow> None | Some (th, tm, ts, tus, trest) \<Rightarrow>
           (let off = int (th * 3600 + tm * 60 + ts);
                sg = (if t ! z = CHR ''-'' then -1 else 1)
            in if trest then None
               else Some (i\<lparr>i_offset := Some (if off = 0 then 0 else sg * (off * 1000000 + int tus))\<rparr>))))"

definition valid_instant :: "instant \<Rightarrow> bool" where
  "valid_instant i \<longleftrightarrow> valid_date (i_date i) \<and> i_hour i < 24 \<and> i_minute i < 60 \<and> i_second i < 60 \<and>
     (case i_offset i of None \<Rightarrow> True | Some z \<Rightarrow> \<bar>z\<bar> < 86400000000)"

definition datetime_fromisoformat :: "string \<Rightarrow> instant option" where
  "datetime_fromisoformat s =
     (case datetime_separator s of None \<Rightarrow> None | Some k \<Rightarrow>
       (case parse_iso_date (take k s) of None \<Rightarrow> None | Some d \<Rightarrow>
         (case (if k < length s then parse_iso_time (drop (k + 1) s) d
                else Some \<lparr>i_date = d, i_hour = 0, i_minute = 0, i_second = 0, i_micro = 0,
                           i_offset = None\<rparr>) of
            None \<Rightarrow> None
          | Some i \<Rightarrow> (if valid_instant i then Some i else None))))"

text \<open>Whole seconds since the first day of year 1, the order of UTC instants.\<close>

definition instant_seconds :: "instant \<Rightarrow> int" where
  "instant_seconds i =
     int (ymd2ord (i_date i)) * 86400 + int (i_hour i) * 3600 + int (i_minute i) * 60
     + int (i_second i)"

section \<open>Printing and reading a date\<close>

lemma length_nat_str: "n < 10 ^ k \<Longrightarrow> 0 < k \<Longrightarrow> length (nat_str n) \<le> k"
proof (induction n arbitrary: k rule: nat_str.induct)
  case (1 n)
  show ?case
  proof (cases "n < 10")
    case True
    with "1.prems" show ?thesis by (subst nat_str.simps) simp
  next
    case False
    with "1.prems" obtain j where k: "k = Suc j" "0 < j"
      by (cases k; cases "k - 1") auto
    with "1.prems" have "n div 10 < 10 ^ j" by (simp add: less_mult_imp_div_less mult.commute)
    with "1.IH" False k have "length (nat_str (n div 10)) \<le> j" by simp
    with False k show ?thesis by (subst nat_str.simps) simp
  qed
qed

lemma length_pad_nat_eq: "n < 10 ^ w \<Longrightarrow> 0 < w \<Longrightarrow> length (pad_nat w n) = w"
  using length_nat_str [of n w] by (simp add: pad_nat_def Let_def)

lemma parse_digits_mid:
  "all_digits b \<Longrightarrow> i = length a \<Longrightarrow> n = length b \<Longrightarrow> parse_digits (a @ b @ c) i n = Some (digits_val b)"
  by (simp add: parse_digits_def)

lemma char_at_mid: "i = length a \<Longrightarrow> char_at (a @ c # b) i = c"
  by (simp add: char_at_def)

theorem date_fromisoformat_isoformat:
  assumes "valid_date d" shows "date_fromisoformat (date_isoformat d) = Some d"
proof -
  obtain y m dd where d: "d = (y, m, dd)" by (cases d)
  let ?Y = "pad_nat 4 y" and ?M = "pad_nat 2 m" and ?D = "pad_nat 2 dd"
  let ?s = "?Y @ ''-'' @ ?M @ ''-'' @ ?D"
  from assms d have r: "y < 10 ^ 4" "m < 10 ^ 2" "dd < 10 ^ 2"
    by (auto simp: days_in_month_def split: if_splits)
  have l: "length ?Y = 4" "length ?M = 2" "length ?D = 2"
    using r by (simp_all add: length_pad_nat_eq)
  have p1: "parse_digits ?s 0 4 = Some y"
    using parse_digits_mid [of ?Y 0 "[]" 4 "''-'' @ ?M @ ''-'' @ ?D"] l by simp
  have p2: "parse_digits ?s 5 2 = Some m"
    using parse_digits_mid [of ?M 5 "?Y @ ''-''" 2 "''-'' @ ?D"] l by simp
  have p3: "parse_digits ?s 8 2 = Some dd"
    using parse_digits_mid [of ?D 8 "?Y @ ''-'' @ ?M @ ''-''" 2 "[]"] l by simp
  have c4: "char_at ?s 4 = CHR ''-''"
    using char_at_mid [of 4 ?Y "CHR ''-''"] l by simp
  have c7: "char_at ?s 7 = CHR ''-''"
    using char_at_mid [of 7 "?Y @ ''-'' @ ?M" "CHR ''-''"] l by simp
  obtain c cs where M: "?M = c # cs" by (cases ?M) simp_all
  have "is_digit c" using all_digits_pad_nat [of 2 m] M by (simp add: all_digits_def)
  then have cW: "c \<noteq> CHR ''W''" by (auto simp: is_digit_def)
  have c5: "char_at ?s 5 = c"
    using char_at_mid [of 5 "?Y @ ''-''" c] l M by simp
  have "parse_iso_date ?s = Some (y, m, dd)"
    using p1 p2 p3 c4 c5 c7 cW by (simp add: parse_iso_date_def Let_def)
  with assms d l show ?thesis by (simp add: date_fromisoformat_def)
qed

lemma canonical_dateD: "canonical_date s \<Longrightarrow> \<exists>d. valid_date d \<and> s = date_isoformat d"
proof -
  assume c: "canonical_date s"
  then obtain d where d: "date_fromisoformat s = Some d" "date_isoformat d = s"
    by (auto simp: canonical_date_def simp del: date_isoformat.simps split: option.splits)
  then have "valid_date d"
    by (simp add: date_fromisoformat_def del: valid_date.simps date_isoformat.simps
        split: option.splits if_splits)
  with d show ?thesis by blast
qed

lemma canonical_date_iff: "canonical_date s \<longleftrightarrow> (\<exists>d. valid_date d \<and> s = date_isoformat d)"
proof
  assume "\<exists>d. valid_date d \<and> s = date_isoformat d"
  then obtain d where "valid_date d" "s = date_isoformat d" by blast
  then show "canonical_date s"
    by (simp only: canonical_date_def date_fromisoformat_isoformat option.case)
qed (rule canonical_dateD)

end
