(* ===== verification/WS_Domain.thy ===== *)
theory WS_Domain
  imports WS_Dates
begin

text \<open>
  \<open>workstack/service_domain.py\<close> and \<open>workstack/service_errors.py\<close>: the closed vocabularies,
  the codes of the refusals, and the record primitives every service module is written in -
  allocating the next identifier, looking a record up, and the revision guards.
  A document's record is a dynamic value, so a record of another shape raises as Python does.
\<close>

section \<open>Vocabulary\<close>

definition MAX_REVISION :: int where
  "MAX_REVISION = 9007199254740991"

definition TASK_STATUSES :: "string list" where
  "TASK_STATUSES = [''open'', ''started'', ''done'', ''dropped'']"

definition OBJECTIVE_STATUSES :: "string list" where
  "OBJECTIVE_STATUSES = [''active'', ''done'', ''dropped'']"

definition PRIORITIES :: "string list" where
  "PRIORITIES = [''P0'', ''P1'', ''P2'', ''P3'']"

definition CAPTURE_STATUSES :: "string list" where
  "CAPTURE_STATUSES = [''inbox'', ''linked'', ''converted'', ''dismissed'']"

definition TASK_PATCH_FIELDS :: "string list" where
  "TASK_PATCH_FIELDS = [''title'', ''detail'', ''status'', ''priority'', ''due'', ''scheduled'',
     ''estimate_minutes'', ''tags'', ''objective_ids'', ''parent_id'', ''dependencies'',
     ''key_result_refs'', ''revision'']"

definition KEY_RESULT_REF_FIELDS :: "string list" where
  "KEY_RESULT_REF_FIELDS = [''objective_id'', ''key_result_id'']"

definition TASK_CREATE_FIELDS :: "string list" where
  "TASK_CREATE_FIELDS = [''title'', ''detail'', ''priority'', ''due'', ''scheduled'',
     ''estimate_minutes'', ''tags'', ''objective_ids'']"

section \<open>Refusals\<close>

text \<open>
  The \<open>code\<close> each class declares. Three classes take theirs from the instance, which the
  model carries in the details under the key \<open>code\<close>.
\<close>

fun domain_code :: "domain_kind \<Rightarrow> string" where
  "domain_code Invalid_Request = ''invalid_request''"
| "domain_code Task_Display_Id_Authority = ''invalid_request''"
| "domain_code Not_Found = ''not_found''"
| "domain_code Revision_Conflict = ''revision_conflict''"
| "domain_code Revision_Exhausted = ''revision_exhausted''"
| "domain_code Idempotency_Conflict = ''idempotency_conflict''"
| "domain_code Checkpoint_Transition_Conflict = ''checkpoint_transition_conflict''"
| "domain_code Work_Session_Conflict = ''work_session_conflict''"
| "domain_code Stale_Capture = ''stale_capture''"
| "domain_code Source_Revision_Conflict = ''source_revision_conflict''"
| "domain_code Reply_Receipt_Conflict = ''reply_receipt_conflict''"
| "domain_code Capture_Unlink_Undo_Conflict = ''capture_unlink_undo_conflict''"
| "domain_code Snapshot_Disclosure_Required = ''snapshot_disclosure_required''"
| "domain_code Snapshot_Export_Conflict = ''snapshot_export_conflict''"
| "domain_code Snapshot_Store_Not_Ready = ''SNAPSHOT_STORE_NOT_READY''"
| "domain_code Snapshot_Export_Refused = ''SNAPSHOT_EXPORT_REFUSED''"

text \<open>\<open>except ValueError\<close> catches every class of the code but the runtime errors.\<close>

fun is_value_error :: "pyexc \<Rightarrow> bool" where
  "is_value_error (KeyError _) = False"
| "is_value_error IndexError = False"
| "is_value_error OverflowError = False"
| "is_value_error TypeError = False"
| "is_value_error AttributeError = False"
| "is_value_error StoreExternalChangeError = False"
| "is_value_error _ = True"

section \<open>Record primitives\<close>

text \<open>
  The number of an identifier \<open>PREFIX-digits\<close>, in either case. The pattern ends in \<open>$\<close> and
  is used with \<open>match\<close>, so one newline may follow the digits.
\<close>

definition chomp :: "string \<Rightarrow> string" where
  "chomp s = (if s \<noteq> [] \<and> last s = char_of (10 :: nat) then butlast s else s)"

definition id_number :: "string \<Rightarrow> string \<Rightarrow> nat option" where
  "id_number prefix s =
     (let p = prefix @ ''-''; t = chomp (drop (length p) s) in
      if py_upper (take (length p) s) = py_upper p \<and> t \<noteq> [] \<and> all_digits t
      then Some (digits_val t) else None)"

definition record_number :: "string \<Rightarrow> pyval \<Rightarrow> nat option result" where
  "record_number prefix r =
     bind_r (vget_or r ''id'' (PStr [])) (\<lambda>v. Inr (id_number prefix (py_str v)))"

definition larger_number :: "string \<Rightarrow> pyval \<Rightarrow> nat \<Rightarrow> nat result" where
  "larger_number prefix record largest =
     bind_r (record_number prefix record) (\<lambda>k.
       Inr (case k of None \<Rightarrow> largest | Some m \<Rightarrow> max largest m))"

definition largest_number :: "string \<Rightarrow> pyval list \<Rightarrow> nat result" where
  "largest_number prefix records = fold_r (larger_number prefix) records 0"

definition format_id :: "string \<Rightarrow> nat \<Rightarrow> nat \<Rightarrow> string" where
  "format_id prefix width n = py_upper prefix @ ''-'' @ pad_nat width n"

definition next_id :: "pyval list \<Rightarrow> string \<Rightarrow> nat \<Rightarrow> string result" where
  "next_id records prefix width =
     bind_r (largest_number prefix records) (\<lambda>n. Inr (format_id prefix width (n + 1)))"

definition domain_error :: "string \<Rightarrow> dict \<Rightarrow> pyexc" where
  "domain_error msg details = DomainError Invalid_Request msg details"

definition required_text :: "pyval \<Rightarrow> string \<Rightarrow> string result" where
  "required_text v field =
     (let text = py_strip (py_str (por v (PStr []))) in
      if text = [] then Inl (ValueErr (field @ '' is required'')) else Inr text)"

text \<open>
  \<open>_find\<close> returns a reference into the document; the model returns the position and the
  record, so that the caller's update goes back into the list.
\<close>

fun find_from :: "nat \<Rightarrow> pyval list \<Rightarrow> string \<Rightarrow> (nat \<times> dict) option result" where
  "find_from i [] wanted = Inr None"
| "find_from i (r # rs) wanted =
     bind_r (as_dict r) (\<lambda>d.
       if py_upper (py_str (dget_or d ''id'' (PStr []))) = wanted then Inr (Some (i, d))
       else find_from (Suc i) rs wanted)"

definition find_record :: "pyval list \<Rightarrow> string \<Rightarrow> string \<Rightarrow> (nat \<times> dict) result" where
  "find_record records record_id label =
     bind_r (find_from 0 records (py_upper (py_strip record_id))) (\<lambda>hit. case hit of
         Some found \<Rightarrow> Inr found
       | None \<Rightarrow> Inl (DomainError Not_Found (''unknown '' @ label @ '': '' @ record_id)
                   [(''id'', PStr record_id)]))"

definition revision_of :: "dict \<Rightarrow> int result" where
  "revision_of record =
     (case map_of record ''revision'' of
        None \<Rightarrow> Inl (StoreCorruptError ''persisted task revision is missing'')
      | Some v \<Rightarrow> (if is_int v \<and> 0 \<le> int_of v \<and> int_of v \<le> MAX_REVISION then Inr (int_of v)
                  else Inl (StoreCorruptError ''persisted task revision is invalid'')))"

definition next_revision :: "dict \<Rightarrow> int result" where
  "next_revision record =
     bind_r (revision_of record) (\<lambda>current.
       if current = MAX_REVISION
       then Inl (DomainError Revision_Exhausted
              ''task revision cannot advance beyond the safe integer limit''
              [(''maximum'', PInt MAX_REVISION)])
       else Inr (current + 1))"

definition stale_revision :: "string \<Rightarrow> int \<Rightarrow> pyval \<Rightarrow> pyexc" where
  "stale_revision label current received =
     DomainError Revision_Conflict (label @ '' revision is stale'')
       [(''expected'', PInt current), (''received'', received)]"

definition revision_required :: pyexc where
  "revision_required = domain_error ''revision is required and must be a non-negative integer'' []"

definition guard_revision :: "dict \<Rightarrow> pyval \<Rightarrow> int result" where
  "guard_revision task expected =
     bind_r (revision_of task) (\<lambda>current.
       if expected = PNone then next_revision task
       else if \<not> is_int expected \<or> int_of expected < 0 then Inl revision_required
       else if int_of expected \<noteq> current then Inl (stale_revision ''task'' current expected)
       else next_revision task)"

section \<open>Laws of the primitives\<close>

lemma chomp_digits [simp]: "all_digits t \<Longrightarrow> chomp t = t"
proof -
  assume "all_digits t"
  then have "t \<noteq> [] \<Longrightarrow> is_digit (last t)" by (simp add: all_digits_def list_all_iff)
  then show ?thesis by (auto simp: chomp_def is_digit_def)
qed

lemma length_py_upper [simp]: "length (py_upper s) = length s"
  by (simp add: py_upper_def)

lemma id_number_format_id [simp]: "id_number p (format_id p w n) = Some n"
proof -
  have "py_upper (py_upper p @ ''-'') = py_upper (p @ ''-'')"
    by (simp only: py_upper_def map_append map_map comp_def char_upper_idem)
  then show ?thesis by (simp add: id_number_def format_id_def Let_def)
qed

lemma larger_number_Inr: "larger_number p r a = Inr b \<longleftrightarrow>
    (\<exists>k. record_number p r = Inr k \<and> b = (case k of None \<Rightarrow> a | Some m \<Rightarrow> max a m))"
  by (auto simp: larger_number_def result_iffs)

lemma larger_number_fold:
  "fold_r (larger_number p) rs a = Inr n \<Longrightarrow>
   a \<le> n \<and> (\<forall>r \<in> set rs. \<exists>k. record_number p r = Inr k \<and> (\<forall>m. k = Some m \<longrightarrow> m \<le> n))"
proof (induction rs arbitrary: a)
  case (Cons r rs)
  from Cons.prems obtain k where k: "record_number p r = Inr k"
    and f: "fold_r (larger_number p) rs (case k of None \<Rightarrow> a | Some m \<Rightarrow> max a m) = Inr n"
    by (auto simp: larger_number_Inr result_iffs)
  from Cons.IH [OF f] k show ?case by (cases k) auto
qed simp

lemma largest_number_bound:
  "largest_number p rs = Inr n \<Longrightarrow> r \<in> set rs \<Longrightarrow>
   \<exists>k. record_number p r = Inr k \<and> (\<forall>m. k = Some m \<longrightarrow> m \<le> n)"
  using larger_number_fold [of p rs 0 n] by (auto simp: largest_number_def)

text \<open>
  What every allocator of identifiers promises its client: the number it hands out is above
  every number already in the list. The client then keeps its numbers distinct.
\<close>

locale id_allocator =
  fixes number :: "'r \<Rightarrow> nat option"
    and alloc :: "'r list \<Rightarrow> 'i result"
    and id_num :: "'i \<Rightarrow> nat option"
  assumes alloc_above:
    "alloc rs = Inr i \<Longrightarrow> \<exists>n. id_num i = Some n \<and> (\<forall>r \<in> set rs. \<forall>m. number r = Some m \<longrightarrow> m < n)"
begin

lemma alloc_fresh: "alloc rs = Inr i \<Longrightarrow> r \<in> set rs \<Longrightarrow> number r \<noteq> id_num i"
  using alloc_above [of rs i] by force

lemma append_distinct:
  assumes "alloc rs = Inr i" and "number r = id_num i"
    and "distinct (List.map_filter number rs)"
  shows "distinct (List.map_filter number (rs @ [r]))"
proof -
  obtain n where n: "id_num i = Some n" "\<forall>r \<in> set rs. \<forall>m. number r = Some m \<longrightarrow> m < n"
    using alloc_above [OF assms(1)] by blast
  then have "n \<notin> set (List.map_filter number rs)"
    by (auto simp: List.map_filter_def)
  with assms n show ?thesis by (simp add: List.map_filter_def)
qed

lemma append_increasing:
  assumes "alloc rs = Inr i" and "number r = id_num i"
    and "sorted_wrt (<) (List.map_filter number rs)"
  shows "sorted_wrt (<) (List.map_filter number (rs @ [r]))"
proof -
  obtain n where n: "id_num i = Some n" "\<forall>r \<in> set rs. \<forall>m. number r = Some m \<longrightarrow> m < n"
    using alloc_above [OF assms(1)] by blast
  then have "\<forall>x \<in> set (List.map_filter number rs). x < n"
    by (auto simp: List.map_filter_def)
  with assms n show ?thesis by (simp add: List.map_filter_def sorted_wrt_append)
qed

end

definition rec_number :: "string \<Rightarrow> pyval \<Rightarrow> nat option" where
  "rec_number p r = (case record_number p r of Inl _ \<Rightarrow> None | Inr k \<Rightarrow> k)"

interpretation domain_ids: id_allocator "rec_number p" "\<lambda>rs. next_id rs p w" "id_number p" for p w
proof (unfold_locales, goal_cases)
  case (1 rs i)
  then obtain n where n: "largest_number p rs = Inr n" "i = format_id p w (n + 1)"
    by (auto simp: next_id_def result_iffs)
  have "m < n + 1" if "r \<in> set rs" "rec_number p r = Some m" for r m
    using largest_number_bound [OF n(1) that(1)] that(2)
    by (auto simp: rec_number_def)
  with n(2) show ?case by simp
qed

text \<open>
  What every revision counter promises: a current value inside the safe integers, a
  successor that is exactly one more, and a refusal at the ceiling.
\<close>

locale revision_ladder =
  fixes cur :: "'r \<Rightarrow> int result" and succ :: "'r \<Rightarrow> int result" and put :: "int \<Rightarrow> 'r \<Rightarrow> 'r"
  assumes succ_step: "succ r = Inr m \<Longrightarrow> cur r = Inr (m - 1) \<and> 1 \<le> m \<and> m \<le> MAX_REVISION"
    and succ_total: "cur r = Inr n \<Longrightarrow> n < MAX_REVISION \<Longrightarrow> succ r = Inr (n + 1)"
    and cur_put: "0 \<le> n \<Longrightarrow> n \<le> MAX_REVISION \<Longrightarrow> cur (put n r) = Inr n"
begin

lemma advanced: "succ r = Inr m \<Longrightarrow> cur (put m r) = Inr m"
  using succ_step [of r m] by (simp add: cur_put)

lemma ceiling: "cur r = Inr MAX_REVISION \<Longrightarrow> \<exists>e. succ r = Inl e"
  using succ_step [of r] by (cases "succ r") force+

text \<open>Compare-and-set: after a write, no writer that still holds the old revision is current.\<close>

lemma stale_after_write: "cur r = Inr n \<Longrightarrow> succ r = Inr m \<Longrightarrow> cur (put m r) \<noteq> Inr n"
  using succ_step [of r m] by (simp add: advanced)

lemma ladder_steps:
  "foldl (\<lambda>r' _. case r' of Inl e \<Rightarrow> Inl e | Inr r \<Rightarrow> bind_r (succ r) (\<lambda>m. Inr (put m r))) (Inr r) us = Inr s
   \<Longrightarrow> cur r = Inr n \<Longrightarrow> cur s = Inr (n + int (length us))"
proof (induction us arbitrary: s rule: rev_induct)
  case (snoc u us)
  then obtain t where t: "foldl (\<lambda>r' _. case r' of Inl e \<Rightarrow> Inl e
      | Inr r \<Rightarrow> bind_r (succ r) (\<lambda>m. Inr (put m r))) (Inr r) us = Inr t"
    and s: "bind_r (succ t) (\<lambda>m. Inr (put m t)) = Inr s"
    by (auto split: sum.splits)
  from snoc.IH [OF t snoc.prems(2)] s show ?case
    using succ_step [of t] by (auto simp: result_iffs advanced)
qed simp

end

lemma revision_of_Inr:
  "revision_of r = Inr n \<longleftrightarrow> map_of r ''revision'' = Some (PInt n) \<and> 0 \<le> n \<and> n \<le> MAX_REVISION"
  by (auto simp: revision_of_def is_int_iff split: option.splits if_splits)

interpretation task_revision: revision_ladder revision_of next_revision "\<lambda>n r. dset r ''revision'' (PInt n)"
proof (unfold_locales, goal_cases)
  case (1 r m)
  then show ?case by (auto simp: next_revision_def result_iffs revision_of_Inr)
next
  case (2 r n)
  then show ?case by (simp add: next_revision_def)
next
  case (3 n r)
  then show ?case by (simp add: revision_of_Inr)
qed

lemma guard_revision_Inr:
  "guard_revision t e = Inr m \<longleftrightarrow> next_revision t = Inr m \<and> (e = PNone \<or> revision_of t = Inr (m - 1) \<and> e = PInt (m - 1))"
  using task_revision.succ_step [of t m]
  by (auto simp: guard_revision_def next_revision_def result_iffs is_int_iff revision_of_Inr split: if_splits)

text \<open>\<open>_find\<close> returns the first record whose identifier matches, ignoring case.\<close>

lemma find_from_Some:
  "find_from i rs w = Inr (Some (j, d)) \<Longrightarrow>
   i \<le> j \<and> j - i < length rs \<and> rs ! (j - i) = PDict d \<and> py_upper (py_str (dget_or d ''id'' (PStr []))) = w"
proof (induction rs arbitrary: i)
  case (Cons r rs)
  from Cons.prems obtain e where e: "r = PDict e" by (auto simp: result_iffs)
  show ?case
  proof (cases "py_upper (py_str (dget_or e ''id'' (PStr []))) = w")
    case True
    with Cons.prems e show ?thesis by simp
  next
    case False
    with Cons.prems e have "find_from (Suc i) rs w = Inr (Some (j, d))" by simp
    from Cons.IH [OF this] show ?thesis by (auto simp: nth_Cons split: nat.splits)
        (metis Suc_diff_Suc Suc_le_eq nat.inject)+
  qed
qed simp

lemma find_record_Inr:
  assumes "find_record rs i label = Inr (j, d)"
  shows "j < length rs" "rs ! j = PDict d"
    "py_upper (py_str (dget_or d ''id'' (PStr []))) = upper_strip i"
  using assms find_from_Some [of 0 rs "py_upper (py_strip i)" j d]
  by (auto simp: find_record_def result_iffs upper_strip_def split: option.splits)

end
