(* ===== verification/WS_DisplayId.thy ===== *)
theory WS_DisplayId
  imports WS_Domain
begin

text \<open>
  \<open>workstack/task_display_id.py\<close>: the display identifiers \<open>T-0001\<close>, \<open>T-0002\<close>, ... of Tasks,
  and the durable high-water mark that keeps one from being handed out twice, with the step
  of the permanent deletion that carries the mark over
  (\<open>preserve_high_water\<close> of \<open>storage/deletion_v3_documents.py\<close>). The lemmas end in an
  instance of the interface \<open>id_allocator\<close> and in the invariant of the histories of
  creates and deletions.
\<close>

section \<open>Identifiers\<close>

definition HW_FIELD :: string where
  "HW_FIELD = ''task_display_id_high_water''"

definition MAX_SAFE_INTEGER :: int where
  "MAX_SAFE_INTEGER = 9007199254740991"

definition DISPLAY_PREFIX :: string where
  "DISPLAY_PREFIX = ''T-''"

definition MIN_DISPLAY_DIGITS :: nat where
  "MIN_DISPLAY_DIGITS = 4"

definition digits_of :: "string \<Rightarrow> string" where
  "digits_of v = drop (length DISPLAY_PREFIX) v"

definition is_canonical_display_id :: "pyval \<Rightarrow> bool" where
  "is_canonical_display_id v =
     (case v of
        PStr s \<Rightarrow> take (length DISPLAY_PREFIX) s = DISPLAY_PREFIX \<and>
          MIN_DISPLAY_DIGITS \<le> length (digits_of s) \<and> all_digits (digits_of s)
      | _ \<Rightarrow> False)"

definition parse_display_number :: "pyval \<Rightarrow> int result" where
  "parse_display_number v =
     (if \<not> is_canonical_display_id v then Inl (TaskDisplayIdError ''malformed_task_id'')
      else let number = int (digits_val (digits_of (str_of v))) in
        if MAX_SAFE_INTEGER < number then Inl (TaskDisplayIdError ''malformed_task_id'')
        else Inr number)"

definition format_display_id :: "int \<Rightarrow> string result" where
  "format_display_id number =
     (if \<not> (1 \<le> number \<and> number \<le> MAX_SAFE_INTEGER)
      then Inl (TaskDisplayIdError ''high_water_overflow'')
      else Inr (DISPLAY_PREFIX @ pad_nat MIN_DISPLAY_DIGITS (nat number)))"

section \<open>The high-water mark\<close>

definition read_optional_high_water :: "dict option \<Rightarrow> int option result" where
  "read_optional_high_water container =
     (case container of
        None \<Rightarrow> Inr None
      | Some c \<Rightarrow>
         (case map_of c HW_FIELD of
            None \<Rightarrow> Inr None
          | Some v \<Rightarrow>
             (if is_int v \<and> 0 \<le> int_of v \<and> int_of v \<le> MAX_SAFE_INTEGER then Inr (Some (int_of v))
              else Inl (TaskDisplayIdError ''high_water_invalid''))))"

text \<open>The loop state is the list of numbers seen so far, which is also the result.\<close>

definition roster_step :: "pyval \<Rightarrow> int list \<Rightarrow> int list result" where
  "roster_step item numbers =
     bind_r (parse_display_number item) (\<lambda>number.
       if number \<in> set numbers then Inl (TaskDisplayIdError ''duplicate_numeric_id'')
       else Inr (numbers @ [number]))"

definition roster_numbers :: "pyval list \<Rightarrow> int list result" where
  "roster_numbers display_ids = fold_r roster_step display_ids []"

definition roster_high_water :: "pyval list \<Rightarrow> int result" where
  "roster_high_water display_ids =
     bind_r (roster_numbers display_ids) (\<lambda>numbers.
       Inr (if numbers = [] then 0 else Max (set numbers)))"

definition admitted_high_water :: "int option \<Rightarrow> pyval list \<Rightarrow> int result" where
  "admitted_high_water stored display_ids =
     bind_r (roster_high_water display_ids) (\<lambda>live.
       case stored of
         None \<Rightarrow> Inr live
       | Some w \<Rightarrow> if w < live then Inl (TaskDisplayIdError ''high_water_below_live'') else Inr w)"

definition allocate_create :: "int option \<Rightarrow> pyval list \<Rightarrow> (string \<times> int) result" where
  "allocate_create stored display_ids =
     bind_r (admitted_high_water stored display_ids) (\<lambda>current.
       if MAX_SAFE_INTEGER \<le> current then Inl (TaskDisplayIdError ''high_water_overflow'')
       else bind_r (format_display_id (current + 1)) (\<lambda>display_id.
         Inr (display_id, current + 1)))"

definition persist_field :: "dict \<Rightarrow> int \<Rightarrow> dict result" where
  "persist_field container high_water =
     (if \<not> (0 \<le> high_water \<and> high_water \<le> MAX_SAFE_INTEGER)
      then Inl (TaskDisplayIdError ''high_water_invalid'')
      else Inr (dset container HW_FIELD (PInt high_water)))"

definition task_ids_from_records :: "pyval list \<Rightarrow> pyval list result" where
  "task_ids_from_records tasks = map_r (\<lambda>item. vget item ''id'') tasks"

text \<open>
  The deletion rewrites a copy of the documents; the mark is computed on the originals, so
  it counts the Task being removed, and is written into the copy.
\<close>

definition deletion_refusal :: "pyexc \<Rightarrow> pyexc option" where
  "deletion_refusal e =
     (case e of TaskDisplayIdError code \<Rightarrow> Some (TaskDeletionTransactionError code code 400)
      | _ \<Rightarrow> None)"

definition preserve_high_water :: "dict \<Rightarrow> dict \<Rightarrow> dict \<Rightarrow> (int \<times> dict) result" where
  "preserve_high_water workspace backlog applied_workspace =
     bind_r (catch_r
       (bind_r (read_optional_high_water (Some workspace)) (\<lambda>stored.
        bind_r (iter_r (dget_or backlog ''tasks'' (PList []))) (\<lambda>tasks.
        bind_r (task_ids_from_records tasks) (\<lambda>ids.
        admitted_high_water stored ids)))) deletion_refusal) (\<lambda>water.
     bind_r (persist_field applied_workspace water) (\<lambda>ws. Inr (water, ws)))"

section \<open>Laws\<close>

lemma display_prefix_length [simp]: "length DISPLAY_PREFIX = 2"
  by (simp add: DISPLAY_PREFIX_def)

lemma digits_of_format [simp]: "digits_of (DISPLAY_PREFIX @ s) = s"
  by (simp add: digits_of_def)

lemma canonical_format: "is_canonical_display_id (PStr (DISPLAY_PREFIX @ pad_nat MIN_DISPLAY_DIGITS n))"
  by (simp add: is_canonical_display_id_def length_pad_nat)

lemma format_display_id_Inr:
  "format_display_id n = Inr s \<longleftrightarrow>
     1 \<le> n \<and> n \<le> MAX_SAFE_INTEGER \<and> s = DISPLAY_PREFIX @ pad_nat MIN_DISPLAY_DIGITS (nat n)"
  by (auto simp: format_display_id_def)

lemma parse_format: "format_display_id n = Inr s \<Longrightarrow> parse_display_number (PStr s) = Inr n"
  by (auto simp: format_display_id_Inr parse_display_number_def canonical_format)

lemma parse_display_number_range:
  "parse_display_number v = Inr n \<Longrightarrow> 0 \<le> n \<and> n \<le> MAX_SAFE_INTEGER"
  by (auto simp: parse_display_number_def Let_def split: if_splits)

lemma roster_step_Inr:
  "roster_step v ns = Inr ms \<longleftrightarrow>
     (\<exists>n. parse_display_number v = Inr n \<and> n \<notin> set ns \<and> ms = ns @ [n])"
  by (auto simp: roster_step_def result_iffs)

lemma roster_fold:
  "fold_r roster_step vs ns = Inr ms \<Longrightarrow> distinct ns \<Longrightarrow>
   \<exists>ks. ms = ns @ ks \<and> distinct ms \<and> list_all2 (\<lambda>v n. parse_display_number v = Inr n) vs ks"
proof (induction vs arbitrary: ns)
  case (Cons v vs)
  from Cons.prems obtain n where n: "parse_display_number v = Inr n" "n \<notin> set ns"
    and f: "fold_r roster_step vs (ns @ [n]) = Inr ms"
    by (auto simp: roster_step_Inr result_iffs)
  from Cons.IH [OF f] Cons.prems n obtain ks where
    "ms = (ns @ [n]) @ ks" "distinct ms" "list_all2 (\<lambda>v n. parse_display_number v = Inr n) vs ks"
    by auto
  with n show ?case by (intro exI [of _ "n # ks"]) simp
qed simp

lemma roster_numbers_Inr:
  "roster_numbers vs = Inr ns \<Longrightarrow>
   distinct ns \<and> list_all2 (\<lambda>v n. parse_display_number v = Inr n) vs ns"
  using roster_fold [of vs "[]" ns] by (simp add: roster_numbers_def)

lemma roster_fold_total:
  "list_all2 (\<lambda>v n. parse_display_number v = Inr n) vs ks \<Longrightarrow> distinct (ns @ ks) \<Longrightarrow>
   fold_r roster_step vs ns = Inr (ns @ ks)"
  by (induction vs ks arbitrary: ns rule: list_all2_induct) (auto simp: roster_step_def)

lemma roster_numbers_iff:
  "roster_numbers vs = Inr ns \<longleftrightarrow>
     distinct ns \<and> list_all2 (\<lambda>v n. parse_display_number v = Inr n) vs ns"
  using roster_numbers_Inr [of vs ns] roster_fold_total [of vs ns "[]"]
  by (auto simp: roster_numbers_def)

lemma roster_high_water_above:
  assumes "roster_high_water vs = Inr w" and "v \<in> set vs"
  shows "\<exists>n. parse_display_number v = Inr n \<and> n \<le> w"
proof -
  from assms(1) obtain ns where ns: "roster_numbers vs = Inr ns"
    and w: "w = (if ns = [] then 0 else Max (set ns))"
    by (auto simp: roster_high_water_def result_iffs)
  have "list_all2 (\<lambda>v n. parse_display_number v = Inr n) vs ns"
    using roster_numbers_Inr [OF ns] by simp
  from list_all2_left [OF this assms(2)] obtain n where "n \<in> set ns" "parse_display_number v = Inr n"
    by blast
  with w show ?thesis by (cases ns) auto
qed

lemma roster_high_water_nonneg: "roster_high_water vs = Inr w \<Longrightarrow> 0 \<le> w"
proof -
  assume "roster_high_water vs = Inr w"
  then obtain ns where ns: "roster_numbers vs = Inr ns" and w: "w = (if ns = [] then 0 else Max (set ns))"
    by (auto simp: roster_high_water_def result_iffs)
  show "0 \<le> w"
  proof (cases "ns = []")
    case False
    then have "Max (set ns) \<in> set ns" by simp
    moreover have "0 \<le> n" if "n \<in> set ns" for n
    proof -
      have "list_all2 (\<lambda>v n. parse_display_number v = Inr n) vs ns"
        using roster_numbers_Inr [OF ns] by simp
      from list_all2_right [OF this that] show ?thesis using parse_display_number_range by blast
    qed
    ultimately show ?thesis using w False by simp
  qed (simp add: w)
qed

lemma admitted_above:
  assumes "admitted_high_water stored vs = Inr w"
  shows "0 \<le> w" "v \<in> set vs \<Longrightarrow> \<exists>n. parse_display_number v = Inr n \<and> n \<le> w"
    "stored = Some u \<Longrightarrow> w = u"
proof -
  from assms obtain live where l: "roster_high_water vs = Inr live" "live \<le> w"
    by (auto simp: admitted_high_water_def result_iffs split: option.splits if_splits)
  then show "0 \<le> w" using roster_high_water_nonneg by force
  show "v \<in> set vs \<Longrightarrow> \<exists>n. parse_display_number v = Inr n \<and> n \<le> w"
    using roster_high_water_above [OF l(1)] l(2) by force
  show "stored = Some u \<Longrightarrow> w = u"
    using assms by (auto simp: admitted_high_water_def result_iffs)
qed

lemma allocate_create_Inr:
  "allocate_create stored vs = Inr (s, w) \<longleftrightarrow>
     admitted_high_water stored vs = Inr (w - 1) \<and> format_display_id w = Inr s"
  by (auto simp: allocate_create_def result_iffs format_display_id_Inr)

lemma persist_field_Inr:
  "persist_field c w = Inr d \<longleftrightarrow> 0 \<le> w \<and> w \<le> MAX_SAFE_INTEGER \<and> d = dset c HW_FIELD (PInt w)"
  by (auto simp: persist_field_def)

lemma read_persisted:
  "persist_field c w = Inr d \<Longrightarrow> read_optional_high_water (Some d) = Inr (Some w)"
  by (auto simp: persist_field_Inr read_optional_high_water_def)

text \<open>The allocator meets the interface of \<open>WS_Domain\<close>, over identifiers rather than records.\<close>

definition display_number :: "pyval \<Rightarrow> nat option" where
  "display_number v = (case parse_display_number v of Inl _ \<Rightarrow> None | Inr n \<Rightarrow> Some (nat n))"

interpretation display_ids: id_allocator display_number
  "\<lambda>vs. bind_r (allocate_create stored vs) (\<lambda>p. Inr (fst p))" "\<lambda>s. display_number (PStr s)" for stored
proof (unfold_locales, goal_cases)
  case (1 vs i)
  then obtain w where a: "admitted_high_water stored vs = Inr (w - 1)" and f: "format_display_id w = Inr i"
    by (auto simp: result_iffs allocate_create_Inr)
  have "m < nat w" if "v \<in> set vs" "display_number v = Some m" for v m
    using admitted_above(2) [OF a that(1)] that(2) parse_display_number_range [of v]
    by (auto simp: display_number_def)
  with parse_format [OF f] show ?case by (simp add: display_number_def)
qed

section \<open>Histories\<close>

text \<open>
  A create allocates from the workspace's mark and the live roster and stores the new mark
  (\<open>_next_task_display\<close> of \<open>service_task_commands.py\<close>); its caller appends the record it
  makes with that identifier. A permanent deletion removes a record and preserves the mark.
\<close>

definition display_authority_refusal :: "pyexc \<Rightarrow> pyexc option" where
  "display_authority_refusal e =
     (case e of TaskDisplayIdError code \<Rightarrow> Some (DomainError Task_Display_Id_Authority code [])
      | _ \<Rightarrow> None)"

definition next_task_display :: "dict \<Rightarrow> pyval list \<Rightarrow> (string \<times> dict) result" where
  "next_task_display workspace tasks =
     bind_r (catch_r
       (bind_r (read_optional_high_water (Some workspace)) (\<lambda>stored.
        bind_r (task_ids_from_records tasks) (\<lambda>ids.
        allocate_create stored ids))) display_authority_refusal) (\<lambda>(display_id, high_water).
     bind_r (persist_field workspace high_water) (\<lambda>ws.
     Inr (display_id, ws)))"

inductive display_run :: "dict \<times> pyval list \<Rightarrow> string list \<Rightarrow> dict \<times> pyval list \<Rightarrow> bool" where
  start: "display_run s [] s"
| create: "display_run s is (ws, tasks) \<Longrightarrow> next_task_display ws tasks = Inr (i, ws') \<Longrightarrow>
     dget task ''id'' = PStr i \<Longrightarrow> display_run s (is @ [i]) (ws', tasks @ [PDict task])"
| delete: "display_run s is (ws, xs @ task # ys) \<Longrightarrow>
     preserve_high_water ws [(''tasks'', PList (xs @ task # ys))] ws = Inr (w, ws') \<Longrightarrow>
     display_run s is (ws', xs @ ys)"

lemma next_task_display_Inr:
  assumes "next_task_display ws tasks = Inr (i, ws')"
  obtains stored ids w where "read_optional_high_water (Some ws) = Inr stored"
    "task_ids_from_records tasks = Inr ids" "admitted_high_water stored ids = Inr (w - 1)"
    "format_display_id w = Inr i" "read_optional_high_water (Some ws') = Inr (Some w)"
  using assms that by (auto simp: next_task_display_def result_iffs allocate_create_Inr read_persisted)

lemma preserve_high_water_Inr:
  assumes "preserve_high_water ws [(''tasks'', PList tasks)] ws = Inr (w, ws')"
  obtains stored ids where "read_optional_high_water (Some ws) = Inr stored"
    "task_ids_from_records tasks = Inr ids" "admitted_high_water stored ids = Inr w"
    "read_optional_high_water (Some ws') = Inr (Some w)"
proof -
  have "dget_or [(''tasks'', PList tasks)] ''tasks'' (PList []) = PList tasks"
    by (simp add: dget_or_def)
  with assms that show thesis by (auto simp: preserve_high_water_def result_iffs read_persisted)
qed

text \<open>
  Invariant: every identifier issued so far is at or below what the workspace now stores,
  and the issued numbers increase.
\<close>

lemma display_run_invariant:
  "display_run s is (ws, tasks) \<Longrightarrow>
   (\<exists>ns. list_all2 (\<lambda>i n. parse_display_number (PStr i) = Inr n) is ns \<and> sorted_wrt (<) ns \<and>
     (ns \<noteq> [] \<longrightarrow> (\<exists>w. read_optional_high_water (Some ws) = Inr (Some w) \<and> last ns \<le> w)))"
proof (induction s "is" "(ws, tasks)" arbitrary: ws tasks rule: display_run.induct)
  case (create s "is" ws tasks i ws' task)
  then obtain ns where ns: "list_all2 (\<lambda>i n. parse_display_number (PStr i) = Inr n) is ns"
    "sorted_wrt (<) ns" "ns \<noteq> [] \<longrightarrow> (\<exists>w. read_optional_high_water (Some ws) = Inr (Some w) \<and> last ns \<le> w)"
    by blast
  obtain stored ids w where c: "read_optional_high_water (Some ws) = Inr stored"
    "admitted_high_water stored ids = Inr (w - 1)"
    "format_display_id w = Inr i" "read_optional_high_water (Some ws') = Inr (Some w)"
    using next_task_display_Inr [OF create(3)] by metis
  have "\<forall>n \<in> set ns. n < w"
  proof (cases "ns = []")
    case False
    with ns(3) c(1) obtain u where u: "stored = Some u" "last ns \<le> u" by auto
    with c(2) have "last ns < w" using admitted_above(3) by force
    moreover have "\<forall>n \<in> set ns. n \<le> last ns"
      using ns(2) False by (cases ns rule: rev_cases) (auto simp: sorted_wrt_append)
    ultimately show ?thesis by force
  qed simp
  with ns parse_format [OF c(3)] c(4) show ?case
    by (intro exI [of _ "ns @ [w]"]) (simp add: sorted_wrt_append list_all2_appendI)
next
  case (delete s "is" ws xs task ys w ws')
  obtain stored ids where c: "read_optional_high_water (Some ws) = Inr stored"
    "admitted_high_water stored ids = Inr w" "read_optional_high_water (Some ws') = Inr (Some w)"
    using preserve_high_water_Inr [OF delete(3)] by metis
  from delete(2) c show ?case using admitted_above(3) [OF c(2)] by auto
qed auto

text \<open>The numbers of the Tasks a history starts from stay at or below what the next create sees.\<close>

lemma display_run_above_start:
  "display_run (ws0, tasks0) is (ws, tasks) \<Longrightarrow> v \<in> set tasks0 \<Longrightarrow> vget v ''id'' = Inr d \<Longrightarrow>
   parse_display_number d = Inr m \<Longrightarrow>
   (\<forall>i \<in> set is. \<forall>n. parse_display_number (PStr i) = Inr n \<longrightarrow> m < n) \<and>
   (\<forall>stored ids w. read_optional_high_water (Some ws) = Inr stored \<longrightarrow>
      task_ids_from_records tasks = Inr ids \<longrightarrow> admitted_high_water stored ids = Inr w \<longrightarrow> m \<le> w)"
proof (induction "(ws0, tasks0)" "is" "(ws, tasks)" arbitrary: ws tasks rule: display_run.induct)
  case start
  have "m \<le> w" if "task_ids_from_records tasks0 = Inr ids" "admitted_high_water stored ids = Inr w"
    for stored ids w
  proof -
    have "list_all2 (\<lambda>x y. vget x ''id'' = Inr y) tasks0 ids"
      using that(1) by (simp add: task_ids_from_records_def map_r_Inr)
    moreover have "v \<in> set tasks0" using start by simp
    ultimately have "\<exists>y \<in> set ids. vget v ''id'' = Inr y" by (rule list_all2_left)
    with start have "d \<in> set ids" by simp
    from admitted_above(2) [OF that(2) this] start show ?thesis by simp
  qed
  then show ?case by simp
next
  case (create "is" ws tasks i ws' task)
  obtain stored ids w where c: "read_optional_high_water (Some ws) = Inr stored"
    "task_ids_from_records tasks = Inr ids" "admitted_high_water stored ids = Inr (w - 1)"
    "format_display_id w = Inr i" "read_optional_high_water (Some ws') = Inr (Some w)"
    using next_task_display_Inr [OF create(3)] by metis
  from create(2) create.prems c have m: "m \<le> w - 1" by blast
  with create(2) create.prems parse_format [OF c(4)] c(5) show ?case
    by (auto dest: admitted_above(3))
next
  case (delete "is" ws xs task ys w ws')
  obtain stored ids where c: "read_optional_high_water (Some ws) = Inr stored"
    "task_ids_from_records (xs @ task # ys) = Inr ids"
    "admitted_high_water stored ids = Inr w" "read_optional_high_water (Some ws') = Inr (Some w)"
    using preserve_high_water_Inr [OF delete(3)] by metis
  from delete(2) delete.prems c have m: "m \<le> w" by blast
  with delete(2) delete.prems c(4) show ?case by (auto dest: admitted_above(3))
qed

section \<open>Properties\<close>

text \<open>
  C17. Reading back a display identifier that was formatted gives the number it was formatted
  from, for every number in the admitted range, and the identifier is canonical.
\<close>

theorem display_id_roundtrip:
  assumes "1 \<le> n" and "n \<le> MAX_SAFE_INTEGER"
  shows "\<exists>s. format_display_id n = Inr s \<and> is_canonical_display_id (PStr s) \<and>
    parse_display_number (PStr s) = Inr n"
proof -
  from assms have "format_display_id n = Inr (DISPLAY_PREFIX @ pad_nat MIN_DISPLAY_DIGITS (nat n))"
    by (simp add: format_display_id_def)
  with parse_format [OF this] canonical_format show ?thesis by blast
qed

theorem display_id_roundtrip_witness:
  "\<exists>s. format_display_id 42 = Inr s \<and> is_canonical_display_id (PStr s) \<and>
    parse_display_number (PStr s) = Inr 42"
  by (rule display_id_roundtrip) (simp_all add: MAX_SAFE_INTEGER_def)

text \<open>
  C10. Along any history of Task creates and permanent deletions no display identifier is
  issued twice, and none issued equals, in number, that of a Task the history started with:
  the numbers issued increase, and each is above every number of the starting roster.
\<close>

theorem display_ids_never_reused:
  assumes "display_run (ws0, tasks0) issued (ws, tasks)"
  shows "\<exists>ns. map (\<lambda>i. parse_display_number (PStr i)) issued = map Inr ns \<and> sorted_wrt (<) ns \<and>
    (\<forall>v \<in> set tasks0. \<forall>d m. vget v ''id'' = Inr d \<longrightarrow> parse_display_number d = Inr m \<longrightarrow>
       (\<forall>n \<in> set ns. m < n))"
proof -
  obtain ns where ns: "list_all2 (\<lambda>i n. parse_display_number (PStr i) = Inr n) issued ns" "sorted_wrt (<) ns"
    using display_run_invariant [OF assms] by blast
  have "m < n" if "v \<in> set tasks0" "vget v ''id'' = Inr d" "parse_display_number d = Inr m" "n \<in> set ns"
    for v d m n
    using display_run_above_start [OF assms that(1-3)] list_all2_right [OF ns(1) that(4)] by blast
  moreover from ns(1) have "map (\<lambda>i. parse_display_number (PStr i)) issued = map Inr ns"
    by (induction rule: list_all2_induct) auto
  ultimately show ?thesis using ns(2) by blast
qed

lemma sample_display_run:
  "display_run ([], [PDict [(''id'', PStr ''T-0007'')]]) [''T-0008'', ''T-0009'']
     ([(HW_FIELD, PInt 9)], [PDict [(''id'', PStr ''T-0007'')], PDict [(''id'', PStr ''T-0009'')]])"
proof -
  let ?t7 = "PDict [(''id'', PStr ''T-0007'')]" and ?t8 = "[(''id'', PStr ''T-0008'')]"
    and ?t9 = "[(''id'', PStr ''T-0009'')]"
  let ?w8 = "[(HW_FIELD, PInt 8)]" and ?w9 = "[(HW_FIELD, PInt 9)]"
  have "display_run ([], [?t7]) [] ([], [?t7])" by (rule display_run.start)
  moreover have "next_task_display [] [?t7] = Inr (''T-0008'', ?w8)" by code_simp
  ultimately have "display_run ([], [?t7]) ([] @ [''T-0008'']) (?w8, [?t7] @ [PDict ?t8])"
    by (rule display_run.create) code_simp
  then have "display_run ([], [?t7]) [''T-0008''] (?w8, [?t7] @ PDict ?t8 # [])" by simp
  moreover have "preserve_high_water ?w8 [(''tasks'', PList ([?t7] @ PDict ?t8 # []))] ?w8 = Inr (8, ?w8)"
    by code_simp
  ultimately have "display_run ([], [?t7]) [''T-0008''] (?w8, [?t7] @ [])" by (rule display_run.delete)
  moreover have "next_task_display ?w8 ([?t7] @ []) = Inr (''T-0009'', ?w9)" by code_simp
  ultimately have "display_run ([], [?t7]) ([''T-0008''] @ [''T-0009'']) (?w9, ([?t7] @ []) @ [PDict ?t9])"
    by (rule display_run.create) code_simp
  then show ?thesis by simp
qed

theorem display_ids_never_reused_witness:
  "\<exists>ns. map (\<lambda>i. parse_display_number (PStr i)) [''T-0008'', ''T-0009''] = map Inr ns \<and> sorted_wrt (<) ns"
  using display_ids_never_reused [OF sample_display_run] by blast

end
