(* ===== verification/WS_Planning.thy ===== *)
theory WS_Planning
  imports WS_Domain
begin

text \<open>
  \<open>workstack/planning_status.py\<close>: a Task's status is not a field that is overwritten but the
  head of an append-only chain of facts in \<open>activity.json\<close>; the record keeps the status it
  was created with and the identifier of the chain's head. \<open>validate_and_project\<close> checks the
  whole history and reads the current statuses off the heads. The lemmas show that the two
  append operations keep a valid history valid and change exactly one status.
\<close>

section \<open>Facts\<close>

definition FACT_TYPE :: string where
  "FACT_TYPE = ''task.planning_status''"

definition FACT_FIELDS :: "string list" where
  "FACT_FIELDS = [''id'', ''type'', ''task_id'', ''task_uid'', ''previous_fact_id'', ''prior_revision'',
     ''new_revision'', ''prior_status'', ''status'', ''created_at'', ''actor'', ''provenance'']"

definition ALLOWED_PROVENANCE :: "(string \<times> string list) list" where
  "ALLOWED_PROVENANCE =
    [(''workstack.migration'', [''store.v1'', ''store.v2'']),
     (''workstack.seed'', [''demo.fixture'']),
     (''local.user'', [''cli'', ''api.v1'', ''api.legacy'']),
     (''workstack.capture'', [''api.v1.capture''])]"

definition planning_error :: "string \<Rightarrow> pyexc" where
  "planning_error msg = PlanningStatusValidationError msg"

definition fact_revision :: "pyval \<Rightarrow> string \<Rightarrow> int result" where
  "fact_revision v label =
     (if \<not> (is_int v \<and> 0 \<le> int_of v \<and> int_of v \<le> MAX_REVISION)
      then Inl (planning_error (label @ '' is invalid'')) else Inr (int_of v))"

text \<open>\<open>[0-9]{4}-[0-9]{2}-[0-9]{2}T[0-9]{2}:[0-9]{2}:[0-9]{2}Z\<close>, in full.\<close>

definition utc_second :: "string \<Rightarrow> bool" where
  "utc_second s \<longleftrightarrow> length s = 20 \<and>
     list_all2 (\<lambda>p c. if p = CHR ''0'' then is_digit c else c = p) ''0000-00-00T00:00:00Z'' s"

definition planning_timestamp :: "pyval \<Rightarrow> string result" where
  "planning_timestamp v =
     (case v of
        PStr s \<Rightarrow>
          (if \<not> utc_second s \<or> datetime_fromisoformat (butlast s @ ''+00:00'') = None
           then Inl (planning_error ''planning status created_at is invalid'') else Inr s)
      | _ \<Rightarrow> Inl (planning_error ''planning status created_at is invalid''))"

definition next_fact_id :: "nat \<Rightarrow> string" where
  "next_fact_id n = ''PS-'' @ pad_nat 6 (n + 1)"

definition append_bootstrap ::
  "dict \<Rightarrow> dict \<Rightarrow> string \<Rightarrow> string \<Rightarrow> string \<Rightarrow> (dict \<times> dict \<times> dict) result" where
  "append_bootstrap activity task created_at actor provenance =
     (let activity = dsetdefault activity ''planning_status'' (PList []);
          facts = dget activity ''planning_status''
      in bind_r (len_r facts) (\<lambda>n.
         bind_r (dindex task ''id'') (\<lambda>task_id.
         bind_r (dindex task ''uid'') (\<lambda>task_uid.
         bind_r (dindex task ''revision'') (\<lambda>revision.
         bind_r (dindex task ''status'') (\<lambda>status.
         let item = [(''id'', PStr (next_fact_id n)), (''type'', PStr FACT_TYPE),
               (''task_id'', task_id), (''task_uid'', task_uid), (''previous_fact_id'', PNone),
               (''prior_revision'', PNone), (''new_revision'', revision), (''prior_status'', PNone),
               (''status'', status), (''created_at'', PStr created_at), (''actor'', PStr actor),
               (''provenance'', PStr provenance)]
         in bind_r (as_list facts) (\<lambda>fs.
            Inr (item, dset activity ''planning_status'' (PList (fs @ [PDict item])),
                 dset task ''status_fact_id'' (PStr (next_fact_id n))))))))))"

definition append_transition ::
  "dict \<Rightarrow> dict \<Rightarrow> pyval \<Rightarrow> pyval \<Rightarrow> int \<Rightarrow> int \<Rightarrow> string \<Rightarrow> string \<Rightarrow> string \<Rightarrow>
   (dict \<times> dict \<times> dict) result" where
  "append_transition activity task prior_status status prior_revision new_revision
     created_at actor provenance =
     (let activity = dsetdefault activity ''planning_status'' (PList []);
          facts = dget activity ''planning_status''
      in bind_r (len_r facts) (\<lambda>n.
         bind_r (dindex task ''id'') (\<lambda>task_id.
         bind_r (dindex task ''uid'') (\<lambda>task_uid.
         bind_r (dindex task ''status_fact_id'') (\<lambda>head.
         let item = [(''id'', PStr (next_fact_id n)), (''type'', PStr FACT_TYPE),
               (''task_id'', task_id), (''task_uid'', task_uid), (''previous_fact_id'', head),
               (''prior_revision'', PInt prior_revision), (''new_revision'', PInt new_revision),
               (''prior_status'', prior_status), (''status'', status),
               (''created_at'', PStr created_at), (''actor'', PStr actor),
               (''provenance'', PStr provenance)]
         in bind_r (as_list facts) (\<lambda>fs.
            Inr (item, dset activity ''planning_status'' (PList (fs @ [PDict item])),
                 dset task ''status_fact_id'' (PStr (next_fact_id n)))))))))"

section \<open>Validation and projection\<close>

type_synonym task_map = "(string \<times> dict) list"

definition index_task :: "pyval \<Rightarrow> task_map \<Rightarrow> task_map result" where
  "index_task task indexed =
     (case task of
        PDict t \<Rightarrow>
          (case dget t ''id'' of
             PStr i \<Rightarrow> Inr (AList.update i t indexed)
           | _ \<Rightarrow> Inl (planning_error ''planning status task reference is invalid''))
      | _ \<Rightarrow> Inl (planning_error ''planning status task reference is invalid''))"

definition task_index :: "dict \<Rightarrow> task_map result" where
  "task_index backlog =
     (case dget backlog ''tasks'' of
        PList tasks \<Rightarrow> fold_r index_task tasks []
      | _ \<Rightarrow> Inl (planning_error ''planning status store shape is invalid''))"

text \<open>\<open>FACT_ID_RE\<close>: \<open>PS-\<close> and at least six digits; the number must be the fact's position.\<close>

definition fact_id_number :: "string \<Rightarrow> nat option" where
  "fact_id_number s =
     (case strip_prefix ''PS-'' s of
        None \<Rightarrow> None
      | Some t \<Rightarrow> if 6 \<le> length t \<and> all_digits t then Some (digits_val t) else None)"

definition validate_fact_envelope :: "pyval \<Rightarrow> nat \<Rightarrow> dict result" where
  "validate_fact_envelope v index =
     (case v of
        PDict item \<Rightarrow>
          (if \<not> exact_keys item FACT_FIELDS
           then Inl (planning_error ''planning status fact schema is invalid'')
           else if fact_id_number (py_str (dget_or item ''id'' (PStr []))) \<noteq> Some index
           then Inl (planning_error ''planning status fact order is invalid'')
           else if dget item ''type'' \<noteq> PStr FACT_TYPE
           then Inl (planning_error ''planning status fact type is invalid'')
           else Inr item)
      | _ \<Rightarrow> Inl (planning_error ''planning status fact schema is invalid''))"

definition fact_task_and_status :: "dict \<Rightarrow> task_map \<Rightarrow> (string \<times> dict \<times> pyval) result" where
  "fact_task_and_status item task_by_id =
     (let task_id = dget item ''task_id'';
          task = (case task_id of PStr i \<Rightarrow> map_of task_by_id i | _ \<Rightarrow> None)
      in case task of
           None \<Rightarrow> Inl (planning_error ''planning status task identity is invalid'')
         | Some t \<Rightarrow>
             (if \<not> py_eq (dget item ''task_uid'') (dget t ''uid'')
              then Inl (planning_error ''planning status task identity is invalid'')
              else if \<not> in_tuple (dget item ''status'') TASK_STATUSES
              then Inl (planning_error ''planning status value is invalid'')
              else Inr (str_of task_id, t, dget item ''status'')))"

definition validate_fact_provenance :: "dict \<Rightarrow> unit result" where
  "validate_fact_provenance item =
     bind_r (planning_timestamp (dget item ''created_at'')) (\<lambda>_.
       case dget item ''actor'' of
         PStr actor \<Rightarrow>
           bind_r (in_set_r (dget item ''provenance'')
                (case map_of ALLOWED_PROVENANCE actor of None \<Rightarrow> [] | Some ps \<Rightarrow> ps)) (\<lambda>ok.
           if \<not> ok then Inl (planning_error ''planning status provenance is invalid'') else Inr ())
       | _ \<Rightarrow> Inl (planning_error ''planning status provenance is invalid''))"

definition validate_bootstrap :: "dict \<Rightarrow> dict \<Rightarrow> pyval \<Rightarrow> int result" where
  "validate_bootstrap item task status =
     (if dget item ''previous_fact_id'' \<noteq> PNone \<or> dget item ''prior_revision'' \<noteq> PNone \<or>
         dget item ''prior_status'' \<noteq> PNone
      then Inl (planning_error ''planning status bootstrap is invalid'')
      else bind_r (fact_revision (dget item ''new_revision'') ''bootstrap new_revision'') (\<lambda>new_revision.
        if \<not> py_eq status (dget task ''status'')
        then Inl (planning_error ''planning status baseline does not match source'')
        else Inr new_revision))"

definition validate_transition :: "dict \<Rightarrow> dict \<Rightarrow> pyval \<Rightarrow> int result" where
  "validate_transition item previous status =
     bind_r (dindex previous ''id'') (\<lambda>previous_id.
     if \<not> py_eq (dget item ''previous_fact_id'') previous_id
     then Inl (planning_error ''planning status predecessor is invalid'')
     else bind_r (fact_revision (dget item ''prior_revision'') ''prior_revision'') (\<lambda>prior_revision.
          bind_r (fact_revision (dget item ''new_revision'') ''new_revision'') (\<lambda>new_revision.
          let invalid = Inl (planning_error ''planning status transition is invalid'') in
          if new_revision \<noteq> prior_revision + 1 then invalid
          else bind_r (dindex previous ''new_revision'') (\<lambda>pr.
               bind_r (int_less_r prior_revision pr) (\<lambda>below.
               if below then invalid
               else bind_r (dindex previous ''status'') (\<lambda>ps.
                 if \<not> py_eq (dget item ''prior_status'') ps \<or> py_eq status ps then invalid
                 else Inr new_revision))))))"

definition validate_fact_chain :: "dict \<Rightarrow> dict option \<Rightarrow> dict \<Rightarrow> pyval \<Rightarrow> int result" where
  "validate_fact_chain item previous task status =
     bind_r (case previous of
         None \<Rightarrow> validate_bootstrap item task status
       | Some p \<Rightarrow> validate_transition item p status) (\<lambda>new_revision.
     bind_r (int_greater_r new_revision (dget_or task ''revision'' (PInt (-1)))) (\<lambda>above.
     if above then Inl (planning_error ''planning status fact exceeds task revision'')
     else Inr new_revision))"

definition project_head :: "(string \<times> dict) list \<Rightarrow> string \<times> dict \<Rightarrow> (string \<times> pyval) result" where
  "project_head heads = (\<lambda>(task_id, task).
     case map_of heads task_id of
       None \<Rightarrow> Inl (planning_error ''planning status head is missing or stale'')
     | Some head \<Rightarrow>
         bind_r (dindex head ''id'') (\<lambda>i.
         if \<not> py_eq (dget task ''status_fact_id'') i
         then Inl (planning_error ''planning status head is missing or stale'')
         else bind_r (dindex head ''status'') (\<lambda>status. Inr (task_id, status))))"

definition project_heads :: "task_map \<Rightarrow> (string \<times> dict) list \<Rightarrow> dict result" where
  "project_heads task_by_id heads = map_r (project_head heads) task_by_id"

definition check_fact :: "task_map \<Rightarrow> nat \<times> pyval \<Rightarrow> (string \<times> dict) list \<Rightarrow> (string \<times> dict) list result" where
  "check_fact task_by_id = (\<lambda>(index, candidate) heads.
     bind_r (validate_fact_envelope candidate index) (\<lambda>item.
     bind_r (fact_task_and_status item task_by_id) (\<lambda>(task_id, task, status).
     bind_r (validate_fact_provenance item) (\<lambda>_.
     bind_r (validate_fact_chain item (map_of heads task_id) task status) (\<lambda>_.
     Inr (AList.update task_id item heads))))))"

definition check_facts :: "task_map \<Rightarrow> pyval list \<Rightarrow> (string \<times> dict) list result" where
  "check_facts task_by_id facts = fold_r (check_fact task_by_id) (enumerate 1 facts) []"

definition validate_and_project :: "dict \<Rightarrow> dict \<Rightarrow> dict result" where
  "validate_and_project backlog activity =
     (case dget activity ''planning_status'' of
        PList facts \<Rightarrow>
          bind_r (task_index backlog) (\<lambda>task_by_id.
          bind_r (check_facts task_by_id facts) (\<lambda>heads.
          project_heads task_by_id heads))
      | _ \<Rightarrow> Inl (planning_error ''planning status store shape is invalid''))"

definition task_facts :: "dict \<Rightarrow> string \<Rightarrow> dict list result" where
  "task_facts activity task_id =
     bind_r (iter_r (dget_or activity ''planning_status'' (PList []))) (\<lambda>facts.
     bind_r (map_r as_dict facts) (\<lambda>ds.
     Inr (filter (\<lambda>d. dget d ''task_id'' = PStr task_id) ds)))"

section \<open>The index of Tasks\<close>

definition task_row :: "pyval \<Rightarrow> string \<times> dict" where
  "task_row v = (str_of (dget (dict_of v) ''id''), dict_of v)"

definition is_task_row :: "pyval \<Rightarrow> bool" where
  "is_task_row v \<longleftrightarrow> is_dict v \<and> is_str (dget (dict_of v) ''id'')"

lemma index_task_Inr:
  "index_task v m = Inr m' \<longleftrightarrow> is_task_row v \<and> m' = AList.update (fst (task_row v)) (snd (task_row v)) m"
  by (cases v) (auto simp: index_task_def is_task_row_def task_row_def split: pyval.splits)

lemma update_fresh: "k \<notin> fst ` set m \<Longrightarrow> AList.update k v m = m @ [(k, v)]"
  by (induction m) auto

lemma index_fold:
  "fold_r index_task vs m = Inr tm \<Longrightarrow> distinct (map fst m @ map (fst \<circ> task_row) vs) \<Longrightarrow>
   list_all is_task_row vs \<and> tm = m @ map task_row vs"
proof (induction vs arbitrary: m)
  case (Cons v vs)
  let ?m = "AList.update (fst (task_row v)) (snd (task_row v)) m"
  from Cons.prems(2) have "fst (task_row v) \<notin> fst ` set m" by auto
  then have m: "?m = m @ [task_row v]" by (simp add: update_fresh)
  from Cons.prems(1) have v: "is_task_row v" and f: "fold_r index_task vs ?m = Inr tm"
    by (auto simp: result_iffs index_task_Inr)
  from Cons.IH [OF f] Cons.prems(2) m v show ?case by auto
qed simp

lemma index_fold_total:
  "list_all is_task_row vs \<Longrightarrow> distinct (map fst m @ map (fst \<circ> task_row) vs) \<Longrightarrow>
   fold_r index_task vs m = Inr (m @ map task_row vs)"
proof (induction vs arbitrary: m)
  case (Cons v vs)
  from Cons.prems(2) have "fst (task_row v) \<notin> fst ` set m" by auto
  with Cons.prems(1) have "index_task v m = Inr (m @ [task_row v])"
    by (simp add: index_task_Inr update_fresh)
  with Cons show ?case by auto
qed simp

lemma task_index_distinct:
  assumes "dget backlog ''tasks'' = PList ts" and "distinct (map (fst \<circ> task_row) ts)"
  shows "task_index backlog = Inr tm \<longleftrightarrow> list_all is_task_row ts \<and> tm = map task_row ts"
  using index_fold [of ts "[]" tm] index_fold_total [of ts "[]"] assms
  by (auto simp: task_index_def)

section \<open>Checked histories\<close>

lemma check_facts_snoc:
  "check_facts tm (fs @ [f]) = bind_r (check_facts tm fs) (check_fact tm (Suc (length fs), f))"
  by (simp add: check_facts_def enumerate_append_eq fold_r_append bind_r_def split: sum.splits)

text \<open>
  A Task may change without invalidating the facts already recorded: its identity and
  baseline stay and its revision does not go down.
\<close>

definition task_grows :: "dict \<Rightarrow> dict \<Rightarrow> bool" where
  "task_grows t t' \<longleftrightarrow> dget t' ''uid'' = dget t ''uid'' \<and> dget t' ''status'' = dget t ''status'' \<and>
     (dget_or t' ''revision'' (PInt (-1)) = dget_or t ''revision'' (PInt (-1)) \<or>
      (\<exists>r r'. dget_or t ''revision'' (PInt (-1)) = PInt r \<and> dget_or t' ''revision'' (PInt (-1)) = PInt r' \<and> r \<le> r'))"

definition map_grows :: "task_map \<Rightarrow> task_map \<Rightarrow> bool" where
  "map_grows tm tm' \<longleftrightarrow> (\<forall>i t. map_of tm i = Some t \<longrightarrow> (\<exists>t'. map_of tm' i = Some t' \<and> task_grows t t'))"

lemma chain_grows:
  assumes "validate_fact_chain f p t st = Inr n" and "task_grows t t'"
  shows "validate_fact_chain f p t' st = Inr n"
proof -
  have "validate_bootstrap f t' st = validate_bootstrap f t st"
    using assms(2) by (simp add: validate_bootstrap_def task_grows_def)
  then have v: "(case p of None \<Rightarrow> validate_bootstrap f t' st | Some p \<Rightarrow> validate_transition f p st) = Inr n"
    and g: "int_greater_r n (dget_or t ''revision'' (PInt (-1))) = Inr False"
    using assms(1) by (auto simp: validate_fact_chain_def result_iffs split: option.splits)
  from g assms(2) have "int_greater_r n (dget_or t' ''revision'' (PInt (-1))) = Inr False"
    by (auto simp: task_grows_def)
  with v show ?thesis by (simp add: validate_fact_chain_def)
qed

lemma fact_task_Inr:
  "fact_task_and_status f tm = Inr (i, t, st) \<longleftrightarrow>
     dget f ''task_id'' = PStr i \<and> map_of tm i = Some t \<and> py_eq (dget f ''task_uid'') (dget t ''uid'') \<and>
     in_tuple (dget f ''status'') TASK_STATUSES \<and> st = dget f ''status''"
  by (cases "dget f ''task_id''")
    (auto simp: fact_task_and_status_def Let_def split: option.splits)

lemma fact_task_grows:
  assumes "fact_task_and_status f tm = Inr (i, t, st)" and "map_grows tm tm'"
  shows "\<exists>t'. fact_task_and_status f tm' = Inr (i, t', st) \<and> task_grows t t'"
proof -
  from assms obtain t' where "map_of tm' i = Some t'" "task_grows t t'"
    by (auto simp: fact_task_Inr map_grows_def)
  with assms(1) show ?thesis by (auto simp: fact_task_Inr task_grows_def)
qed

lemma check_fact_grows:
  assumes "check_fact tm x h = Inr h'" and "map_grows tm tm'"
  shows "check_fact tm' x h = Inr h'"
proof -
  obtain k c where x: "x = (k, c)" by (cases x)
  from assms(1) x obtain f i t st n where f: "validate_fact_envelope c k = Inr f"
    "fact_task_and_status f tm = Inr (i, t, st)" "validate_fact_provenance f = Inr ()"
    "validate_fact_chain f (map_of h i) t st = Inr n" "h' = AList.update i f h"
    by (auto simp: check_fact_def result_iffs)
  from fact_task_grows [OF f(2) assms(2)] obtain t' where
    t': "fact_task_and_status f tm' = Inr (i, t', st)" "task_grows t t'" by blast
  from f t'(1) chain_grows [OF f(4) t'(2)] x show ?thesis by (simp add: check_fact_def)
qed

lemma check_facts_grows:
  "check_facts tm fs = Inr h \<Longrightarrow> map_grows tm tm' \<Longrightarrow> check_facts tm' fs = Inr h"
proof (induction fs arbitrary: h rule: rev_induct)
  case (snoc f fs)
  then show ?case by (auto simp: check_facts_snoc result_iffs dest: check_fact_grows)
qed (simp add: check_facts_def)

text \<open>What a head of a checked history is.\<close>

definition head_ok :: "task_map \<Rightarrow> string \<Rightarrow> dict \<Rightarrow> bool" where
  "head_ok tm i h \<longleftrightarrow> (\<exists>t n. map_of tm i = Some t \<and> map_of h ''id'' = Some (dget h ''id'') \<and>
     map_of h ''new_revision'' = Some (PInt n) \<and> 0 \<le> n \<and> n \<le> MAX_REVISION \<and>
     int_greater_r n (dget_or t ''revision'' (PInt (-1))) = Inr False \<and>
     map_of h ''status'' = Some (dget h ''status'') \<and> in_tuple (dget h ''status'') TASK_STATUSES)"

lemma fact_revision_Inr:
  "fact_revision v l = Inr n \<longleftrightarrow> v = PInt n \<and> 0 \<le> n \<and> n \<le> MAX_REVISION"
  by (auto simp: fact_revision_def is_int_iff)

lemma chain_revision:
  assumes "validate_fact_chain f p t st = Inr n"
  shows "dget f ''new_revision'' = PInt n" "0 \<le> n" "n \<le> MAX_REVISION"
    "int_greater_r n (dget_or t ''revision'' (PInt (-1))) = Inr False"
proof -
  from assms have v: "(case p of None \<Rightarrow> validate_bootstrap f t st | Some p \<Rightarrow> validate_transition f p st) = Inr n"
    and "int_greater_r n (dget_or t ''revision'' (PInt (-1))) = Inr False"
    by (auto simp: validate_fact_chain_def result_iffs)
  then show "int_greater_r n (dget_or t ''revision'' (PInt (-1))) = Inr False" by simp
  from v have "fact_revision (dget f ''new_revision'') ''bootstrap new_revision'' = Inr n \<or>
      fact_revision (dget f ''new_revision'') ''new_revision'' = Inr n"
    by (cases p) (auto simp: validate_bootstrap_def validate_transition_def Let_def result_iffs)
  then show "dget f ''new_revision'' = PInt n" "0 \<le> n" "n \<le> MAX_REVISION"
    by (auto simp: fact_revision_Inr)
qed

lemma envelope_Inr:
  "validate_fact_envelope c k = Inr f \<longleftrightarrow> c = PDict f \<and> exact_keys f FACT_FIELDS \<and>
     fact_id_number (py_str (dget_or f ''id'' (PStr []))) = Some k \<and> dget f ''type'' = PStr FACT_TYPE"
  by (cases c) (auto simp: validate_fact_envelope_def)

lemma fact_id_number_next: "fact_id_number (next_fact_id n) = Some (Suc n)"
  unfolding fact_id_number_def next_fact_id_def strip_prefix_append
  using length_pad_nat [of 6 "n + 1"] by simp

lemma exact_keys_map_of: "exact_keys f ks \<Longrightarrow> k \<in> set ks \<Longrightarrow> map_of f k = Some (dget f k)"
  by (auto simp: exact_keys_def dhas_def dget_def dget_or_def)

lemma head_ok_new:
  assumes "check_fact tm (k, c) h = Inr h'"
  shows "\<exists>i f. h' = AList.update i f h \<and> c = PDict f \<and> head_ok tm i f"
proof -
  from assms obtain f i t st n where f: "validate_fact_envelope c k = Inr f"
    "fact_task_and_status f tm = Inr (i, t, st)"
    "validate_fact_chain f (map_of h i) t st = Inr n" "h' = AList.update i f h"
    by (auto simp: check_fact_def result_iffs)
  have ks: "map_of f x = Some (dget f x)" if "x \<in> set FACT_FIELDS" for x
    using f(1) that exact_keys_map_of by (auto simp: envelope_Inr)
  have "head_ok tm i f"
    using f(2) chain_revision [OF f(3)] ks [of "''id''"] ks [of "''new_revision''"] ks [of "''status''"]
    by (auto simp: head_ok_def fact_task_Inr FACT_FIELDS_def)
  with f show ?thesis by (auto simp: envelope_Inr)
qed

lemma heads_ok:
  "check_facts tm fs = Inr h \<Longrightarrow> map_of h i = Some f \<Longrightarrow> head_ok tm i f"
proof (induction fs arbitrary: h i f rule: rev_induct)
  case (snoc c fs)
  then obtain g where g: "check_facts tm fs = Inr g" "check_fact tm (Suc (length fs), c) g = Inr h"
    by (auto simp: check_facts_snoc result_iffs)
  from head_ok_new [OF g(2)] obtain j e where "h = AList.update j e g" "head_ok tm j e" by blast
  with snoc.IH [OF g(1)] snoc.prems(2) show ?case by (auto simp: update_conv' split: if_splits)
qed (simp add: check_facts_def)

section \<open>The two operations\<close>

text \<open>The facts of an activity document: absent, or a list.\<close>

definition facts_of :: "dict \<Rightarrow> pyval list" where
  "facts_of activity = list_of (dget activity ''planning_status'')"

lemma append_bootstrap_Inr:
  assumes "append_bootstrap activity task at actor prov = Inr (f, activity', task')"
    and "dget activity ''planning_status'' = PList fs"
  shows "\<exists>rev st. map_of task ''revision'' = Some rev \<and> map_of task ''status'' = Some st \<and>
     f = [(''id'', PStr (next_fact_id (length fs))), (''type'', PStr FACT_TYPE),
          (''task_id'', dget task ''id''), (''task_uid'', dget task ''uid''), (''previous_fact_id'', PNone),
          (''prior_revision'', PNone), (''new_revision'', rev), (''prior_status'', PNone),
          (''status'', st), (''created_at'', PStr at), (''actor'', PStr actor),
          (''provenance'', PStr prov)] \<and>
     activity' = dset activity ''planning_status'' (PList (fs @ [PDict f])) \<and>
     task' = dset task ''status_fact_id'' (PStr (next_fact_id (length fs)))"
proof -
  have "dhas activity ''planning_status''" using assms(2) by (auto simp: dhas_def dget_def dget_or_def split: option.splits)
  then have "dsetdefault activity ''planning_status'' (PList []) = activity" by (simp add: dsetdefault_def)
  with assms show ?thesis
    by (auto simp: append_bootstrap_def Let_def result_iffs dget_map_of)
qed

lemma append_transition_Inr:
  assumes "append_transition activity task ps st r r' at actor prov = Inr (f, activity', task')"
    and "dget activity ''planning_status'' = PList fs"
  shows "f = [(''id'', PStr (next_fact_id (length fs))), (''type'', PStr FACT_TYPE),
          (''task_id'', dget task ''id''), (''task_uid'', dget task ''uid''),
          (''previous_fact_id'', dget task ''status_fact_id''),
          (''prior_revision'', PInt r), (''new_revision'', PInt r'), (''prior_status'', ps),
          (''status'', st), (''created_at'', PStr at), (''actor'', PStr actor),
          (''provenance'', PStr prov)]"
     "activity' = dset activity ''planning_status'' (PList (fs @ [PDict f]))"
     "task' = dset task ''status_fact_id'' (PStr (next_fact_id (length fs)))"
proof -
  have "dhas activity ''planning_status''" using assms(2) by (auto simp: dhas_def dget_def dget_or_def split: option.splits)
  then have "dsetdefault activity ''planning_status'' (PList []) = activity" by (simp add: dsetdefault_def)
  with assms show
    "f = [(''id'', PStr (next_fact_id (length fs))), (''type'', PStr FACT_TYPE),
          (''task_id'', dget task ''id''), (''task_uid'', dget task ''uid''),
          (''previous_fact_id'', dget task ''status_fact_id''),
          (''prior_revision'', PInt r), (''new_revision'', PInt r'), (''prior_status'', ps),
          (''status'', st), (''created_at'', PStr at), (''actor'', PStr actor),
          (''provenance'', PStr prov)]"
    "activity' = dset activity ''planning_status'' (PList (fs @ [PDict f]))"
    "task' = dset task ''status_fact_id'' (PStr (next_fact_id (length fs)))"
    by (auto simp: append_transition_def Let_def result_iffs dget_map_of)
qed

definition provenance_ok :: "string \<Rightarrow> string \<Rightarrow> bool" where
  "provenance_ok actor prov \<longleftrightarrow> (\<exists>ps. map_of ALLOWED_PROVENANCE actor = Some ps \<and> prov \<in> set ps)"

text \<open>A fact the operations write passes every check that does not depend on the chain.\<close>

lemma new_fact_checked:
  assumes "f = [(''id'', PStr (next_fact_id n)), (''type'', PStr FACT_TYPE), (''task_id'', PStr i),
       (''task_uid'', u), (''previous_fact_id'', p), (''prior_revision'', pr), (''new_revision'', nr),
       (''prior_status'', ps), (''status'', st), (''created_at'', PStr at), (''actor'', PStr actor),
       (''provenance'', PStr prov)]"
    and "map_of tm i = Some t" "py_eq u (dget t ''uid'')" "in_tuple st TASK_STATUSES"
    and "planning_timestamp (PStr at) = Inr at" "provenance_ok actor prov"
    and "validate_fact_chain f (map_of h i) t st = Inr k"
  shows "check_fact tm (Suc n, PDict f) h = Inr (AList.update i f h)"
proof -
  have keys: "dkeys f = FACT_FIELDS" by (simp add: assms(1) dkeys_def FACT_FIELDS_def)
  then have "exact_keys f FACT_FIELDS" by (simp add: exact_keys_iff)
  then have "validate_fact_envelope (PDict f) (Suc n) = Inr f"
    by (simp add: envelope_Inr) (simp add: assms(1) dget_def dget_or_def fact_id_number_next)
  moreover have "fact_task_and_status f tm = Inr (i, t, st)"
    using assms(2-4) by (simp add: fact_task_Inr) (simp add: assms(1) dget_def dget_or_def)
  moreover have "validate_fact_provenance f = Inr ()"
    using assms(5,6) by (auto simp: assms(1) dget_def dget_or_def validate_fact_provenance_def
        provenance_ok_def in_set_r_def)
  ultimately show ?thesis using assms(7) by (simp add: check_fact_def)
qed

lemma project_head_Inr:
  "project_head h p = Inr q \<longleftrightarrow> (\<exists>f x s. map_of h (fst p) = Some f \<and> map_of f ''id'' = Some x \<and>
     py_eq (dget (snd p) ''status_fact_id'') x \<and> map_of f ''status'' = Some s \<and> q = (fst p, s))"
  by (cases p) (auto simp: project_head_def result_iffs split: option.splits)

lemma project_head_other:
  "fst p \<noteq> i \<Longrightarrow> project_head (AList.update i f h) p = project_head h p"
  by (cases p) (simp add: project_head_def update_conv')

lemma project_heads_keys: "project_heads tm h = Inr proj \<Longrightarrow> map fst proj = map fst tm"
proof -
  assume "project_heads tm h = Inr proj"
  then have "list_all2 (\<lambda>p q. project_head h p = Inr q) tm proj"
    by (simp add: project_heads_def map_r_Inr)
  then show ?thesis by (induction rule: list_all2_induct) (auto simp: project_head_Inr)
qed

lemma validate_and_project_Inr:
  assumes "dget backlog ''tasks'' = PList ts" and "distinct (map (fst \<circ> task_row) ts)"
  shows "validate_and_project backlog activity = Inr proj \<longleftrightarrow>
    (\<exists>fs h. dget activity ''planning_status'' = PList fs \<and> list_all is_task_row ts \<and>
       check_facts (map task_row ts) fs = Inr h \<and> project_heads (map task_row ts) h = Inr proj)"
  by (cases "dget activity ''planning_status''")
    (auto simp: validate_and_project_def result_iffs task_index_distinct [OF assms])

lemma bootstrap_valid:
  assumes "validate_and_project backlog activity = Inr proj"
    and ts: "dget backlog ''tasks'' = PList ts" "distinct (map (fst \<circ> task_row) ts)"
    and t: "dget t ''id'' = PStr i" "i \<notin> set (map (fst \<circ> task_row) ts)" "dget t ''uid'' = PStr u"
      "revision_of t = Inr r" "dget t ''status'' = PStr st" "st \<in> set TASK_STATUSES"
    and at: "planning_timestamp (PStr at) = Inr at" "provenance_ok actor prov"
    and app: "append_bootstrap activity t at actor prov = Inr (f, activity', t')"
  shows "validate_and_project (dset backlog ''tasks'' (PList (ts @ [PDict t']))) activity' =
    Inr (proj @ [(i, PStr st)])"
proof -
  let ?tm = "map task_row ts" and ?tm' = "map task_row (ts @ [PDict t'])"
  obtain fs h where fs: "dget activity ''planning_status'' = PList fs" and rows: "list_all is_task_row ts"
    and h: "check_facts ?tm fs = Inr h" and proj: "project_heads ?tm h = Inr proj"
    using assms(1) by (auto simp: validate_and_project_Inr [OF ts])
  have rev: "map_of t ''revision'' = Some (PInt r)" "0 \<le> r" "r \<le> MAX_REVISION"
    using t(4) by (auto simp: revision_of_Inr)
  let ?id = "PStr (next_fact_id (length fs))"
  have f: "f = [(''id'', ?id), (''type'', PStr FACT_TYPE), (''task_id'', PStr i), (''task_uid'', PStr u),
       (''previous_fact_id'', PNone), (''prior_revision'', PNone), (''new_revision'', PInt r),
       (''prior_status'', PNone), (''status'', PStr st), (''created_at'', PStr at), (''actor'', PStr actor),
       (''provenance'', PStr prov)]"
    and act: "activity' = dset activity ''planning_status'' (PList (fs @ [PDict f]))"
    and t': "t' = dset t ''status_fact_id'' ?id"
    using append_bootstrap_Inr [OF app fs] t(1,3,5) rev(1) by (auto dest: dget_map_of)
  have row: "task_row (PDict t') = (i, t')" "is_task_row (PDict t')"
    using t(1) by (simp_all add: task_row_def is_task_row_def t')
  have fresh: "i \<notin> fst ` set ?tm" using t(2) by (auto simp: comp_def)
  have "map_grows ?tm ?tm'" using fresh by (auto simp: map_grows_def map_add_Some_iff task_grows_def)
  then have "check_facts ?tm' fs = Inr h" using h check_facts_grows by blast
  moreover have none: "map_of h i = None"
  proof (rule ccontr)
    assume "map_of h i \<noteq> None"
    then obtain e where "map_of h i = Some e" by blast
    from heads_ok [OF h this] have "map_of ?tm i \<noteq> None" by (auto simp: head_ok_def)
    then show False using fresh map_of_eq_None_iff by metis
  qed
  have "dget_or t' ''revision'' (PInt (-1)) = PInt r" using rev(1) by (simp add: t' dget_or_def)
  then have "validate_fact_chain f None t' (PStr st) = Inr r"
    using rev t(5) by (simp add: validate_fact_chain_def validate_bootstrap_def f t' dget_def dget_or_def fact_revision_def)
  then have chain: "validate_fact_chain f (map_of h i) t' (PStr st) = Inr r" using none by simp
  have "map_of ?tm i = None" using fresh by (simp only: map_of_eq_None_iff not_False_eq_True)
  then have "map_of ?tm' i = Some t'" using row by (simp add: map_add_Some_iff)
  then have "check_fact ?tm' (Suc (length fs), PDict f) h = Inr (AList.update i f h)"
    using t(3,6) at by (intro new_fact_checked [OF f _ _ _ _ _ chain]) (simp_all add: t')
  ultimately have cf: "check_facts ?tm' (fs @ [PDict f]) = Inr (AList.update i f h)"
    by (simp add: check_facts_snoc)
  have "map_r (project_head (AList.update i f h)) ?tm = map_r (project_head h) ?tm"
    using fresh by (intro map_r_cong project_head_other) blast
  moreover have "project_head (AList.update i f h) (i, t') = Inr (i, PStr st)"
    by (auto simp: project_head_Inr update_conv' f t')
  ultimately have "project_heads ?tm' (AList.update i f h) = Inr (proj @ [(i, PStr st)])"
    using proj row by (simp add: project_heads_def map_r_append)
  moreover have "distinct (map (fst \<circ> task_row) (ts @ [PDict t']))" using ts(2) t(2) row by simp
  ultimately show ?thesis using rows row cf act
    by (subst validate_and_project_Inr [where ts = "ts @ [PDict t']"]) auto
qed

text \<open>
  A transition: the Task at position \<open>k\<close> goes from the status its head has to another one,
  and its revision from \<open>r\<close> to \<open>r + 1\<close>. The caller sets the other fields it changes on the
  record the operation returns; \<open>t2\<close> is the record it stores.
\<close>

lemma list_all2_update_other:
  assumes "list_all2 (\<lambda>x y. g x = Inr y) xs ys" and "g' x = Inr y" and "k < length xs"
    and "\<And>j. j \<noteq> k \<Longrightarrow> j < length xs \<Longrightarrow> g' (xs ! j) = g (xs ! j)"
  shows "list_all2 (\<lambda>x y. g' x = Inr y) (xs[k := x]) (ys[k := y])"
  using assms by (auto simp: list_all2_conv_all_nth nth_list_update)

lemma transition_chain:
  assumes "head_ok tm i p" and "map_of tm i = Some t" and "map_of t ''revision'' = Some (PInt r)"
    and "0 \<le> r" "r < MAX_REVISION" and "py_eq (dget t ''status_fact_id'') (dget p ''id'')"
    and "dget p ''status'' = PStr ps" "st \<noteq> ps"
    and f: "dget f ''previous_fact_id'' = dget t ''status_fact_id''" "dget f ''prior_revision'' = PInt r"
      "dget f ''new_revision'' = PInt (r + 1)" "dget f ''prior_status'' = PStr ps"
    and "dget_or t2 ''revision'' (PInt (-1)) = PInt (r + 1)"
  shows "validate_fact_chain f (Some p) t2 (PStr st) = Inr (r + 1)"
proof -
  obtain n where n: "map_of p ''new_revision'' = Some (PInt n)" "n \<le> r"
    and p: "map_of p ''id'' = Some (dget p ''id'')" "map_of p ''status'' = Some (dget p ''status'')"
    using assms(1-3) by (auto simp: head_ok_def dget_or_def)
  have "validate_transition f p (PStr st) = Inr (r + 1)"
    using n p assms(4-8) f by (simp add: validate_transition_def dindex_def fact_revision_def)
  with assms(13) show ?thesis by (simp add: validate_fact_chain_def)
qed

lemma update_at:
  "distinct (map fst xs) \<Longrightarrow> k < length xs \<Longrightarrow> fst (xs ! k) = i \<Longrightarrow> AList.update i y xs = xs[k := (i, y)]"
proof (induction xs arbitrary: k)
  case (Cons x xs)
  then show ?case by (cases k; cases x) (auto simp: nth_mem)
qed simp

lemma map_of_update_at:
  "distinct (map fst xs) \<Longrightarrow> k < length xs \<Longrightarrow> fst (xs ! k) = i \<Longrightarrow>
   map_of (xs[k := (i, y)]) = (map_of xs)(i \<mapsto> y)"
  by (simp add: update_at [symmetric] update_conv')

lemma transition_valid:
  assumes "validate_and_project backlog activity = Inr proj"
    and ts: "dget backlog ''tasks'' = PList ts" "distinct (map (fst \<circ> task_row) ts)"
    and t: "k < length ts" "ts ! k = PDict t" "dget t ''id'' = PStr i" "dget t ''uid'' = PStr u"
      "revision_of t = Inr r" "r < MAX_REVISION"
    and st: "dget proj i = PStr ps" "st \<noteq> ps" "st \<in> set TASK_STATUSES"
    and at: "planning_timestamp (PStr at) = Inr at" "provenance_ok actor prov"
    and app: "append_transition activity t1 (PStr ps) (PStr st) r (r + 1) at actor prov = Inr (f, activity', t')"
    and t1: "\<And>x. x \<in> {''id'', ''uid'', ''status_fact_id''} \<Longrightarrow> dget t1 x = dget t x"
    and t2: "\<And>x. x \<in> {''id'', ''uid'', ''status''} \<Longrightarrow> dget t2 x = dget t x"
      "dget t2 ''status_fact_id'' = dget t' ''status_fact_id''" "revision_of t2 = Inr (r + 1)"
  shows "validate_and_project (dset backlog ''tasks'' (PList (ts[k := PDict t2]))) activity' =
    Inr (dset proj i (PStr st))"
proof -
  let ?tm = "map task_row ts" and ?tm' = "map task_row (ts[k := PDict t2])"
  obtain fs h where fs: "dget activity ''planning_status'' = PList fs" and rows: "list_all is_task_row ts"
    and h: "check_facts ?tm fs = Inr h" and proj: "project_heads ?tm h = Inr proj"
    using assms(1) by (auto simp: validate_and_project_Inr [OF ts])
  have row: "task_row (ts ! k) = (i, t)" "task_row (PDict t2) = (i, t2)" "is_task_row (PDict t2)"
    using t(2,3) t2(1) by (simp_all add: task_row_def is_task_row_def)
  have tm': "?tm' = ?tm[k := (i, t2)]" using t(1) row by (simp add: map_update)
  have dist: "distinct (map fst ?tm)" using ts(2) by simp
  have at_k: "?tm ! k = (i, t)" "k < length ?tm" using row t(1) by simp_all
  have mt: "map_of ?tm i = Some t" using dist at_k by (metis map_of_is_SomeI nth_mem)
  have mt': "map_of ?tm' = (map_of ?tm)(i \<mapsto> t2)"
    unfolding tm' using dist at_k by (simp add: map_of_update_at)
  have rev: "map_of t ''revision'' = Some (PInt r)" "0 \<le> r" "map_of t2 ''revision'' = Some (PInt (r + 1))"
    using t(5) t2(3) by (auto simp: revision_of_Inr)
  have "task_grows t t2" using rev t2(1) by (simp add: task_grows_def dget_or_def)
  then have "map_grows ?tm ?tm'" using mt by (auto simp: map_grows_def mt' task_grows_def)
  then have cf: "check_facts ?tm' fs = Inr h" using h check_facts_grows by blast
  have pl: "list_all2 (\<lambda>p q. project_head h p = Inr q) ?tm proj"
    using proj by (simp add: project_heads_def map_r_Inr)
  from list_all2_nthD [OF pl at_k(2)] obtain p where p: "map_of h i = Some p" "proj ! k = (i, dget p ''status'')"
    "py_eq (dget t ''status_fact_id'') (dget p ''id'')"
    by (auto simp: at_k(1) project_head_Inr dget_def dget_or_def)
  have distp: "distinct (map fst proj)" using project_heads_keys [OF proj] dist by simp
  have lenp: "k < length proj" using list_all2_lengthD [OF pl] at_k(2) by simp
  have "dget proj i = dget p ''status''"
    using p(2) distp lenp by (metis dget_map_of map_of_is_SomeI nth_mem)
  then have ps: "dget p ''status'' = PStr ps" using st(1) by simp
  let ?id = "PStr (next_fact_id (length fs))"
  have f: "f = [(''id'', ?id), (''type'', PStr FACT_TYPE), (''task_id'', PStr i), (''task_uid'', PStr u),
       (''previous_fact_id'', dget t ''status_fact_id''), (''prior_revision'', PInt r),
       (''new_revision'', PInt (r + 1)), (''prior_status'', PStr ps), (''status'', PStr st),
       (''created_at'', PStr at), (''actor'', PStr actor), (''provenance'', PStr prov)]"
    and act: "activity' = dset activity ''planning_status'' (PList (fs @ [PDict f]))"
    and t': "dget t' ''status_fact_id'' = ?id"
    using append_transition_Inr [OF app fs] t1 t(3,4) by simp_all
  have "validate_fact_chain f (Some p) t2 (PStr st) = Inr (r + 1)"
    using heads_ok [OF h p(1)] mt rev(1,2) t(6) p(3) ps st(2) rev(3)
    by (intro transition_chain) (simp_all add: f dget_def dget_or_def)
  then have chain: "validate_fact_chain f (map_of h i) t2 (PStr st) = Inr (r + 1)" using p(1) by simp
  have "check_fact ?tm' (Suc (length fs), PDict f) h = Inr (AList.update i f h)"
    using mt' t2(1) t(4) st(3) at by (intro new_fact_checked [OF f _ _ _ _ _ chain]) simp_all
  with cf have cf': "check_facts ?tm' (fs @ [PDict f]) = Inr (AList.update i f h)"
    by (simp add: check_facts_snoc)
  have ph: "project_heads ?tm' (AList.update i f h) = Inr (proj[k := (i, PStr st)])"
    unfolding tm' project_heads_def map_r_Inr
  proof (rule list_all2_update_other [OF pl _ at_k(2)])
    show "project_head (AList.update i f h) (i, t2) = Inr (i, PStr st)"
      using t2(2) t' by (auto simp: project_head_Inr update_conv' f)
  next
    fix j assume j: "j \<noteq> k" "j < length ?tm"
    then have "fst (?tm ! j) \<noteq> i" using dist at_k by (metis distinct_conv_nth fst_conv length_map nth_map)
    then show "project_head (AList.update i f h) (?tm ! j) = project_head h (?tm ! j)"
      by (rule project_head_other)
  qed
  have "map (fst \<circ> task_row) (ts[k := PDict t2]) = map (fst \<circ> task_row) ts"
    using row t(1) by (simp add: map_update list_update_same_conv)
  then have dist': "distinct (map (fst \<circ> task_row) (ts[k := PDict t2]))" using ts(2) by simp
  have rows': "list_all is_task_row (ts[k := PDict t2])"
    using rows row(3) by (auto simp: list_all_iff dest!: set_update_subset_insert [THEN subsetD])
  have "dset proj i (PStr st) = proj[k := (i, PStr st)]"
    unfolding dset_def using distp lenp p(2) by (intro update_at) simp_all
  with ph cf' rows' act show ?thesis
    by (subst validate_and_project_Inr [OF _ dist']) auto
qed

text \<open>
  An edit of another field, with the revision going up, leaves the projection as it is.
\<close>

lemma edit_valid:
  assumes "validate_and_project backlog activity = Inr proj"
    and ts: "dget backlog ''tasks'' = PList ts" "distinct (map (fst \<circ> task_row) ts)"
    and t: "k < length ts" "ts ! k = PDict t" "revision_of t = Inr r" "revision_of t2 = Inr r2" "r \<le> r2"
    and t2: "\<And>x. x \<in> {''id'', ''uid'', ''status'', ''status_fact_id''} \<Longrightarrow> dget t2 x = dget t x"
  shows "validate_and_project (dset backlog ''tasks'' (PList (ts[k := PDict t2]))) activity = Inr proj"
proof -
  let ?tm = "map task_row ts" and ?tm' = "map task_row (ts[k := PDict t2])"
  obtain fs h where fs: "dget activity ''planning_status'' = PList fs" and rows: "list_all is_task_row ts"
    and h: "check_facts ?tm fs = Inr h" and proj: "project_heads ?tm h = Inr proj"
    using assms(1) by (auto simp: validate_and_project_Inr [OF ts])
  obtain i where i: "dget t ''id'' = PStr i"
    using rows t(1,2) by (auto simp: list_all_length is_task_row_def is_str_iff)
  have row: "task_row (ts ! k) = (i, t)" "task_row (PDict t2) = (i, t2)" "is_task_row (PDict t2)"
    using t(2) i t2 by (simp_all add: task_row_def is_task_row_def)
  have tm': "?tm' = ?tm[k := (i, t2)]" using t(1) row by (simp add: map_update)
  have at_k: "?tm ! k = (i, t)" "k < length ?tm" and dist: "distinct (map fst ?tm)"
    using row t(1) ts(2) by simp_all
  have mt: "map_of ?tm i = Some t" using dist at_k by (metis map_of_is_SomeI nth_mem)
  have "map_of ?tm' = (map_of ?tm)(i \<mapsto> t2)" unfolding tm' using dist at_k by (simp add: map_of_update_at)
  moreover have "task_grows t t2" using t(3-5) t2 by (simp add: task_grows_def revision_of_Inr dget_or_def)
  ultimately have "map_grows ?tm ?tm'" using mt by (auto simp: map_grows_def task_grows_def)
  then have cf: "check_facts ?tm' fs = Inr h" using h check_facts_grows by blast
  have same: "project_head h (i, t2) = project_head h (i, t)"
    using t2 [of "''status_fact_id''"] by (simp add: project_head_def split: option.split)
  have "list_all2 (\<lambda>p q. project_head h p = Inr q) ?tm' proj"
    using proj at_k same unfolding tm'
    by (auto simp: project_heads_def map_r_Inr list_all2_conv_all_nth nth_list_update)
  then have ph: "project_heads ?tm' h = Inr proj" by (simp only: project_heads_def map_r_Inr)
  have "map (fst \<circ> task_row) (ts[k := PDict t2]) = map (fst \<circ> task_row) ts"
    using row t(1) by (simp add: map_update list_update_same_conv)
  then have dist': "distinct (map (fst \<circ> task_row) (ts[k := PDict t2]))" using ts(2) by simp
  have rows': "list_all is_task_row (ts[k := PDict t2])"
    using rows row(3) by (auto simp: list_all_iff dest!: set_update_subset_insert [THEN subsetD])
  from ph cf rows' fs show ?thesis by (subst validate_and_project_Inr [OF _ dist']) auto
qed

section \<open>Histories of a store\<close>

text \<open>
  What the chain stands for: one current status per Task. \<open>planning_run\<close> collects the ways the
  commands change the two documents; each records its effect on that abstract map.
\<close>

datatype planning_op = Create_Task string string | Move_Task string string | Edit_Task string

fun apply_planning_op :: "dict \<Rightarrow> planning_op \<Rightarrow> dict" where
  "apply_planning_op statuses (Create_Task i st) = dset statuses i (PStr st)"
| "apply_planning_op statuses (Move_Task i st) = dset statuses i (PStr st)"
| "apply_planning_op statuses (Edit_Task i) = statuses"

inductive planning_run :: "dict \<times> dict \<Rightarrow> planning_op list \<Rightarrow> dict \<times> dict \<Rightarrow> bool" where
  start: "planning_run s [] s"
| create: "planning_run s ops (bl, act) \<Longrightarrow> dget bl ''tasks'' = PList ts \<Longrightarrow>
     dget t ''id'' = PStr i \<Longrightarrow> i \<notin> set (map (fst \<circ> task_row) ts) \<Longrightarrow> dget t ''uid'' = PStr u \<Longrightarrow>
     revision_of t = Inr r \<Longrightarrow> dget t ''status'' = PStr st \<Longrightarrow> st \<in> set TASK_STATUSES \<Longrightarrow>
     planning_timestamp (PStr at) = Inr at \<Longrightarrow> provenance_ok actor prov \<Longrightarrow>
     append_bootstrap act t at actor prov = Inr (f, act', t') \<Longrightarrow>
     planning_run s (ops @ [Create_Task i st]) (dset bl ''tasks'' (PList (ts @ [PDict t'])), act')"
| move: "planning_run s ops (bl, act) \<Longrightarrow> dget bl ''tasks'' = PList ts \<Longrightarrow>
     k < length ts \<Longrightarrow> ts ! k = PDict t \<Longrightarrow> dget t ''id'' = PStr i \<Longrightarrow> dget t ''uid'' = PStr u \<Longrightarrow>
     revision_of t = Inr r \<Longrightarrow> r < MAX_REVISION \<Longrightarrow>
     validate_and_project bl act = Inr proj \<Longrightarrow> dget proj i = PStr ps \<Longrightarrow>
     st \<noteq> ps \<Longrightarrow> st \<in> set TASK_STATUSES \<Longrightarrow>
     planning_timestamp (PStr at) = Inr at \<Longrightarrow> provenance_ok actor prov \<Longrightarrow>
     append_transition act t (PStr ps) (PStr st) r (r + 1) at actor prov = Inr (f, act', t') \<Longrightarrow>
     planning_run s (ops @ [Move_Task i st])
       (dset bl ''tasks'' (PList (ts[k := PDict (dset t' ''revision'' (PInt (r + 1)))])), act')"
| edit: "planning_run s ops (bl, act) \<Longrightarrow> dget bl ''tasks'' = PList ts \<Longrightarrow>
     k < length ts \<Longrightarrow> ts ! k = PDict t \<Longrightarrow> dget t ''id'' = PStr i \<Longrightarrow>
     revision_of t = Inr r \<Longrightarrow> revision_of t2 = Inr r2 \<Longrightarrow> r \<le> r2 \<Longrightarrow>
     list_all (\<lambda>x. dget t2 x = dget t x) [''id'', ''uid'', ''status'', ''status_fact_id''] \<Longrightarrow>
     planning_run s (ops @ [Edit_Task i]) (dset bl ''tasks'' (PList (ts[k := PDict t2])), act)"

definition planning_good :: "dict \<times> dict \<Rightarrow> dict \<Rightarrow> bool" where
  "planning_good s statuses \<longleftrightarrow> validate_and_project (fst s) (snd s) = Inr statuses \<and>
     (\<exists>ts. dget (fst s) ''tasks'' = PList ts \<and> distinct (map (fst \<circ> task_row) ts))"

lemma project_keys:
  assumes "validate_and_project bl act = Inr proj" and "dget bl ''tasks'' = PList ts"
    and "distinct (map (fst \<circ> task_row) ts)"
  shows "map fst proj = map (fst \<circ> task_row) ts"
  using assms(1) project_heads_keys by (auto simp: validate_and_project_Inr [OF assms(2,3)] dest!: project_heads_keys)

lemma planning_run_good:
  "planning_run s ops s' \<Longrightarrow> planning_good s statuses \<Longrightarrow> planning_good s' (foldl apply_planning_op statuses ops)"
proof (induction rule: planning_run.induct)
  case (create s ops bl act ts t i u r st at actor prov f act' t')
  then have v: "validate_and_project bl act = Inr (foldl apply_planning_op statuses ops)"
    and d: "distinct (map (fst \<circ> task_row) ts)" by (auto simp: planning_good_def)
  have "i \<notin> fst ` set (foldl apply_planning_op statuses ops)"
    using project_keys [OF v create(2) d] create(4) by (metis set_map)
  then have "dset (foldl apply_planning_op statuses ops) i (PStr st) = foldl apply_planning_op statuses ops @ [(i, PStr st)]"
    by (simp add: dset_def update_fresh)
  moreover have "fst (task_row (PDict t')) = i"
    using append_bootstrap_Inr [OF create(11)] v create(3)
    by (auto simp: task_row_def validate_and_project_def split: pyval.splits)
  ultimately show ?case
    using bootstrap_valid [OF v create(2) d create(3-11)] d create(4) by (simp add: planning_good_def)
next
  case (move s ops bl act ts k t i u r proj ps st at actor prov f act' t')
  then have v: "validate_and_project bl act = Inr (foldl apply_planning_op statuses ops)"
    and d: "distinct (map (fst \<circ> task_row) ts)" by (auto simp: planning_good_def)
  have p: "proj = foldl apply_planning_op statuses ops" using v move(9) by simp
  obtain fs where fs: "dget act ''planning_status'' = PList fs"
    using v by (auto simp: validate_and_project_def split: pyval.splits)
  have t': "t' = dset t ''status_fact_id'' (PStr (next_fact_id (length fs)))"
    using append_transition_Inr(3) [OF move(15) fs] .
  have rows: "map (fst \<circ> task_row) (ts[k := PDict (dset t' ''revision'' (PInt (r + 1)))]) = map (fst \<circ> task_row) ts"
    using move(3-5) by (simp add: map_update list_update_same_conv task_row_def t')
  have "validate_and_project (dset bl ''tasks'' (PList (ts[k := PDict (dset t' ''revision'' (PInt (r + 1)))]))) act' =
    Inr (dset proj i (PStr st))"
    using move(7,8)
    by (intro transition_valid [OF move(9) move(2) d move(3-8) move(10-15)])
      (auto simp: t' revision_of_Inr)
  with rows d show ?case by (simp add: planning_good_def p)
next
  case (edit s ops bl act ts k t i r t2 r2)
  then have v: "validate_and_project bl act = Inr (foldl apply_planning_op statuses ops)"
    and d: "distinct (map (fst \<circ> task_row) ts)" by (auto simp: planning_good_def)
  have rows: "map (fst \<circ> task_row) (ts[k := PDict t2]) = map (fst \<circ> task_row) ts"
    using edit(3,4,9) by (simp add: map_update list_update_same_conv task_row_def)
  have "validate_and_project (dset bl ''tasks'' (PList (ts[k := PDict t2]))) act = Inr (foldl apply_planning_op statuses ops)"
    using edit(9) by (intro edit_valid [OF v edit(2) d edit(3,4,6-8)]) auto
  with rows d show ?case by (simp add: planning_good_def)
qed simp

section \<open>The facts of one Task\<close>

text \<open>
  Consecutive facts of a Task are linked: each names its predecessor, has a larger revision
  and another status; the first names none.
\<close>

definition fact_link :: "dict \<Rightarrow> dict \<Rightarrow> bool" where
  "fact_link p f \<longleftrightarrow> py_eq (dget f ''previous_fact_id'') (dget p ''id'') \<and>
     int_of (dget p ''new_revision'') < int_of (dget f ''new_revision'') \<and>
     py_eq (dget f ''prior_status'') (dget p ''status'') \<and> \<not> py_eq (dget f ''status'') (dget p ''status'')"

fun linked :: "dict list \<Rightarrow> bool" where
  "linked (p # f # fs) \<longleftrightarrow> fact_link p f \<and> linked (f # fs)"
| "linked _ \<longleftrightarrow> True"

lemma linked_snoc: "xs \<noteq> [] \<Longrightarrow> linked (xs @ [f]) \<longleftrightarrow> linked xs \<and> fact_link (last xs) f"
  by (induction xs rule: linked.induct) auto

definition facts_about :: "string \<Rightarrow> pyval list \<Rightarrow> dict list" where
  "facts_about i fs = filter (\<lambda>d. dget d ''task_id'' = PStr i) (map dict_of fs)"

lemma transition_link:
  assumes "validate_transition f p st = Inr n" and "head_ok tm i p" and "st = dget f ''status''"
  shows "fact_link p f"
proof -
  obtain m where m: "map_of p ''new_revision'' = Some (PInt m)" and
    p: "map_of p ''id'' = Some (dget p ''id'')" "map_of p ''status'' = Some (dget p ''status'')"
    using assms(2) by (auto simp: head_ok_def)
  have "dget p ''new_revision'' = PInt m" using m by (rule dget_map_of)
  with assms(1,3) m p show ?thesis
    by (auto simp: validate_transition_def fact_link_def result_iffs fact_revision_Inr Let_def split: if_splits)
qed

lemma check_facts_linked:
  "check_facts tm fs = Inr h \<Longrightarrow> list_all is_dict fs \<and> linked (facts_about i fs) \<and>
     map_of h i = (if facts_about i fs = [] then None else Some (last (facts_about i fs)))"
proof (induction fs arbitrary: h rule: rev_induct)
  case (snoc c fs)
  then obtain g where g: "check_facts tm fs = Inr g" "check_fact tm (Suc (length fs), c) g = Inr h"
    by (auto simp: check_facts_snoc result_iffs)
  then obtain f j t st n where f: "c = PDict f" "fact_task_and_status f tm = Inr (j, t, st)"
    "validate_fact_chain f (map_of g j) t st = Inr n" "h = AList.update j f g"
    by (auto simp: check_fact_def result_iffs envelope_Inr)
  note IH = snoc.IH [OF g(1)]
  show ?case
  proof (cases "i = j")
    case False
    with f IH show ?thesis by (auto simp: facts_about_def fact_task_Inr update_conv')
  next
    case True
    then have about: "facts_about i (fs @ [c]) = facts_about i fs @ [f]"
      using f(1,2) by (simp add: facts_about_def fact_task_Inr)
    have "linked (facts_about i fs @ [f])"
    proof (cases "facts_about i fs = []")
      case False
      then have p: "map_of g i = Some (last (facts_about i fs))" using IH by simp
      then have "validate_transition f (last (facts_about i fs)) st = Inr n"
        using f(3) True by (auto simp: validate_fact_chain_def result_iffs)
      with heads_ok [OF g(1) p] f(2) have "fact_link (last (facts_about i fs)) f"
        by (auto simp: fact_task_Inr intro: transition_link)
      with IH False show ?thesis by (simp add: linked_snoc)
    qed simp
    with about f(1,4) IH True show ?thesis by (simp add: update_conv')
  qed
qed (simp add: check_facts_def facts_about_def)

lemma task_facts_about:
  assumes "dget activity ''planning_status'' = PList fs" and "list_all is_dict fs"
  shows "task_facts activity i = Inr (facts_about i fs)"
proof -
  have "dget_or activity ''planning_status'' (PList []) = PList fs"
    using assms(1) by (auto simp: dget_def dget_or_def split: option.splits)
  moreover have "map_r as_dict fs = Inr (map dict_of fs)"
    using assms(2) by (intro map_r_pure) (auto simp: list_all_iff is_dict_iff)
  ultimately show ?thesis by (simp add: task_facts_def facts_about_def)
qed

section \<open>Properties\<close>

text \<open>
  C8. Starting from documents the validator accepts, with Task identifiers distinct, every
  sequence of bootstraps, transitions and edits leads to documents the validator accepts
  again, and what it projects is the abstract map of current statuses that the same sequence
  of operations computes: each create or move sets one status and nothing else changes.
\<close>

theorem planning_history_refines:
  assumes "planning_run (backlog, activity) ops (backlog', activity')"
    and "validate_and_project backlog activity = Inr statuses"
    and "dget backlog ''tasks'' = PList tasks" and "distinct (map (fst \<circ> task_row) tasks)"
  shows "validate_and_project backlog' activity' = Inr (foldl apply_planning_op statuses ops)"
  using planning_run_good [OF assms(1), of statuses] assms(2-4) by (simp add: planning_good_def)

text \<open>One store history with a create, an edit and a move, evaluated.\<close>

definition sample_task :: dict where
  "sample_task = [(''id'', PStr ''T-0001''), (''uid'', PStr ''u1''), (''status'', PStr ''open''), (''revision'', PInt 0)]"

definition sample_backlog :: dict where
  "sample_backlog = [(''tasks'', PList [])]"

definition sample_activity :: dict where
  "sample_activity = [(''planning_status'', PList [])]"

definition sample_created :: "dict \<times> dict \<times> dict" where
  "sample_created = (case append_bootstrap sample_activity sample_task ''2025-01-02T03:04:05Z'' ''local.user'' ''api.v1''
     of Inr x \<Rightarrow> x | Inl _ \<Rightarrow> ([], [], []))"

definition sample_moved :: "dict \<times> dict \<times> dict" where
  "sample_moved = (case append_transition (fst (snd sample_created)) (snd (snd sample_created))
       (PStr ''open'') (PStr ''started'') 0 1 ''2025-01-03T03:04:05Z'' ''local.user'' ''api.v1''
     of Inr x \<Rightarrow> x | Inl _ \<Rightarrow> ([], [], []))"

lemma sample_planning_run:
  "planning_run (sample_backlog, sample_activity) [Create_Task ''T-0001'' ''open'', Move_Task ''T-0001'' ''started'']
     ([(''tasks'', PList [PDict (dset (snd (snd sample_moved)) ''revision'' (PInt 1))])], fst (snd sample_moved))"
proof -
  have "planning_run (sample_backlog, sample_activity) ([] @ [Create_Task ''T-0001'' ''open''])
     (dset sample_backlog ''tasks'' (PList ([] @ [PDict (snd (snd sample_created))])), fst (snd sample_created))"
  proof (rule planning_run.create [OF planning_run.start, where t = sample_task and u = "''u1''" and r = 0
        and at = "''2025-01-02T03:04:05Z''" and actor = "''local.user''" and prov = "''api.v1''"
        and f = "fst sample_created"])
    show "planning_timestamp (PStr ''2025-01-02T03:04:05Z'') = Inr ''2025-01-02T03:04:05Z''" by code_simp
    show "provenance_ok ''local.user'' ''api.v1''" by (simp add: provenance_ok_def ALLOWED_PROVENANCE_def)
    show "append_bootstrap sample_activity sample_task ''2025-01-02T03:04:05Z'' ''local.user'' ''api.v1'' =
      Inr (fst sample_created, fst (snd sample_created), snd (snd sample_created))" by code_simp
  qed (simp_all add: sample_backlog_def sample_task_def dget_def dget_or_def revision_of_Inr MAX_REVISION_def TASK_STATUSES_def)
  then have c: "planning_run (sample_backlog, sample_activity) [Create_Task ''T-0001'' ''open'']
     ([(''tasks'', PList [PDict (snd (snd sample_created))])], fst (snd sample_created))"
    by (simp add: sample_backlog_def dset_def)
  have "planning_run (sample_backlog, sample_activity) ([Create_Task ''T-0001'' ''open''] @ [Move_Task ''T-0001'' ''started''])
     (dset [(''tasks'', PList [PDict (snd (snd sample_created))])] ''tasks''
        (PList ([PDict (snd (snd sample_created))][0 := PDict (dset (snd (snd sample_moved)) ''revision'' (PInt (0 + 1)))])),
      fst (snd sample_moved))"
  proof (rule planning_run.move [OF c, where t = "snd (snd sample_created)" and u = "''u1''"
        and at = "''2025-01-03T03:04:05Z''" and actor = "''local.user''" and prov = "''api.v1''"
        and f = "fst sample_moved" and ps = "''open''" and proj = "[(''T-0001'', PStr ''open'')]"])
    show "planning_timestamp (PStr ''2025-01-03T03:04:05Z'') = Inr ''2025-01-03T03:04:05Z''" by code_simp
    show "provenance_ok ''local.user'' ''api.v1''" by (simp add: provenance_ok_def ALLOWED_PROVENANCE_def)
    show "append_transition (fst (snd sample_created)) (snd (snd sample_created)) (PStr ''open'') (PStr ''started'')
       0 (0 + 1) ''2025-01-03T03:04:05Z'' ''local.user'' ''api.v1'' =
      Inr (fst sample_moved, fst (snd sample_moved), snd (snd sample_moved))" by code_simp
    show "validate_and_project [(''tasks'', PList [PDict (snd (snd sample_created))])] (fst (snd sample_created)) =
      Inr [(''T-0001'', PStr ''open'')]" by code_simp
    show "revision_of (snd (snd sample_created)) = Inr 0" by code_simp
    show "dget (snd (snd sample_created)) ''id'' = PStr ''T-0001''" by code_simp
    show "dget (snd (snd sample_created)) ''uid'' = PStr ''u1''" by code_simp
  qed (simp_all add: dget_def dget_or_def MAX_REVISION_def TASK_STATUSES_def)
  then show ?thesis by (simp add: dset_def)
qed

theorem planning_history_refines_witness:
  "validate_and_project [(''tasks'', PList [PDict (dset (snd (snd sample_moved)) ''revision'' (PInt 1))])]
     (fst (snd sample_moved)) = Inr [(''T-0001'', PStr ''started'')]"
  using planning_history_refines [OF sample_planning_run, of "[]" "[]"]
  by (simp add: sample_backlog_def sample_activity_def dget_def dget_or_def dset_def validate_and_project_def
      task_index_def check_facts_def project_heads_def)

text \<open>
  C14. In an accepted store the facts of every projected Task form a chain: there is at least
  one, each names its predecessor, raises the revision and changes the status, and the
  projected status is that of the last fact.
\<close>

theorem planning_facts_linked:
  assumes "validate_and_project backlog activity = Inr statuses"
    and "(i, status) \<in> set statuses"
  shows "\<exists>facts. task_facts activity i = Inr facts \<and> facts \<noteq> [] \<and> linked facts \<and>
    dget (last facts) ''status'' = status"
proof -
  obtain fs tm h where fs: "dget activity ''planning_status'' = PList fs"
    and h: "check_facts tm fs = Inr h" and p: "project_heads tm h = Inr statuses"
    using assms(1) by (auto simp: validate_and_project_def result_iffs split: pyval.splits)
  from list_all2_right [OF p [unfolded project_heads_def map_r_Inr] assms(2)]
  obtain f where f: "map_of h i = Some f" "map_of f ''status'' = Some status"
    by (auto simp: project_head_Inr)
  note l = check_facts_linked [OF h, of i]
  with f(1) have "facts_about i fs \<noteq> []" "last (facts_about i fs) = f" by (auto split: if_splits)
  with l task_facts_about [OF fs] dget_map_of [OF f(2)] show ?thesis by auto
qed

theorem planning_facts_linked_witness:
  "\<exists>facts. task_facts (fst (snd sample_moved)) ''T-0001'' = Inr facts \<and> facts \<noteq> [] \<and> linked facts \<and>
    dget (last facts) ''status'' = PStr ''started''"
proof (rule planning_facts_linked)
  show "validate_and_project [(''tasks'', PList [PDict (dset (snd (snd sample_moved)) ''revision'' (PInt 1))])]
     (fst (snd sample_moved)) = Inr [(''T-0001'', PStr ''started'')]" by code_simp
qed simp

end
