(* ===== verification/WS_Outcome.thy ===== *)
theory WS_Outcome
  imports WS_Domain "HOL-Library.Product_Lexorder"
begin

text \<open>
  \<open>workstack/outcome_write_invariant.py\<close>: the references from a Task to Key Results. A write
  that names a Key Result is refused unless its Objective exists once and owns it once, and
  the Objectives of the accepted references are added to the Task's own. Stored values may
  have any shape, so references and identifiers are dynamic values here; only
  \<open>canonicalize_key_result_refs\<close> runs on pairs of strings, which its one caller has just made.
\<close>

section \<open>Operations\<close>

definition outcome_error :: "string \<Rightarrow> dict \<Rightarrow> pyexc" where
  "outcome_error msg details = OutcomeWriteInvariantError msg details"

definition serialize_task_patch :: "dict \<Rightarrow> dict" where
  "serialize_task_patch patch =
     (if dhas patch ''key_result_refs'' \<and> dget patch ''key_result_refs'' = PNone
      then ddel patch ''key_result_refs'' else patch)"

definition ref_record :: "string \<times> string \<Rightarrow> pyval" where
  "ref_record = (\<lambda>(objective_id, key_result_id).
     PDict [(''objective_id'', PStr objective_id), (''key_result_id'', PStr key_result_id)])"

definition canonicalize_key_result_refs :: "(string \<times> string) list \<Rightarrow> pyval list" where
  "canonicalize_key_result_refs refs = map ref_record (sort (remdups refs))"

text \<open>The records of an Objective identifier, in the order the identifiers first appear.\<close>

type_synonym roster = "(pyval \<times> dict list) list"

fun roster_get :: "roster \<Rightarrow> pyval \<Rightarrow> dict list" where
  "roster_get [] k = []"
| "roster_get ((k', rs) # g) k = (if py_eq k' k then rs else roster_get g k)"

text \<open>\<open>item in seen\<close> for a set, which needs a hashable item.\<close>

definition hashable :: "pyval \<Rightarrow> bool" where
  "hashable v \<longleftrightarrow> \<not> is_list v \<and> \<not> is_dict v"

definition member_r :: "pyval \<Rightarrow> pyval list \<Rightarrow> bool result" where
  "member_r v seen = (if hashable v then Inr (list_ex (\<lambda>w. py_eq w v) seen) else Inl TypeError)"

text \<open>\<open>seen\<close> and \<open>result\<close> hold the same items, so one list stands for both.\<close>

definition append_new :: "pyval \<Rightarrow> pyval list \<Rightarrow> pyval list result" where
  "append_new item seen =
     bind_r (member_r item seen) (\<lambda>known. Inr (if known then seen else seen @ [item]))"

definition ensure_parent_objective_ids :: "pyval list \<Rightarrow> pyval list \<Rightarrow> pyval list result" where
  "ensure_parent_objective_ids objective_ids refs =
     bind_r (fold_r append_new objective_ids []) (\<lambda>seen.
     fold_r (\<lambda>ref seen. bind_r (getitem ref ''objective_id'') (\<lambda>parent. append_new parent seen)) refs seen)"

definition key_result_match_count :: "dict \<Rightarrow> pyval \<Rightarrow> nat result" where
  "key_result_match_count objective key_result_id =
     bind_r (iter_r (dget_or objective ''key_results'' (PList []))) (\<lambda>items.
     Inr (length (filter (\<lambda>item. is_dict item \<and>
       PStr (upper_strip (py_str (dget_or (dict_of item) ''id'' (PStr [])))) = key_result_id) items)))"

definition owns_elsewhere :: "pyval \<Rightarrow> pyval \<Rightarrow> pyval \<times> dict list \<Rightarrow> bool result" where
  "owns_elsewhere objective_id key_result_id = (\<lambda>(other_id, records).
     if \<not> py_eq other_id objective_id \<and> length records = 1
     then bind_r (key_result_match_count (hd records) key_result_id) (\<lambda>n. Inr (n = 1))
     else Inr False)"

definition other_owners :: "pyval \<Rightarrow> pyval \<Rightarrow> roster \<Rightarrow> pyval list result" where
  "other_owners objective_id key_result_id objectives_by_id =
     bind_r (map_r (owns_elsewhere objective_id key_result_id) objectives_by_id) (\<lambda>owned.
     Inr (map (fst \<circ> fst) (filter snd (zip objectives_by_id owned))))"

definition refuse_unowned :: "pyval \<Rightarrow> pyval \<Rightarrow> roster \<Rightarrow> nat \<Rightarrow> unit result" where
  "refuse_unowned objective_id key_result_id objectives_by_id owned =
     (if owned = 1 then Inr ()
      else if owned \<noteq> 0
      then Inl (outcome_error ''unknown key result reference'' [(''key_result_id'', key_result_id)])
      else bind_r (other_owners objective_id key_result_id objectives_by_id) (\<lambda>others.
        if others \<noteq> []
        then Inl (outcome_error ''key result is not owned by the referenced objective''
               [(''objective_id'', objective_id), (''key_result_id'', key_result_id)])
        else Inl (outcome_error ''unknown key result reference'' [(''key_result_id'', key_result_id)])))"

definition validate_key_result_ref_roster :: "pyval \<Rightarrow> roster \<Rightarrow> unit result" where
  "validate_key_result_ref_roster ref objectives_by_id =
     bind_r (getitem ref ''objective_id'') (\<lambda>objective_id.
     bind_r (getitem ref ''key_result_id'') (\<lambda>key_result_id.
     if \<not> hashable objective_id then Inl TypeError
     else let matches = roster_get objectives_by_id objective_id in
       if matches = []
       then Inl (outcome_error ''unknown key result reference'' [(''objective_id'', objective_id)])
       else if length matches \<noteq> 1
       then Inl (outcome_error ''key result reference objective is not uniquely resolvable''
              [(''objective_id'', objective_id)])
       else bind_r (key_result_match_count (hd matches) key_result_id) (\<lambda>owned.
            refuse_unowned objective_id key_result_id objectives_by_id owned)))"

definition validate_resulting_ref :: "pyval list \<Rightarrow> roster \<Rightarrow> pyval \<Rightarrow> unit result" where
  "validate_resulting_ref aligned objectives_by_id ref =
     bind_r (getitem ref ''objective_id'') (\<lambda>objective_id.
     bind_r (member_r objective_id aligned) (\<lambda>is_aligned.
     if \<not> is_aligned
     then Inl (outcome_error ''key result reference parent is not aligned'' [(''objective_id'', objective_id)])
     else let matches = roster_get objectives_by_id objective_id in
       if length matches \<noteq> 1
       then Inl (outcome_error ''key result reference objective is not uniquely resolvable''
              [(''objective_id'', objective_id)])
       else bind_r (getitem ref ''key_result_id'') (\<lambda>key_result_id.
            bind_r (key_result_match_count (hd matches) key_result_id) (\<lambda>owned.
            refuse_unowned objective_id key_result_id objectives_by_id owned))))"

definition validate_resulting_key_result_refs :: "pyval \<Rightarrow> pyval \<Rightarrow> roster \<Rightarrow> unit result" where
  "validate_resulting_key_result_refs refs objective_ids objectives_by_id =
     (if refs = PNone then Inr ()
      else bind_r (iter_r (por objective_ids (PList []))) (\<lambda>aligned.
        if \<not> list_all hashable aligned then Inl TypeError
        else bind_r (iter_r refs) (\<lambda>rs.
          fold_r (\<lambda>ref _. validate_resulting_ref aligned objectives_by_id ref) rs ())))"

definition align_parents :: "dict \<Rightarrow> dict \<Rightarrow> roster \<Rightarrow> dict result" where
  "align_parents changes task objectives_by_id =
     (if dhas changes ''key_result_refs'' \<and> truthy (dget changes ''key_result_refs'')
      then bind_r (iter_r (dget changes ''key_result_refs'')) (\<lambda>refs.
           bind_r (fold_r (\<lambda>ref _. validate_key_result_ref_roster ref objectives_by_id) refs ()) (\<lambda>_.
           bind_r (iter_r (por (dget task ''objective_ids'') (PList []))) (\<lambda>current_ids.
           bind_r (if dhas changes ''objective_ids'' then iter_r (dget changes ''objective_ids'')
                   else Inr current_ids) (\<lambda>base_ids.
           bind_r (ensure_parent_objective_ids base_ids refs) (\<lambda>aligned.
           Inr (if dhas changes ''objective_ids'' \<or> \<not> py_eq (PList aligned) (PList current_ids)
                then dset changes ''objective_ids'' (PList aligned) else changes))))))
      else Inr changes)"

definition apply_task_outcome_write_invariant :: "dict \<Rightarrow> dict \<Rightarrow> roster \<Rightarrow> dict result" where
  "apply_task_outcome_write_invariant changes task objectives_by_id =
     bind_r (align_parents changes task objectives_by_id) (\<lambda>changes.
     bind_r (validate_resulting_key_result_refs
         (dget_or changes ''key_result_refs'' (dget task ''key_result_refs''))
         (dget_or changes ''objective_ids'' (dget_or task ''objective_ids'' (PList [])))
         objectives_by_id) (\<lambda>_.
     Inr changes))"

section \<open>Laws\<close>

lemma append_new_Inr:
  "append_new v seen = Inr r \<longleftrightarrow> hashable v \<and> r = (if list_ex (\<lambda>w. py_eq w v) seen then seen else seen @ [v])"
  by (auto simp: append_new_def member_r_def result_iffs)

text \<open>On strings \<open>==\<close> is equality, and the loop computes first occurrences.\<close>

lemma string_list_ex: "list_ex (\<lambda>w. py_eq w (PStr s)) vs \<longleftrightarrow> PStr s \<in> set vs"
  by (auto simp: list_ex_iff)

lemma append_new_strings:
  "fold_r append_new (map PStr xs) (map PStr ys) =
   Inr (map PStr (foldl (\<lambda>acc x. if x \<in> set acc then acc else acc @ [x]) ys xs))"
proof (induction xs arbitrary: ys)
  case (Cons x xs)
  have "append_new (PStr x) (map PStr ys) = Inr (map PStr (if x \<in> set ys then ys else ys @ [x]))"
    using string_list_ex [of x "map PStr ys"] by (auto simp: append_new_Inr hashable_def)
  with Cons [of "if x \<in> set ys then ys else ys @ [x]"] show ?case by simp
qed simp

lemma ref_record_items [simp]:
  "getitem (ref_record p) ''objective_id'' = Inr (PStr (fst p))"
  "getitem (ref_record p) ''key_result_id'' = Inr (PStr (snd p))"
  by (simp_all add: ref_record_def dindex_def split: prod.splits)

lemma ensure_fold:
  "fold_r (\<lambda>ref seen. bind_r (getitem ref ''objective_id'') (\<lambda>parent. append_new parent seen))
     (map ref_record refs) seen = fold_r append_new (map (PStr \<circ> fst) refs) seen"
  by (induction refs arbitrary: seen) (auto intro!: bind_r_cong)

definition first_seen :: "string list \<Rightarrow> string list" where
  "first_seen xs = foldl (\<lambda>acc x. if x \<in> set acc then acc else acc @ [x]) [] xs"

lemma ensure_strings:
  "ensure_parent_objective_ids (map PStr ids) (map ref_record refs) = Inr (map PStr (first_seen (ids @ map fst refs)))"
  using append_new_strings [of ids "[]"] append_new_strings [of "map fst refs"]
  by (simp add: ensure_parent_objective_ids_def ensure_fold first_seen_def flip: map_map)

lemma first_seen_snoc: "first_seen (xs @ [x]) = (if x \<in> set (first_seen xs) then first_seen xs else first_seen xs @ [x])"
  by (simp add: first_seen_def)

lemma set_first_seen [simp]: "set (first_seen xs) = set xs"
  by (induction xs rule: rev_induct) (auto simp: first_seen_snoc first_seen_def [of "[]"])

lemma distinct_first_seen [simp]: "distinct (first_seen xs)"
  by (induction xs rule: rev_induct) (auto simp: first_seen_snoc first_seen_def [of "[]"])

lemma first_seen_distinct: "distinct xs \<Longrightarrow> first_seen xs = xs"
proof (induction xs rule: rev_induct)
  case (snoc x xs)
  then show ?case by (simp add: first_seen_snoc)
qed (simp add: first_seen_def)

lemma first_seen_append_known: "set ys \<subseteq> set xs \<Longrightarrow> first_seen (xs @ ys) = first_seen xs"
  by (induction ys rule: rev_induct) (auto simp: first_seen_snoc simp flip: append_assoc)

lemma first_seen_prefix: "\<exists>zs. first_seen (xs @ ys) = first_seen xs @ zs"
proof (induction ys rule: rev_induct)
  case (snoc y ys)
  then obtain zs where zs: "first_seen (xs @ ys) = first_seen xs @ zs" by blast
  show ?case
  proof (cases "y \<in> set (xs @ ys)")
    case True
    then have "first_seen (xs @ ys @ [y]) = first_seen (xs @ ys)"
      by (simp add: first_seen_snoc del: set_append flip: append_assoc)
    with zs show ?thesis by simp
  next
    case False
    then have "first_seen (xs @ ys @ [y]) = first_seen (xs @ ys) @ [y]"
      by (simp add: first_seen_snoc del: set_append flip: append_assoc)
    with zs show ?thesis by simp
  qed
qed simp

text \<open>A reference resolves: its Objective is one of the Task's, is recorded once and owns it once.\<close>

definition ref_resolves :: "roster \<Rightarrow> pyval list \<Rightarrow> pyval \<Rightarrow> bool" where
  "ref_resolves objectives_by_id objective_ids ref \<longleftrightarrow>
     (\<exists>oid krid objective. getitem ref ''objective_id'' = Inr oid \<and> getitem ref ''key_result_id'' = Inr krid \<and>
        list_ex (\<lambda>w. py_eq w oid) objective_ids \<and> roster_get objectives_by_id oid = [objective] \<and>
        key_result_match_count objective krid = Inr 1)"

lemma refuse_unowned_Inr [simp]: "refuse_unowned oid krid objs n = Inr () \<longleftrightarrow> n = 1"
  by (auto simp: refuse_unowned_def result_iffs split: if_splits)

lemma validate_resulting_ref_iff:
  "validate_resulting_ref ids objs ref = Inr () \<longleftrightarrow>
     ref_resolves objs ids ref \<and> (\<exists>oid. getitem ref ''objective_id'' = Inr oid \<and> hashable oid)"
  by (auto simp: validate_resulting_ref_def ref_resolves_def member_r_def result_iffs Let_def
      length_Suc_conv split: if_splits)

lemma validate_resulting_resolves:
  assumes "validate_resulting_key_result_refs refs ids objs = Inr ()" and "refs \<noteq> PNone"
  shows "\<exists>rs known. iter_r refs = Inr rs \<and> iter_r (por ids (PList [])) = Inr known \<and>
    (\<forall>ref \<in> set rs. ref_resolves objs known ref)"
  using assms
  by (auto simp: validate_resulting_key_result_refs_def result_iffs fold_r_unit_Inr validate_resulting_ref_iff
      split: if_splits)

lemma align_parents_fields:
  "align_parents changes task objs = Inr changes' \<Longrightarrow> x \<noteq> ''objective_ids'' \<Longrightarrow> map_of changes' x = map_of changes x"
  by (auto simp: align_parents_def result_iffs split: if_splits)

section \<open>Properties\<close>

text \<open>
  C11. An accepted write leaves every Key Result reference of the resulting Task resolvable:
  its Objective is among the Task's resulting Objectives, exists exactly once and owns the
  Key Result exactly once. The write changes no requested field but the Objective list.
\<close>

theorem outcome_write_resolves:
  assumes "apply_task_outcome_write_invariant changes task objectives = Inr changes'"
    and "refs = dget_or changes' ''key_result_refs'' (dget task ''key_result_refs'')" and "refs \<noteq> PNone"
    and "ids = dget_or changes' ''objective_ids'' (dget_or task ''objective_ids'' (PList []))"
  shows "(\<exists>rs known. iter_r refs = Inr rs \<and> iter_r (por ids (PList [])) = Inr known \<and>
      (\<forall>ref \<in> set rs. ref_resolves objectives known ref)) \<and>
    (\<forall>field. field \<noteq> ''objective_ids'' \<longrightarrow> map_of changes' field = map_of changes field)"
proof (rule conjI)
  from assms(1) have a: "align_parents changes task objectives = Inr changes'"
    and v: "validate_resulting_key_result_refs refs ids objectives = Inr ()"
    unfolding assms(2,4) by (auto simp: apply_task_outcome_write_invariant_def result_iffs)
  show "\<exists>rs known. iter_r refs = Inr rs \<and> iter_r (por ids (PList [])) = Inr known \<and>
      (\<forall>ref \<in> set rs. ref_resolves objectives known ref)"
    using v assms(3) by (rule validate_resulting_resolves)
  show "\<forall>field. field \<noteq> ''objective_ids'' \<longrightarrow> map_of changes' field = map_of changes field"
    using align_parents_fields [OF a] by blast
qed

text \<open>
  C36. Aligning the parents of a list of references keeps the order of the Objectives the Task
  names, adds each missing parent once at the end, yields no duplicates and is idempotent.
\<close>

theorem parent_alignment:
  "\<exists>aligned. ensure_parent_objective_ids (map PStr ids) (map ref_record refs) = Inr (map PStr aligned) \<and>
     distinct aligned \<and> set aligned = set ids \<union> fst ` set refs \<and>
     (\<exists>added. aligned = first_seen ids @ added) \<and>
     ensure_parent_objective_ids (map PStr aligned) (map ref_record refs) = Inr (map PStr aligned)"
proof (rule exI, intro conjI)
  let ?a = "first_seen (ids @ map fst refs)"
  show "ensure_parent_objective_ids (map PStr ids) (map ref_record refs) = Inr (map PStr ?a)"
    by (rule ensure_strings)
  have "set (map fst refs) \<subseteq> set ?a" by auto
  then show "ensure_parent_objective_ids (map PStr ?a) (map ref_record refs) = Inr (map PStr ?a)"
    by (simp add: ensure_strings first_seen_append_known first_seen_distinct)
  show "\<exists>added. ?a = first_seen ids @ added" by (rule first_seen_prefix)
qed auto

definition sample_roster :: roster where
  "sample_roster = [(PStr ''O-1'', [[(''id'', PStr ''O-1''),
      (''key_results'', PList [PDict [(''id'', PStr ''KR-1'')]])]])]"

theorem outcome_write_resolves_witness:
  "\<exists>rs known. iter_r (PList [ref_record (''O-1'', ''KR-1'')]) = Inr rs \<and>
     iter_r (por (PList [PStr ''O-1'']) (PList [])) = Inr known \<and> list_all (ref_resolves sample_roster known) rs"
proof -
  have a: "apply_task_outcome_write_invariant [(''key_result_refs'', PList [ref_record (''O-1'', ''KR-1'')])]
      [] sample_roster =
    Inr [(''key_result_refs'', PList [ref_record (''O-1'', ''KR-1'')]), (''objective_ids'', PList [PStr ''O-1''])]"
    by code_simp
  show ?thesis
    using outcome_write_resolves [OF a, of "PList [ref_record (''O-1'', ''KR-1'')]" "PList [PStr ''O-1'']"]
    by (simp add: dget_or_def list_all_iff)
qed

end
