(* ===== verification/WS_TaskRules.thy ===== *)
theory WS_TaskRules
  imports WS_Outcome
begin

text \<open>
  \<open>workstack/service_task_rules.py\<close>: the rules of Task creation and Task patches, decided
  before any document is written - normalising each field, validating the two relationships
  with a search for cycles, and building the new record. The \<open>uuid5\<close> of a workspace and a Task
  is a parameter, and the two clock reads of a new record are its last arguments.
  The message text of a date that does not parse is the library's own and is not modelled.
\<close>

section \<open>Following a relationship\<close>

type_synonym tasks_by_id = "(string \<times> dict) list"

definition nonempty_strings :: "pyval list \<Rightarrow> string list" where
  "nonempty_strings vs = map str_of (filter (\<lambda>v. is_str v \<and> str_of v \<noteq> []) vs)"

text \<open>The identifiers one step away, in the order they are pushed.\<close>

definition related :: "tasks_by_id \<Rightarrow> string \<Rightarrow> string \<Rightarrow> string list result" where
  "related tasks field current =
     (case map_of tasks current of
        None \<Rightarrow> Inr []
      | Some task \<Rightarrow>
          (if field = ''parent_id''
           then Inr (nonempty_strings [dget task ''parent_id''])
           else bind_r (iter_r (dget_or task ''dependencies'' (PList []))) (\<lambda>ds.
                Inr (nonempty_strings ds))))"

definition related_or :: "tasks_by_id \<Rightarrow> string \<Rightarrow> string \<Rightarrow> string list" where
  "related_or tasks field current = (case related tasks field current of Inl _ \<Rightarrow> [] | Inr xs \<Rightarrow> xs)"

text \<open>Every identifier the search can push: those of some record, which are finitely many.\<close>

definition mentioned :: "tasks_by_id \<Rightarrow> string \<Rightarrow> string list" where
  "mentioned tasks field = concat (map (\<lambda>(i, t). related_or tasks field i) tasks)"

lemma related_mentioned: "related tasks field i = Inr xs \<Longrightarrow> set xs \<subseteq> set (mentioned tasks field)"
proof (cases "map_of tasks i")
  case (Some t)
  then have "(i, t) \<in> set tasks" by (rule map_of_SomeD)
  then show "related tasks field i = Inr xs \<Longrightarrow> ?thesis"
    by (force simp: mentioned_def related_or_def)
qed (simp add: related_def)

text \<open>
  The worklist: \<open>pending\<close> is the Python list with its end, where \<open>pop\<close> and \<open>extend\<close> work, first.
  Each round either drops a visited identifier or visits one more of finitely many.
\<close>

function relationship_search ::
  "tasks_by_id \<Rightarrow> string \<Rightarrow> pyval \<Rightarrow> string list \<Rightarrow> string list \<Rightarrow> bool result" where
  "relationship_search tasks field target [] visited = Inr False"
| "relationship_search tasks field target (current # pending) visited =
     (if PStr current = target then Inr True
      else if current \<in> set visited then relationship_search tasks field target pending visited
      else bind_r (related tasks field current) (\<lambda>succs.
           relationship_search tasks field target (rev succs @ pending) (current # visited)))"
  by pat_completeness auto

termination
proof (relation "measures [\<lambda>(ts, f, t, p, v). card ((set (mentioned ts f) \<union> set p) - set v),
    \<lambda>(ts, f, t, p, v). length p]", goal_cases)
  case (2 ts f t c p v)
  have "card ((set (mentioned ts f) \<union> set p) - set v) \<le> card ((set (mentioned ts f) \<union> set (c # p)) - set v)"
    by (rule card_mono) auto
  then show ?case by auto
next
  case (3 ts f t c p v succs)
  then have "set succs \<subseteq> set (mentioned ts f)" by (auto dest: related_mentioned)
  with 3(2) have "(set (mentioned ts f) \<union> set (rev succs @ p)) - set (c # v)
      \<subset> (set (mentioned ts f) \<union> set (c # p)) - set v" by auto
  then have "card ((set (mentioned ts f) \<union> set (rev succs @ p)) - set (c # v))
      < card ((set (mentioned ts f) \<union> set (c # p)) - set v)"
    by (rule psubset_card_mono [rotated]) auto
  then show ?case by simp
qed simp

definition relationship_reaches ::
  "tasks_by_id \<Rightarrow> string list \<Rightarrow> pyval \<Rightarrow> string \<Rightarrow> bool result" where
  "relationship_reaches tasks start_ids target field =
     relationship_search tasks field target (rev start_ids) []"

section \<open>Normalising a patch\<close>

text \<open>
  Every helper rewrites the one dictionary of changes, so it maps the dictionary to the
  dictionary.
\<close>

definition validate_patch_local_date :: "pyval \<Rightarrow> string \<Rightarrow> unit result" where
  "validate_patch_local_date v field =
     (let refusal = Inl (domain_error (field @ '' must be an ISO date or null'') []) in
      case v of
        PNone \<Rightarrow> Inr ()
      | PStr s \<Rightarrow>
          (case date_fromisoformat s of
             None \<Rightarrow> refusal
           | Some parsed \<Rightarrow> if date_isoformat parsed \<noteq> s then refusal else Inr ())
      | _ \<Rightarrow> refusal)"

definition normalize_patch_title :: "dict \<Rightarrow> dict result" where
  "normalize_patch_title changes =
     (if \<not> dhas changes ''title'' then Inr changes
      else if \<not> is_str (dget changes ''title'') then Inl (domain_error ''title must be a string'' [])
      else bind_r (required_text (dget changes ''title'') ''title'') (\<lambda>text.
           Inr (dset changes ''title'' (PStr text))))"

definition normalize_patch_detail :: "dict \<Rightarrow> dict result" where
  "normalize_patch_detail changes =
     (if \<not> dhas changes ''detail'' then Inr changes
      else if \<not> is_str (dget changes ''detail'') then Inl (domain_error ''detail must be a string'' [])
      else Inr (dset changes ''detail'' (PStr (py_strip (str_of (dget changes ''detail''))))))"

definition validate_patch_enums :: "dict \<Rightarrow> unit result" where
  "validate_patch_enums changes =
     (if dhas changes ''status'' \<and> \<not> in_tuple (dget changes ''status'') TASK_STATUSES
      then Inl (domain_error ''invalid task status'' [])
      else if dhas changes ''priority'' \<and> \<not> in_tuple (dget changes ''priority'') PRIORITIES
      then Inl (domain_error ''invalid task priority'' [])
      else Inr ())"

definition estimate_ok :: "pyval \<Rightarrow> bool" where
  "estimate_ok v \<longleftrightarrow> v = PNone \<or> is_int v \<and> 1 \<le> int_of v \<and> int_of v \<le> 1440"

definition ESTIMATE_MESSAGE :: string where
  "ESTIMATE_MESSAGE = ''estimate_minutes must be null or an integer from 1 to 1440''"

definition validate_patch_estimate :: "dict \<Rightarrow> unit result" where
  "validate_patch_estimate changes =
     (if \<not> estimate_ok (dget changes ''estimate_minutes'') then Inl (domain_error ESTIMATE_MESSAGE [])
      else Inr ())"

definition normalize_patch_scalar_fields :: "dict \<Rightarrow> dict result" where
  "normalize_patch_scalar_fields changes =
     bind_r (normalize_patch_title changes) (\<lambda>changes.
     bind_r (normalize_patch_detail changes) (\<lambda>changes.
     bind_r (validate_patch_enums changes) (\<lambda>_.
     bind_r (fold_r (\<lambda>field _. if dhas changes field then validate_patch_local_date (dget changes field) field
                               else Inr ()) [''due'', ''scheduled''] ()) (\<lambda>_.
     bind_r (validate_patch_estimate changes) (\<lambda>_.
     Inr changes)))))"

definition require_patch_array :: "dict \<Rightarrow> string \<Rightarrow> unit result" where
  "require_patch_array changes field =
     (if dhas changes field \<and> \<not> is_list (dget changes field)
      then Inl (domain_error (field @ '' must be an array'') []) else Inr ())"

text \<open>The array of strings under a field; the caller has checked that it is an array.\<close>

definition patch_strings :: "dict \<Rightarrow> string \<Rightarrow> string list result" where
  "patch_strings changes field =
     bind_r (iter_r (dget changes field)) (\<lambda>items.
     if list_ex (\<lambda>item. \<not> is_str item) items
     then Inl (domain_error (field @ '' entries must be strings'') [])
     else Inr (map str_of items))"

definition nonblank :: "string list \<Rightarrow> string list" where
  "nonblank ss = filter (\<lambda>s. py_strip s \<noteq> []) ss"

definition normal_tags :: "string list \<Rightarrow> string list" where
  "normal_tags ss = sorted_set (map py_strip (nonblank ss))"

definition normal_ids :: "string list \<Rightarrow> string list" where
  "normal_ids ss = sorted_set (map upper_strip (nonblank ss))"

definition normalize_patch_tags :: "dict \<Rightarrow> dict result" where
  "normalize_patch_tags changes =
     (if \<not> dhas changes ''tags'' then Inr changes
      else bind_r (patch_strings changes ''tags'') (\<lambda>items.
           Inr (dset changes ''tags'' (strs (normal_tags items)))))"

text \<open>\<open>sorted(set(ids) - known)\<close> and the like: the identifiers are strings, so only the strings
  of \<open>known\<close> matter.\<close>

definition missing_from :: "string list \<Rightarrow> pyval list \<Rightarrow> string list" where
  "missing_from ids known = sorted_set (filter (\<lambda>i. PStr i \<notin> set known) ids)"

definition normalize_patch_objectives :: "dict \<Rightarrow> pyval list \<Rightarrow> dict result" where
  "normalize_patch_objectives changes objectives =
     (if \<not> dhas changes ''objective_ids'' then Inr changes
      else bind_r (patch_strings changes ''objective_ids'') (\<lambda>items.
        let ids = normal_ids items; missing = missing_from ids objectives in
        if missing \<noteq> [] then Inl (domain_error ''unknown objective ids'' [(''ids'', strs missing)])
        else Inr (dset changes ''objective_ids'' (strs ids))))"

definition normalized_ref_id :: "pyval \<Rightarrow> string \<Rightarrow> string result" where
  "normalized_ref_id v field =
     (if \<not> is_str v then Inl (domain_error (''key_result_refs '' @ field @ '' must be a string'') [])
      else let normalized = upper_strip (str_of v) in
        if normalized = [] then Inl (domain_error (''key_result_refs '' @ field @ '' must not be blank'') [])
        else Inr normalized)"

definition normalized_key_result_ref :: "pyval \<Rightarrow> (string \<times> string) result" where
  "normalized_key_result_ref item =
     (case item of
        PDict d \<Rightarrow>
          (if \<not> exact_keys d KEY_RESULT_REF_FIELDS
           then Inl (domain_error ''key_result_refs entries must be exact scoped pairs'' [])
           else bind_r (normalized_ref_id (dget d ''objective_id'') ''objective_id'') (\<lambda>objective_id.
                bind_r (normalized_ref_id (dget d ''key_result_id'') ''key_result_id'') (\<lambda>key_result_id.
                Inr (objective_id, key_result_id))))
      | _ \<Rightarrow> Inl (domain_error ''key_result_refs entries must be exact scoped pairs'' []))"

definition normalize_patch_key_result_refs :: "dict \<Rightarrow> dict result" where
  "normalize_patch_key_result_refs changes =
     (if \<not> dhas changes ''key_result_refs'' then Inr changes
      else bind_r (iter_r (dget changes ''key_result_refs'')) (\<lambda>items.
           bind_r (map_r normalized_key_result_ref items) (\<lambda>refs.
           Inr (dset changes ''key_result_refs'' (PList (canonicalize_key_result_refs refs))))))"

definition outcome_refusal :: "pyexc \<Rightarrow> pyexc option" where
  "outcome_refusal e =
     (case e of OutcomeWriteInvariantError msg details \<Rightarrow> Some (domain_error msg details) | _ \<Rightarrow> None)"

definition apply_outcome_invariant :: "dict \<Rightarrow> dict \<Rightarrow> roster \<Rightarrow> dict result" where
  "apply_outcome_invariant changes task objectives_by_id =
     catch_r (apply_task_outcome_write_invariant changes task objectives_by_id) outcome_refusal"

fun roster_add :: "pyval \<Rightarrow> dict \<Rightarrow> roster \<Rightarrow> roster" where
  "roster_add k r [] = [(k, [r])]"
| "roster_add k r ((k', rs) # g) = (if py_eq k' k then (k', rs @ [r]) # g else (k', rs) # roster_add k r g)"

definition objective_records_by_id :: "pyval list \<Rightarrow> roster result" where
  "objective_records_by_id records =
     fold_r (\<lambda>record grouped. bind_r (getitem record ''id'') (\<lambda>i.
       if hashable i then Inr (roster_add i (dict_of record) grouped) else Inl TypeError)) records []"

definition normalize_patch_dependencies :: "dict \<Rightarrow> dict result" where
  "normalize_patch_dependencies changes =
     (if \<not> dhas changes ''dependencies'' then Inr changes
      else bind_r (patch_strings changes ''dependencies'') (\<lambda>items.
           Inr (dset changes ''dependencies'' (strs (normal_ids items)))))"

definition normalize_patch_collection_fields :: "dict \<Rightarrow> pyval list \<Rightarrow> dict result" where
  "normalize_patch_collection_fields changes objectives =
     bind_r (fold_r (\<lambda>field _. require_patch_array changes field)
       [''tags'', ''objective_ids'', ''dependencies'', ''key_result_refs''] ()) (\<lambda>_.
     bind_r (normalize_patch_tags changes) (\<lambda>changes.
     bind_r (normalize_patch_objectives changes objectives) (\<lambda>changes.
     bind_r (normalize_patch_dependencies changes) (\<lambda>changes.
     normalize_patch_key_result_refs changes))))"

section \<open>Validating the relationships of a patch\<close>

definition validate_patch_dependencies :: "dict \<Rightarrow> dict \<Rightarrow> tasks_by_id \<Rightarrow> unit result" where
  "validate_patch_dependencies changes task tasks =
     (if \<not> dhas changes ''dependencies'' then Inr ()
      else let deps = map str_of (list_of (dget changes ''dependencies''));
               missing = missing_from deps (map (PStr \<circ> fst) tasks) in
        bind_r (if missing \<noteq> [] then Inr True
                else bind_r (dindex task ''id'') (\<lambda>i. Inr (i \<in> set (map PStr deps)))) (\<lambda>invalid.
        if invalid then Inl (domain_error ''invalid dependency ids'' [(''ids'', strs missing)])
        else bind_r (map_r (\<lambda>dependency. bind_r (dindex task ''id'') (\<lambda>i.
               relationship_reaches tasks [dependency] i ''dependencies'')) deps) (\<lambda>flags.
             let cyclic = map fst (filter snd (zip deps flags)) in
             if cyclic \<noteq> []
             then Inl (domain_error ''dependency relationship would create a cycle'' [(''ids'', strs cyclic)])
             else Inr ())))"

definition normal_parent :: "pyval \<Rightarrow> pyval result" where
  "normal_parent parent =
     (case parent of
        PNone \<Rightarrow> Inr PNone
      | PStr s \<Rightarrow> Inr (if s = [] then PNone else PStr (upper_strip s))
      | _ \<Rightarrow> Inl (domain_error ''parent_id must be a task ID or null'' []))"

definition normalize_and_validate_patch_parent :: "dict \<Rightarrow> dict \<Rightarrow> tasks_by_id \<Rightarrow> dict result" where
  "normalize_and_validate_patch_parent changes task tasks =
     (if \<not> dhas changes ''parent_id'' then Inr changes
      else bind_r (normal_parent (dget changes ''parent_id'')) (\<lambda>parent.
           bind_r (dindex task ''id'') (\<lambda>task_id.
           if py_eq parent task_id \<or> truthy parent \<and> map_of tasks (str_of parent) = None
           then Inl (domain_error ''invalid parent task'' [])
           else bind_r (if truthy parent
                        then relationship_reaches tasks [str_of parent] task_id ''parent_id''
                        else Inr False) (\<lambda>cyclic.
             if cyclic
             then Inl (domain_error ''parent relationship would create a cycle'' [(''id'', parent)])
             else Inr (dset changes ''parent_id'' parent)))))"

definition normalize_and_validate_patch_relationships :: "dict \<Rightarrow> dict \<Rightarrow> tasks_by_id \<Rightarrow> dict result" where
  "normalize_and_validate_patch_relationships changes task tasks =
     bind_r (validate_patch_dependencies changes task tasks) (\<lambda>_.
     normalize_and_validate_patch_parent changes task tasks)"

definition patch_change_set ::
  "dict \<Rightarrow> dict \<Rightarrow> tasks_by_id \<Rightarrow> pyval list \<Rightarrow> (dict \<times> pyval) result" where
  "patch_change_set patch task tasks objectives =
     bind_r (normalize_patch_scalar_fields (ddel patch ''revision'')) (\<lambda>changes.
     bind_r (normalize_patch_collection_fields changes objectives) (\<lambda>changes.
     bind_r (normalize_and_validate_patch_relationships changes task tasks) (\<lambda>changes.
     Inr (ddel changes ''status'', dget changes ''status''))))"

definition patch_changed_fields :: "dict \<Rightarrow> pyval \<Rightarrow> pyval \<Rightarrow> string list" where
  "patch_changed_fields changes requested_status current_status =
     sort (dkeys changes) @
     (if requested_status \<noteq> PNone \<and> \<not> py_eq requested_status current_status then [''status''] else [])"

section \<open>A new Task\<close>

definition validate_new_task_date :: "pyval \<Rightarrow> unit result" where
  "validate_new_task_date v =
     (if \<not> truthy v then Inr ()
      else case v of
        PStr s \<Rightarrow> (if date_fromisoformat s = None then Inl (ValueErr ''Invalid isoformat string'') else Inr ())
      | _ \<Rightarrow> Inl TypeError)"

definition PRIORITY_MESSAGE :: string where
  "PRIORITY_MESSAGE = ''priority must be one of '' @ py_join '', '' PRIORITIES"

definition validate_new_task_schedule :: "pyval \<Rightarrow> pyval \<Rightarrow> pyval \<Rightarrow> pyval \<Rightarrow> unit result" where
  "validate_new_task_schedule priority due scheduled estimate_minutes =
     (if \<not> in_tuple priority PRIORITIES then Inl (ValueErr PRIORITY_MESSAGE)
      else bind_r (validate_new_task_date due) (\<lambda>_.
           bind_r (validate_new_task_date scheduled) (\<lambda>_.
           if \<not> estimate_ok estimate_minutes then Inl (ValueErr ESTIMATE_MESSAGE) else Inr ())))"

definition normalize_new_task_relationships ::
  "pyval list \<Rightarrow> pyval \<Rightarrow> pyval list \<Rightarrow> (pyval \<times> string list) result" where
  "normalize_new_task_relationships tasks parent_id dependencies =
     bind_r (map_r (\<lambda>item. bind_r (getitem item ''id'') (\<lambda>i.
       if hashable i then Inr i else Inl TypeError)) tasks) (\<lambda>known.
     bind_r (if \<not> truthy parent_id then Inr PNone
             else case parent_id of PStr s \<Rightarrow> Inr (PStr (upper_strip s)) | _ \<Rightarrow> Inl AttributeError) (\<lambda>parent.
     let deps = normal_ids (map py_str dependencies);
         referenced = (if truthy parent then [str_of parent] else []) @ deps;
         unknown = missing_from referenced known in
     if unknown \<noteq> [] then Inl (ValueErr (''unknown task ids: '' @ py_join '', '' unknown))
     else Inr (parent, deps)))"

definition new_task_record ::
  "(string \<Rightarrow> string \<Rightarrow> string result) \<Rightarrow> string \<Rightarrow> string \<Rightarrow> pyval \<Rightarrow> pyval \<Rightarrow> pyval \<Rightarrow> pyval \<Rightarrow> pyval \<Rightarrow>
   pyval \<Rightarrow> pyval list \<Rightarrow> pyval list \<Rightarrow> pyval \<Rightarrow> string list \<Rightarrow> string \<Rightarrow> string \<Rightarrow> dict result" where
  "new_task_record uuid5 task_id workspace_id title detail priority due scheduled estimate_minutes
     tags objective_ids parent_id dependencies day1 day2 =
     bind_r (uuid5 workspace_id task_id) (\<lambda>uid.
     bind_r (required_text title ''title'') (\<lambda>title.
     Inr [(''id'', PStr task_id), (''uid'', PStr uid), (''title'', PStr title),
       (''detail'', PStr (py_strip (py_str (por detail (PStr []))))), (''status'', PStr ''open''),
       (''priority'', priority), (''due'', por due PNone), (''scheduled'', por scheduled PNone),
       (''estimate_minutes'', estimate_minutes),
       (''tags'', strs (normal_tags (map py_str tags))),
       (''objective_ids'', strs (normal_ids (map py_str objective_ids))),
       (''parent_id'', parent_id), (''dependencies'', strs dependencies),
       (''subtasks'', PList []), (''notes'', PList []),
       (''created'', PStr day1), (''updated_at'', PStr day2), (''revision'', PInt 0)]))"

section \<open>The strict create body\<close>

definition field_error :: "string \<Rightarrow> string \<Rightarrow> pyexc" where
  "field_error msg field = domain_error msg [(''field'', PStr field)]"

definition validate_task_create_shape :: "pyval \<Rightarrow> dict result" where
  "validate_task_create_shape body =
     (case body of
        PDict d \<Rightarrow>
          (let unknown = sorted_set (filter (\<lambda>k. k \<notin> set TASK_CREATE_FIELDS) (dkeys d)) in
           if unknown \<noteq> [] then Inl (domain_error ''task create has unknown fields'' [(''fields'', strs unknown)])
           else Inr d)
      | _ \<Rightarrow> Inl (domain_error ''request body must be a JSON object'' []))"

definition task_create_text_fields :: "dict \<Rightarrow> (string \<times> string \<times> string) result" where
  "task_create_text_fields body =
     (let title = dget body ''title''; detail = dget_or body ''detail'' (PStr []);
          priority = dget_or body ''priority'' (PStr ''P2'') in
      if \<not> is_str title \<or> py_strip (str_of title) = []
      then Inl (field_error ''title must be a non-empty string'' ''title'')
      else if \<not> is_str detail then Inl (field_error ''detail must be a string'' ''detail'')
      else if \<not> is_str priority \<or> str_of priority \<notin> set PRIORITIES
      then Inl (field_error PRIORITY_MESSAGE ''priority'')
      else Inr (py_strip (str_of title), py_strip (str_of detail), str_of priority))"

definition task_create_date :: "dict \<Rightarrow> string \<Rightarrow> pyval result" where
  "task_create_date body field =
     (let refusal = Inl (field_error (field @ '' must be null or YYYY-MM-DD'') field) in
      case dget body field of
        PNone \<Rightarrow> Inr PNone
      | PStr s \<Rightarrow>
          (case date_fromisoformat s of
             None \<Rightarrow> refusal
           | Some parsed \<Rightarrow> if date_isoformat parsed \<noteq> s then refusal else Inr (PStr s))
      | _ \<Rightarrow> refusal)"

definition task_create_estimate :: "dict \<Rightarrow> pyval result" where
  "task_create_estimate body =
     (let v = dget body ''estimate_minutes'' in
      if \<not> estimate_ok v then Inl (field_error ESTIMATE_MESSAGE ''estimate_minutes'') else Inr v)"

definition task_create_string_list :: "dict \<Rightarrow> string \<Rightarrow> bool \<Rightarrow> string list result" where
  "task_create_string_list body field uppercase =
     (case dget_or body field (PList []) of
        PList vs \<Rightarrow>
          (if list_ex (\<lambda>v. \<not> is_str v) vs
           then Inl (field_error (field @ '' must be an array of strings'') field)
           else let stripped = map (py_strip \<circ> str_of) vs;
                    normalized = (if uppercase then map py_upper stripped else stripped)
                in Inr (sorted_set (filter (\<lambda>s. s \<noteq> []) normalized)))
      | _ \<Rightarrow> Inl (field_error (field @ '' must be an array of strings'') field))"

section \<open>The search is reachability\<close>

definition relation :: "tasks_by_id \<Rightarrow> string \<Rightarrow> (string \<times> string) set" where
  "relation tasks field = {(a, b). b \<in> set (related_or tasks field a)}"

lemma relation_related: "related tasks field a = Inr xs \<Longrightarrow> (a, b) \<in> relation tasks field \<longleftrightarrow> b \<in> set xs"
  by (simp add: relation_def related_or_def)

lemma search_True:
  "relationship_search tasks field target p v = Inr True \<Longrightarrow>
   \<exists>a \<in> set p. \<exists>t. target = PStr t \<and> (a, t) \<in> (relation tasks field)\<^sup>*"
proof (induction tasks field target p v rule: relationship_search.induct)
  case (2 tasks field target c p v)
  consider "PStr c = target" | "PStr c \<noteq> target" "c \<in> set v" | "PStr c \<noteq> target" "c \<notin> set v" by blast
  then show ?case
  proof cases
    case 3
    with 2(3) obtain xs where xs: "related tasks field c = Inr xs"
      and f: "relationship_search tasks field target (rev xs @ p) (c # v) = Inr True"
      by (auto simp: result_iffs)
    from 2(2) [OF 3 xs f] obtain a t where a: "a \<in> set (rev xs @ p)" "target = PStr t"
      "(a, t) \<in> (relation tasks field)\<^sup>*" by blast
    then show ?thesis using relation_related [OF xs] by (auto intro: converse_rtrancl_into_rtrancl)
  qed (use 2 in auto)
qed simp

lemma search_False:
  "relationship_search tasks field target p v = Inr False \<Longrightarrow>
   (\<forall>a \<in> set v. PStr a \<noteq> target \<and> (\<forall>b. (a, b) \<in> relation tasks field \<longrightarrow> b \<in> set v \<union> set p)) \<Longrightarrow>
   \<exists>W. set v \<union> set p \<subseteq> W \<and> (\<forall>a \<in> W. PStr a \<noteq> target \<and> (\<forall>b. (a, b) \<in> relation tasks field \<longrightarrow> b \<in> W))"
proof (induction tasks field target p v rule: relationship_search.induct)
  case (1 tasks field target v)
  then show ?case by (intro exI [of _ "set v"]) auto
next
  case (2 tasks field target c p v)
  from 2(3) have c: "PStr c \<noteq> target" by auto
  show ?case
  proof (cases "c \<in> set v")
    case True
    with 2(1) [OF c True] 2(3,4) c show ?thesis by (auto simp: insert_absorb)
  next
    case False
    with 2(3) c obtain xs where xs: "related tasks field c = Inr xs"
      and f: "relationship_search tasks field target (rev xs @ p) (c # v) = Inr False"
      by (auto simp: result_iffs)
    have "\<forall>a \<in> set (c # v). PStr a \<noteq> target \<and>
        (\<forall>b. (a, b) \<in> relation tasks field \<longrightarrow> b \<in> set (c # v) \<union> set (rev xs @ p))"
      using 2(4) c relation_related [OF xs] by auto
    from 2(2) [OF c False xs f this] show ?thesis by auto
  qed
qed

lemma reaches_iff:
  assumes "relationship_reaches tasks starts target field = Inr b"
  shows "b \<longleftrightarrow> (\<exists>a \<in> set starts. \<exists>t. target = PStr t \<and> (a, t) \<in> (relation tasks field)\<^sup>*)"
proof (cases b)
  case True
  with search_True [of tasks field target "rev starts" "[]"] assms show ?thesis
    by (simp add: relationship_reaches_def)
next
  case False
  with assms search_False [of tasks field target "rev starts" "[]"]
  obtain W where W: "set starts \<subseteq> W" "\<forall>a \<in> W. PStr a \<noteq> target \<and> (\<forall>b. (a, b) \<in> relation tasks field \<longrightarrow> b \<in> W)"
    by (auto simp: relationship_reaches_def)
  have "t \<in> W" if "a \<in> W" "(a, t) \<in> (relation tasks field)\<^sup>*" for a t
    using that(2,1) W(2) by (induction rule: rtrancl_induct) auto
  with W False show ?thesis by blast
qed

text \<open>The search always returns when every dependency list can be iterated.\<close>

definition iterable :: "tasks_by_id \<Rightarrow> bool" where
  "iterable tasks \<longleftrightarrow> list_all (\<lambda>(i, t). is_list (dget_or t ''dependencies'' (PList []))) tasks"

lemma related_total: "iterable tasks \<Longrightarrow> \<exists>xs. related tasks field a = Inr xs"
  by (auto simp: related_def iterable_def list_all_iff is_list_iff split: option.split dest!: map_of_SomeD)

lemma search_total: "iterable tasks \<Longrightarrow> \<exists>b. relationship_search tasks field target p v = Inr b"
proof (induction tasks field target p v rule: relationship_search.induct)
  case (2 tasks field target c p v)
  from related_total [OF 2(3), of field c] obtain xs where "related tasks field c = Inr xs" by blast
  with 2 show ?case by auto
qed auto

text \<open>Adding edges out of one node closes no cycle when none of their ends reaches it.\<close>

lemma trancl_star:
  "(x, y) \<in> (E \<union> {i} \<times> D)\<^sup>+ \<Longrightarrow> (x, y) \<in> E\<^sup>+ \<or> (x, i) \<in> E\<^sup>* \<and> (\<exists>d \<in> D. (d, y) \<in> E\<^sup>*)"
proof (induction rule: trancl_induct)
  case (step y z)
  then show ?case by (auto intro: trancl_into_trancl rtrancl_into_rtrancl dest: trancl_into_rtrancl)
qed auto

lemma acyclic_star:
  assumes "acyclic E" and "\<forall>d \<in> D. (d, i) \<notin> E\<^sup>*"
  shows "acyclic (E \<union> {i} \<times> D)"
proof (rule acyclicI, rule allI, rule notI)
  fix x assume "(x, x) \<in> (E \<union> {i} \<times> D)\<^sup>+"
  from trancl_star [OF this] show False
    using assms by (auto simp: acyclic_def dest: rtrancl_trans)
qed

lemma relation_update:
  "relation (AList.update i t tasks) field \<subseteq> relation tasks field \<union> {i} \<times> set (related_or [(i, t)] field i)"
  by (auto simp: relation_def related_or_def related_def update_conv' split: if_splits sum.splits option.splits)

section \<open>What an accepted patch guarantees\<close>

text \<open>How each stage of the pipeline changes the dictionary.\<close>

lemma title_stage: "normalize_patch_title c = Inr c' \<Longrightarrow> c' = c \<or> (\<exists>v. c' = dset c ''title'' v)"
  by (auto simp: normalize_patch_title_def result_iffs split: if_splits)

lemma detail_stage: "normalize_patch_detail c = Inr c' \<Longrightarrow> c' = c \<or> (\<exists>v. c' = dset c ''detail'' v)"
  by (auto simp: normalize_patch_detail_def result_iffs split: if_splits)

lemma tags_stage: "normalize_patch_tags c = Inr c' \<Longrightarrow> c' = c \<or> (\<exists>v. c' = dset c ''tags'' v)"
  by (auto simp: normalize_patch_tags_def result_iffs split: if_splits)

lemma objectives_stage:
  "normalize_patch_objectives c objs = Inr c' \<Longrightarrow> c' = c \<or> (\<exists>v. c' = dset c ''objective_ids'' v)"
  by (auto simp: normalize_patch_objectives_def result_iffs Let_def split: if_splits)

lemma dependencies_stage:
  "normalize_patch_dependencies c = Inr c' \<Longrightarrow>
   c' = c \<and> \<not> dhas c ''dependencies'' \<or> (\<exists>ds. c' = dset c ''dependencies'' (strs (normal_ids ds)))"
  by (auto simp: normalize_patch_dependencies_def result_iffs split: if_splits)

lemma key_result_refs_stage:
  "normalize_patch_key_result_refs c = Inr c' \<Longrightarrow> c' = c \<or> (\<exists>v. c' = dset c ''key_result_refs'' v)"
  by (auto simp: normalize_patch_key_result_refs_def result_iffs split: if_splits)

lemma scalar_stage:
  assumes "normalize_patch_scalar_fields c = Inr c'"
  shows "x \<notin> {''title'', ''detail''} \<Longrightarrow> map_of c' x = map_of c x" "distinct (dkeys c) \<Longrightarrow> distinct (dkeys c')"
proof -
  from assms obtain c1 where c1: "normalize_patch_title c = Inr c1" and c': "normalize_patch_detail c1 = Inr c'"
    by (auto simp: normalize_patch_scalar_fields_def result_iffs)
  note st = title_stage [OF c1] detail_stage [OF c']
  show "x \<notin> {''title'', ''detail''} \<Longrightarrow> map_of c' x = map_of c x" using st by auto
  show "distinct (dkeys c) \<Longrightarrow> distinct (dkeys c')" using st by auto
qed

lemma collection_stage:
  assumes "normalize_patch_collection_fields c objs = Inr c'"
  shows "x \<notin> {''tags'', ''objective_ids'', ''dependencies'', ''key_result_refs''} \<Longrightarrow> map_of c' x = map_of c x"
    "distinct (dkeys c) \<Longrightarrow> distinct (dkeys c')"
    "dhas c' ''dependencies'' \<Longrightarrow> \<exists>ds. map_of c' ''dependencies'' = Some (strs (normal_ids ds))"
proof -
  from assms obtain c1 c2 c3 where c1: "normalize_patch_tags c = Inr c1"
    and c2: "normalize_patch_objectives c1 objs = Inr c2" and c3: "normalize_patch_dependencies c2 = Inr c3"
    and c': "normalize_patch_key_result_refs c3 = Inr c'"
    by (auto simp: normalize_patch_collection_fields_def result_iffs)
  note st = tags_stage [OF c1] objectives_stage [OF c2] dependencies_stage [OF c3] key_result_refs_stage [OF c']
  show "x \<notin> {''tags'', ''objective_ids'', ''dependencies'', ''key_result_refs''} \<Longrightarrow> map_of c' x = map_of c x"
    using st by auto
  show "distinct (dkeys c) \<Longrightarrow> distinct (dkeys c')" using st by auto
  have "map_of c' ''dependencies'' = map_of c3 ''dependencies''" using st(4) by auto
  moreover have "\<not> dhas c3 ''dependencies'' \<or> (\<exists>ds. map_of c3 ''dependencies'' = Some (strs (normal_ids ds)))"
    using st(3) by auto
  ultimately show "dhas c' ''dependencies'' \<Longrightarrow> \<exists>ds. map_of c' ''dependencies'' = Some (strs (normal_ids ds))"
    by (auto simp: dhas_def)
qed

lemma dependencies_checked:
  assumes "validate_patch_dependencies c task tasks = Inr ()" and "map_of c ''dependencies'' = Some (strs ds)"
    and "map_of task ''id'' = Some (PStr i)"
  shows "\<forall>d \<in> set ds. d \<noteq> i \<and> map_of tasks d \<noteq> None \<and> (d, i) \<notin> (relation tasks ''dependencies'')\<^sup>*"
proof -
  have "map str_of (list_of (dget c ''dependencies'')) = ds"
    using assms(2) by (simp add: dget_map_of strs_def)
  with assms obtain flags where missing: "missing_from ds (map (PStr \<circ> fst) tasks) = []"
    and i: "i \<notin> set ds"
    and fl: "map_r (\<lambda>d. relationship_reaches tasks [d] (PStr i) ''dependencies'') ds = Inr flags"
    and no: "filter snd (zip ds flags) = []"
    by (auto simp: validate_patch_dependencies_def dhas_def dindex_def result_iffs Let_def image_iff
        split: if_splits)
  show ?thesis
  proof
    fix d assume d: "d \<in> set ds"
    then obtain k where k: "k < length ds" "ds ! k = d" by (auto simp: in_set_conv_nth)
    from fl have l: "list_all2 (\<lambda>d b. relationship_reaches tasks [d] (PStr i) ''dependencies'' = Inr b) ds flags"
      by (simp add: map_r_Inr)
    have "(ds ! k, flags ! k) \<in> set (zip ds flags)"
      using k list_all2_lengthD [OF l] by (auto simp: set_zip)
    then have "\<not> flags ! k" using no by (auto simp: filter_empty_conv)
    with reaches_iff [OF list_all2_nthD [OF l k(1)]] k(2)
    have "(d, i) \<notin> (relation tasks ''dependencies'')\<^sup>*" by auto
    moreover have "d \<in> fst ` set tasks"
    proof (rule ccontr)
      assume "d \<notin> fst ` set tasks"
      with d have "d \<in> set (missing_from ds (map (PStr \<circ> fst) tasks))" by (force simp: missing_from_def)
      with missing show False by simp
    qed
    ultimately show "d \<noteq> i \<and> map_of tasks d \<noteq> None \<and> (d, i) \<notin> (relation tasks ''dependencies'')\<^sup>*"
      using d i by (auto simp: map_of_eq_None_iff)
  qed
qed

lemma parent_checked:
  assumes "normalize_and_validate_patch_parent c task tasks = Inr c'" and "map_of task ''id'' = Some (PStr i)"
  shows "x \<noteq> ''parent_id'' \<Longrightarrow> map_of c' x = map_of c x" "distinct (dkeys c) \<Longrightarrow> distinct (dkeys c')"
    "dhas c' ''parent_id'' = dhas c ''parent_id''"
    "map_of c' ''parent_id'' = Some (PStr p) \<Longrightarrow> p \<noteq> [] \<Longrightarrow>
       p \<noteq> i \<and> map_of tasks p \<noteq> None \<and> (p, i) \<notin> (relation tasks ''parent_id'')\<^sup>*"
proof -
  show "x \<noteq> ''parent_id'' \<Longrightarrow> map_of c' x = map_of c x" "distinct (dkeys c) \<Longrightarrow> distinct (dkeys c')"
    "dhas c' ''parent_id'' = dhas c ''parent_id''"
    using assms by (auto simp: normalize_and_validate_patch_parent_def result_iffs split: if_splits)
  assume p: "map_of c' ''parent_id'' = Some (PStr p)" "p \<noteq> []"
  then have "dhas c ''parent_id''"
    using assms(1) by (auto simp: normalize_and_validate_patch_parent_def dhas_def split: if_splits)
  with p assms have "p \<noteq> i" "map_of tasks p \<noteq> None"
    "relationship_reaches tasks [p] (PStr i) ''parent_id'' = Inr False"
    by (auto simp: normalize_and_validate_patch_parent_def result_iffs dindex_def split: if_splits)
  with reaches_iff [of tasks "[p]" "PStr i" "''parent_id''" False]
  show "p \<noteq> i \<and> map_of tasks p \<noteq> None \<and> (p, i) \<notin> (relation tasks ''parent_id'')\<^sup>*" by auto
qed

text \<open>What one accepted patch leaves of the two relationships of the patched Task.\<close>

lemma patch_change_set_checked:
  assumes "patch_change_set patch task tasks objs = Inr (changes, status)"
    and "map_of task ''id'' = Some (PStr i)" and "distinct (dkeys patch)"
  shows "distinct (dkeys changes)"
    "dhas changes ''dependencies'' \<Longrightarrow> \<exists>ds. map_of changes ''dependencies'' = Some (strs ds) \<and>
       (\<forall>d \<in> set ds. d \<noteq> i \<and> map_of tasks d \<noteq> None \<and> (d, i) \<notin> (relation tasks ''dependencies'')\<^sup>*)"
    "map_of changes ''parent_id'' = Some (PStr p) \<Longrightarrow> p \<noteq> [] \<Longrightarrow>
       p \<noteq> i \<and> map_of tasks p \<noteq> None \<and> (p, i) \<notin> (relation tasks ''parent_id'')\<^sup>*"
    "x \<in> {''id'', ''uid'', ''revision''} \<Longrightarrow> map_of changes x = (if x = ''revision'' then None else map_of patch x)"
    "map_of changes ''status'' = None"
proof -
  from assms(1) obtain c1 c2 c3 where
    c1: "normalize_patch_scalar_fields (ddel patch ''revision'') = Inr c1" and
    c2: "normalize_patch_collection_fields c1 objs = Inr c2" and
    d: "validate_patch_dependencies c2 task tasks = Inr ()" and
    c3: "normalize_and_validate_patch_parent c2 task tasks = Inr c3" and
    ch: "changes = ddel c3 ''status''"
    by (auto simp: patch_change_set_def normalize_and_validate_patch_relationships_def result_iffs)
  note p3 = parent_checked [OF c3 assms(2)]
  have "distinct (dkeys c1)" using scalar_stage(2) [OF c1] assms(3) by simp
  then show "distinct (dkeys changes)" using collection_stage(2) [OF c2] p3(2) ch by simp
  show "\<exists>ds. map_of changes ''dependencies'' = Some (strs ds) \<and>
       (\<forall>d \<in> set ds. d \<noteq> i \<and> map_of tasks d \<noteq> None \<and> (d, i) \<notin> (relation tasks ''dependencies'')\<^sup>*)"
    if "dhas changes ''dependencies''"
  proof -
    have m: "map_of changes ''dependencies'' = map_of c2 ''dependencies''"
      using p3(1) [of "''dependencies''"] by (simp add: ch)
    with that obtain ds where ds: "map_of c2 ''dependencies'' = Some (strs ds)"
      using collection_stage(3) [OF c2] by (auto simp: dhas_def)
    from dependencies_checked [OF d ds assms(2)] m ds show ?thesis by auto
  qed
  show "map_of changes ''parent_id'' = Some (PStr p) \<Longrightarrow> p \<noteq> [] \<Longrightarrow>
       p \<noteq> i \<and> map_of tasks p \<noteq> None \<and> (p, i) \<notin> (relation tasks ''parent_id'')\<^sup>*"
    using p3(4) by (simp add: ch)
  show "map_of changes x = (if x = ''revision'' then None else map_of patch x)"
    if "x \<in> {''id'', ''uid'', ''revision''}"
    using that scalar_stage(1) [OF c1, of x] collection_stage(1) [OF c2, of x] p3(1) [of x] by (auto simp: ch)
  show "map_of changes ''status'' = None" by (simp add: ch)
qed

lemma relation_unchanged:
  assumes "map_of tasks i = Some t" and "field \<in> {''dependencies'', ''parent_id''}" and "map_of t' field = map_of t field"
  shows "relation (AList.update i t' tasks) field \<subseteq> relation tasks field"
  using assms by (auto simp: relation_def related_or_def related_def update_conv' dget_def dget_or_def
      split: if_splits)

lemma nonempty_strings_strs: "set (nonempty_strings (map PStr ds)) \<subseteq> set ds"
  by (auto simp: nonempty_strings_def)

lemma updated_dependencies_acyclic:
  assumes "acyclic (relation tasks ''dependencies'')" and "map_of t' ''dependencies'' = Some (strs ds)"
    and "\<forall>d \<in> set ds. (d, i) \<notin> (relation tasks ''dependencies'')\<^sup>*"
  shows "acyclic (relation (AList.update i t' tasks) ''dependencies'')"
proof (rule acyclic_subset [OF acyclic_star [OF assms(1,3)]])
  have "set (related_or [(i, t')] ''dependencies'' i) \<subseteq> set ds"
    using assms(2) nonempty_strings_strs [of ds] by (simp add: related_or_def related_def dget_or_def strs_def)
  with relation_update [of i t' tasks "''dependencies''"]
  show "relation (AList.update i t' tasks) ''dependencies'' \<subseteq> relation tasks ''dependencies'' \<union> {i} \<times> set ds"
    by blast
qed

lemma updated_parent_acyclic:
  assumes "acyclic (relation tasks ''parent_id'')"
    and "\<And>p. dget t' ''parent_id'' = PStr p \<Longrightarrow> p \<noteq> [] \<Longrightarrow> (p, i) \<notin> (relation tasks ''parent_id'')\<^sup>*"
  shows "acyclic (relation (AList.update i t' tasks) ''parent_id'')"
proof -
  let ?P = "set (related_or [(i, t')] ''parent_id'' i)"
  have "\<forall>p \<in> ?P. (p, i) \<notin> (relation tasks ''parent_id'')\<^sup>*"
    using assms(2) by (auto simp: related_or_def related_def nonempty_strings_def is_str_iff)
  from acyclic_subset [OF acyclic_star [OF assms(1) this] relation_update] show ?thesis .
qed

section \<open>Properties\<close>

text \<open>
  C13. Over Tasks whose dependencies are lists, the search for a relationship always returns,
  and it answers exactly whether the target can be reached from one of the starting
  identifiers along that relationship.
\<close>

theorem relationship_reaches_reachable:
  assumes "iterable tasks"
  shows "\<exists>b. relationship_reaches tasks starts (PStr t) field = Inr b \<and>
    (b \<longleftrightarrow> (\<exists>a \<in> set starts. (a, t) \<in> (relation tasks field)\<^sup>*))"
proof -
  obtain b where "relationship_reaches tasks starts (PStr t) field = Inr b"
    using search_total [OF assms] unfolding relationship_reaches_def by blast
  with reaches_iff [OF this] show ?thesis by auto
qed

definition sample_tasks :: tasks_by_id where
  "sample_tasks =
    [(''T-0001'', [(''id'', PStr ''T-0001''), (''dependencies'', strs [''T-0002'']), (''parent_id'', PNone)]),
     (''T-0002'', [(''id'', PStr ''T-0002''), (''dependencies'', strs []), (''parent_id'', PStr ''T-0001'')])]"

theorem relationship_reaches_reachable_witness:
  "\<exists>b. relationship_reaches sample_tasks [''T-0001''] (PStr ''T-0002'') ''dependencies'' = Inr b \<and>
    (b \<longleftrightarrow> (\<exists>a \<in> set [''T-0001'']. (a, ''T-0002'') \<in> (relation sample_tasks ''dependencies'')\<^sup>*))"
  by (rule relationship_reaches_reachable)
    (simp add: iterable_def sample_tasks_def dget_or_def strs_def)

text \<open>
  C9. An accepted patch keeps both relationships free of cycles: if the dependencies and the
  parents of the recorded Tasks had none, they have none after the Task is updated with the
  changes the patch was normalised to.
\<close>

theorem patch_keeps_relationships_acyclic:
  assumes "patch_change_set patch task tasks objectives = Inr (changes, status)"
    and "map_of tasks i = Some task" and "map_of task ''id'' = Some (PStr i)" and "distinct (dkeys patch)"
    and "acyclic (relation tasks ''dependencies'')" and "acyclic (relation tasks ''parent_id'')"
  shows "acyclic (relation (AList.update i (dupdate task changes) tasks) ''dependencies'') \<and>
    acyclic (relation (AList.update i (dupdate task changes) tasks) ''parent_id'')"
proof
  note c = patch_change_set_checked [OF assms(1,3,4)]
  have m: "map_of (dupdate task changes) = map_of task ++ map_of changes" by (rule map_of_dupdate [OF c(1)])
  show "acyclic (relation (AList.update i (dupdate task changes) tasks) ''dependencies'')"
  proof (cases "dhas changes ''dependencies''")
    case True
    with c(2) m show ?thesis
      by (auto intro!: updated_dependencies_acyclic [OF assms(5)])
  next
    case False
    then have "map_of (dupdate task changes) ''dependencies'' = map_of task ''dependencies''"
      by (simp add: m dhas_def map_add_def)
    with acyclic_subset [OF assms(5) relation_unchanged [OF assms(2)]] show ?thesis by simp
  qed
  show "acyclic (relation (AList.update i (dupdate task changes) tasks) ''parent_id'')"
  proof (cases "dhas changes ''parent_id''")
    case True
    then have "dget (dupdate task changes) ''parent_id'' = dget changes ''parent_id''"
      by (auto simp: m dhas_def dget_def dget_or_def)
    then have "(p, i) \<notin> (relation tasks ''parent_id'')\<^sup>*"
      if "dget (dupdate task changes) ''parent_id'' = PStr p" "p \<noteq> []" for p
      using that c(3) [OF dget_neq_None] by simp
    then show ?thesis by (intro updated_parent_acyclic [OF assms(6)])
  next
    case False
    then have "map_of (dupdate task changes) ''parent_id'' = map_of task ''parent_id''"
      by (simp add: m dhas_def map_add_def)
    with acyclic_subset [OF assms(6) relation_unchanged [OF assms(2)]] show ?thesis by simp
  qed
qed

definition sample_patch :: dict where
  "sample_patch = [(''revision'', PInt 3), (''dependencies'', strs ['' t-0002'']), (''title'', PStr ''New'')]"

lemma sample_relations_acyclic:
  "acyclic (relation sample_tasks ''dependencies'')" "acyclic (relation sample_tasks ''parent_id'')"
proof -
  have "relation sample_tasks ''dependencies'' \<subseteq> {(''T-0001'', ''T-0002'')}"
    "relation sample_tasks ''parent_id'' \<subseteq> {(''T-0002'', ''T-0001'')}"
    by (auto simp: relation_def related_or_def related_def sample_tasks_def strs_def dget_def dget_or_def
        nonempty_strings_def split: if_splits)
  moreover have "acyclic {(''T-0001'', ''T-0002'')}" "acyclic {(''T-0002'', ''T-0001'')}"
    by (simp_all add: acyclic_insert) (simp_all add: acyclic_def)
  ultimately show "acyclic (relation sample_tasks ''dependencies'')" "acyclic (relation sample_tasks ''parent_id'')"
    using acyclic_subset by blast+
qed

theorem patch_keeps_relationships_acyclic_witness:
  "acyclic (relation (AList.update ''T-0001'' (dupdate (snd (hd sample_tasks))
      [(''dependencies'', strs [''T-0002'']), (''title'', PStr ''New'')]) sample_tasks) ''dependencies'') \<and>
    acyclic (relation (AList.update ''T-0001'' (dupdate (snd (hd sample_tasks))
      [(''dependencies'', strs [''T-0002'']), (''title'', PStr ''New'')]) sample_tasks) ''parent_id'')"
proof (rule patch_keeps_relationships_acyclic)
  show "patch_change_set sample_patch (snd (hd sample_tasks)) sample_tasks [] =
    Inr ([(''dependencies'', strs [''T-0002'']), (''title'', PStr ''New'')], PNone)" by code_simp
  show "distinct (dkeys sample_patch)" by (simp add: sample_patch_def dkeys_def)
qed (simp_all add: sample_relations_acyclic, simp_all add: sample_tasks_def)

text \<open>
  C15. A patch that would close a cycle of dependencies, or name a Task that does not exist, is
  refused: whatever else it holds, no change set comes out of it.
\<close>

theorem cyclic_dependency_refused:
  assumes "map_of task ''id'' = Some (PStr i)"
    and "dget patch ''dependencies'' = PList vs" and "PStr d \<in> set vs" and "py_strip d \<noteq> []"
    and "map_of tasks (upper_strip d) = None \<or> (upper_strip d, i) \<in> (relation tasks ''dependencies'')\<^sup>*"
  shows "\<exists>e. patch_change_set patch task tasks objectives = Inl e"
proof (rule ccontr)
  assume "\<nexists>e. patch_change_set patch task tasks objectives = Inl e"
  then obtain r where "patch_change_set patch task tasks objectives = Inr r" by (metis sum.exhaust)
  then obtain c1 c2 where
    c1: "normalize_patch_scalar_fields (ddel patch ''revision'') = Inr c1" and
    c2: "normalize_patch_collection_fields c1 objectives = Inr c2" and
    v: "validate_patch_dependencies c2 task tasks = Inr ()"
    by (auto simp: patch_change_set_def normalize_and_validate_patch_relationships_def result_iffs)
  from c2 obtain a b c where a: "normalize_patch_tags c1 = Inr a"
    and b: "normalize_patch_objectives a objectives = Inr b" and c: "normalize_patch_dependencies b = Inr c"
    and d: "normalize_patch_key_result_refs c = Inr c2"
    by (auto simp: normalize_patch_collection_fields_def result_iffs)
  have "map_of c1 ''dependencies'' = Some (PList vs)"
    using scalar_stage(1) [OF c1, of "''dependencies''"] assms(2) by (simp add: dget_neq_None)
  then have "map_of b ''dependencies'' = Some (PList vs)"
    using tags_stage [OF a] objectives_stage [OF b] by auto
  then have "c = dset b ''dependencies'' (strs (normal_ids (map str_of vs)))"
    using c by (auto simp: normalize_patch_dependencies_def patch_strings_def dhas_def dget_map_of result_iffs
        split: if_splits)
  then have m: "map_of c2 ''dependencies'' = Some (strs (normal_ids (map str_of vs)))"
    using key_result_refs_stage [OF d] by auto
  have "upper_strip d \<in> set (normal_ids (map str_of vs))"
    using assms(3,4) by (force simp: normal_ids_def nonblank_def)
  with dependencies_checked [OF v m assms(1)] assms(5) show False by auto
qed

theorem cyclic_dependency_refused_witness:
  "\<exists>e. patch_change_set [(''dependencies'', PList [PStr ''t-0001''])] (snd (sample_tasks ! 1)) sample_tasks [] = Inl e"
proof (rule cyclic_dependency_refused)
  have "''T-0002'' \<in> set (related_or sample_tasks ''dependencies'' ''T-0001'')" by code_simp
  then have "(''T-0001'', ''T-0002'') \<in> relation sample_tasks ''dependencies''" by (simp add: relation_def)
  then have "(''T-0001'', ''T-0002'') \<in> (relation sample_tasks ''dependencies'')\<^sup>*" by (rule r_into_rtrancl)
  moreover have "upper_strip ''t-0001'' = ''T-0001''" by code_simp
  ultimately show "map_of sample_tasks (upper_strip ''t-0001'') = None \<or>
      (upper_strip ''t-0001'', ''T-0002'') \<in> (relation sample_tasks ''dependencies'')\<^sup>*" by simp
  show "py_strip ''t-0001'' \<noteq> []" by code_simp
  show "PStr ''t-0001'' \<in> set [PStr ''t-0001'']" by simp
qed (simp_all add: sample_tasks_def dget_def dget_or_def strs_def)

end
