(* ===== verification/WS_Patterns.thy ===== *)
theory WS_Patterns
  imports WS_Text
begin

text \<open>
  The parts of \<open>re\<close>, \<open>json\<close> and \<open>uuid\<close> the code uses. A pattern is a value of type \<open>rx\<close>, written
  as the pattern is in the code, and its meaning is the list of ways it can match; compact
  JSON with sorted keys is a function of the value; a canonical UUID text is recognised by
  its shape, which is what \<open>str(uuid.UUID(text)) == text\<close> asks.
\<close>

section \<open>Regular expressions\<close>

datatype rx =
    R_Eps
  | R_In string
  | R_Not_In string
  | R_Seq rx rx
  | R_Alt rx rx
  | R_Star rx
  | R_Boundary

type_synonym rx_state = "char option \<times> string"

definition word_char :: "char \<Rightarrow> bool" where
  "word_char c \<longleftrightarrow> is_alnum c \<or> c = CHR ''_''"

definition at_boundary :: "rx_state \<Rightarrow> bool" where
  "at_boundary st \<longleftrightarrow>
     (case fst st of None \<Rightarrow> False | Some c \<Rightarrow> word_char c) \<noteq> (snd st \<noteq> [] \<and> word_char (hd (snd st)))"

text \<open>Every state a repetition can end in; a round that consumes nothing adds none.\<close>

primrec star_ends :: "(rx_state \<Rightarrow> rx_state list) \<Rightarrow> nat \<Rightarrow> rx_state \<Rightarrow> rx_state list" where
  "star_ends f 0 st = [st]"
| "star_ends f (Suc n) st =
     remdups (st # concat (map (star_ends f n) (filter (\<lambda>t. length (snd t) < length (snd st)) (f st))))"

primrec rx_ends :: "rx \<Rightarrow> rx_state \<Rightarrow> rx_state list" where
  "rx_ends R_Eps = (\<lambda>st. [st])"
| "rx_ends (R_In xs) = (\<lambda>st. case snd st of [] \<Rightarrow> [] | c # cs \<Rightarrow> if c \<in> set xs then [(Some c, cs)] else [])"
| "rx_ends (R_Not_In xs) = (\<lambda>st. case snd st of [] \<Rightarrow> [] | c # cs \<Rightarrow> if c \<in> set xs then [] else [(Some c, cs)])"
| "rx_ends (R_Seq a b) = (\<lambda>st. remdups (concat (map (rx_ends b) (rx_ends a st))))"
| "rx_ends (R_Alt a b) = (\<lambda>st. rx_ends a st @ rx_ends b st)"
| "rx_ends (R_Star a) = (\<lambda>st. star_ends (rx_ends a) (length (snd st)) st)"
| "rx_ends R_Boundary = (\<lambda>st. if at_boundary st then [st] else [])"

definition rx_fullmatch :: "rx \<Rightarrow> string \<Rightarrow> bool" where
  "rx_fullmatch r s = list_ex (\<lambda>st. snd st = []) (rx_ends r (None, s))"

fun rx_search_from :: "rx \<Rightarrow> char option \<Rightarrow> string \<Rightarrow> bool" where
  "rx_search_from r p [] = (rx_ends r (p, []) \<noteq> [])"
| "rx_search_from r p (c # cs) = (rx_ends r (p, c # cs) \<noteq> [] \<or> rx_search_from r (Some c) cs)"

definition rx_search :: "rx \<Rightarrow> string \<Rightarrow> bool" where
  "rx_search r s = rx_search_from r None s"

definition r_lit :: "string \<Rightarrow> rx" where
  "r_lit s = foldr (\<lambda>c r. R_Seq (R_In [c]) r) s R_Eps"

text \<open>Under \<open>(?i)\<close> a letter stands for both its cases; the literals here are written in lower case.\<close>

definition r_lit_i :: "string \<Rightarrow> rx" where
  "r_lit_i s = foldr (\<lambda>c r. R_Seq (R_In [c, char_upper c]) r) s R_Eps"

definition SPACES :: string where
  "SPACES = [CHR 0x20, CHR 0x09, CHR 0x0A, CHR 0x0B, CHR 0x0C, CHR 0x0D, CHR 0x1C, CHR 0x1D, CHR 0x1E, CHR 0x1F]"

definition LETTERS :: string where
  "LETTERS = ''ABCDEFGHIJKLMNOPQRSTUVWXYZabcdefghijklmnopqrstuvwxyz''"

definition r_any :: "rx list \<Rightarrow> rx" where
  "r_any rs = foldr R_Alt (butlast rs) (last rs)"

definition r_all :: "rx list \<Rightarrow> rx" where
  "r_all rs = foldr R_Seq rs R_Eps"

definition r_opt :: "rx \<Rightarrow> rx" where
  "r_opt r = R_Alt r R_Eps"

definition r_plus :: "rx \<Rightarrow> rx" where
  "r_plus r = R_Seq r (R_Star r)"

text \<open>\<open>[class]{low,high}\<close> in full: the length is counted and every character is in the class.\<close>

definition class_run :: "(char \<Rightarrow> bool) \<Rightarrow> nat \<Rightarrow> nat \<Rightarrow> string \<Rightarrow> bool" where
  "class_run p low high s \<longleftrightarrow> low \<le> length s \<and> length s \<le> high \<and> list_all p s"

text \<open>
  A match leaves a suffix of the text. A pattern that needs a character of some kind in every
  match finds nothing in a text without one.
\<close>

primrec rx_needs :: "(char \<Rightarrow> bool) \<Rightarrow> rx \<Rightarrow> bool" where
  "rx_needs P R_Eps \<longleftrightarrow> False"
| "rx_needs P (R_In xs) \<longleftrightarrow> list_all P xs"
| "rx_needs P (R_Not_In xs) \<longleftrightarrow> False"
| "rx_needs P (R_Seq a b) \<longleftrightarrow> rx_needs P a \<or> rx_needs P b"
| "rx_needs P (R_Alt a b) \<longleftrightarrow> rx_needs P a \<and> rx_needs P b"
| "rx_needs P (R_Star a) \<longleftrightarrow> False"
| "rx_needs P R_Boundary \<longleftrightarrow> False"

lemma set_star_ends:
  "set (star_ends f (Suc n) st) = insert st (\<Union>t \<in> {t \<in> set (f st). length (snd t) < length (snd st)}. set (star_ends f n t))"
  by (simp del: remdups.simps)

declare star_ends.simps(2) [simp del]

lemma star_ends_suffix:
  assumes "\<And>st t. t \<in> set (f st) \<Longrightarrow> set (snd t) \<subseteq> set (snd st)"
  shows "t \<in> set (star_ends f n st) \<Longrightarrow> set (snd t) \<subseteq> set (snd st)"
proof (induction n arbitrary: st)
  case (Suc n)
  then consider "t = st" | u where "u \<in> set (f st)" "t \<in> set (star_ends f n u)" by (auto simp: set_star_ends)
  then show ?case using Suc.IH assms by cases blast+
qed simp

lemma rx_ends_suffix: "t \<in> set (rx_ends r st) \<Longrightarrow> set (snd t) \<subseteq> set (snd st)"
proof (induction r arbitrary: st t)
  case (R_In xs)
  then show ?case by (cases "snd st") (auto split: if_splits)
next
  case (R_Not_In xs)
  then show ?case by (cases "snd st") (auto split: if_splits)
next
  case (R_Seq a b)
  then obtain u where "u \<in> set (rx_ends a st)" "t \<in> set (rx_ends b u)" by auto
  with R_Seq.IH show ?case by blast
next
  case (R_Alt a b)
  then have "t \<in> set (rx_ends a st) \<or> t \<in> set (rx_ends b st)" by simp
  with R_Alt.IH show ?case by blast
next
  case (R_Star a)
  from R_Star.prems have "t \<in> set (star_ends (rx_ends a) (length (snd st)) st)" by simp
  with star_ends_suffix [of "rx_ends a"] R_Star.IH show ?case by blast
qed (auto split: if_splits)

lemma rx_needs_char: "rx_needs P r \<Longrightarrow> t \<in> set (rx_ends r st) \<Longrightarrow> \<exists>c \<in> set (snd st). P c"
proof (induction r arbitrary: st t)
  case (R_In xs)
  then show ?case by (cases "snd st") (auto simp: list_all_iff split: if_splits)
next
  case (R_Seq a b)
  then obtain u where u: "u \<in> set (rx_ends a st)" "t \<in> set (rx_ends b u)" by auto
  from R_Seq.prems(1) consider "rx_needs P a" | "rx_needs P b" by auto
  then show ?case
  proof cases
    case 2
    from R_Seq.IH(2) [OF 2 u(2)] rx_ends_suffix [OF u(1)] show ?thesis by blast
  qed (use R_Seq.IH(1) u in blast)
qed auto

lemma rx_search_from_needs:
  "rx_search_from r p s \<Longrightarrow> rx_needs P r \<Longrightarrow> \<exists>c \<in> set s. P c"
proof (induction r p s rule: rx_search_from.induct)
  case (1 r p)
  then obtain t where "t \<in> set (rx_ends r (p, []))" by (cases "rx_ends r (p, [])") auto
  from rx_needs_char [OF 1(2) this] show ?case by simp
next
  case (2 r p c cs)
  show ?case
  proof (cases "rx_ends r (p, c # cs) = []")
    case True
    with 2 show ?thesis by auto
  next
    case False
    then obtain t where "t \<in> set (rx_ends r (p, c # cs))" by (cases "rx_ends r (p, c # cs)") auto
    from rx_needs_char [OF 2(3) this] show ?thesis by simp
  qed
qed

lemma rx_search_needs: "rx_needs P r \<Longrightarrow> list_all (\<lambda>c. \<not> P c) s \<Longrightarrow> \<not> rx_search r s"
  using rx_search_from_needs [of r None s P] by (auto simp: rx_search_def list_all_iff)

section \<open>UUID texts\<close>

text \<open>\<open>8-4-4-4-12\<close> lower-case hexadecimal digits.\<close>

definition uuid_shape :: "string \<Rightarrow> bool" where
  "uuid_shape s \<longleftrightarrow> length s = 36 \<and>
     list_all2 (\<lambda>m c. if m = CHR ''-'' then c = CHR ''-'' else is_lower_hex c)
       ''00000000-0000-0000-0000-000000000000'' s"

text \<open>The parsed value is not zero, and (the variant of RFC 4122) its ninth octet starts with \<open>10\<close>.\<close>

definition uuid_nonzero :: "string \<Rightarrow> bool" where
  "uuid_nonzero s \<longleftrightarrow> list_ex (\<lambda>c. c \<noteq> CHR ''0'' \<and> c \<noteq> CHR ''-'') s"

definition uuid_rfc4122 :: "string \<Rightarrow> bool" where
  "uuid_rfc4122 s \<longleftrightarrow> s ! 19 \<in> {CHR ''8'', CHR ''9'', CHR ''a'', CHR ''b''}"

section \<open>Compact JSON\<close>

definition json_char :: "char \<Rightarrow> string" where
  "json_char c = (let n = (of_char c :: nat) in
     if n = 34 then [char_of (92 :: nat), c] else if n = 92 then [c, c]
     else if n = 10 then [char_of (92 :: nat), CHR ''n'']
     else if n = 13 then [char_of (92 :: nat), CHR ''r'']
     else if n = 9 then [char_of (92 :: nat), CHR ''t'']
     else if n = 8 then [char_of (92 :: nat), CHR ''b'']
     else if n = 12 then [char_of (92 :: nat), CHR ''f'']
     else if n < 32
     then [char_of (92 :: nat), CHR ''u'', CHR ''0'', CHR ''0'', hex_digit (n div 16), hex_digit (n mod 16)]
     else [c])"

text \<open>A printable character other than the quote and the backslash stands for itself.\<close>

lemma json_char_bits [code]:
  "json_char (Char b0 b1 b2 b3 b4 b5 b6 b7) =
     (let c = Char b0 b1 b2 b3 b4 b5 b6 b7 in
      if (b7 \<or> b6 \<or> b5) \<and> \<not> (\<not> b7 \<and> \<not> b6 \<and> b5 \<and> \<not> b4 \<and> \<not> b3 \<and> \<not> b2 \<and> b1 \<and> \<not> b0) \<and>
         \<not> (\<not> b7 \<and> b6 \<and> \<not> b5 \<and> b4 \<and> b3 \<and> b2 \<and> \<not> b1 \<and> \<not> b0) then [c]
      else let n = (of_char c :: nat) in
        if n = 34 then [char_of (92 :: nat), c] else if n = 92 then [c, c]
        else if n = 10 then [char_of (92 :: nat), CHR ''n'']
        else if n = 13 then [char_of (92 :: nat), CHR ''r'']
        else if n = 9 then [char_of (92 :: nat), CHR ''t'']
        else if n = 8 then [char_of (92 :: nat), CHR ''b'']
        else if n = 12 then [char_of (92 :: nat), CHR ''f'']
        else if n < 32
        then [char_of (92 :: nat), CHR ''u'', CHR ''0'', CHR ''0'', hex_digit (n div 16), hex_digit (n mod 16)]
        else [c])"
  unfolding json_char_def of_char_Char Let_def
  by (cases b0; cases b1; cases b2; cases b3; cases b4; cases b5; cases b6; cases b7) simp_all

definition json_string :: "string \<Rightarrow> string" where
  "json_string s = char_of (34 :: nat) # concat (map json_char s) @ [char_of (34 :: nat)]"

definition json_float :: "string \<Rightarrow> string" where
  "json_float r = (if r = ''nan'' then ''NaN'' else if r = ''inf'' then ''Infinity''
     else if r = ''-inf'' then ''-Infinity'' else r)"

text \<open>\<open>json.dumps(value, ensure_ascii=False, separators=(",", ":"), sort_keys=True)\<close>\<close>

primrec json_compact :: "pyval \<Rightarrow> string" where
  "json_compact PNone = ''null''"
| "json_compact (PBool b) = (if b then ''true'' else ''false'')"
| "json_compact (PInt i) = int_str i"
| "json_compact (PFloat r) = json_float r"
| "json_compact (PStr s) = json_string s"
| "json_compact (PList xs) = ''['' @ py_join '','' (map json_compact xs) @ '']''"
| "json_compact (PDict d) =
     ''{'' @ py_join '','' (map (\<lambda>(k, t). json_string k @ '':'' @ t)
       (sort_key fst (map (map_prod id json_compact) d))) @ ''}''"

end
