(* ===== verification/WS_World.thy ===== *)
theory WS_World
  imports WS_Domain WS_Patterns
begin

text \<open>
  The world a command of the service runs in: the documents of the workspace, the clocks and
  the log of what was saved (\<open>storage/document_repository.py\<close>, the clock seam of \<open>service.py\<close>,
  \<open>_transactional\<close>). A command is a function from the world to a result and the world after
  it; a refused command ends in an exception and keeps the documents it has saved so far.
  Every clock read is a read of its own: the \<open>n\<close>-th read of a clock returns what the clock
  says then. The commit of \<open>save_many\<close> is the undisturbed one; what a crash or an external
  writer does to it is the subject of the store.
\<close>

section \<open>Documents\<close>

datatype document = Workspace_Doc | Tasks_Doc | Activity_Doc | Objectives_Doc | Worklog_Doc
  | Notes_Doc | Captures_Doc | Replies_Doc | Reports_Doc

fun physical_name :: "document \<Rightarrow> string" where
  "physical_name Workspace_Doc = ''workspace.json''"
| "physical_name Tasks_Doc = ''backlog.json''"
| "physical_name Activity_Doc = ''activity.json''"
| "physical_name Objectives_Doc = ''okr.json''"
| "physical_name Worklog_Doc = ''worklog.json''"
| "physical_name Notes_Doc = ''notes.json''"
| "physical_name Captures_Doc = ''captures.json''"
| "physical_name Replies_Doc = ''replies.json''"
| "physical_name Reports_Doc = ''reports.json''"

text \<open>
  What a command reads from outside: the instants and days its clocks return, the digest
  \<open>sha256\<close>, the \<open>uuid5\<close> of a namespace and a name, whether the repository is the released
  adapter (\<open>released_documents\<close>) and moreover the one over the transacting store
  (\<open>released_composition\<close>), and the workspace identity the store's readiness carries.
\<close>

record env =
  utc_at :: "nat \<Rightarrow> string"
  today_at :: "nat \<Rightarrow> string"
  sha256 :: "string \<Rightarrow> string"
  uuid5 :: "string \<Rightarrow> string \<Rightarrow> string result"
  released_composition :: bool
  released_documents :: bool
  ready_workspace :: "string option"
  local_time_at :: "nat \<Rightarrow> string"

record world =
  documents :: "document \<Rightarrow> dict"
  clock_reads :: nat
  saved :: "(string \<times> (document \<times> dict) list) list"

type_synonym 'a command = "world \<Rightarrow> 'a result \<times> world"

definition return_c :: "'a \<Rightarrow> 'a command" where
  "return_c x = (\<lambda>w. (Inr x, w))"

definition raise_c :: "pyexc \<Rightarrow> 'a command" where
  "raise_c e = (\<lambda>w. (Inl e, w))"

definition lift_c :: "'a result \<Rightarrow> 'a command" where
  "lift_c r = (\<lambda>w. (r, w))"

definition bind_c :: "'a command \<Rightarrow> ('a \<Rightarrow> 'b command) \<Rightarrow> 'b command" where
  "bind_c m f = (\<lambda>w. case m w of (Inl e, w') \<Rightarrow> (Inl e, w') | (Inr x, w') \<Rightarrow> f x w')"

definition utc_now :: "env \<Rightarrow> string command" where
  "utc_now env = (\<lambda>w. (Inr (utc_at env (clock_reads w)), w\<lparr>clock_reads := clock_reads w + 1\<rparr>))"

definition today :: "env \<Rightarrow> string command" where
  "today env = (\<lambda>w. (Inr (today_at env (clock_reads w)), w\<lparr>clock_reads := clock_reads w + 1\<rparr>))"

definition local_time :: "env \<Rightarrow> string command" where
  "local_time env = (\<lambda>w. (Inr (local_time_at env (clock_reads w)), w\<lparr>clock_reads := clock_reads w + 1\<rparr>))"

text \<open>\<open>current_quarter\<close>: the year and quarter of the day the clock shows.\<close>

definition quarter_of :: "string \<Rightarrow> string" where
  "quarter_of day = (case date_fromisoformat day of
     None \<Rightarrow> [] | Some (y, m, d) \<Rightarrow> int_str (int y) @ ''-Q'' @ int_str (int ((m - 1) div 3 + 1)))"

definition current_quarter :: "env \<Rightarrow> string command" where
  "current_quarter env = (\<lambda>w. (Inr (quarter_of (today_at env (clock_reads w))), w\<lparr>clock_reads := clock_reads w + 1\<rparr>))"

definition ready_uid :: "env \<Rightarrow> string command" where
  "ready_uid env = (\<lambda>w. (case ready_workspace env of
     None \<Rightarrow> Inl (domain_error ''the workspace is not ready'' []) | Some u \<Rightarrow> Inr u, w))"

definition load :: "document \<Rightarrow> dict command" where
  "load d = (\<lambda>w. (Inr (documents w d), w))"

fun write_all :: "(document \<times> dict) list \<Rightarrow> (document \<Rightarrow> dict) \<Rightarrow> document \<Rightarrow> dict" where
  "write_all [] ds = ds"
| "write_all ((d, v) # writes) ds = write_all writes (ds(d := v))"

definition save_many :: "(document \<times> dict) list \<Rightarrow> string \<Rightarrow> unit command" where
  "save_many writes operation_id = (\<lambda>w.
     (Inr (), if writes = [] then w
       else w\<lparr>documents := write_all writes (documents w), saved := saved w @ [(operation_id, writes)]\<rparr>))"

text \<open>\<open>save\<close> is one write, under an operation identifier the store makes up.\<close>

definition save_one :: "document \<Rightarrow> dict \<Rightarrow> unit command" where
  "save_one d v = save_many [(d, v)] []"

definition canonical_digest :: "env \<Rightarrow> pyval \<Rightarrow> string" where
  "canonical_digest env v = ''sha256:'' @ sha256 env (json_compact v)"

lemma command_simps [simp]:
  "return_c x w = (Inr x, w)" "raise_c e w = (Inl e, w)" "lift_c r w = (r, w)" "load d w = (Inr (documents w d), w)"
  "utc_now env w = (Inr (utc_at env (clock_reads w)), w\<lparr>clock_reads := clock_reads w + 1\<rparr>)"
  "today env w = (Inr (today_at env (clock_reads w)), w\<lparr>clock_reads := clock_reads w + 1\<rparr>)"
  by (simp_all add: return_c_def raise_c_def lift_c_def load_def utc_now_def today_def)

lemma bind_c_Inr [result_iffs]:
  "bind_c m f w = (Inr y, w'') \<longleftrightarrow> (\<exists>x w'. m w = (Inr x, w') \<and> f x w' = (Inr y, w''))"
  by (auto simp: bind_c_def split: prod.splits sum.splits)

lemma bind_c_Inl:
  "bind_c m f w = (Inl e, w'') \<longleftrightarrow> m w = (Inl e, w'') \<or> (\<exists>x w'. m w = (Inr x, w') \<and> f x w' = (Inl e, w''))"
  by (auto simp: bind_c_def split: prod.splits sum.splits)

lemma bind_c_run [simp]: "m w = (Inr x, w') \<Longrightarrow> bind_c m f w = f x w'"
  by (simp add: bind_c_def)

lemma bind_c_stop [simp]: "m w = (Inl e, w') \<Longrightarrow> bind_c m f w = (Inl e, w')"
  by (simp add: bind_c_def)

lemma save_many_run [simp]:
  "save_many writes i w = (Inr (), if writes = [] then w
     else w\<lparr>documents := write_all writes (documents w), saved := saved w @ [(i, writes)]\<rparr>)"
  by (simp add: save_many_def)

section \<open>The repository interface\<close>

text \<open>
  What the service relies on: a document reads as it was last written, a commit of several
  documents writes them all and no other, and reading changes nothing.
\<close>

locale document_repository =
  fixes read :: "'w \<Rightarrow> 'd \<Rightarrow> 'v" and commit :: "('d \<times> 'v) list \<Rightarrow> 'w \<Rightarrow> 'w"
  assumes read_commit: "distinct (map fst ws) \<Longrightarrow>
      read (commit ws s) d = (case map_of ws d of None \<Rightarrow> read s d | Some v \<Rightarrow> v)"
begin

lemma read_written: "distinct (map fst ws) \<Longrightarrow> (d, v) \<in> set ws \<Longrightarrow> read (commit ws s) d = v"
  by (simp add: read_commit)

lemma read_other: "distinct (map fst ws) \<Longrightarrow> d \<notin> fst ` set ws \<Longrightarrow> read (commit ws s) d = read s d"
  by (simp add: read_commit map_of_eq_None_iff [symmetric])

text \<open>An invariant over the documents a commit may touch is kept when the written ones have it.\<close>

lemma commit_invariant:
  assumes "distinct (map fst ws)" and "\<And>d. d \<notin> fst ` set ws \<Longrightarrow> P d (read s d)"
    and "\<And>d v. (d, v) \<in> set ws \<Longrightarrow> P d v"
  shows "P d (read (commit ws s) d)"
proof (cases "map_of ws d")
  case None
  then have "d \<notin> fst ` set ws" by (simp add: map_of_eq_None_iff)
  then have "P d (read s d)" by (rule assms(2))
  then show ?thesis by (simp add: read_commit [OF assms(1)] None)
next
  case (Some v)
  then have "P d v" by (intro assms(3) map_of_SomeD)
  then show ?thesis by (simp add: read_commit [OF assms(1)] Some)
qed

end

lemma write_all_map_of:
  "distinct (map fst ws) \<Longrightarrow> write_all ws ds d = (case map_of ws d of None \<Rightarrow> ds d | Some v \<Rightarrow> v)"
proof (induction ws arbitrary: ds)
  case (Cons p ws)
  obtain d' v where p: "p = (d', v)" by (cases p)
  with Cons.prems have "map_of ws d' = None" by (simp add: map_of_eq_None_iff)
  with Cons p show ?case by (simp split: option.split)
qed simp

interpretation workspace_documents: document_repository documents
  "\<lambda>ws w. snd (save_many ws i w)" for i
  by unfold_locales (simp add: write_all_map_of)

section \<open>A concrete environment\<close>

text \<open>Clocks that stand still, a constant digest and a constant identifier, for evaluation.\<close>

definition sample_env :: env where
  "sample_env = \<lparr>utc_at = (\<lambda>n. ''2025-03-04T05:06:07Z''), today_at = (\<lambda>n. ''2025-03-04''),
     sha256 = (\<lambda>t. replicate 64 (CHR ''a'')), uuid5 = (\<lambda>ns name. Inr ''11111111-2222-5333-8444-555555555555''),
     released_composition = True, released_documents = True, ready_workspace = Some ''0a0a0a0a-1b1b-4c4c-8d8d-0e0e0e0e0e0e'',
     local_time_at = (\<lambda>n. ''09:30'')\<rparr>"

definition sample_uid :: string where
  "sample_uid = ''0a0a0a0a-1b1b-4c4c-8d8d-0e0e0e0e0e0e''"

end
