(* ===== verification/WS_Notice.thy ===== *)
theory WS_Notice
  imports WS_World
begin

text \<open>
  \<open>workstack/mutation_notice.py\<close>: the notice a committed mutation leaves, its validation, and
  the compensation an Undo is built from. The identifiers of a notice are \<open>uuid5\<close> of the
  workspace and the idempotency key in two namespaces, so \<open>uuid5\<close> is a parameter here as it is
  in the world. Content scanning uses the patterns of the source.
\<close>

section \<open>Vocabulary\<close>

definition NOTICE_FORMAT :: string where "NOTICE_FORMAT = ''workstack.mutation-notice''"
definition COMPENSATION_FORMAT :: string where "COMPENSATION_FORMAT = ''workstack.mutation-compensation''"
definition TASK_STATUS_OPERATION :: string where "TASK_STATUS_OPERATION = ''task.status''"
definition PERMANENT_DELETE_OPERATION :: string where "PERMANENT_DELETE_OPERATION = ''task.permanent_delete''"
definition SUMMARY_MAX :: nat where "SUMMARY_MAX = 160"
definition ACTOR_MAX :: nat where "ACTOR_MAX = 64"
definition IDEMPOTENCY_MAX :: nat where "IDEMPOTENCY_MAX = 128"
definition IDEMPOTENCY_MIN :: nat where "IDEMPOTENCY_MIN = 8"

definition NOTICE_FIELDS :: "string list" where
  "NOTICE_FIELDS = [''format'', ''schema_version'', ''notice_id'', ''workspace_uid'', ''mutation_uid'',
     ''entity_kind'', ''entity_uid'', ''operation'', ''before_revision'', ''after_revision'', ''source'',
     ''actor'', ''idempotency_key'', ''commit_state'', ''summary'', ''undoable'', ''status_before'',
     ''status_after'']"

definition COMPENSATION_FIELDS :: "string list" where
  "COMPENSATION_FIELDS = [''format'', ''schema_version'', ''notice_id'', ''workspace_uid'', ''entity_kind'',
     ''entity_uid'', ''operation'', ''expected_revision'', ''requested_status'', ''idempotency_key'']"

definition SOURCES :: "string list" where "SOURCES = [''cli'', ''gui'', ''agent'']"
definition COMMIT_STATES :: "string list" where "COMMIT_STATES = [''committed'', ''commit_unknown'']"

definition ENTITY_KINDS :: "string list" where
  "ENTITY_KINDS = [''task'', ''subtask'', ''objective'', ''key_result'', ''worklog'', ''capture'',
     ''workspace'', ''profile'', ''storage'']"

definition OPERATION_ENTITY :: "(string \<times> string) list" where
  "OPERATION_ENTITY = [(''task.status'', ''task''), (''task.create'', ''task''), (''task.note'', ''task''),
     (''task.permanent_delete'', ''task''), (''subtask.status'', ''subtask''), (''subtask.create'', ''subtask''),
     (''objective.create'', ''objective''), (''key_result.create'', ''key_result''), (''okr.link'', ''objective''),
     (''okr.progress'', ''key_result''), (''worklog.append'', ''worklog''), (''capture.ingest'', ''capture''),
     (''authority.change'', ''workspace''), (''profile.change'', ''profile''), (''storage.migration'', ''storage''),
     (''storage.backup'', ''storage''), (''storage.restore'', ''storage'')]"

definition REVERSIBLE_OPERATIONS :: "string list" where
  "REVERSIBLE_OPERATIONS = [TASK_STATUS_OPERATION]"

definition OPERATION_SUMMARY :: "(string \<times> string) list" where
  "OPERATION_SUMMARY = [(''task.create'', ''Task created''), (''task.note'', ''Task note appended''),
     (''task.permanent_delete'', ''Permanent deletion is not undoable''),
     (''subtask.status'', ''Subtask status changed''), (''subtask.create'', ''Subtask created''),
     (''objective.create'', ''Objective created''), (''key_result.create'', ''Key result created''),
     (''okr.link'', ''Objective linked''), (''okr.progress'', ''Key-result progress recorded''),
     (''worklog.append'', ''Worklog entry appended''), (''capture.ingest'', ''Capture ingested''),
     (''authority.change'', ''Authority change recorded''), (''profile.change'', ''Profile change recorded''),
     (''storage.migration'', ''Storage migration recorded''), (''storage.backup'', ''Storage backup recorded''),
     (''storage.restore'', ''Storage restore recorded'')]"

section \<open>Patterns\<close>

definition key_char :: "char \<Rightarrow> bool" where
  "key_char c \<longleftrightarrow> is_alnum c \<or> c \<in> {CHR ''.'', CHR ''_'', CHR '':'', CHR ''-''}"

definition summary_char :: "char \<Rightarrow> bool" where
  "summary_char c \<longleftrightarrow> key_char c \<or> c = CHR '' ''"

definition r_space :: rx where "r_space = R_In SPACES"

definition SLASHES :: string where "SLASHES = [CHR ''/'', CHR 0x5C]"

definition SECRET_VALUE :: rx where
  "SECRET_VALUE = r_all [r_any [r_lit_i ''password'', r_lit_i ''passwd'', r_lit_i ''secret'',
       r_all [r_lit_i ''access'', r_opt (R_In ''_-''), r_lit_i ''token''],
       r_all [r_lit_i ''api'', r_opt (R_In ''_-''), r_lit_i ''key'']],
     R_Star r_space, R_In '':='']"

definition PERSONAL_PATH :: rx where
  "PERSONAL_PATH = r_all [r_any [
       r_all [R_In LETTERS, r_lit '':'',
         R_In SLASHES, r_any [r_lit_i ''users'', r_lit_i ''documents and settings''], R_In SLASHES],
       r_all [r_lit ''/'', r_any [r_lit_i ''home'', r_lit_i ''users'', r_lit_i ''u''], r_lit ''/'']],
     r_plus (R_Not_In (SLASHES @ SPACES)), R_In SLASHES]"

definition COMMAND_LINE :: rx where
  "COMMAND_LINE = r_any [
     r_all [R_Boundary, r_any [r_all [r_lit_i ''cmd'', r_opt (r_lit_i ''.exe'')], r_lit_i ''powershell'',
         r_lit_i ''pwsh'', r_lit_i ''bash'', r_all [r_lit_i ''python'', r_opt (r_lit_i ''w'')]],
       R_Boundary, r_plus r_space, R_Not_In SPACES],
     r_lit_i ''traceback (most recent call last)'']"

definition RETRY_HINT :: rx where
  "RETRY_HINT = r_all [R_Boundary, r_lit_i ''retry'', R_Boundary]"

definition is_control :: "char \<Rightarrow> bool" where
  "is_control c = (let n = (of_char c :: nat) in n \<le> 8 \<or> 11 \<le> n \<and> n \<le> 31 \<or> 127 \<le> n \<and> n \<le> 159)"

lemma is_control_bits [code]:
  "is_control (Char b0 b1 b2 b3 b4 b5 b6 b7) \<longleftrightarrow>
     (if b7 then \<not> b6 \<and> \<not> b5
      else if b6 \<or> b5 then b6 \<and> b5 \<and> b4 \<and> b3 \<and> b2 \<and> b1 \<and> b0
      else b4 \<or> \<not> b3 \<or> (b2 \<or> \<not> b1 \<and> \<not> b0) \<or> b1 \<and> b0)"
  unfolding is_control_def of_char_Char Let_def
  by (cases b0; cases b1; cases b2; cases b3; cases b4; cases b5; cases b6; cases b7) simp_all

definition SECRET_NAMES :: "string list" where
  "SECRET_NAMES = [''password'', ''passwd'', ''secret'', ''token'', ''access_token'', ''api_key'',
     ''authorization'', ''cookie'', ''credential'', ''private_key'', ''path'', ''command'', ''traceback'',
     ''title'', ''detail'', ''body'', ''prompt'', ''context'', ''retryable'', ''retry_suggestion'']"

section \<open>Field checks\<close>

definition notice_fail :: "string \<Rightarrow> 'a result" where
  "notice_fail code = Inl (MutationNoticeError code)"

definition notice_text :: "pyval \<Rightarrow> string result" where
  "notice_text v = (case v of PStr s \<Rightarrow> Inr s | _ \<Rightarrow> notice_fail ''malformed'')"

definition scan_text :: "string \<Rightarrow> unit result" where
  "scan_text text =
     (if rx_search SECRET_VALUE text \<or> rx_search PERSONAL_PATH text \<or> rx_search COMMAND_LINE text
      then notice_fail ''secret_bearing''
      else if list_ex is_control text then notice_fail ''malformed'' else Inr ())"

definition check_field_name :: "string \<Rightarrow> unit \<Rightarrow> unit result" where
  "check_field_name key = (\<lambda>_. bind_r (scan_text key) (\<lambda>_.
     if key \<in> set SECRET_NAMES then notice_fail ''secret_bearing'' else Inr ()))"

definition exact_fields :: "pyval \<Rightarrow> string list \<Rightarrow> dict result" where
  "exact_fields v expected =
     (case v of
        PDict d \<Rightarrow>
          bind_r (fold_r check_field_name (dkeys d) ()) (\<lambda>_.
          if list_ex (\<lambda>k. k \<notin> set expected) (dkeys d) then notice_fail ''unknown_field''
          else if list_ex (\<lambda>k. \<not> dhas d k) expected then notice_fail ''missing''
          else Inr d)
      | _ \<Rightarrow> notice_fail ''malformed'')"

definition notice_uid :: "pyval \<Rightarrow> string result" where
  "notice_uid v =
     bind_r (notice_text v) (\<lambda>text. bind_r (scan_text text) (\<lambda>_.
     if \<not> uuid_shape text \<or> \<not> uuid_nonzero text \<or> \<not> uuid_rfc4122 text then notice_fail ''malformed''
     else Inr text))"

definition bounded_token :: "pyval \<Rightarrow> (char \<Rightarrow> bool) \<Rightarrow> nat \<Rightarrow> nat \<Rightarrow> nat \<Rightarrow> string result" where
  "bounded_token v cls low high maximum =
     bind_r (notice_text v) (\<lambda>text.
     if maximum < length text then notice_fail ''oversized''
     else bind_r (scan_text text) (\<lambda>_.
       if \<not> class_run cls low high text then notice_fail ''malformed'' else Inr text))"

definition idempotency_token :: "pyval \<Rightarrow> string result" where
  "idempotency_token v = bounded_token v key_char 8 128 IDEMPOTENCY_MAX"

definition notice_revision :: "pyval \<Rightarrow> int result" where
  "notice_revision v =
     (if \<not> is_int v then notice_fail ''malformed''
      else if \<not> (0 \<le> int_of v \<and> int_of v \<le> MAX_REVISION) then notice_fail ''oversized''
      else Inr (int_of v))"

definition notice_enum :: "pyval \<Rightarrow> string list \<Rightarrow> string result" where
  "notice_enum v allowed =
     bind_r (notice_text v) (\<lambda>text. if text \<notin> set allowed then notice_fail ''malformed'' else Inr text)"

definition status_or_null :: "pyval \<Rightarrow> string option result" where
  "status_or_null v =
     (if v = PNone then Inr None else bind_r (notice_enum v TASK_STATUSES) (\<lambda>s. Inr (Some s)))"

definition notice_bool :: "pyval \<Rightarrow> bool result" where
  "notice_bool v = (case v of PBool b \<Rightarrow> Inr b | _ \<Rightarrow> notice_fail ''malformed'')"

definition opt_str :: "string option \<Rightarrow> pyval" where
  "opt_str v = (case v of None \<Rightarrow> PNone | Some s \<Rightarrow> PStr s)"

definition opt_int :: "int option \<Rightarrow> pyval" where
  "opt_int v = (case v of None \<Rightarrow> PNone | Some i \<Rightarrow> PInt i)"

section \<open>Derived fields\<close>

definition NOTICE_NS :: string where
  "NOTICE_NS = ''https://workstack.local/contracts/workstack-mutation-notice-v1''"

definition MUTATION_NS :: string where
  "MUTATION_NS = ''https://workstack.local/contracts/workstack-mutation-notice-v1/mutation''"

text \<open>The namespaces are themselves the \<open>uuid5\<close> of a URL in the namespace of URLs.\<close>

definition NAMESPACE_URL :: string where
  "NAMESPACE_URL = ''6ba7b811-9dad-11d1-80b4-00c04fd430c8''"

definition namespaced_uuid :: "env \<Rightarrow> string \<Rightarrow> string \<Rightarrow> string result" where
  "namespaced_uuid env url name =
     bind_r (uuid5 env NAMESPACE_URL url) (\<lambda>ns. uuid5 env ns name)"

definition derive_notice_id :: "env \<Rightarrow> pyval \<Rightarrow> pyval \<Rightarrow> string result" where
  "derive_notice_id env workspace_uid idempotency_key =
     bind_r (notice_uid workspace_uid) (\<lambda>canonical_uid.
     bind_r (idempotency_token idempotency_key) (\<lambda>key.
     if length key < IDEMPOTENCY_MIN then notice_fail ''malformed''
     else namespaced_uuid env NOTICE_NS (canonical_uid @ '':'' @ key)))"

definition derive_mutation_uid :: "env \<Rightarrow> pyval \<Rightarrow> pyval \<Rightarrow> string result" where
  "derive_mutation_uid env workspace_uid idempotency_key =
     bind_r (notice_uid workspace_uid) (\<lambda>canonical_uid.
     bind_r (idempotency_token idempotency_key) (\<lambda>key.
     namespaced_uuid env MUTATION_NS (canonical_uid @ '':'' @ key)))"

definition null_or :: "string option \<Rightarrow> string" where
  "null_or v = (case v of None \<Rightarrow> ''None'' | Some s \<Rightarrow> s)"

definition summary_for :: "string \<Rightarrow> string \<Rightarrow> string option \<Rightarrow> string option \<Rightarrow> string result" where
  "summary_for operation commit_state status_before status_after =
     bind_r (if commit_state = ''commit_unknown'' then Inr ''Mutation outcome is unverifiable''
             else if operation = TASK_STATUS_OPERATION
             then Inr (''Task status '' @ null_or status_before @ '' to '' @ null_or status_after)
             else case map_of OPERATION_SUMMARY operation of
               None \<Rightarrow> Inl (KeyError operation) | Some s \<Rightarrow> Inr s) (\<lambda>text.
     if SUMMARY_MAX < length text \<or> rx_search RETRY_HINT text then notice_fail ''malformed''
     else bounded_token (PStr text) summary_char 1 160 SUMMARY_MAX)"

definition undoable_for ::
  "string \<Rightarrow> string \<Rightarrow> int option \<Rightarrow> string option \<Rightarrow> string option \<Rightarrow> bool" where
  "undoable_for operation commit_state after_revision status_before status_after =
     (if commit_state \<noteq> ''committed'' \<or> after_revision = None then False
      else if operation \<notin> set REVERSIBLE_OPERATIONS then False
      else status_before \<noteq> None \<and> status_after \<noteq> None \<and> status_before \<noteq> status_after)"

definition paired_status :: "string \<Rightarrow> pyval \<Rightarrow> pyval \<Rightarrow> (string option \<times> string option) result" where
  "paired_status operation status_before status_after =
     bind_r (status_or_null status_before) (\<lambda>before.
     bind_r (status_or_null status_after) (\<lambda>after.
     if operation = TASK_STATUS_OPERATION
     then (if before = None \<or> after = None \<or> before = after then notice_fail ''malformed''
           else Inr (before, after))
     else if before \<noteq> None \<or> after \<noteq> None then notice_fail ''malformed''
     else Inr (None, None)))"

definition commit_pair :: "string \<Rightarrow> pyval \<Rightarrow> (string \<times> int option) result" where
  "commit_pair commit_state after_revision =
     (if commit_state = ''commit_unknown''
      then (if after_revision \<noteq> PNone then notice_fail ''malformed'' else Inr (commit_state, None))
      else if commit_state \<noteq> ''committed'' then notice_fail ''malformed''
      else bind_r (notice_revision after_revision) (\<lambda>r. Inr (commit_state, Some r)))"

section \<open>Notices\<close>

text \<open>The fields of a validated notice, in the order of their names, as the code returns them.\<close>

definition notice_record ::
  "string \<Rightarrow> int option \<Rightarrow> int \<Rightarrow> string \<Rightarrow> string \<Rightarrow> string \<Rightarrow> string \<Rightarrow> string \<Rightarrow> string \<Rightarrow> string \<Rightarrow>
   string \<Rightarrow> string option \<Rightarrow> string option \<Rightarrow> string \<Rightarrow> bool \<Rightarrow> string \<Rightarrow> dict" where
  "notice_record actor after before commit_state entity_kind entity_uid key mutation_uid notice_id
     operation source status_after status_before summary undoable workspace_uid =
    [(''actor'', PStr actor), (''after_revision'', opt_int after), (''before_revision'', PInt before),
     (''commit_state'', PStr commit_state), (''entity_kind'', PStr entity_kind),
     (''entity_uid'', PStr entity_uid), (''format'', PStr NOTICE_FORMAT),
     (''idempotency_key'', PStr key), (''mutation_uid'', PStr mutation_uid),
     (''notice_id'', PStr notice_id), (''operation'', PStr operation), (''schema_version'', PInt 1),
     (''source'', PStr source), (''status_after'', opt_str status_after),
     (''status_before'', opt_str status_before), (''summary'', PStr summary),
     (''undoable'', PBool undoable), (''workspace_uid'', PStr workspace_uid)]"

definition validate_notice :: "env \<Rightarrow> pyval \<Rightarrow> dict result" where
  "validate_notice env v =
     bind_r (exact_fields v NOTICE_FIELDS) (\<lambda>m.
     if dget m ''format'' \<noteq> PStr NOTICE_FORMAT then notice_fail ''malformed''
     else if \<not> is_int (dget m ''schema_version'') then notice_fail ''malformed''
     else if dget m ''schema_version'' \<noteq> PInt 1 then notice_fail ''unsupported_version''
     else
     bind_r (notice_uid (dget m ''workspace_uid'')) (\<lambda>workspace_uid.
     bind_r (idempotency_token (dget m ''idempotency_key'')) (\<lambda>key.
     bind_r (notice_enum (dget m ''operation'') (map fst OPERATION_ENTITY)) (\<lambda>operation.
     bind_r (notice_enum (dget m ''entity_kind'') ENTITY_KINDS) (\<lambda>entity_kind.
     if map_of OPERATION_ENTITY operation \<noteq> Some entity_kind then notice_fail ''malformed''
     else
     bind_r (notice_enum (dget m ''commit_state'') COMMIT_STATES) (\<lambda>state.
     bind_r (commit_pair state (dget m ''after_revision'')) (\<lambda>(commit_state, after_revision).
     bind_r (paired_status operation (dget m ''status_before'') (dget m ''status_after'')) (\<lambda>(before, after).
     bind_r (notice_bool (dget m ''undoable'')) (\<lambda>undoable.
     if undoable \<noteq> undoable_for operation commit_state after_revision before after
     then notice_fail ''malformed''
     else
     bind_r (bounded_token (dget m ''summary'') summary_char 1 160 SUMMARY_MAX) (\<lambda>summary.
     if rx_search RETRY_HINT summary then notice_fail ''malformed''
     else
     bind_r (summary_for operation commit_state before after) (\<lambda>expected_summary.
     if summary \<noteq> expected_summary then notice_fail ''malformed''
     else
     bind_r (notice_uid (dget m ''notice_id'')) (\<lambda>notice_id.
     bind_r (notice_uid (dget m ''mutation_uid'')) (\<lambda>mutation_uid.
     bind_r (derive_notice_id env (PStr workspace_uid) (PStr key)) (\<lambda>expected_id.
     if notice_id \<noteq> expected_id then notice_fail ''malformed''
     else
     bind_r (derive_mutation_uid env (PStr workspace_uid) (PStr key)) (\<lambda>expected_mutation.
     if mutation_uid \<noteq> expected_mutation then notice_fail ''malformed''
     else
     bind_r (bounded_token (dget m ''actor'') key_char 1 64 ACTOR_MAX) (\<lambda>actor.
     bind_r (notice_revision (dget m ''before_revision'')) (\<lambda>before_revision.
     bind_r (notice_uid (dget m ''entity_uid'')) (\<lambda>entity_uid.
     bind_r (notice_enum (dget m ''source'') SOURCES) (\<lambda>source.
     Inr (notice_record actor after_revision before_revision commit_state entity_kind entity_uid key
            mutation_uid notice_id operation source after before summary undoable workspace_uid))))))))))))))))))))"

definition build_notice ::
  "env \<Rightarrow> pyval \<Rightarrow> pyval \<Rightarrow> pyval \<Rightarrow> pyval \<Rightarrow> pyval \<Rightarrow> pyval \<Rightarrow> pyval \<Rightarrow> pyval \<Rightarrow> pyval \<Rightarrow> pyval \<Rightarrow> pyval \<Rightarrow>
   pyval \<Rightarrow> dict result" where
  "build_notice env workspace_uid entity_kind entity_uid operation before_revision after_revision source
     actor idempotency_key commit_state status_before status_after =
     bind_r (notice_uid workspace_uid) (\<lambda>canonical_uid.
     bind_r (idempotency_token idempotency_key) (\<lambda>key.
     bind_r (notice_enum operation (map fst OPERATION_ENTITY)) (\<lambda>op.
     bind_r (notice_enum entity_kind ENTITY_KINDS) (\<lambda>kind.
     if map_of OPERATION_ENTITY op \<noteq> Some kind then notice_fail ''malformed''
     else
     bind_r (notice_enum commit_state COMMIT_STATES) (\<lambda>cs.
     bind_r (commit_pair cs after_revision) (\<lambda>(state, after).
     bind_r (paired_status op status_before status_after) (\<lambda>(before_status, after_status).
     bind_r (derive_mutation_uid env (PStr canonical_uid) (PStr key)) (\<lambda>mutation_uid.
     bind_r (derive_notice_id env (PStr canonical_uid) (PStr key)) (\<lambda>notice_id.
     bind_r (summary_for op state before_status after_status) (\<lambda>summary.
     validate_notice env (PDict
       [(''actor'', actor), (''after_revision'', opt_int after), (''before_revision'', before_revision),
        (''commit_state'', PStr state), (''entity_kind'', PStr kind), (''entity_uid'', entity_uid),
        (''format'', PStr NOTICE_FORMAT), (''idempotency_key'', PStr key),
        (''mutation_uid'', PStr mutation_uid), (''notice_id'', PStr notice_id), (''operation'', PStr op),
        (''schema_version'', PInt 1), (''source'', source), (''status_after'', opt_str after_status),
        (''status_before'', opt_str before_status), (''summary'', PStr summary),
        (''undoable'', PBool (undoable_for op state after before_status after_status)),
        (''workspace_uid'', PStr canonical_uid)])))))))))))"

definition serialize_notice :: "env \<Rightarrow> pyval \<Rightarrow> string result" where
  "serialize_notice env v = bind_r (validate_notice env v) (\<lambda>n. Inr (json_compact (PDict n)))"

section \<open>Compensations\<close>

definition validate_compensation :: "pyval \<Rightarrow> dict result" where
  "validate_compensation v =
     bind_r (exact_fields v COMPENSATION_FIELDS) (\<lambda>m.
     if dget m ''format'' \<noteq> PStr COMPENSATION_FORMAT then notice_fail ''malformed''
     else if \<not> py_eq (dget m ''schema_version'') (PInt 1) then notice_fail ''unsupported_version''
     else
     bind_r (notice_enum (dget m ''operation'') REVERSIBLE_OPERATIONS) (\<lambda>operation.
     bind_r (notice_enum (dget m ''entity_kind'') [''task'']) (\<lambda>entity_kind.
     bind_r (notice_uid (dget m ''entity_uid'')) (\<lambda>entity_uid.
     bind_r (notice_revision (dget m ''expected_revision'')) (\<lambda>expected_revision.
     bind_r (idempotency_token (dget m ''idempotency_key'')) (\<lambda>key.
     bind_r (notice_uid (dget m ''notice_id'')) (\<lambda>notice_id.
     bind_r (notice_enum (dget m ''requested_status'') TASK_STATUSES) (\<lambda>requested_status.
     bind_r (notice_uid (dget m ''workspace_uid'')) (\<lambda>workspace_uid.
     Inr [(''entity_kind'', PStr entity_kind), (''entity_uid'', PStr entity_uid),
          (''expected_revision'', PInt expected_revision), (''format'', PStr COMPENSATION_FORMAT),
          (''idempotency_key'', PStr key), (''notice_id'', PStr notice_id), (''operation'', PStr operation),
          (''requested_status'', PStr requested_status), (''schema_version'', PInt 1),
          (''workspace_uid'', PStr workspace_uid)])))))))))"

definition serialize_compensation :: "pyval \<Rightarrow> string result" where
  "serialize_compensation v = bind_r (validate_compensation v) (\<lambda>c. Inr (json_compact (PDict c)))"

definition compensation_key :: "env \<Rightarrow> string \<Rightarrow> string" where
  "compensation_key env notice_id = ''undo:'' @ take 32 (sha256 env notice_id)"

definition build_compensation :: "env \<Rightarrow> pyval \<Rightarrow> pyval \<Rightarrow> pyval \<Rightarrow> pyval \<Rightarrow> dict result" where
  "build_compensation env notice current_workspace_uid current_entity_uid current_revision =
     bind_r (validate_notice env notice) (\<lambda>validated.
     if dget validated ''operation'' = PStr PERMANENT_DELETE_OPERATION then notice_fail ''permanent_deletion''
     else if dget validated ''commit_state'' = PStr ''commit_unknown'' then notice_fail ''commit_unknown''
     else if \<not> truthy (dget validated ''undoable'') \<or>
       \<not> in_tuple (dget validated ''operation'') REVERSIBLE_OPERATIONS then notice_fail ''not_undoable''
     else
     bind_r (notice_uid current_workspace_uid) (\<lambda>workspace_uid.
     bind_r (notice_uid current_entity_uid) (\<lambda>entity_uid.
     bind_r (notice_revision current_revision) (\<lambda>revision.
     if PStr workspace_uid \<noteq> dget validated ''workspace_uid'' then notice_fail ''workspace_mismatch''
     else if PStr entity_uid \<noteq> dget validated ''entity_uid'' then notice_fail ''entity_mismatch''
     else if PInt revision \<noteq> dget validated ''after_revision'' then notice_fail ''revision_mismatch''
     else validate_compensation (PDict
       [(''entity_kind'', PStr ''task''), (''entity_uid'', PStr entity_uid),
        (''expected_revision'', PInt revision), (''format'', PStr COMPENSATION_FORMAT),
        (''idempotency_key'', PStr (compensation_key env (str_of (dget validated ''notice_id'')))),
        (''notice_id'', dget validated ''notice_id''), (''operation'', PStr TASK_STATUS_OPERATION),
        (''requested_status'', dget validated ''status_before''), (''schema_version'', PInt 1),
        (''workspace_uid'', PStr workspace_uid)])))))"

section \<open>Laws\<close>

lemma notice_text_Inr [result_iffs]: "notice_text v = Inr s \<longleftrightarrow> v = PStr s"
  by (cases v) (auto simp: notice_text_def notice_fail_def)

lemma notice_fail_Inr [simp]: "notice_fail c \<noteq> Inr x"
  by (simp add: notice_fail_def)

lemma if_notice_fail [result_iffs]: "(if b then notice_fail c else m) = Inr y \<longleftrightarrow> \<not> b \<and> m = Inr y"
  by simp

lemma notice_uid_Inr:
  "notice_uid v = Inr u \<longleftrightarrow> v = PStr u \<and> scan_text u = Inr () \<and> uuid_shape u \<and> uuid_nonzero u \<and> uuid_rfc4122 u"
  by (auto simp: notice_uid_def result_iffs)

lemma bounded_token_Inr:
  "bounded_token v c l h m = Inr t \<longleftrightarrow> v = PStr t \<and> length t \<le> m \<and> scan_text t = Inr () \<and> class_run c l h t"
  by (auto simp: bounded_token_def result_iffs)

lemma notice_enum_Inr: "notice_enum v xs = Inr t \<longleftrightarrow> v = PStr t \<and> t \<in> set xs"
  by (auto simp: notice_enum_def result_iffs)

lemma notice_revision_Inr: "notice_revision v = Inr r \<longleftrightarrow> v = PInt r \<and> 0 \<le> r \<and> r \<le> MAX_REVISION"
  by (auto simp: notice_revision_def is_int_iff)

lemma notice_bool_Inr: "notice_bool v = Inr b \<longleftrightarrow> v = PBool b"
  by (cases v) (auto simp: notice_bool_def)

lemma status_or_null_Inr:
  "status_or_null v = Inr x \<longleftrightarrow> v = opt_str x \<and> (\<forall>s. x = Some s \<longrightarrow> s \<in> set TASK_STATUSES)"
  by (cases x) (auto simp: status_or_null_def result_iffs notice_enum_Inr opt_str_def)

lemma paired_status_Inr:
  "paired_status op b a = Inr p \<Longrightarrow> b = opt_str (fst p) \<and> a = opt_str (snd p)"
  by (auto simp: paired_status_def result_iffs status_or_null_Inr opt_str_def split: if_splits)

lemma commit_pair_Inr: "commit_pair cs v = Inr p \<Longrightarrow> fst p = cs \<and> v = opt_int (snd p)"
  by (auto simp: commit_pair_def result_iffs notice_revision_Inr opt_int_def split: if_splits)

text \<open>
  No scan stops a text without separators: every match of one of the patterns has one.
\<close>

definition sep_char :: "char \<Rightarrow> bool" where
  "sep_char c \<longleftrightarrow> py_space c \<or> c \<in> set SLASHES \<or> c \<in> {CHR '':'', CHR ''=''}"

lemma patterns_need_sep:
  "rx_needs sep_char SECRET_VALUE" "rx_needs sep_char PERSONAL_PATH" "rx_needs sep_char COMMAND_LINE"
  by code_simp+

lemma scan_text_plain: "list_all (\<lambda>c. \<not> sep_char c \<and> \<not> is_control c) t \<Longrightarrow> scan_text t = Inr ()"
proof -
  assume "list_all (\<lambda>c. \<not> sep_char c \<and> \<not> is_control c) t"
  then have t: "list_all (\<lambda>c. \<not> sep_char c) t" "\<not> list_ex is_control t"
    by (auto simp: list_all_iff list_ex_iff)
  then show ?thesis
    using rx_search_needs [OF patterns_need_sep(1) t(1)] rx_search_needs [OF patterns_need_sep(2) t(1)]
      rx_search_needs [OF patterns_need_sep(3) t(1)] by (simp add: scan_text_def)
qed

lemma scan_text_quick [code]:
  "scan_text text =
     (if list_all (\<lambda>c. \<not> sep_char c \<and> \<not> is_control c) text then Inr ()
      else if rx_search SECRET_VALUE text \<or> rx_search PERSONAL_PATH text \<or> rx_search COMMAND_LINE text
      then notice_fail ''secret_bearing''
      else if list_ex is_control text then notice_fail ''malformed'' else Inr ())"
  using scan_text_plain by (auto simp: scan_text_def)

lemma names_scanned:
  "list_all (\<lambda>k. check_field_name k () = Inr ()) NOTICE_FIELDS"
  "list_all (\<lambda>k. check_field_name k () = Inr ()) COMPENSATION_FIELDS"
proof -
  have "list_all (list_all (\<lambda>c. \<not> sep_char c \<and> \<not> is_control c)) (NOTICE_FIELDS @ COMPENSATION_FIELDS)"
    and "list_all (\<lambda>k. k \<notin> set SECRET_NAMES) (NOTICE_FIELDS @ COMPENSATION_FIELDS)" by code_simp+
  note names = this
  have "check_field_name k () = Inr ()" if "k \<in> set (NOTICE_FIELDS @ COMPENSATION_FIELDS)" for k
  proof -
    from names that have "scan_text k = Inr ()" "k \<notin> set SECRET_NAMES"
      by (auto simp: list_all_iff intro!: scan_text_plain)
    then show ?thesis by (simp add: check_field_name_def)
  qed
  then show "list_all (\<lambda>k. check_field_name k () = Inr ()) NOTICE_FIELDS"
    "list_all (\<lambda>k. check_field_name k () = Inr ()) COMPENSATION_FIELDS"
    by (simp_all add: list_all_iff)
qed

lemma exact_fields_Inr:
  "exact_fields v ks = Inr d \<longleftrightarrow> v = PDict d \<and> set (dkeys d) = set ks \<and>
     (\<forall>k \<in> set (dkeys d). check_field_name k () = Inr ())"
proof (cases v)
  case (PDict e)
  have "list_ex (\<lambda>k. k \<notin> set ks) (dkeys e) = (\<not> set (dkeys e) \<subseteq> set ks)"
    "list_ex (\<lambda>k. \<not> dhas e k) ks = (\<not> set ks \<subseteq> set (dkeys e))"
    by (auto simp: list_ex_iff dhas_iff)
  with PDict show ?thesis by (auto simp: exact_fields_def result_iffs fold_r_unit_Inr)
qed (auto simp: exact_fields_def)

lemma notice_record_items [simp]:
  "dget (notice_record actor after before cs ek eu key mu nid op src sa sb summary undoable wu) ''actor'' = PStr actor"
  "dget (notice_record actor after before cs ek eu key mu nid op src sa sb summary undoable wu) ''after_revision'' = opt_int after"
  "dget (notice_record actor after before cs ek eu key mu nid op src sa sb summary undoable wu) ''before_revision'' = PInt before"
  "dget (notice_record actor after before cs ek eu key mu nid op src sa sb summary undoable wu) ''commit_state'' = PStr cs"
  "dget (notice_record actor after before cs ek eu key mu nid op src sa sb summary undoable wu) ''entity_kind'' = PStr ek"
  "dget (notice_record actor after before cs ek eu key mu nid op src sa sb summary undoable wu) ''entity_uid'' = PStr eu"
  "dget (notice_record actor after before cs ek eu key mu nid op src sa sb summary undoable wu) ''format'' = PStr NOTICE_FORMAT"
  "dget (notice_record actor after before cs ek eu key mu nid op src sa sb summary undoable wu) ''idempotency_key'' = PStr key"
  "dget (notice_record actor after before cs ek eu key mu nid op src sa sb summary undoable wu) ''mutation_uid'' = PStr mu"
  "dget (notice_record actor after before cs ek eu key mu nid op src sa sb summary undoable wu) ''notice_id'' = PStr nid"
  "dget (notice_record actor after before cs ek eu key mu nid op src sa sb summary undoable wu) ''operation'' = PStr op"
  "dget (notice_record actor after before cs ek eu key mu nid op src sa sb summary undoable wu) ''schema_version'' = PInt 1"
  "dget (notice_record actor after before cs ek eu key mu nid op src sa sb summary undoable wu) ''source'' = PStr src"
  "dget (notice_record actor after before cs ek eu key mu nid op src sa sb summary undoable wu) ''status_after'' = opt_str sa"
  "dget (notice_record actor after before cs ek eu key mu nid op src sa sb summary undoable wu) ''status_before'' = opt_str sb"
  "dget (notice_record actor after before cs ek eu key mu nid op src sa sb summary undoable wu) ''summary'' = PStr summary"
  "dget (notice_record actor after before cs ek eu key mu nid op src sa sb summary undoable wu) ''undoable'' = PBool undoable"
  "dget (notice_record actor after before cs ek eu key mu nid op src sa sb summary undoable wu) ''workspace_uid'' = PStr wu"
  by (simp_all add: notice_record_def dget_def dget_or_def)

lemma dkeys_notice_record: "dkeys (notice_record actor after before cs ek eu key mu nid op src sa sb summary undoable wu) = sort NOTICE_FIELDS"
proof -
  have "sort NOTICE_FIELDS = [''actor'', ''after_revision'', ''before_revision'', ''commit_state'', ''entity_kind'',
    ''entity_uid'', ''format'', ''idempotency_key'', ''mutation_uid'', ''notice_id'', ''operation'', ''schema_version'',
    ''source'', ''status_after'', ''status_before'', ''summary'', ''undoable'', ''workspace_uid'']" by code_simp
  then show ?thesis by (simp add: notice_record_def dkeys_def)
qed

lemmas notice_checks = notice_uid_Inr bounded_token_Inr idempotency_token_def notice_enum_Inr notice_bool_Inr
  notice_revision_Inr

lemma validate_notice_fields:
  assumes "validate_notice env (PDict m) = Inr n"
  shows "exact_fields (PDict m) NOTICE_FIELDS = Inr m" "dkeys n = sort NOTICE_FIELDS"
    "\<forall>k \<in> set NOTICE_FIELDS. dget n k = dget m k"
proof -
  show "exact_fields (PDict m) NOTICE_FIELDS = Inr m"
    using assms by (auto simp: validate_notice_def result_iffs exact_fields_Inr)
  show "dkeys n = sort NOTICE_FIELDS"
    using assms by (auto simp: validate_notice_def result_iffs dkeys_notice_record)
  show "\<forall>k \<in> set NOTICE_FIELDS. dget n k = dget m k"
    using assms unfolding validate_notice_def
    apply (simp only: result_iffs split_paired_Ex case_prod_conv)
    apply (elim exE conjE)
    apply (simp add: notice_checks exact_fields_Inr)
    apply (drule commit_pair_Inr, drule paired_status_Inr)
    apply (clarsimp simp: NOTICE_FIELDS_def)
    done
qed

lemma validate_notice_congruent:
  assumes "exact_fields (PDict m) NOTICE_FIELDS = Inr m" "exact_fields (PDict n) NOTICE_FIELDS = Inr n"
    and "\<forall>k \<in> set NOTICE_FIELDS. dget n k = dget m k"
  shows "validate_notice env (PDict n) = validate_notice env (PDict m)"
  using assms(3) [unfolded NOTICE_FIELDS_def] by (simp add: validate_notice_def assms(1,2) cong: if_cong)

lemma validate_notice_idem:
  assumes "validate_notice env v = Inr n"
  shows "validate_notice env (PDict n) = Inr n"
proof -
  obtain m where v: "v = PDict m" using assms by (auto simp: validate_notice_def result_iffs exact_fields_Inr)
  note f = validate_notice_fields [OF assms [unfolded v]]
  have "exact_fields (PDict n) NOTICE_FIELDS = Inr n"
    using names_scanned(1) by (auto simp: exact_fields_Inr f(2) list_all_iff)
  from validate_notice_congruent [OF f(1) this f(3)] assms v show ?thesis by simp
qed

lemma build_notice_validated: "build_notice env w ek eu op b a src act key cs sb sa = Inr n \<Longrightarrow> validate_notice env (PDict n) = Inr n"
  by (auto simp: build_notice_def result_iffs intro: validate_notice_idem)

text \<open>No scan stops a token of hexadecimal digits after \<open>undo:\<close>.\<close>

definition odd_char :: "char \<Rightarrow> bool" where
  "odd_char c \<longleftrightarrow> py_space c \<or> c \<in> set SLASHES \<or> char_upper c \<in> {CHR ''S'', CHR ''P''}"

lemma patterns_need_odd:
  "rx_needs odd_char SECRET_VALUE" "rx_needs odd_char PERSONAL_PATH" "rx_needs odd_char COMMAND_LINE"
  by code_simp+

lemma hex_not_odd: "is_lower_hex c \<Longrightarrow> \<not> odd_char c \<and> \<not> is_control c \<and> key_char c"
proof -
  assume h: "is_lower_hex c"
  then have "(of_char (char_upper c) :: nat) \<le> 70"
    by (auto simp: is_lower_hex_def of_char_upper Let_def)
  then have "char_upper c \<noteq> CHR ''S''" "char_upper c \<noteq> CHR ''P''" by auto
  with h show ?thesis
    by (auto simp: is_lower_hex_def odd_char_def py_space_def SLASHES_def is_control_def key_char_def
        is_alnum_def Let_def)
qed

lemma compensation_key_token:
  assumes "32 \<le> length (sha256 env i)" and "list_all is_lower_hex (sha256 env i)"
  shows "idempotency_token (PStr (compensation_key env i)) = Inr (compensation_key env i)"
proof -
  let ?h = "take 32 (sha256 env i)"
  have h: "length ?h = 32" "\<forall>c \<in> set ?h. is_lower_hex c"
    using assms by (auto simp: list_all_iff dest: in_set_takeD)
  have u: "list_all (\<lambda>c. \<not> odd_char c \<and> \<not> is_control c \<and> key_char c) ''undo:''" by code_simp
  have all: "list_all (\<lambda>c. \<not> odd_char c \<and> \<not> is_control c \<and> key_char c) (''undo:'' @ ?h)"
    using u h(2) hex_not_odd by (simp only: list_all_append) (simp add: list_all_iff)
  let ?k = "compensation_key env i"
  have k: "list_all (\<lambda>c. \<not> odd_char c) ?k" "list_all key_char ?k" "\<not> list_ex is_control ?k" "length ?k = 37"
    using all h(1) by (simp_all only: compensation_key_def) (auto simp: list_all_iff list_ex_iff)
  then have "scan_text ?k = Inr ()"
    using rx_search_needs [OF patterns_need_odd(1) k(1)] rx_search_needs [OF patterns_need_odd(2) k(1)]
      rx_search_needs [OF patterns_need_odd(3) k(1)] by (simp add: scan_text_def)
  with k show ?thesis by (simp add: idempotency_token_def bounded_token_Inr class_run_def IDEMPOTENCY_MAX_def)
qed

text \<open>What the fields of a validated notice satisfy.\<close>

lemma validate_notice_facts:
  assumes "validate_notice env v = Inr n"
  shows "\<exists>m actor after before cs ek eu key mu nid op src sa sb summary undoable wu.
    Inr (notice_record actor after before cs ek eu key mu nid op src sa sb summary undoable wu) = (Inr n :: dict result) \<and>
    exact_fields v NOTICE_FIELDS = Inr m \<and> notice_uid (dget m ''workspace_uid'') = Inr wu \<and>
    idempotency_token (dget m ''idempotency_key'') = Inr key \<and>
    commit_pair cs (dget m ''after_revision'') = Inr (cs, after) \<and>
    paired_status op (dget m ''status_before'') (dget m ''status_after'') = Inr (sb, sa) \<and>
    undoable = undoable_for op cs after sb sa \<and>
    notice_uid (dget m ''notice_id'') = Inr nid \<and> notice_uid (dget m ''entity_uid'') = Inr eu"
  using assms unfolding validate_notice_def
  apply (simp only: result_iffs split_paired_Ex case_prod_conv)
  apply (elim exE conjE)
  apply (frule commit_pair_Inr)
  apply (intro exI conjI, assumption+)
      apply simp
     apply assumption
    apply simp
   apply assumption+
  done

lemma validate_notice_sound:
  assumes "validate_notice env v = Inr n"
  shows "notice_uid (dget n ''workspace_uid'') = Inr (str_of (dget n ''workspace_uid''))"
    "notice_uid (dget n ''entity_uid'') = Inr (str_of (dget n ''entity_uid''))"
    "notice_uid (dget n ''notice_id'') = Inr (str_of (dget n ''notice_id''))"
    "dget n ''commit_state'' = PStr ''committed'' \<Longrightarrow> notice_revision (dget n ''after_revision'') = Inr (int_of (dget n ''after_revision''))"
    "dget n ''operation'' = PStr TASK_STATUS_OPERATION \<Longrightarrow>
       \<exists>b a. dget n ''status_before'' = PStr b \<and> dget n ''status_after'' = PStr a \<and> b \<noteq> a \<and>
         b \<in> set TASK_STATUSES \<and> a \<in> set TASK_STATUSES"
    "dget n ''undoable'' = PBool (dget n ''commit_state'' = PStr ''committed'' \<and> dget n ''operation'' = PStr TASK_STATUS_OPERATION)"
proof -
  obtain m actor after before cs ek eu key mu nid op src sa sb summary undoable wu where
    i: "Inr (notice_record actor after before cs ek eu key mu nid op src sa sb summary undoable wu) = (Inr n :: dict result)" and
    u: "notice_uid (dget m ''workspace_uid'') = Inr wu" "notice_uid (dget m ''notice_id'') = Inr nid"
      "notice_uid (dget m ''entity_uid'') = Inr eu" and
    c: "commit_pair cs (dget m ''after_revision'') = Inr (cs, after)" and
    p: "paired_status op (dget m ''status_before'') (dget m ''status_after'') = Inr (sb, sa)" and
    un: "undoable = undoable_for op cs after sb sa"
    using validate_notice_facts [OF assms] by (elim exE conjE) (rule that; assumption)
  from i have n: "n = notice_record actor after before cs ek eu key mu nid op src sa sb summary undoable wu" by simp
  show "notice_uid (dget n ''workspace_uid'') = Inr (str_of (dget n ''workspace_uid''))"
    "notice_uid (dget n ''entity_uid'') = Inr (str_of (dget n ''entity_uid''))"
    "notice_uid (dget n ''notice_id'') = Inr (str_of (dget n ''notice_id''))"
    using u by (simp_all add: n notice_uid_Inr)
  show "notice_revision (dget n ''after_revision'') = Inr (int_of (dget n ''after_revision''))"
    if "dget n ''commit_state'' = PStr ''committed''"
    using that c by (auto simp: n commit_pair_def result_iffs notice_revision_Inr opt_int_def split: if_splits)
  show "\<exists>b a. dget n ''status_before'' = PStr b \<and> dget n ''status_after'' = PStr a \<and> b \<noteq> a \<and>
         b \<in> set TASK_STATUSES \<and> a \<in> set TASK_STATUSES"
    if "dget n ''operation'' = PStr TASK_STATUS_OPERATION"
    using that p by (auto simp: n paired_status_def result_iffs status_or_null_Inr opt_str_def split: if_splits)
  have "cs = ''committed'' \<longrightarrow> after \<noteq> None" using c by (auto simp: commit_pair_def result_iffs split: if_splits)
  moreover have "op = TASK_STATUS_OPERATION \<longrightarrow> sb \<noteq> None \<and> sa \<noteq> None \<and> sb \<noteq> sa"
    using p by (auto simp: paired_status_def result_iffs split: if_splits)
  ultimately show "dget n ''undoable'' = PBool (dget n ''commit_state'' = PStr ''committed'' \<and>
      dget n ''operation'' = PStr TASK_STATUS_OPERATION)"
    by (auto simp: n un undoable_for_def REVERSIBLE_OPERATIONS_def)
qed

text \<open>A notice that was built keeps the fields it was built from.\<close>

lemma build_notice_facts:
  assumes "build_notice env w ek eu op b a src act key cs sb sa = Inr n"
  shows "\<exists>raw. validate_notice env (PDict raw) = Inr n \<and>
    dget raw ''workspace_uid'' = w \<and>
    dget raw ''entity_uid'' = eu \<and>
    dget raw ''operation'' = op \<and>
    dget raw ''before_revision'' = b \<and>
    dget raw ''after_revision'' = a \<and>
    dget raw ''commit_state'' = cs \<and>
    dget raw ''status_before'' = sb \<and>
    dget raw ''status_after'' = sa \<and>
    dget raw ''idempotency_key'' = key \<and>
    dget raw ''source'' = src"
  using assms unfolding build_notice_def
  apply (simp only: result_iffs split_paired_Ex case_prod_conv)
  apply (elim exE conjE)
  apply (drule commit_pair_Inr, drule paired_status_Inr)
  apply (intro exI conjI, assumption)
           apply (simp_all add: notice_checks dget_def dget_or_def)
  done

lemma build_notice_fields:
  assumes "build_notice env w ek eu op b a src act key cs sb sa = Inr n"
  shows "dget n ''workspace_uid'' = w"
    "dget n ''entity_uid'' = eu"
    "dget n ''operation'' = op"
    "dget n ''before_revision'' = b"
    "dget n ''after_revision'' = a"
    "dget n ''commit_state'' = cs"
    "dget n ''status_before'' = sb"
    "dget n ''status_after'' = sa"
    "dget n ''idempotency_key'' = key"
    "dget n ''source'' = src"
proof -
  obtain raw where v: "validate_notice env (PDict raw) = Inr n" and m: "dget raw ''workspace_uid'' = w"
      "dget raw ''entity_uid'' = eu"
      "dget raw ''operation'' = op"
      "dget raw ''before_revision'' = b"
      "dget raw ''after_revision'' = a"
      "dget raw ''commit_state'' = cs"
      "dget raw ''status_before'' = sb"
      "dget raw ''status_after'' = sa"
      "dget raw ''idempotency_key'' = key"
      "dget raw ''source'' = src"
    using build_notice_facts [OF assms] by blast
  have "dget n k = dget raw k" if "k \<in> set NOTICE_FIELDS" for k
    using validate_notice_fields(3) [OF v] that by blast
  then show "dget n ''workspace_uid'' = w"
    "dget n ''entity_uid'' = eu"
    "dget n ''operation'' = op"
    "dget n ''before_revision'' = b"
    "dget n ''after_revision'' = a"
    "dget n ''commit_state'' = cs"
    "dget n ''status_before'' = sb"
    "dget n ''status_after'' = sa"
    "dget n ''idempotency_key'' = key"
    "dget n ''source'' = src"
    using m by (simp_all add: NOTICE_FIELDS_def)
qed

section \<open>Properties\<close>

text \<open>
  C16. Validating a notice is idempotent: the validated form of a notice is itself a valid
  notice, with the same value in every field, so what is stored reads back unchanged.
\<close>

theorem notice_validation_idempotent:
  assumes "validate_notice env (PDict m) = Inr n"
  shows "validate_notice env (PDict n) = Inr n \<and> (\<forall>k \<in> set NOTICE_FIELDS. dget n k = dget m k)"
  using validate_notice_idem [OF assms] validate_notice_fields(3) [OF assms] by blast

text \<open>
  C12. The notice of a committed status change can be undone at exactly the revision it
  left: there the compensation asks for the status before the change and expects that
  revision, for the same Task and workspace; at any other revision it is refused.
\<close>

theorem compensation_reverts:
  assumes "build_notice env (PStr w) (PStr ''task'') (PStr e) (PStr TASK_STATUS_OPERATION) (PInt b) (PInt a)
      src act key (PStr ''committed'') (PStr sb) (PStr sa) = Inr n"
    and "\<forall>t. 32 \<le> length (sha256 env t) \<and> list_all is_lower_hex (sha256 env t)"
  shows "(\<exists>c. build_compensation env (PDict n) (PStr w) (PStr e) (PInt a) = Inr c \<and>
      dget c ''requested_status'' = PStr sb \<and> dget c ''expected_revision'' = PInt a \<and>
      dget c ''entity_uid'' = PStr e \<and> dget c ''workspace_uid'' = PStr w) \<and>
    (\<forall>r. 0 \<le> r \<longrightarrow> r \<le> MAX_REVISION \<longrightarrow> r \<noteq> a \<longrightarrow>
      build_compensation env (PDict n) (PStr w) (PStr e) (PInt r) = Inl (MutationNoticeError ''revision_mismatch''))"
proof
  note v = build_notice_validated [OF assms(1)] and f = build_notice_fields [OF assms(1)]
  note s = validate_notice_sound [OF v]
  have u: "notice_uid (PStr w) = Inr w" "notice_uid (PStr e) = Inr e" "notice_revision (PInt a) = Inr a"
    using s(1,2,4) by (simp_all add: f)
  obtain nid where nid: "dget n ''notice_id'' = PStr nid" "notice_uid (PStr nid) = Inr nid"
    using s(3) by (auto simp: notice_uid_Inr)
  have st: "sb \<in> set TASK_STATUSES" using s(5) by (auto simp: f)
  have undo: "dget n ''undoable'' = PBool True" using s(6) by (simp add: f)
  have op: "TASK_STATUS_OPERATION \<noteq> PERMANENT_DELETE_OPERATION"
    by (simp add: TASK_STATUS_OPERATION_def PERMANENT_DELETE_OPERATION_def)
  let ?c = "[(''entity_kind'', PStr ''task''), (''entity_uid'', PStr e),
      (''expected_revision'', PInt a), (''format'', PStr COMPENSATION_FORMAT),
      (''idempotency_key'', PStr (compensation_key env nid)), (''notice_id'', PStr nid),
      (''operation'', PStr TASK_STATUS_OPERATION), (''requested_status'', PStr sb), (''schema_version'', PInt 1),
      (''workspace_uid'', PStr w)]"
  have "set (dkeys ?c) = set COMPENSATION_FIELDS" by (auto simp: dkeys_def COMPENSATION_FIELDS_def)
  then have x: "exact_fields (PDict ?c) COMPENSATION_FIELDS = Inr ?c"
    using names_scanned(2) by (simp add: exact_fields_Inr list_all_iff)
  have k: "idempotency_token (PStr (compensation_key env nid)) = Inr (compensation_key env nid)"
    using assms(2) by (intro compensation_key_token) auto
  have d: "dget ?c ''format'' = PStr COMPENSATION_FORMAT" "dget ?c ''schema_version'' = PInt 1"
    "dget ?c ''operation'' = PStr TASK_STATUS_OPERATION" "dget ?c ''entity_kind'' = PStr ''task''"
    "dget ?c ''entity_uid'' = PStr e" "dget ?c ''expected_revision'' = PInt a"
    "dget ?c ''idempotency_key'' = PStr (compensation_key env nid)" "dget ?c ''notice_id'' = PStr nid"
    "dget ?c ''requested_status'' = PStr sb" "dget ?c ''workspace_uid'' = PStr w"
    by (simp_all add: dget_def dget_or_def)
  have en: "notice_enum (PStr TASK_STATUS_OPERATION) REVERSIBLE_OPERATIONS = Inr TASK_STATUS_OPERATION"
    "notice_enum (PStr ''task'') [''task''] = Inr ''task''" "notice_enum (PStr sb) TASK_STATUSES = Inr sb"
    using st by (simp_all add: notice_enum_Inr REVERSIBLE_OPERATIONS_def)
  have vc: "validate_compensation (PDict ?c) = Inr ?c"
    by (simp only: validate_compensation_def x bind_r_simps d u k nid(2) en py_eq_PInt_PInt simp_thms if_False not_True_eq_False)
  have "build_compensation env (PDict n) (PStr w) (PStr e) (PInt a) = validate_compensation (PDict ?c)"
    using op by (simp add: build_compensation_def v f u nid undo in_tuple_iff REVERSIBLE_OPERATIONS_def)
  with vc d show "\<exists>c. build_compensation env (PDict n) (PStr w) (PStr e) (PInt a) = Inr c \<and>
      dget c ''requested_status'' = PStr sb \<and> dget c ''expected_revision'' = PInt a \<and>
      dget c ''entity_uid'' = PStr e \<and> dget c ''workspace_uid'' = PStr w" by auto
  show "\<forall>r. 0 \<le> r \<longrightarrow> r \<le> MAX_REVISION \<longrightarrow> r \<noteq> a \<longrightarrow>
      build_compensation env (PDict n) (PStr w) (PStr e) (PInt r) = Inl (MutationNoticeError ''revision_mismatch'')"
    using op by (simp add: build_compensation_def v f u undo in_tuple_iff REVERSIBLE_OPERATIONS_def
        notice_revision_def notice_fail_def)
qed

definition sample_notice :: "dict result" where
  "sample_notice = build_notice sample_env (PStr sample_uid) (PStr ''task'') (PStr sample_uid)
     (PStr TASK_STATUS_OPERATION) (PInt 3) (PInt 4) (PStr ''gui'') (PStr ''local.user'') (PStr ''key-12345'')
     (PStr ''committed'') (PStr ''open'') (PStr ''done'')"

definition sample_notice_fields :: dict where
  "sample_notice_fields = notice_record ''local.user'' (Some 4) 3 ''committed'' ''task'' sample_uid ''key-12345''
     ''11111111-2222-5333-8444-555555555555'' ''11111111-2222-5333-8444-555555555555'' ''task.status'' ''gui''
     (Some ''done'') (Some ''open'') ''Task status open to done'' True sample_uid"

lemma sample_notice_built: "sample_notice = Inr sample_notice_fields"
  by code_simp

theorem notice_validation_idempotent_witness:
  "validate_notice sample_env (PDict sample_notice_fields) = Inr sample_notice_fields"
  using notice_validation_idempotent
    [OF build_notice_validated [OF sample_notice_built [unfolded sample_notice_def]]] by (rule conjunct1)

theorem compensation_reverts_witness:
  "\<exists>c. build_compensation sample_env (PDict sample_notice_fields) (PStr sample_uid) (PStr sample_uid) (PInt 4) = Inr c \<and>
     dget c ''requested_status'' = PStr ''open''"
proof -
  have "\<forall>t. 32 \<le> length (sha256 sample_env t) \<and> list_all is_lower_hex (sha256 sample_env t)"
    by (simp add: sample_env_def is_lower_hex_def list_all_iff)
  from compensation_reverts [OF sample_notice_built [unfolded sample_notice_def] this] show ?thesis by blast
qed

end
