(* ===== verification/WS_Json.thy ===== *)
theory WS_Json
  imports WS_Patterns
begin

text \<open>
  \<open>json.loads\<close> on ASCII text. The reader takes fuel for its recursion; every call consumes a
  character or is one of at most two calls at the same place, so three times the length of the
  text is enough, and running out reads as a malformed text. A number with a fraction or an
  exponent becomes a float that keeps its text; an integer of more than 4300 digits is refused. Of a key that occurs twice the later value wins.
\<close>

definition json_space :: "char \<Rightarrow> bool" where
  "json_space c \<longleftrightarrow> c \<in> {CHR '' '', CHR 0x09, CHR 0x0A, CHR 0x0D}"

definition skip_space :: "string \<Rightarrow> string" where
  "skip_space s = dropWhile json_space s"

definition hex_value :: "char \<Rightarrow> nat option" where
  "hex_value c = (let n = (of_char c :: nat) in
     if is_digit c then Some (n - 48)
     else if 97 \<le> n \<and> n \<le> 102 then Some (n - 87)
     else if 65 \<le> n \<and> n \<le> 70 then Some (n - 55) else None)"

definition unescape :: "char \<Rightarrow> char option" where
  "unescape c = map_of [(CHR 0x22, CHR 0x22), (CHR 0x5C, CHR 0x5C), (CHR ''/'', CHR ''/''), (CHR ''b'', CHR 0x08),
     (CHR ''f'', CHR 0x0C), (CHR ''n'', CHR 0x0A), (CHR ''r'', CHR 0x0D), (CHR ''t'', CHR 0x09)] c"

text \<open>After the opening quote; control characters are refused, as the strict reader does.\<close>

fun read_string :: "string \<Rightarrow> (string \<times> string) option" where
  "read_string [] = None"
| "read_string (c # cs) =
     (if c = CHR 0x22 then Some ([], cs)
      else if (of_char c :: nat) < 32 then None
      else if c \<noteq> CHR 0x5C
      then map_option (\<lambda>(t, rest). (c # t, rest)) (read_string cs)
      else case cs of
          CHR ''u'' # a # b # d # e # rest \<Rightarrow>
            (case (hex_value a, hex_value b, hex_value d, hex_value e) of
               (Some 0, Some 0, Some h, Some l) \<Rightarrow>
                 map_option (\<lambda>(t, rest). (char_of (16 * h + l) # t, rest)) (read_string rest)
             | _ \<Rightarrow> None)
        | x # rest \<Rightarrow>
            (case unescape x of
               None \<Rightarrow> None
             | Some y \<Rightarrow> map_option (\<lambda>(t, rest). (y # t, rest)) (read_string rest))
        | [] \<Rightarrow> None)"

text \<open>\<open>-?(0|[1-9][0-9]*)(\.[0-9]+)?([eE][-+]?[0-9]+)?\<close>\<close>

definition read_int_part :: "string \<Rightarrow> (string \<times> string) option" where
  "read_int_part s =
     (let (sign, t) = (if take 1 s = ''-'' then (''-'', drop 1 s) else ([], s));
          ds = (if take 1 t = ''0'' then ''0'' else takeWhile is_digit t)
      in if ds = [] then None else Some (sign @ ds, drop (length ds) t))"

definition read_frac :: "string \<Rightarrow> string \<times> string" where
  "read_frac s = (let ds = takeWhile is_digit (drop 1 s) in
     if take 1 s = ''.'' \<and> ds \<noteq> [] then (''.'' @ ds, drop (1 + length ds) s) else ([], s))"

definition read_exp :: "string \<Rightarrow> string \<times> string" where
  "read_exp s =
     (let e = take 1 s;
          g = (if take 1 (drop 1 s) \<in> {''+'', ''-''} then take 1 (drop 1 s) else []);
          ds = takeWhile is_digit (drop (1 + length g) s)
      in if e \<in> {''e'', ''E''} \<and> ds \<noteq> [] then (e @ g @ ds, drop (1 + length g + length ds) s) else ([], s))"

definition int_value :: "string \<Rightarrow> int" where
  "int_value s = (if take 1 s = ''-'' then - int (digits_val (drop 1 s)) else int (digits_val s))"

definition read_number :: "string \<Rightarrow> (pyval \<times> string) option" where
  "read_number s =
     (case read_int_part s of
        None \<Rightarrow> None
      | Some (i, t) \<Rightarrow>
          (let (f, u) = read_frac t; (x, rest) = read_exp u in
           if f = [] \<and> x = [] then (if 4300 < length (filter is_digit i) then None else Some (PInt (int_value i), rest))
           else Some (PFloat (i @ f @ x), rest)))"

definition read_literal :: "string \<Rightarrow> (pyval \<times> string) option" where
  "read_literal s =
     (case find (\<lambda>(w, v). take (length w) s = w)
        [(''null'', PNone), (''true'', PBool True), (''false'', PBool False), (''NaN'', PFloat ''nan''),
         (''Infinity'', PFloat ''inf''), (''-Infinity'', PFloat ''-inf'')] of
        None \<Rightarrow> read_number s
      | Some (w, v) \<Rightarrow> Some (v, drop (length w) s))"

fun read_value :: "nat \<Rightarrow> string \<Rightarrow> (pyval \<times> string) option"
and read_items :: "nat \<Rightarrow> string \<Rightarrow> (pyval list \<times> string) option"
and read_members :: "nat \<Rightarrow> dict \<Rightarrow> string \<Rightarrow> (dict \<times> string) option" where
  "read_value 0 s = None"
| "read_value (Suc n) s =
     (case s of
        CHR 0x22 # rest \<Rightarrow> map_option (\<lambda>(t, rest). (PStr t, rest)) (read_string rest)
      | CHR ''['' # rest \<Rightarrow>
          (case skip_space rest of
             CHR '']'' # rest \<Rightarrow> Some (PList [], rest)
           | rest \<Rightarrow> map_option (\<lambda>(vs, rest). (PList vs, rest)) (read_items n rest))
      | CHR 0x7B # rest \<Rightarrow>
          (case skip_space rest of
             CHR 0x7D # rest \<Rightarrow> Some (PDict [], rest)
           | rest \<Rightarrow> map_option (\<lambda>(d, rest). (PDict d, rest)) (read_members n [] rest))
      | _ \<Rightarrow> read_literal s)"
| "read_items 0 s = None"
| "read_items (Suc n) s =
     (case read_value n s of
        None \<Rightarrow> None
      | Some (v, t) \<Rightarrow>
          (case skip_space t of
             CHR '','' # rest \<Rightarrow> map_option (\<lambda>(vs, rest). (v # vs, rest)) (read_items n (skip_space rest))
           | CHR '']'' # rest \<Rightarrow> Some ([v], rest)
           | _ \<Rightarrow> None))"
| "read_members 0 d s = None"
| "read_members (Suc n) d s =
     (case s of
        CHR 0x22 # rest \<Rightarrow>
          (case read_string rest of
             None \<Rightarrow> None
           | Some (k, t) \<Rightarrow>
               (case skip_space t of
                  CHR '':'' # u \<Rightarrow>
                    (case read_value n (skip_space u) of
                       None \<Rightarrow> None
                     | Some (v, w) \<Rightarrow>
                         (case skip_space w of
                            CHR '','' # rest \<Rightarrow> read_members n (dset d k v) (skip_space rest)
                          | CHR 0x7D # rest \<Rightarrow> Some (dset d k v, rest)
                          | _ \<Rightarrow> None))
                | _ \<Rightarrow> None))
      | _ \<Rightarrow> None)"

definition json_loads :: "string \<Rightarrow> pyval option" where
  "json_loads s =
     (case read_value (3 * length s + 3) (skip_space s) of
        None \<Rightarrow> None
      | Some (v, rest) \<Rightarrow> if skip_space rest = [] then Some v else None)"

end
