(* ===== verification/WS_Receipts.thy ===== *)
theory WS_Receipts
  imports WS_Notice WS_Json
begin

text \<open>
  \<open>workstack/mutation_receipts.py\<close>: notices are stored as events of the activity document, each
  with its canonical JSON as one opaque text. Reading a notice back parses and validates that
  text and requires it to be exactly the canonical form, so a stored notice cannot be altered
  without being refused. Lists are paged newest first; a cursor is the base64 of the event it
  stopped at and of the workspace it belongs to.
\<close>

definition NOTICE_EVENT_TYPE :: string where "NOTICE_EVENT_TYPE = ''mutation.notice''"
definition NOTICE_ACTOR :: string where "NOTICE_ACTOR = ''local.user''"
definition MAX_LIMIT :: int where "MAX_LIMIT = 50"
definition MAX_NOTICE_BLOB :: nat where "MAX_NOTICE_BLOB = 8192"
definition AGENT_CLIENT_ORIGIN :: string where "AGENT_CLIENT_ORIGIN = ''agent-cli-v1''"

definition receipt_error :: "string \<Rightarrow> string \<Rightarrow> dict \<Rightarrow> pyexc" where
  "receipt_error code msg details = MutationReceiptError code msg details"

definition RECEIPT_MESSAGE :: string where "RECEIPT_MESSAGE = ''invalid mutation receipt''"

text \<open>The HTTP status of a refusal, when none is given.\<close>

definition receipt_status :: "string \<Rightarrow> nat" where
  "receipt_status code =
     (if code = ''not_found'' then 404
      else if code \<in> {''revision_conflict'', ''idempotency_conflict'', ''revision_exhausted''} then 409
      else 400)"

definition unkeyed_status_key :: "string \<Rightarrow> int \<Rightarrow> string" where
  "unkeyed_status_key task_uid before_revision = ''ts:'' @ task_uid @ '':'' @ int_str before_revision"

definition notice_source_for :: "string \<Rightarrow> string" where
  "notice_source_for provenance = (if provenance = ''cli'' then ''cli'' else ''gui'')"

definition notice_source_for_origin :: "pyval \<Rightarrow> string" where
  "notice_source_for_origin origin = (if origin = PStr AGENT_CLIENT_ORIGIN then ''agent'' else ''gui'')"

definition next_activity_event_id :: "pyval list \<Rightarrow> string result" where
  "next_activity_event_id events =
     bind_r (largest_number ''E'' events) (\<lambda>largest. Inr (''E-'' @ pad_nat 6 (largest + 1)))"

section \<open>Reading notices\<close>

definition refuse_receipt :: "'a result" where
  "refuse_receipt = Inl (receipt_error ''invalid_request'' RECEIPT_MESSAGE [])"

definition notice_from_opaque_details :: "env \<Rightarrow> pyval \<Rightarrow> dict option result" where
  "notice_from_opaque_details env details =
     (case details of
        PDict d \<Rightarrow>
          (if \<not> exact_keys d [''notice''] then Inr None
           else case dget d ''notice'' of
               PStr blob \<Rightarrow>
                 (if \<not> (1 \<le> length blob \<and> length blob \<le> MAX_NOTICE_BLOB) then refuse_receipt
                  else case json_loads blob of
                      None \<Rightarrow> refuse_receipt
                    | Some parsed \<Rightarrow>
                        (case validate_notice env parsed of
                           Inl e \<Rightarrow> if is_value_error e \<or> e = TypeError then refuse_receipt else Inl e
                         | Inr notice \<Rightarrow>
                             bind_r (serialize_notice env (PDict notice)) (\<lambda>text.
                             if text \<noteq> blob then refuse_receipt else Inr (Some notice))))
             | _ \<Rightarrow> refuse_receipt)
      | _ \<Rightarrow> Inr None)"

definition notice_from_event :: "env \<Rightarrow> pyval \<Rightarrow> dict option result" where
  "notice_from_event env event =
     (case event of
        PDict d \<Rightarrow>
          (if dget d ''type'' \<noteq> PStr NOTICE_EVENT_TYPE then Inr None
           else notice_from_opaque_details env (dget d ''details''))
      | _ \<Rightarrow> Inr None)"

definition workspace_pair ::
  "env \<Rightarrow> string option \<Rightarrow> pyval \<Rightarrow> (string \<times> dict) list \<Rightarrow> (string \<times> dict) list result" where
  "workspace_pair env workspace_uid event pairs =
     bind_r (notice_from_event env event) (\<lambda>found. case found of
         None \<Rightarrow> Inr pairs
       | Some notice \<Rightarrow>
           (if (case workspace_uid of None \<Rightarrow> False | Some u \<Rightarrow> dget notice ''workspace_uid'' \<noteq> PStr u)
            then Inr pairs
            else bind_r (getitem event ''id'') (\<lambda>i. Inr (pairs @ [(py_str i, notice)]))))"

definition workspace_pairs :: "env \<Rightarrow> dict \<Rightarrow> string option \<Rightarrow> (string \<times> dict) list result" where
  "workspace_pairs env activity workspace_uid =
     (case dget activity ''activity'' of
        PList events \<Rightarrow> fold_r (workspace_pair env workspace_uid) (rev events) []
      | _ \<Rightarrow> Inr [])"

definition find_notice :: "env \<Rightarrow> dict \<Rightarrow> string \<Rightarrow> dict option result" where
  "find_notice env activity notice_id =
     bind_r (workspace_pairs env activity None) (\<lambda>pairs.
     Inr (map_option snd (find (\<lambda>(i, notice). dget notice ''notice_id'' = PStr notice_id) pairs)))"

section \<open>Recording a notice\<close>

definition opaque_details :: "env \<Rightarrow> dict \<Rightarrow> dict result" where
  "opaque_details env notice =
     bind_r (serialize_notice env (PDict notice)) (\<lambda>text. Inr [(''notice'', PStr text)])"

text \<open>Returns the notice and the activity document after it.\<close>

definition record_committed_status_notice ::
  "env \<Rightarrow> dict \<Rightarrow> pyval \<Rightarrow> dict \<Rightarrow> pyval \<Rightarrow> pyval \<Rightarrow> int \<Rightarrow> int \<Rightarrow> pyval \<Rightarrow> pyval \<Rightarrow> string \<Rightarrow> (dict \<times> dict) result" where
  "record_committed_status_notice env activity workspace_uid task status_before status_after
     before_revision after_revision idempotency_key source created_at =
     bind_r (dindex task ''uid'') (\<lambda>uid.
     bind_r (build_notice env workspace_uid (PStr ''task'') uid (PStr TASK_STATUS_OPERATION)
       (PInt before_revision) (PInt after_revision) source (PStr NOTICE_ACTOR) idempotency_key
       (PStr ''committed'') status_before status_after) (\<lambda>notice.
     bind_r (find_notice env activity (str_of (dget notice ''notice_id''))) (\<lambda>existing. case existing of
         Some old \<Rightarrow>
           bind_r (serialize_notice env (PDict old)) (\<lambda>a.
           bind_r (serialize_notice env (PDict notice)) (\<lambda>b.
           if a \<noteq> b then Inl (receipt_error ''idempotency_conflict'' RECEIPT_MESSAGE [])
           else Inr (old, activity)))
       | None \<Rightarrow>
           (let activity = dsetdefault activity ''activity'' (PList []) in
            bind_r (iter_r (dget activity ''activity'')) (\<lambda>events.
            bind_r (next_activity_event_id events) (\<lambda>event_id.
            bind_r (dindex task ''id'') (\<lambda>task_id.
            bind_r (opaque_details env notice) (\<lambda>details.
            bind_r (as_list (dget activity ''activity'')) (\<lambda>old_events.
            Inr (notice, dset activity ''activity'' (PList (old_events @ [PDict
              [(''id'', PStr event_id), (''type'', PStr NOTICE_EVENT_TYPE), (''created_at'', PStr created_at),
               (''task_id'', task_id), (''details'', PDict details)]]))))))))))))"

section \<open>Cursors\<close>

definition QUERY_INVALID :: pyexc where "QUERY_INVALID = ValueErr ''mutation notice query is invalid''"

text \<open>\<open>base64.urlsafe_b64encode\<close> without its padding, three characters to four.\<close>

definition B64_ALPHABET :: string where
  "B64_ALPHABET = ''ABCDEFGHIJKLMNOPQRSTUVWXYZabcdefghijklmnopqrstuvwxyz0123456789-_''"

definition b64_char :: "nat \<Rightarrow> char" where
  "b64_char n = B64_ALPHABET ! (n mod 64)"

fun b64_encode :: "string \<Rightarrow> string" where
  "b64_encode (a # b # c # rest) =
     (let n = 65536 * of_char a + 256 * of_char b + of_char c :: nat
      in b64_char (n div 262144) # b64_char (n div 4096) # b64_char (n div 64) # b64_char n # b64_encode rest)"
| "b64_encode [a, b] =
     (let n = 65536 * of_char a + 256 * of_char b :: nat
      in [b64_char (n div 262144), b64_char (n div 4096), b64_char (n div 64)])"
| "b64_encode [a] =
     (let n = 65536 * of_char a :: nat in [b64_char (n div 262144), b64_char (n div 4096)])"
| "b64_encode [] = []"

fun b64_index_from :: "nat \<Rightarrow> string \<Rightarrow> char \<Rightarrow> nat option" where
  "b64_index_from i [] c = None"
| "b64_index_from i (x # xs) c = (if x = c then Some i else b64_index_from (Suc i) xs c)"

definition b64_index :: "char \<Rightarrow> nat" where
  "b64_index c = (case b64_index_from 0 B64_ALPHABET c of None \<Rightarrow> 0 | Some i \<Rightarrow> i)"

text \<open>Decoding of text over the alphabet; one character left over is refused, and the unused
  low bits of the last one are dropped.\<close>

fun b64_decode :: "string \<Rightarrow> string option" where
  "b64_decode (a # b # c # d # rest) =
     (let n = 262144 * b64_index a + 4096 * b64_index b + 64 * b64_index c + b64_index d
      in map_option (\<lambda>t. char_of (n div 65536) # char_of (n div 256 mod 256) # char_of (n mod 256) # t) (b64_decode rest))"
| "b64_decode [a, b, c] =
     (let n = 262144 * b64_index a + 4096 * b64_index b + 64 * b64_index c
      in Some [char_of (n div 65536), char_of (n div 256 mod 256)])"
| "b64_decode [a, b] = (let n = 262144 * b64_index a + 4096 * b64_index b in Some [char_of (n div 65536)])"
| "b64_decode [a] = None"
| "b64_decode [] = Some []"

definition event_id_shape :: "string \<Rightarrow> bool" where
  "event_id_shape s =
     (case strip_prefix ''E-'' s of None \<Rightarrow> False | Some t \<Rightarrow> 6 \<le> length t \<and> all_digits t)"

definition encode_list_cursor :: "string \<Rightarrow> string \<Rightarrow> string" where
  "encode_list_cursor workspace_uid event_id =
     b64_encode (json_compact (PDict [(''e'', PStr event_id), (''v'', PInt 1), (''w'', PStr workspace_uid)]))"

definition cursor_bytes :: "string \<Rightarrow> string result" where
  "cursor_bytes cursor =
     (if \<not> (32 \<le> length cursor \<and> length cursor \<le> 160) then Inl QUERY_INVALID
      else if event_id_shape cursor then Inl QUERY_INVALID
      else if \<not> list_all (\<lambda>c. is_alnum c \<or> c = CHR ''_'' \<or> c = CHR ''-'') cursor then Inl QUERY_INVALID
      else case b64_decode cursor of
          None \<Rightarrow> Inl QUERY_INVALID
        | Some raw \<Rightarrow> if \<not> (1 \<le> length raw \<and> length raw \<le> 120) then Inl QUERY_INVALID else Inr raw)"

definition cursor_payload :: "string \<Rightarrow> dict result" where
  "cursor_payload raw =
     (case json_loads raw of
        Some (PDict d) \<Rightarrow>
          (if \<not> exact_keys d [''e'', ''v'', ''w''] then Inl QUERY_INVALID
           else if \<not> py_eq (dget d ''v'') (PInt 1) then Inl QUERY_INVALID else Inr d)
      | _ \<Rightarrow> Inl QUERY_INVALID)"

definition decode_list_cursor :: "string \<Rightarrow> string \<Rightarrow> string result" where
  "decode_list_cursor cursor workspace_uid =
     bind_r (cursor_bytes cursor) (\<lambda>raw.
     bind_r (cursor_payload raw) (\<lambda>payload.
     if dget payload ''w'' \<noteq> PStr workspace_uid then Inl QUERY_INVALID
     else case dget payload ''e'' of
         PStr event_id \<Rightarrow> if \<not> event_id_shape event_id then Inl QUERY_INVALID else Inr event_id
       | _ \<Rightarrow> Inl QUERY_INVALID))"

fun position :: "string \<Rightarrow> string list \<Rightarrow> nat option" where
  "position x [] = None"
| "position x (y # ys) = (if x = y then Some 0 else map_option Suc (position x ys))"

definition page_start :: "(string \<times> dict) list \<Rightarrow> string option \<Rightarrow> string \<Rightarrow> nat result" where
  "page_start items cursor workspace_uid =
     (case cursor of
        None \<Rightarrow> Inr 0
      | Some c \<Rightarrow>
          bind_r (decode_list_cursor c workspace_uid) (\<lambda>event_id.
          case position event_id (map fst items) of
            None \<Rightarrow> Inl QUERY_INVALID | Some i \<Rightarrow> Inr (i + 1)))"

definition next_page_cursor ::
  "(string \<times> dict) list \<Rightarrow> (string \<times> dict) list \<Rightarrow> nat \<Rightarrow> nat \<Rightarrow> string \<Rightarrow> string option" where
  "next_page_cursor items window start limit workspace_uid =
     (if length items \<le> start + limit then None
      else if window = [] then None
      else Some (encode_list_cursor workspace_uid (fst (last window))))"

definition page_notices ::
  "env \<Rightarrow> dict \<Rightarrow> string \<Rightarrow> string option \<Rightarrow> nat \<Rightarrow> (dict list \<times> string option) result" where
  "page_notices env activity workspace_uid cursor limit =
     bind_r (workspace_pairs env activity (Some workspace_uid)) (\<lambda>items.
     bind_r (page_start items cursor workspace_uid) (\<lambda>start.
     let window = take limit (drop start items) in
     Inr (map snd window, next_page_cursor items window start limit workspace_uid)))"

section \<open>Laws\<close>

text \<open>Only canonical notices come out of the activity document.\<close>

lemma notice_from_event_valid:
  assumes "notice_from_event env event = Inr (Some n)"
  shows "validate_notice env (PDict n) = Inr n"
  using assms
  by (auto simp: notice_from_event_def notice_from_opaque_details_def refuse_receipt_def result_iffs Let_def
      split: pyval.splits if_splits option.splits sum.splits dest: validate_notice_idem)

lemma workspace_pair_Inr:
  assumes "workspace_pair env u e s = Inr t"
  shows "t = s \<or> (\<exists>i n. t = s @ [(i, n)] \<and> notice_from_event env e = Inr (Some n) \<and>
    (\<forall>w. u = Some w \<longrightarrow> dget n ''workspace_uid'' = PStr w))"
proof -
  from assms obtain found where f: "notice_from_event env e = Inr found"
    by (auto simp: workspace_pair_def result_iffs)
  show ?thesis
  proof (cases found)
    case None
    with assms f show ?thesis by (simp add: workspace_pair_def)
  next
    case (Some n)
    with assms f show ?thesis
      by (cases u) (auto simp: workspace_pair_def result_iffs split: if_splits)
  qed
qed

lemma workspace_pairs_valid:
  assumes "workspace_pairs env activity u = Inr ps"
  shows "\<forall>(i, n) \<in> set ps. validate_notice env (PDict n) = Inr n \<and> (\<forall>w. u = Some w \<longrightarrow> dget n ''workspace_uid'' = PStr w)"
proof (cases "dget activity ''activity''")
  case (PList events)
  then have f: "fold_r (workspace_pair env u) (rev events) [] = Inr ps" using assms by (simp add: workspace_pairs_def)
  let ?I = "\<lambda>ps. \<forall>(i, n) \<in> set ps. validate_notice env (PDict n) = Inr n \<and> (\<forall>w. u = Some w \<longrightarrow> dget n ''workspace_uid'' = PStr w)"
  show ?thesis
  proof (rule fold_r_invariant [OF f, where I = ?I])
    show "?I t" if "?I s" "workspace_pair env u e s = Inr t" for e s t
      using that(1) workspace_pair_Inr [OF that(2)] notice_from_event_valid by auto
  qed simp
qed (use assms in \<open>auto simp: workspace_pairs_def\<close>)

end
