(* ===== verification/WS_Idempotency.thy ===== *)
theory WS_Idempotency
  imports WS_Receipts
begin

text \<open>
  \<open>workstack/service_idempotency.py\<close>: the ledger of keyed intents in the activity document and
  the audit events beside it. The interface \<open>receipt_ledger\<close> states what every keyed command
  relies on - the first receipt of a key stays the one that answers for it, whatever is
  appended later - and the ledger's own lookup and append are its interpretation.
\<close>

section \<open>Keys and digests\<close>

definition key_ok :: "pyval \<Rightarrow> bool" where
  "key_ok v \<longleftrightarrow> is_str v \<and> class_run key_char 8 128 (str_of v)"

definition validate_idempotency_key :: "pyval \<Rightarrow> string result" where
  "validate_idempotency_key v =
     (if \<not> key_ok v
      then Inl (domain_error ''Idempotency-Key must match [A-Za-z0-9._:-]{8,128}''
             [(''header'', PStr ''Idempotency-Key'')])
      else Inr (str_of v))"

text \<open>A value built from JSON always serialises, so only a supplied digest can be refused.\<close>

definition raw_request_digest :: "env \<Rightarrow> pyval \<Rightarrow> pyval \<Rightarrow> string result" where
  "raw_request_digest env body supplied =
     (let computed = canonical_digest env body in
      if supplied \<noteq> PNone \<and> supplied \<noteq> PStr computed
      then Inl (domain_error ''the request digest does not match the request body'' [])
      else Inr computed)"

section \<open>Events\<close>

text \<open>\<open>_event\<close> returns the event and the activity document with it.\<close>

definition optional_field :: "string \<Rightarrow> pyval \<Rightarrow> dict \<Rightarrow> dict" where
  "optional_field k v d = (if truthy v then dset d k v else d)"

definition append_event ::
  "env \<Rightarrow> dict \<Rightarrow> string \<Rightarrow> pyval \<Rightarrow> pyval \<Rightarrow> pyval \<Rightarrow> dict \<Rightarrow> (dict \<times> dict) command" where
  "append_event env activity event_type capture_id task_id reply_id details =
     (let activity = dsetdefault activity ''activity'' (PList []) in
      bind_c (lift_c (bind_r (iter_r (dget activity ''activity'')) (\<lambda>events. next_id events ''E'' 6))) (\<lambda>event_id.
      bind_c (utc_now env) (\<lambda>created_at.
      let event = optional_field ''reply_id'' reply_id (optional_field ''task_id'' task_id
            (optional_field ''capture_id'' capture_id
              [(''id'', PStr event_id), (''type'', PStr event_type), (''created_at'', PStr created_at),
               (''details'', PDict details)]))
      in bind_c (lift_c (as_list (dget activity ''activity''))) (\<lambda>events.
         return_c (event, dset activity ''activity'' (PList (events @ [PDict event])))))))"

section \<open>The ledger\<close>

definition REPLY_PROJECTION :: "string list" where
  "REPLY_PROJECTION = [''id'', ''task_id'', ''capture_id'', ''capture_revision'', ''provider'', ''capability'',
     ''target'', ''body'', ''body_digest'', ''target_digest'', ''state'', ''approved_at'', ''receipt'',
     ''created_at'', ''updated_at'']"

definition project_reply :: "dict \<Rightarrow> dict result" where
  "project_reply reply = map_r (\<lambda>f. bind_r (dindex reply f) (\<lambda>v. Inr (f, v))) REPLY_PROJECTION"

type_synonym response = "int \<times> pyval"

text \<open>\<open>body.setdefault("meta", {})["replayed"] = True\<close>\<close>

definition set_replayed :: "pyval \<Rightarrow> pyval result" where
  "set_replayed body =
     bind_r (as_dict body) (\<lambda>b.
     let b = dsetdefault b ''meta'' (PDict []) in
     case dget b ''meta'' of
       PDict m \<Rightarrow> Inr (PDict (dset b ''meta'' (PDict (dset m ''replayed'' (PBool True)))))
     | _ \<Rightarrow> Inl TypeError)"

fun ledger_find :: "pyval list \<Rightarrow> string \<Rightarrow> dict option result" where
  "ledger_find [] key = Inr None"
| "ledger_find (r # rs) key =
     bind_r (as_dict r) (\<lambda>record.
     if dget record ''key'' \<noteq> PStr key then ledger_find rs key else Inr (Some record))"

definition same_request :: "dict \<Rightarrow> string \<Rightarrow> string \<Rightarrow> string \<Rightarrow> bool" where
  "same_request record request_method path request_digest \<longleftrightarrow>
     dget record ''method'' = PStr request_method \<and> dget record ''path'' = PStr path \<and>
     dget record ''request_digest'' = PStr request_digest"

definition stored_body :: "dict \<Rightarrow> dict \<Rightarrow> pyval result" where
  "stored_body replies record =
     (let ref = dget record ''response_ref'' in
      if ref = PNone then dindex record ''response_body''
      else case ref of
          PDict r \<Rightarrow>
            (if dget r ''kind'' \<noteq> PStr ''reply'' \<or> \<not> is_str (dget r ''id'')
             then Inl (domain_error ''stored idempotency response reference is invalid'' [])
             else bind_r (iter_r (dget_or replies ''replies'' (PList []))) (\<lambda>rs.
                  bind_r (find_record rs (str_of (dget r ''id'')) ''reply'') (\<lambda>(k, reply).
                  bind_r (project_reply reply) (\<lambda>data.
                  let m = dget record ''response_meta'' in
                  Inr (PDict ((''data'', PDict data) #
                    (if is_dict m \<and> truthy m then [(''meta'', m)] else [])))))))
        | _ \<Rightarrow> Inl (domain_error ''stored idempotency response reference is invalid'' []))"

definition idempotency_conflict :: "string \<Rightarrow> pyexc" where
  "idempotency_conflict key =
     DomainError Idempotency_Conflict ''Idempotency-Key was already used for a different request''
       [(''key'', PStr key)]"

definition ledger_of :: "dict \<Rightarrow> pyval" where
  "ledger_of activity = dget_or activity ''idempotency'' (PList [])"

definition idempotency_replay ::
  "dict \<Rightarrow> dict \<Rightarrow> pyval \<Rightarrow> string \<Rightarrow> string \<Rightarrow> string \<Rightarrow> response option result" where
  "idempotency_replay replies activity key request_method path request_digest =
     bind_r (validate_idempotency_key key) (\<lambda>k.
     bind_r (iter_r (ledger_of activity)) (\<lambda>records.
     bind_r (ledger_find records k) (\<lambda>found. case found of
         None \<Rightarrow> Inr None
       | Some record \<Rightarrow>
           (if \<not> same_request record request_method path request_digest then Inl (idempotency_conflict k)
            else bind_r (stored_body replies record) (\<lambda>body.
                 bind_r (set_replayed body) (\<lambda>body.
                 Inr (Some (200, body))))))))"

definition record_idempotency ::
  "env \<Rightarrow> dict \<Rightarrow> string \<Rightarrow> string \<Rightarrow> string \<Rightarrow> string \<Rightarrow> int \<Rightarrow> pyval \<Rightarrow> pyval \<Rightarrow> pyval \<Rightarrow> dict command" where
  "record_idempotency env activity key request_method path request_digest response_status response_body
     response_ref response_meta =
     bind_c (utc_now env) (\<lambda>created_at.
     let record = [(''key'', PStr key), (''method'', PStr request_method), (''path'', PStr path),
           (''request_digest'', PStr request_digest), (''response_status'', PInt response_status),
           (''created_at'', PStr created_at)];
         activity = dsetdefault activity ''idempotency'' (PList [])
     in bind_c (if response_ref = PNone
                then (if response_body = PNone
                      then raise_c (ValueErr ''response_body is required without response_ref'')
                      else return_c (record @ [(''response_body'', response_body)]))
                else return_c (record @ [(''response_ref'', response_ref)] @
                       (if truthy response_meta then [(''response_meta'', response_meta)] else []))) (\<lambda>record.
        bind_c (lift_c (as_list (dget activity ''idempotency''))) (\<lambda>records.
        return_c (dset activity ''idempotency'' (PList (records @ [PDict record]))))))"

text \<open>\<open>self.documents.load(REPLIES)\<close> happens only for a stored reference; it changes nothing.\<close>

definition replay :: "dict \<Rightarrow> pyval \<Rightarrow> string \<Rightarrow> string \<Rightarrow> string \<Rightarrow> response option command" where
  "replay activity key request_method path request_digest =
     bind_c (load Replies_Doc) (\<lambda>replies.
     lift_c (idempotency_replay replies activity key request_method path request_digest))"

text \<open>\<open>activity.setdefault("idempotency", [])\<close> is what a replay that finds nothing leaves.\<close>

definition with_ledger :: "dict \<Rightarrow> dict" where
  "with_ledger activity = dsetdefault activity ''idempotency'' (PList [])"

section \<open>The interface of the ledger\<close>

locale receipt_ledger =
  fixes lookup :: "'l \<Rightarrow> 'k \<Rightarrow> 'r option" and append :: "'r \<Rightarrow> 'l \<Rightarrow> 'l" and key :: "'r \<Rightarrow> 'k"
  assumes lookup_append:
    "lookup (append r l) k = (case lookup l k of Some x \<Rightarrow> Some x | None \<Rightarrow> if key r = k then Some r else None)"
begin

lemma found_after_append: "lookup l (key r) = None \<Longrightarrow> lookup (append r l) (key r) = Some r"
  by (simp add: lookup_append)

lemma append_keeps: "lookup l k = Some x \<Longrightarrow> lookup (append r l) k = Some x"
  by (simp add: lookup_append)

lemma append_other: "key r \<noteq> k \<Longrightarrow> lookup (append r l) k = lookup l k"
  by (simp add: lookup_append split: option.split)

text \<open>A receipt answers for its key through every later history of the ledger.\<close>

lemma receipt_is_final: "lookup l k = Some x \<Longrightarrow> lookup (foldl (\<lambda>l r. append r l) l rs) k = Some x"
  by (induction rs arbitrary: l) (simp_all add: append_keeps)

lemma unused_key: "lookup l k = None \<Longrightarrow> k \<notin> key ` set rs \<Longrightarrow> lookup (foldl (\<lambda>l r. append r l) l rs) k = None"
  by (induction rs arbitrary: l) (auto simp: append_other)

end

definition receipt_lookup :: "dict list \<Rightarrow> pyval \<Rightarrow> dict option" where
  "receipt_lookup records k = find (\<lambda>r. dget r ''key'' = k) records"

interpretation keyed_receipts: receipt_ledger receipt_lookup "\<lambda>r l. l @ [r]" "\<lambda>r. dget r ''key''"
proof (unfold_locales, goal_cases)
  case (1 r l k)
  show ?case by (induction l) (auto simp: receipt_lookup_def)
qed

lemma ledger_find_lookup:
  "ledger_find (map PDict rs) k = Inr (receipt_lookup rs (PStr k))"
  by (induction rs) (auto simp: receipt_lookup_def)

end
