(* ===== verification/WS_Commands.thy ===== *)
theory WS_Commands
  imports WS_Idempotency WS_TaskRules WS_DisplayId WS_Planning
begin

text \<open>
  What the command modules of the service share: the rows of a document, the outer shape of a
  keyed command - look the receipt up, act, commit the receipt with the writes - and the
  projection of a Task (\<open>service_task_reads.py\<close>). The laws of the shape are proved here once:
  a key that has been answered is answered again with the stored response and nothing is
  saved, however the ledger has grown since.
\<close>

section \<open>Running a command\<close>

text \<open>
  Equations that run a command forward: a read leaves the world as it is, a clock read advances
  the clock, a save appends one entry to the log. \<open>runs\<close> turns "the command returned \<open>y\<close>" into
  the values its steps had.
\<close>

named_theorems runs

definition tick :: "world \<Rightarrow> world" where
  "tick w = w\<lparr>clock_reads := clock_reads w + 1\<rparr>"

definition after_save :: "(document \<times> dict) list \<Rightarrow> string \<Rightarrow> world \<Rightarrow> world" where
  "after_save writes i w = snd (save_many writes i w)"

lemma tick_simps [simp]: "documents (tick w) = documents w" "saved (tick w) = saved w"
  by (simp_all add: tick_def)

lemma after_save_simps [simp]:
  "documents (after_save (p # ps) i w) = write_all (p # ps) (documents w)"
  "saved (after_save (p # ps) i w) = saved w @ [(i, p # ps)]"
  by (simp_all add: after_save_def)

lemma run_load [runs]: "bind_c (load d) f w = f (documents w d) w"
  by (simp add: bind_c_def)

lemma run_lift [runs]: "bind_c (lift_c r) f w = (Inr y, w') \<longleftrightarrow> (\<exists>x. r = Inr x \<and> f x w = (Inr y, w'))"
  by (cases r) (auto simp: bind_c_def)

lemma run_return [runs]: "bind_c (return_c x) f w = f x w" "return_c x w = (Inr y, w') \<longleftrightarrow> y = x \<and> w' = w"
  by (auto simp: bind_c_def)

lemma run_lift_last [runs]: "lift_c r w = (Inr y, w') \<longleftrightarrow> r = Inr y \<and> w' = w"
  by auto

lemma run_raise [runs]: "raise_c e w = (Inr y, w') \<longleftrightarrow> False" "bind_c (raise_c e) f w = (Inr y, w') \<longleftrightarrow> False"
  by (auto simp: bind_c_def)

lemma run_clock [runs]:
  "bind_c (utc_now env) f w = f (utc_at env (clock_reads w)) (tick w)"
  "bind_c (today env) f w = f (today_at env (clock_reads w)) (tick w)"
  "bind_c (local_time env) f w = f (local_time_at env (clock_reads w)) (tick w)"
  "bind_c (current_quarter env) f w = f (quarter_of (today_at env (clock_reads w))) (tick w)"
  by (simp_all add: bind_c_def tick_def utc_now_def today_def local_time_def current_quarter_def)

lemma run_save [runs]: "bind_c (save_many ws i) f w = f () (after_save ws i w)"
  by (simp add: bind_c_def after_save_def)

lemma run_assoc [runs]: "bind_c (bind_c m f) g w = bind_c m (\<lambda>x. bind_c (f x) g) w"
  by (auto simp: bind_c_def split: prod.splits sum.splits)

lemma run_if [runs]: "(if b then m else n) w = (if b then m w else n w)"
  "bind_c (if b then m else n) f w = (if b then bind_c m f w else bind_c n f w)"
  by simp_all

section \<open>All or nothing\<close>

text \<open>
  A step that only reads, and a command that commits at most once: it ends in one save of some
  documents, or changes nothing; a refusal changes nothing.
\<close>

definition reads_only :: "'a command \<Rightarrow> bool" where
  "reads_only m \<longleftrightarrow> (\<forall>w. documents (snd (m w)) = documents w \<and> saved (snd (m w)) = saved w)"

definition all_or_nothing :: "'a command \<Rightarrow> bool" where
  "all_or_nothing m \<longleftrightarrow> (\<forall>w. documents (snd (m w)) = documents w \<and> saved (snd (m w)) = saved w \<or>
     (\<exists>x i ws. fst (m w) = Inr x \<and> documents (snd (m w)) = write_all ws (documents w) \<and>
        saved (snd (m w)) = saved w @ [(i, ws)]))"

named_theorems commits

lemma reads_only_steps [commits]:
  "reads_only (return_c x)" "reads_only (raise_c e)" "reads_only (lift_c r)" "reads_only (load d)"
  "reads_only (utc_now env)" "reads_only (today env)" "reads_only (local_time env)" "reads_only (current_quarter env)"
  "reads_only (ready_uid env)"
  by (simp_all add: reads_only_def local_time_def current_quarter_def ready_uid_def)

lemma reads_only_bind [commits]: "reads_only m \<Longrightarrow> (\<And>x. reads_only (f x)) \<Longrightarrow> reads_only (bind_c m f)"
  by (auto simp: reads_only_def bind_c_def split: prod.splits sum.splits) (metis snd_conv)+

lemma reads_only_nothing: "reads_only m \<Longrightarrow> all_or_nothing m"
  by (auto simp: reads_only_def all_or_nothing_def)

lemma all_or_nothing_steps [commits]: "all_or_nothing (return_c x)" "all_or_nothing (raise_c e)" "all_or_nothing (lift_c r)"
  by (simp_all add: all_or_nothing_def)

lemma all_or_nothing_bind:
  assumes "reads_only m" and "\<And>x. all_or_nothing (f x)"
  shows "all_or_nothing (bind_c m f)"
  unfolding all_or_nothing_def
proof
  fix w
  obtain r w1 where m: "m w = (r, w1)" by (cases "m w")
  with assms(1) have w1: "documents w1 = documents w" "saved w1 = saved w"
    by (auto simp: reads_only_def dest: spec [of _ w])
  show "documents (snd (bind_c m f w)) = documents w \<and> saved (snd (bind_c m f w)) = saved w \<or>
     (\<exists>x i ws. fst (bind_c m f w) = Inr x \<and> documents (snd (bind_c m f w)) = write_all ws (documents w) \<and>
        saved (snd (bind_c m f w)) = saved w @ [(i, ws)])"
  proof (cases r)
    case (Inl e)
    with m w1 show ?thesis by (simp add: bind_c_def)
  next
    case (Inr x)
    with m have "bind_c m f w = f x w1" by (simp add: bind_c_def)
    with assms(2) [of x] w1 show ?thesis by (auto simp: all_or_nothing_def dest: spec [of _ w1])
  qed
qed

lemma all_or_nothing_reads [commits]:
  "(\<And>x. all_or_nothing (f x)) \<Longrightarrow> all_or_nothing (bind_c (load d) f)"
  "(\<And>x. all_or_nothing (g x)) \<Longrightarrow> all_or_nothing (bind_c (utc_now env) g)"
  "(\<And>x. all_or_nothing (g x)) \<Longrightarrow> all_or_nothing (bind_c (today env) g)"
  "(\<And>x. all_or_nothing (g x)) \<Longrightarrow> all_or_nothing (bind_c (local_time env) g)"
  "(\<And>x. all_or_nothing (g x)) \<Longrightarrow> all_or_nothing (bind_c (current_quarter env) g)"
  "(\<And>x. all_or_nothing (g x)) \<Longrightarrow> all_or_nothing (bind_c (ready_uid env) g)"
  by (auto intro!: all_or_nothing_bind reads_only_steps)

lemma all_or_nothing_lift [commits]:
  "(\<And>x. r = Inr x \<Longrightarrow> all_or_nothing (f x)) \<Longrightarrow> all_or_nothing (bind_c (lift_c r) f)"
  by (cases r) (auto simp: all_or_nothing_def bind_c_def)

lemma all_or_nothing_save [commits]: "all_or_nothing (bind_c (save_many ws i) (\<lambda>u. return_c x))"
  "all_or_nothing (bind_c (save_one d v) (\<lambda>u. return_c x))"
  by (auto simp: all_or_nothing_def bind_c_def save_one_def)

lemma all_or_nothing_save_lift [commits]:
  "\<not> isl r \<Longrightarrow> all_or_nothing (bind_c (save_many ws i) (\<lambda>u. lift_c r))"
  by (cases r) (auto simp: all_or_nothing_def bind_c_def)

lemma commits_case [commits]:
  "(\<And>a b. p = (a, b) \<Longrightarrow> all_or_nothing (f a b)) \<Longrightarrow> all_or_nothing (case p of (a, b) \<Rightarrow> f a b)"
  "(\<And>a b. p = (a, b) \<Longrightarrow> reads_only (f a b)) \<Longrightarrow> reads_only (case p of (a, b) \<Rightarrow> f a b)"
  by (cases p; simp)+

lemma commits_if [commits]:
  "(b \<Longrightarrow> all_or_nothing m) \<Longrightarrow> (\<not> b \<Longrightarrow> all_or_nothing n) \<Longrightarrow> all_or_nothing (if b then m else n)"
  "(b \<Longrightarrow> reads_only m') \<Longrightarrow> (\<not> b \<Longrightarrow> reads_only n') \<Longrightarrow> reads_only (if b then m' else n')"
  by simp_all

lemma commits_option [commits]:
  "all_or_nothing m \<Longrightarrow> (\<And>x. all_or_nothing (f x)) \<Longrightarrow> all_or_nothing (case v of None \<Rightarrow> m | Some x \<Rightarrow> f x)"
  "reads_only m' \<Longrightarrow> (\<And>x. reads_only (f' x)) \<Longrightarrow> reads_only (case v of None \<Rightarrow> m' | Some x \<Rightarrow> f' x)"
  by (cases v; simp)+

section \<open>Rows of a document\<close>

text \<open>\<open>data["tasks"]\<close> and \<open>data.get("tasks", [])\<close>, iterated.\<close>

definition rows :: "dict \<Rightarrow> string \<Rightarrow> pyval list result" where
  "rows doc field = bind_r (dindex doc field) iter_r"

definition rows_or :: "dict \<Rightarrow> string \<Rightarrow> pyval list result" where
  "rows_or doc field = iter_r (dget_or doc field (PList []))"

text \<open>A record that was looked up is changed in place: it goes back to its position.\<close>

definition put_row :: "dict \<Rightarrow> string \<Rightarrow> nat \<Rightarrow> dict \<Rightarrow> dict" where
  "put_row doc field k r = dset doc field (PList ((list_of (dget doc field))[k := PDict r]))"

definition append_row :: "dict \<Rightarrow> string \<Rightarrow> dict \<Rightarrow> dict result" where
  "append_row doc field r =
     bind_r (dindex doc field) (\<lambda>v. bind_r (as_list v) (\<lambda>xs. Inr (dset doc field (PList (xs @ [PDict r])))))"

definition find_row :: "dict \<Rightarrow> string \<Rightarrow> string \<Rightarrow> string \<Rightarrow> (nat \<times> dict) result" where
  "find_row doc field record_id label = bind_r (rows doc field) (\<lambda>rs. find_record rs record_id label)"

text \<open>\<open>task["updated_at"] = day; task["revision"] = next_revision\<close>\<close>

definition stamp_row :: "dict \<Rightarrow> string \<Rightarrow> int \<Rightarrow> dict" where
  "stamp_row r day next_rev = dset (dset r ''updated_at'' (PStr day)) ''revision'' (PInt next_rev)"

lemma iter_r_find:
  assumes "iter_r v = Inr rs" and "find_record rs i label = Inr (k, d)"
  shows "v = PList rs"
proof -
  from find_record_Inr [OF assms(2)] have "PDict d \<in> set rs" using nth_mem by metis
  with assms(1) show ?thesis by (cases v) auto
qed

lemma find_row_Inr:
  assumes "find_row doc field i label = Inr (k, d)"
  obtains rs where "dget doc field = PList rs" "dindex doc field = Inr (PList rs)" "k < length rs" "rs ! k = PDict d"
    "find_record rs i label = Inr (k, d)"
proof -
  from assms obtain v rs where v: "dindex doc field = Inr v" "iter_r v = Inr rs" and f: "find_record rs i label = Inr (k, d)"
    by (auto simp: find_row_def rows_def result_iffs)
  with iter_r_find [OF v(2) f] find_record_Inr [OF f] that show thesis by (auto simp: result_iffs dget_map_of)
qed

text \<open>Changing a record that was found, but not its identifier, leaves it where it is found.\<close>

lemma find_from_update:
  "find_from i rs w = Inr (Some (j, d)) \<Longrightarrow> dget_or d' ''id'' (PStr []) = dget_or d ''id'' (PStr []) \<Longrightarrow>
   find_from i (rs[j - i := PDict d']) w = Inr (Some (j, d'))"
proof (induction rs arbitrary: i)
  case (Cons r rs)
  from Cons.prems(1) obtain e where e: "r = PDict e" by (auto simp: result_iffs)
  show ?case
  proof (cases "py_upper (py_str (dget_or e ''id'' (PStr []))) = w")
    case True
    with Cons.prems e show ?thesis by auto
  next
    case False
    with Cons.prems e have f: "find_from (Suc i) rs w = Inr (Some (j, d))" by simp
    then have "Suc i \<le> j" using find_from_Some by blast
    then have "j - i = Suc (j - Suc i)" by simp
    with Cons.IH [OF f Cons.prems(2)] e False show ?thesis by simp
  qed
qed simp

lemma find_record_update:
  "find_record rs i label = Inr (k, d) \<Longrightarrow> dget_or d' ''id'' (PStr []) = dget_or d ''id'' (PStr []) \<Longrightarrow>
   find_record (rs[k := PDict d']) i label = Inr (k, d')"
  using find_from_update [of 0 rs "py_upper (py_strip i)" k d d']
  by (auto simp: find_record_def result_iffs split: option.splits)

lemma find_row_put:
  assumes "find_row doc field i label = Inr (k, d)" and "dget_or d' ''id'' (PStr []) = dget_or d ''id'' (PStr [])"
  shows "find_row (put_row doc field k d') field i label = Inr (k, d')"
proof -
  obtain rs where rs: "dget doc field = PList rs" "find_record rs i label = Inr (k, d)"
    using assms(1) by (rule find_row_Inr)
  then show ?thesis
    using find_record_update [OF rs(2) assms(2)] by (simp add: find_row_def rows_def put_row_def)
qed

section \<open>The shape of a keyed command\<close>

definition keyed_command ::
  "pyval \<Rightarrow> string \<Rightarrow> string \<Rightarrow> string \<Rightarrow> (dict \<Rightarrow> response command) \<Rightarrow> response command" where
  "keyed_command key request_method path digest act =
     bind_c (load Activity_Doc) (\<lambda>activity.
     bind_c (replay activity key request_method path digest) (\<lambda>found. case found of
         Some answer \<Rightarrow> return_c answer
       | None \<Rightarrow> act (with_ledger activity)))"

text \<open>
  \<open>_record_idempotency\<close>, then ONE \<open>save_many\<close> of the written documents and the activity.
\<close>

definition commit_keyed ::
  "env \<Rightarrow> dict \<Rightarrow> pyval \<Rightarrow> string \<Rightarrow> string \<Rightarrow> string \<Rightarrow> int \<Rightarrow> pyval \<Rightarrow> (document \<times> dict) list \<Rightarrow>
   (document \<times> dict) list \<Rightarrow> string \<Rightarrow> response command" where
  "commit_keyed env activity key request_method path digest status body before after operation_id =
     bind_c (record_idempotency env activity (str_of key) request_method path digest status body PNone PNone) (\<lambda>activity.
     bind_c (save_many (before @ [(Activity_Doc, activity)] @ after) operation_id) (\<lambda>_.
     return_c (status, body)))"

definition response_body :: "dict \<Rightarrow> pyval" where
  "response_body data = PDict [(''data'', PDict data), (''meta'', PDict [(''replayed'', PBool False)])]"

definition replayed_body :: "dict \<Rightarrow> pyval" where
  "replayed_body data = PDict [(''data'', PDict data), (''meta'', PDict [(''replayed'', PBool True)])]"

text \<open>Every receipt of the ledger is a record.\<close>

definition ledger_records :: "dict \<Rightarrow> dict list option" where
  "ledger_records activity = (case ledger_of activity of
     PList vs \<Rightarrow> if list_all is_dict vs then Some (map dict_of vs) else None | _ \<Rightarrow> None)"

text \<open>A later ledger: more receipts have been appended.\<close>

definition ledger_extends :: "dict \<Rightarrow> dict \<Rightarrow> bool" where
  "ledger_extends old new \<longleftrightarrow> (\<exists>xs ys. ledger_of old = PList (map PDict xs) \<and> ledger_of new = PList (map PDict (xs @ ys)))"

text \<open>The ledger answers a request with this response.\<close>

definition answered :: "dict \<Rightarrow> string \<Rightarrow> string \<Rightarrow> string \<Rightarrow> string \<Rightarrow> pyval \<Rightarrow> bool" where
  "answered activity key request_method path digest body \<longleftrightarrow>
     (\<exists>rs r. ledger_of activity = PList (map PDict rs) \<and> receipt_lookup rs (PStr key) = Some r \<and>
        same_request r request_method path digest \<and> dget r ''response_ref'' = PNone \<and>
        map_of r ''response_body'' = Some body)"

lemma foldl_snoc: "foldl (\<lambda>l r. l @ [r]) xs ys = xs @ ys"
  by (induction ys arbitrary: xs) simp_all

lemma receipt_lookup_append:
  "receipt_lookup rs k = Some r \<Longrightarrow> receipt_lookup (rs @ more_rs) k = Some r"
  using keyed_receipts.receipt_is_final [of rs k r more_rs] by (simp only: foldl_snoc)

lemma map_PDict_eq [simp]: "map PDict xs = map PDict ys \<longleftrightarrow> xs = ys"
  by (rule inj_map_eq_map) (simp add: inj_def)

lemma answered_extends:
  "answered a key m p d body \<Longrightarrow> ledger_extends a a' \<Longrightarrow> answered a' key m p d body"
  unfolding answered_def ledger_extends_def by (fastforce simp: receipt_lookup_append simp del: map_append)

lemma ledger_find_None:
  "ledger_find rs key = Inr None \<Longrightarrow> \<exists>ds. rs = map PDict ds \<and> receipt_lookup ds (PStr key) = None"
proof (induction rs)
  case (Cons r rs)
  then obtain d ds where "r = PDict d" "dget d ''key'' \<noteq> PStr key" "rs = map PDict ds"
    "receipt_lookup ds (PStr key) = None"
    by (auto simp: result_iffs split: if_splits)
  then show ?case by (intro exI [of _ "d # ds"]) (simp add: receipt_lookup_def)
qed (simp add: receipt_lookup_def)

lemma answered_replay:
  assumes "key_ok key" and "answered (documents w Activity_Doc) (str_of key) m p d (response_body data)"
  shows "keyed_command key m p d act w = (Inr (200, replayed_body data), w)"
proof -
  obtain rs r where r: "ledger_of (documents w Activity_Doc) = PList (map PDict rs)"
    "receipt_lookup rs (PStr (str_of key)) = Some r" "same_request r m p d" "dget r ''response_ref'' = PNone"
    "map_of r ''response_body'' = Some (response_body data)"
    using assms(2) by (auto simp: answered_def)
  have "stored_body (documents w Replies_Doc) r = Inr (response_body data)"
    using r(4,5) by (simp add: stored_body_def dindex_def)
  moreover have "set_replayed (response_body data) = Inr (replayed_body data)"
    by (simp add: set_replayed_def response_body_def replayed_body_def dsetdefault_def dhas_def dget_def dget_or_def dset_def)
  ultimately have "idempotency_replay (documents w Replies_Doc) (documents w Activity_Doc) key m p d =
      Inr (Some (200, replayed_body data))"
    using assms(1) r(1-3)
    by (simp add: idempotency_replay_def validate_idempotency_key_def ledger_find_lookup)
  then show ?thesis by (simp add: keyed_command_def replay_def bind_c_def)
qed

lemma answered_conflict:
  assumes "key_ok key" and "answered (documents w Activity_Doc) (str_of key) m p d body" and "(m', p', d') \<noteq> (m, p, d)"
  shows "keyed_command key m' p' d' act w = (Inl (idempotency_conflict (str_of key)), w)"
proof -
  obtain rs r where r: "ledger_of (documents w Activity_Doc) = PList (map PDict rs)"
    "receipt_lookup rs (PStr (str_of key)) = Some r" "same_request r m p d"
    using assms(2) by (auto simp: answered_def)
  have "\<not> same_request r m' p' d'" using r(3) assms(3) by (auto simp: same_request_def)
  with assms(1) r have "idempotency_replay (documents w Replies_Doc) (documents w Activity_Doc) key m' p' d' =
      Inl (idempotency_conflict (str_of key))"
    by (simp add: idempotency_replay_def validate_idempotency_key_def ledger_find_lookup)
  then show ?thesis by (simp add: keyed_command_def replay_def bind_c_def)
qed

lemma keyed_command_new:
  assumes "keyed_command key m p d act w = (Inr (st, b), w')" and "st \<noteq> 200 \<or> saved w' \<noteq> saved w"
  obtains ds where "act (with_ledger (documents w Activity_Doc)) w = (Inr (st, b), w')"
    "key_ok key" "receipt_lookup ds (PStr (str_of key)) = None"
    "\<And>xs. ledger_of (documents w Activity_Doc) = PList xs \<Longrightarrow> xs = map PDict ds"
proof -
  obtain found where f: "idempotency_replay (documents w Replies_Doc) (documents w Activity_Doc) key m p d = Inr found"
    and rest: "(case found of Some answer \<Rightarrow> return_c answer | None \<Rightarrow> act (with_ledger (documents w Activity_Doc))) w
      = (Inr (st, b), w')"
    using assms(1) by (auto simp: keyed_command_def replay_def bind_c_def split: sum.splits)
  have none: "found = None"
  proof (rule ccontr)
    assume "found \<noteq> None"
    then obtain a where a: "found = Some a" by blast
    with f have "fst a = 200" by (auto simp: idempotency_replay_def result_iffs split: option.splits if_splits)
    with rest a assms(2) show False by auto
  qed
  from f none obtain rs where k: "key_ok key" and rs: "iter_r (ledger_of (documents w Activity_Doc)) = Inr rs"
    and l: "ledger_find rs (str_of key) = Inr None"
    by (auto simp: idempotency_replay_def validate_idempotency_key_def result_iffs split: option.splits if_splits)
  from ledger_find_None [OF l] obtain ds where ds: "rs = map PDict ds" "receipt_lookup ds (PStr (str_of key)) = None" by blast
  have "\<And>xs. ledger_of (documents w Activity_Doc) = PList xs \<Longrightarrow> xs = map PDict ds" using rs ds(1) by simp
  with that k ds rest none show thesis by simp
qed

lemma record_idempotency_Inr:
  "record_idempotency env activity key m p d st body PNone PNone w = (Inr a', w') \<longleftrightarrow>
   body \<noteq> PNone \<and> w' = w\<lparr>clock_reads := clock_reads w + 1\<rparr> \<and>
   (\<exists>xs. dget (with_ledger activity) ''idempotency'' = PList xs \<and>
     a' = dset (with_ledger activity) ''idempotency'' (PList (xs @ [PDict
       [(''key'', PStr key), (''method'', PStr m), (''path'', PStr p), (''request_digest'', PStr d),
        (''response_status'', PInt st), (''created_at'', PStr (utc_at env (clock_reads w))), (''response_body'', body)]])))"
  by (auto simp: record_idempotency_def bind_c_def Let_def with_ledger_def result_iffs split: sum.splits)

lemma ledger_of_with_ledger [simp]: "ledger_of (with_ledger a) = ledger_of a"
  by (simp add: ledger_of_def with_ledger_def dget_or_def dsetdefault_def dhas_def split: option.split)

lemma ledger_of_dget: "dhas a ''idempotency'' \<Longrightarrow> ledger_of a = dget a ''idempotency''"
  by (auto simp: ledger_of_def dget_def dget_or_def dhas_def split: option.split)

lemma with_ledger_dget: "dget (with_ledger a) ''idempotency'' = ledger_of a"
proof (cases "dhas a ''idempotency''")
  case True
  then show ?thesis by (simp add: with_ledger_def ledger_of_dget)
next
  case False
  then have "ledger_of a = PList []" by (simp add: ledger_of_def dget_or_def dhas_def)
  with False show ?thesis by (simp add: with_ledger_def)
qed

lemma ledger_of_dset [simp]: "ledger_of (dset a k v) = (if k = ''idempotency'' then v else ledger_of a)"
  by (simp add: ledger_of_def)

text \<open>What the commit of a keyed command leaves, when the key was not in the ledger.\<close>

lemma commit_keyed_Inr:
  assumes "commit_keyed env a key m p d st body before after oid w = (Inr (st', b), w')"
    and "Activity_Doc \<notin> fst ` set after"
  obtains xs a' where "st' = st" "b = body" "ledger_of a = PList xs"
    "a' = dset (with_ledger a) ''idempotency'' (PList (xs @ [PDict
       [(''key'', PStr (str_of key)), (''method'', PStr m), (''path'', PStr p), (''request_digest'', PStr d),
        (''response_status'', PInt st), (''created_at'', PStr (utc_at env (clock_reads w))), (''response_body'', body)]]))"
    "documents w' = write_all (before @ [(Activity_Doc, a')] @ after) (documents w)"
    "saved w' = saved w @ [(oid, before @ [(Activity_Doc, a')] @ after)]"
  using assms(1) that
  by (auto simp: commit_keyed_def result_iffs record_idempotency_Inr with_ledger_dget)

text \<open>The event that is appended, and the activity document with it.\<close>

definition event_of :: "string \<Rightarrow> dict \<Rightarrow> string \<Rightarrow> pyval \<Rightarrow> pyval \<Rightarrow> pyval \<Rightarrow> dict \<Rightarrow> (dict \<times> dict) result" where
  "event_of created_at activity event_type capture_id task_id reply_id details =
     (let activity = dsetdefault activity ''activity'' (PList []) in
      bind_r (iter_r (dget activity ''activity'')) (\<lambda>events.
      bind_r (next_id events ''E'' 6) (\<lambda>event_id.
      let event = optional_field ''reply_id'' reply_id (optional_field ''task_id'' task_id
            (optional_field ''capture_id'' capture_id
              [(''id'', PStr event_id), (''type'', PStr event_type), (''created_at'', PStr created_at),
               (''details'', PDict details)]))
      in bind_r (as_list (dget activity ''activity'')) (\<lambda>events.
         Inr (event, dset activity ''activity'' (PList (events @ [PDict event])))))))"

lemma run_append_event [runs]:
  "bind_c (append_event env a ty c t r d) f w = (Inr y, w') \<longleftrightarrow>
   (\<exists>ev act. event_of (utc_at env (clock_reads w)) a ty c t r d = Inr (ev, act) \<and> f (ev, act) (tick w) = (Inr y, w'))"
  by (auto simp: append_event_def event_of_def runs Let_def result_iffs)

lemmas plumbing = split_paired_Ex case_prod_conv Let_def

lemma event_of_Inr:
  assumes "event_of at activity ty c t r details = Inr (event, activity')"
  obtains events where "dget (dsetdefault activity ''activity'' (PList [])) ''activity'' = PList events"
    "activity' = dset (dsetdefault activity ''activity'' (PList [])) ''activity'' (PList (events @ [PDict event]))"
    "dget event ''type'' = PStr ty" "dget event ''details'' = PDict details" "dget event ''created_at'' = PStr at"
    "next_id events ''E'' 6 = Inr (str_of (dget event ''id''))"
  using assms
  by (auto simp: event_of_def Let_def result_iffs optional_field_def dget_def dget_or_def dset_def)

lemma event_of_other: "event_of at a ty c t r d = Inr (ev, a') \<Longrightarrow> x \<noteq> ''activity'' \<Longrightarrow> map_of a' x = map_of a x"
  by (erule event_of_Inr) (simp add: dsetdefault_def)

lemma reads_only_event [commits]: "reads_only (append_event env a ty c t r d)"
  unfolding append_event_def Let_def by (intro commits)

lemma reads_only_replay [commits]: "reads_only (replay a key m p d)"
  unfolding replay_def by (intro commits)

lemma reads_only_record [commits]: "reads_only (record_idempotency env a key m p d st body ref meta)"
  unfolding record_idempotency_def Let_def by (intro commits)

lemma all_or_nothing_event [commits]:
  "(\<And>x. all_or_nothing (f x)) \<Longrightarrow> all_or_nothing (bind_c (append_event env a ty c t r d) f)"
  by (rule all_or_nothing_bind [OF reads_only_event])

lemma all_or_nothing_commit [commits]: "all_or_nothing (commit_keyed env a key m p d st body pre post oid)"
  unfolding commit_keyed_def by (intro commits all_or_nothing_bind [OF reads_only_record])

lemma all_or_nothing_keyed [commits]: "(\<And>a. all_or_nothing (act a)) \<Longrightarrow> all_or_nothing (keyed_command key m p d act)"
  unfolding keyed_command_def by (intro commits all_or_nothing_bind [OF reads_only_replay]) simp

section \<open>A concrete workspace\<close>

definition sample_documents :: "document \<Rightarrow> dict" where
  "sample_documents d = (case d of
     Workspace_Doc \<Rightarrow> [(''id'', PStr sample_uid), (HW_FIELD, PInt 1)]
   | Tasks_Doc \<Rightarrow> [(''tasks'', PList [PDict [(''id'', PStr ''T-0001''), (''uid'', PStr sample_uid),
         (''title'', PStr ''Write''), (''status'', PStr ''open''), (''priority'', PStr ''P2''),
         (''objective_ids'', PList []), (''parent_id'', PNone), (''dependencies'', PList []),
         (''subtasks'', PList []), (''notes'', PList []), (''revision'', PInt 0),
         (''status_fact_id'', PStr ''PS-000001'')]])]
   | Activity_Doc \<Rightarrow> [(''activity'', PList []), (''idempotency'', PList []), (''planning_status'', PList [PDict
         [(''id'', PStr ''PS-000001''), (''type'', PStr FACT_TYPE), (''task_id'', PStr ''T-0001''),
          (''task_uid'', PStr sample_uid), (''previous_fact_id'', PNone), (''prior_revision'', PNone),
          (''new_revision'', PInt 0), (''prior_status'', PNone), (''status'', PStr ''open''),
          (''created_at'', PStr ''2025-03-04T05:06:07Z''), (''actor'', PStr ''local.user''), (''provenance'', PStr ''cli'')]])]
   | Objectives_Doc \<Rightarrow> [(''objectives'', PList [PDict [(''id'', PStr ''O-1''), (''quarter'', PStr ''2025-Q1''),
         (''objective'', PStr ''Ship''), (''status'', PStr ''active''), (''revision'', PInt 4),
         (''key_results'', PList [PDict [(''id'', PStr ''KR-1''), (''text'', PStr ''Done''), (''target'', PStr []),
            (''progress'', PInt 10), (''status'', PStr ''active'')]])]])]
   | Worklog_Doc \<Rightarrow> [(''days'', PDict [])]
   | _ \<Rightarrow> [])"

definition sample_world :: world where
  "sample_world = \<lparr>documents = sample_documents, clock_reads = 0, saved = []\<rparr>"

end
