(* ===== verification/WS_Order.thy ===== *)
theory WS_Order
  imports WS_Text "HOL-Library.Multiset"
begin

text \<open>
  Python's \<open>sorted\<close> with a tuple key over dynamic values. Strings compare by code point and
  integers by value; values of different kinds do not compare, and sorting raises as soon as
  two keys cannot be ordered. The sort is stable. (Two floating point numbers never meet as
  keys in the code; they count as not comparable here.)
\<close>

definition int_like :: "pyval \<Rightarrow> int option" where
  "int_like v = (case v of PInt i \<Rightarrow> Some i | PBool b \<Rightarrow> Some (if b then 1 else 0) | _ \<Rightarrow> None)"

definition value_less :: "pyval \<Rightarrow> pyval \<Rightarrow> bool result" where
  "value_less v w =
     (case (v, w) of
        (PStr a, PStr b) \<Rightarrow> Inr (a < b)
      | _ \<Rightarrow> (case (int_like v, int_like w) of (Some i, Some j) \<Rightarrow> Inr (i < j) | _ \<Rightarrow> Inl TypeError))"

fun key_less :: "pyval list \<Rightarrow> pyval list \<Rightarrow> bool result" where
  "key_less (x # xs) (y # ys) = (if py_eq x y then key_less xs ys else value_less x y)"
| "key_less [] (y # ys) = Inr True"
| "key_less _ [] = Inr False"

definition before :: "pyval list \<times> 'a \<Rightarrow> pyval list \<times> 'a \<Rightarrow> bool" where
  "before p q \<longleftrightarrow> key_less (fst p) (fst q) = Inr True"

definition comparable :: "pyval list \<times> 'a \<Rightarrow> pyval list \<times> 'a \<Rightarrow> bool" where
  "comparable p q \<longleftrightarrow> \<not> isl (key_less (fst p) (fst q))"

fun insert_stable :: "pyval list \<times> 'a \<Rightarrow> (pyval list \<times> 'a) list \<Rightarrow> (pyval list \<times> 'a) list" where
  "insert_stable x [] = [x]"
| "insert_stable x (y # ys) = (if before x y then x # y # ys else y # insert_stable x ys)"

fun all_pairs :: "('a \<Rightarrow> 'a \<Rightarrow> bool) \<Rightarrow> 'a list \<Rightarrow> bool" where
  "all_pairs P [] \<longleftrightarrow> True"
| "all_pairs P (x # xs) \<longleftrightarrow> list_all (P x) xs \<and> all_pairs P xs"

definition sorted_by :: "('a \<Rightarrow> pyval list result) \<Rightarrow> 'a list \<Rightarrow> 'a list result" where
  "sorted_by key xs =
     bind_r (map_r (\<lambda>x. bind_r (key x) (\<lambda>k. Inr (k, x))) xs) (\<lambda>keyed.
     if all_pairs comparable keyed then Inr (map snd (foldl (\<lambda>acc x. insert_stable x acc) [] keyed))
     else Inl TypeError)"

lemma mset_insert_stable: "mset (insert_stable x xs) = add_mset x (mset xs)"
  by (induction xs) simp_all

lemma mset_foldl_insert: "mset (foldl (\<lambda>acc x. insert_stable x acc) acc xs) = mset acc + mset xs"
  by (induction xs arbitrary: acc) (simp_all add: mset_insert_stable)

text \<open>\<open>[f(x) for x in xs if P(x)]\<close>: test and projection alternate.\<close>

fun collect_r :: "('a \<Rightarrow> bool result) \<Rightarrow> ('a \<Rightarrow> 'b result) \<Rightarrow> 'a list \<Rightarrow> 'b list result" where
  "collect_r P f [] = Inr []"
| "collect_r P f (x # xs) =
     bind_r (P x) (\<lambda>b.
     if b then bind_r (f x) (\<lambda>y. bind_r (collect_r P f xs) (\<lambda>ys. Inr (y # ys)))
     else collect_r P f xs)"

text \<open>\<open>s in t\<close> for strings.\<close>

fun text_in :: "string \<Rightarrow> string \<Rightarrow> bool" where
  "text_in s [] = (s = [])"
| "text_in s (c # t) = (take (length s) (c # t) = s \<or> text_in s t)"

text \<open>Sorting rearranges: it loses and adds nothing.\<close>

lemma sorted_by_mset: "sorted_by key xs = Inr ys \<Longrightarrow> mset ys = mset xs"
proof -
  assume "sorted_by key xs = Inr ys"
  then obtain keyed where k: "map_r (\<lambda>x. bind_r (key x) (\<lambda>k. Inr (k, x))) xs = Inr keyed"
    and ys: "ys = map snd (foldl (\<lambda>acc x. insert_stable x acc) [] keyed)"
    by (auto simp: sorted_by_def result_iffs)
  from k have "list_all2 (\<lambda>x y. snd y = x) xs keyed"
    by (auto simp: map_r_Inr result_iffs elim!: list_all2_mono)
  then have "map snd keyed = xs" by (induction rule: list_all2_induct) auto
  then show ?thesis using mset_foldl_insert [of "[]" keyed] ys by (metis append_Nil mset_append mset_map)
qed

lemma sorted_by_set: "sorted_by key xs = Inr ys \<Longrightarrow> set ys = set xs"
  by (metis sorted_by_mset set_mset_mset)

end
