(* ===== verification/WS_TaskReads.thy ===== *)
theory WS_TaskReads
  imports WS_Commands WS_Order
begin

text \<open>
  \<open>workstack/service_task_reads.py\<close>: listing Tasks, one Task and the projection every response
  carries. The status a reader sees is always the head of the validated planning history,
  never the stored field.
\<close>

text \<open>\<open>validate_and_project(...)[task_id]\<close>\<close>

definition index_status :: "dict \<Rightarrow> pyval \<Rightarrow> pyval result" where
  "index_status proj task_id =
     (case task_id of
        PStr i \<Rightarrow> dindex proj i
      | PList _ \<Rightarrow> Inl TypeError | PDict _ \<Rightarrow> Inl TypeError
      | _ \<Rightarrow> Inl (KeyError (py_str task_id)))"

text \<open>The position of a value in a tuple of strings, \<open>ValueError\<close> when it is not there.\<close>

fun index_in :: "nat \<Rightarrow> pyval \<Rightarrow> string list \<Rightarrow> pyval result" where
  "index_in n v [] = Inl (ValueErr ''tuple.index(x): x not in tuple'')"
| "index_in n v (s # ss) = (if v = PStr s then Inr (PInt (int n)) else index_in (Suc n) v ss)"

definition with_status :: "dict \<Rightarrow> pyval \<Rightarrow> dict result" where
  "with_status proj source =
     bind_r (getitem source ''id'') (\<lambda>i.
     bind_r (index_status proj i) (\<lambda>st.
     Inr (dset (dict_of source) ''status'' st)))"

definition task_sort_key :: "dict \<Rightarrow> pyval list result" where
  "task_sort_key task =
     bind_r (index_in 0 (dget_or task ''status'' (PStr ''open'')) TASK_STATUSES) (\<lambda>s.
     bind_r (index_in 0 (dget_or task ''priority'' (PStr ''P2'')) PRIORITIES) (\<lambda>p.
     Inr [s, p, por (dget task ''due'') (PStr ''9999-12-31''), dget_or task ''id'' (PStr [])]))"

definition list_tasks :: "dict \<Rightarrow> dict \<Rightarrow> string \<Rightarrow> dict list result" where
  "list_tasks backlog activity status =
     bind_r (validate_and_project backlog activity) (\<lambda>proj.
     bind_r (rows_or backlog ''tasks'') (\<lambda>sources.
     bind_r (map_r (with_status proj) sources) (\<lambda>tasks.
     bind_r (if status = ''active''
             then Inr (filter (\<lambda>t. dget t ''status'' \<in> {PStr ''open'', PStr ''started''}) tasks)
             else if status \<noteq> ''all''
             then (if status \<notin> set TASK_STATUSES then Inl (ValueErr ''invalid task status'')
                   else Inr (filter (\<lambda>t. dget t ''status'' = PStr status) tasks))
             else Inr tasks) (\<lambda>tasks.
     sorted_by task_sort_key tasks))))"

definition get_task :: "dict \<Rightarrow> dict \<Rightarrow> string \<Rightarrow> dict result" where
  "get_task backlog activity task_id =
     bind_r (rows_or backlog ''tasks'') (\<lambda>tasks.
     bind_r (find_record tasks task_id ''task'') (\<lambda>(k, task).
     bind_r (validate_and_project backlog activity) (\<lambda>proj.
     with_status proj (PDict task))))"

definition corrupt_uid :: pyexc where
  "corrupt_uid = StoreCorruptError ''persisted task UUID is invalid''"

text \<open>
  \<open>_project_task\<close> with the planning status given; without one it reads the Task again.
\<close>

definition project_task :: "dict \<Rightarrow> int \<Rightarrow> pyval \<Rightarrow> dict result" where
  "project_task task context_count planning_status =
     (let uid = dget task ''uid'' in
      if \<not> is_str uid \<or> \<not> uuid_shape (str_of uid) \<or> \<not> uuid_nonzero (str_of uid) then Inl corrupt_uid
      else bind_r (revision_of task) (\<lambda>r.
        Inr (dset (dsetdefault (dsetdefault (ddel (dset (dset (dset task ''uid'' uid) ''revision'' (PInt r))
          ''status'' planning_status) ''status_fact_id'') ''scheduled'' PNone) ''estimate_minutes'' PNone)
          ''context_count'' (PInt context_count))))"

definition project_task_reading :: "dict \<Rightarrow> dict \<Rightarrow> dict \<Rightarrow> dict result" where
  "project_task_reading backlog activity task =
     bind_r (project_task task 0 PNone) (\<lambda>_.
     bind_r (dindex task ''id'') (\<lambda>i.
     bind_r (case i of PStr s \<Rightarrow> Inr s | _ \<Rightarrow> Inl AttributeError) (\<lambda>task_id.
     bind_r (get_task backlog activity task_id) (\<lambda>current.
     project_task task 0 (dget current ''status'')))))"

lemma index_status_Inr [result_iffs]:
  "index_status proj v = Inr s \<longleftrightarrow> (\<exists>i. v = PStr i \<and> map_of proj i = Some s)"
  by (cases v) (auto simp: index_status_def result_iffs)

lemma project_task_Inr:
  assumes "project_task t n st = Inr p"
  shows "dget p ''status'' = st" "dget p ''id'' = dget t ''id''" "dget p ''uid'' = dget t ''uid''"
    "revision_of p = revision_of t" "dget p ''status_fact_id'' = PNone" "\<exists>r. revision_of t = Inr r"
  using assms
  by (auto simp: project_task_def result_iffs Let_def dget_absent revision_of_Inr split: if_splits)
    (simp add: revision_of_def dsetdefault_def)

lemma with_status_Inr:
  "with_status proj source = Inr t \<longleftrightarrow>
   (\<exists>d i st. source = PDict d \<and> map_of d ''id'' = Some (PStr i) \<and> map_of proj i = Some st \<and> t = dset d ''status'' st)"
  by (auto simp: with_status_def result_iffs)

end
