(* ===== verification/WS_Objectives.thy ===== *)
theory WS_Objectives
  imports WS_TaskReads
begin

text \<open>
  \<open>workstack/service_objectives.py\<close>: Objectives and their Key Results. An Objective carries a
  revision of its own, which every write to it or to one of its Key Results advances by one;
  it is another interpretation of \<open>revision_ladder\<close>, with an absent revision read as 0.
\<close>

section \<open>Reads\<close>

definition objective_revision :: "dict \<Rightarrow> int result" where
  "objective_revision objective =
     (let v = dget_or objective ''revision'' (PInt 0) in
      if is_int v \<and> 0 \<le> int_of v \<and> int_of v \<le> MAX_REVISION then Inr (int_of v)
      else Inl (StoreCorruptError ''persisted objective revision is invalid''))"

definition project_objective :: "dict \<Rightarrow> dict result" where
  "project_objective objective =
     bind_r (objective_revision objective) (\<lambda>revision.
     Inr (dsetdefault (dset objective ''revision'' (PInt revision)) ''key_results'' (PList [])))"

definition list_objectives :: "dict \<Rightarrow> string \<Rightarrow> dict list result" where
  "list_objectives data status =
     bind_r (rows_or data ''objectives'') (\<lambda>objectives.
     bind_r (if status = ''all'' then Inr objectives
             else if status \<notin> set OBJECTIVE_STATUSES then Inl (ValueErr ''invalid objective status'')
             else bind_r (map_r as_dict objectives) (\<lambda>ds.
                  Inr (map PDict (filter (\<lambda>d. dget d ''status'' = PStr status) ds)))) (\<lambda>objectives.
     bind_r (map_r (\<lambda>v. bind_r (as_dict v) project_objective) objectives) (\<lambda>projected.
     sorted_by (\<lambda>d. Inr [dget_or d ''quarter'' (PStr []), dget_or d ''id'' (PStr [])]) projected)))"

definition objective_next_revision :: "dict \<Rightarrow> pyval \<Rightarrow> int result" where
  "objective_next_revision objective expected =
     bind_r (objective_revision objective) (\<lambda>current.
     if \<not> is_int expected \<or> int_of expected < 0 then Inl revision_required
     else if int_of expected \<noteq> current then Inl (stale_revision ''objective'' current expected)
     else if current = MAX_REVISION
     then Inl (DomainError Revision_Exhausted
            ''objective revision cannot advance beyond the safe integer limit'' [(''maximum'', PInt MAX_REVISION)])
     else Inr (current + 1))"

text \<open>The unguarded writers pass the revision the record has.\<close>

definition objective_successor :: "dict \<Rightarrow> int result" where
  "objective_successor objective = objective_next_revision objective (dget_or objective ''revision'' (PInt 0))"

text \<open>\<open>x in ys\<close> for whatever the field holds.\<close>

definition linked_to :: "pyval \<Rightarrow> dict \<Rightarrow> bool result" where
  "linked_to objective_id task =
     (case dget_or task ''objective_ids'' (PList []) of
        PList vs \<Rightarrow> Inr (list_ex (py_eq objective_id) vs)
      | PStr s \<Rightarrow> (case objective_id of PStr i \<Rightarrow> Inr (text_in i s) | _ \<Rightarrow> Inl TypeError)
      | PDict d \<Rightarrow> Inr (case objective_id of PStr i \<Rightarrow> dhas d i | _ \<Rightarrow> False)
      | _ \<Rightarrow> Inl TypeError)"

definition concerns_objective :: "pyval \<Rightarrow> pyval \<Rightarrow> bool result" where
  "concerns_objective objective_id event =
     bind_r (vget_or event ''details'' (PDict [])) (\<lambda>details.
     bind_r (vget details ''objective_id'') (\<lambda>i. Inr (py_eq i objective_id)))"

definition objective_detail :: "dict \<Rightarrow> dict \<Rightarrow> dict \<Rightarrow> string \<Rightarrow> dict result" where
  "objective_detail data backlog activity objective_id =
     bind_r (rows_or data ''objectives'') (\<lambda>objectives.
     bind_r (find_record objectives objective_id ''objective'') (\<lambda>(k, objective).
     bind_r (dindex objective ''id'') (\<lambda>normalized_id.
     bind_r (list_tasks backlog activity ''all'') (\<lambda>all_tasks.
     bind_r (collect_r (linked_to normalized_id) (project_task_reading backlog activity) all_tasks) (\<lambda>tasks.
     bind_r (rows_or activity ''activity'') (\<lambda>events.
     bind_r (collect_r (concerns_objective normalized_id) Inr events) (\<lambda>events.
     bind_r (project_objective objective) (\<lambda>projected.
     Inr [(''objective'', PDict projected), (''tasks'', PList (map PDict tasks)),
          (''activity'', PList events)]))))))))"

definition subtasks_done :: "pyval list \<Rightarrow> int result" where
  "subtasks_done items =
     bind_r (map_r as_dict items) (\<lambda>ds. Inr (int (length (filter (\<lambda>d. dget d ''status'' = PStr ''done'') ds))))"

definition rollup_task :: "dict \<Rightarrow> dict result" where
  "rollup_task task =
     bind_r (dindex task ''id'') (\<lambda>i.
     bind_r (dindex task ''title'') (\<lambda>title.
     bind_r (rows_or task ''subtasks'') (\<lambda>items.
     bind_r (subtasks_done items) (\<lambda>n.
     Inr [(''id'', i), (''title'', title), (''status'', dget task ''status''),
          (''subtasks_done'', PInt n), (''subtasks_total'', PInt (int (length items)))]))))"

definition rollup_row :: "dict list \<Rightarrow> dict \<Rightarrow> dict result" where
  "rollup_row tasks objective =
     bind_r (dindex objective ''id'') (\<lambda>i.
     bind_r (collect_r (linked_to i) Inr tasks) (\<lambda>linked_tasks.
     bind_r (dindex objective ''objective'') (\<lambda>text.
     bind_r (map_r rollup_task linked_tasks) (\<lambda>rolled.
     Inr [(''id'', i), (''objective'', text), (''quarter'', dget objective ''quarter''),
          (''status'', dget objective ''status''), (''key_results'', dget_or objective ''key_results'' (PList [])),
          (''tasks'', PList (map PDict rolled))]))))"

definition objective_rollup :: "dict \<Rightarrow> dict \<Rightarrow> dict \<Rightarrow> dict list result" where
  "objective_rollup data backlog activity =
     bind_r (list_tasks backlog activity ''all'') (\<lambda>tasks.
     bind_r (list_objectives data ''all'') (\<lambda>objectives.
     map_r (rollup_row tasks) objectives))"

section \<open>Writes\<close>

definition pick_quarter :: "env \<Rightarrow> pyval \<Rightarrow> pyval command" where
  "pick_quarter env quarter =
     (if truthy quarter then return_c quarter else bind_c (current_quarter env) (\<lambda>q. return_c (PStr q)))"

text \<open>The new record; the identifier, the quarter, the text and the two days are read in this order.\<close>

definition new_objective :: "env \<Rightarrow> dict \<Rightarrow> pyval result \<Rightarrow> pyval result \<Rightarrow> dict command" where
  "new_objective env data quarter text =
     bind_c (lift_c (bind_r (rows data ''objectives'') (\<lambda>rs. next_id rs ''O'' 0))) (\<lambda>i.
     bind_c (lift_c quarter) (\<lambda>quarter.
     bind_c (pick_quarter env quarter) (\<lambda>quarter.
     bind_c (lift_c (bind_r text (\<lambda>text. required_text text ''objective''))) (\<lambda>text.
     bind_c (today env) (\<lambda>created.
     bind_c (today env) (\<lambda>updated_at.
     return_c [(''id'', PStr i), (''quarter'', quarter), (''objective'', PStr text), (''status'', PStr ''active''),
       (''key_results'', PList []), (''created'', PStr created), (''updated_at'', PStr updated_at)]))))))"

definition add_objective :: "env \<Rightarrow> pyval \<Rightarrow> pyval \<Rightarrow> dict command" where
  "add_objective env text quarter =
     bind_c (load Objectives_Doc) (\<lambda>data.
     bind_c (new_objective env data (Inr quarter) (Inr text)) (\<lambda>objective.
     bind_c (lift_c (append_row data ''objectives'' objective)) (\<lambda>data.
     bind_c (save_one Objectives_Doc data) (\<lambda>_.
     return_c objective))))"

definition create_objective_v1 :: "env \<Rightarrow> dict \<Rightarrow> pyval \<Rightarrow> string \<Rightarrow> response command" where
  "create_objective_v1 env body key path =
     bind_c (lift_c (validate_idempotency_key key)) (\<lambda>_.
     let digest = canonical_digest env (PDict body) in
     keyed_command key ''POST'' path digest (\<lambda>activity.
       bind_c (load Objectives_Doc) (\<lambda>data.
       bind_c (new_objective env data (dindex body ''quarter'') (dindex body ''objective'')) (\<lambda>objective.
       let objective = dset objective ''revision'' (PInt 0) in
       bind_c (lift_c (append_row data ''objectives'' objective)) (\<lambda>data.
       bind_c (append_event env activity ''objective.created'' PNone PNone PNone
         [(''objective_id'', dget objective ''id''), (''revision'', PInt 0)]) (\<lambda>(event, activity).
       commit_keyed env activity key ''POST'' path digest 201 (response_body objective)
         [(Objectives_Doc, data)] [] (''objective-create-'' @ str_of key)))))))"

text \<open>
  The step both Key Result creations share: the Objective at its position, advanced, with the
  new Key Result at the end of its list.
\<close>

definition append_key_result :: "dict \<Rightarrow> pyval result \<Rightarrow> string result \<Rightarrow> (dict \<times> dict) result" where
  "append_key_result objective text target =
     (let objective = dsetdefault objective ''key_results'' (PList []) in
      bind_r (bind_r (rows objective ''key_results'') (\<lambda>krs. next_id krs ''KR'' 0)) (\<lambda>i.
      bind_r (bind_r text (\<lambda>text. required_text text ''text'')) (\<lambda>text.
      bind_r target (\<lambda>target.
      let key_result = [(''id'', PStr i), (''text'', PStr text), (''target'', PStr target),
            (''progress'', PInt 0), (''status'', PStr ''active'')] in
      bind_r (append_row objective ''key_results'' key_result) (\<lambda>objective.
      Inr (key_result, objective))))))"

definition key_result_event :: "env \<Rightarrow> dict \<Rightarrow> dict \<Rightarrow> dict \<Rightarrow> string \<Rightarrow> dict \<Rightarrow> dict command" where
  "key_result_event env activity objective key_result event_type details =
     bind_c (lift_c (dindex objective ''id'')) (\<lambda>oid.
     bind_c (lift_c (dindex key_result ''id'')) (\<lambda>krid.
     bind_c (append_event env activity event_type PNone PNone PNone
       ([(''objective_id'', oid), (''key_result_id'', krid)] @ details)) (\<lambda>(event, activity).
     return_c activity)))"

definition add_key_result :: "env \<Rightarrow> string \<Rightarrow> pyval \<Rightarrow> pyval \<Rightarrow> dict command" where
  "add_key_result env objective_id text target =
     bind_c (load Objectives_Doc) (\<lambda>data.
     bind_c (load Activity_Doc) (\<lambda>activity.
     bind_c (lift_c (find_row data ''objectives'' objective_id ''objective'')) (\<lambda>(k, objective).
     bind_c (lift_c (objective_successor objective)) (\<lambda>next_rev.
     bind_c (lift_c (append_key_result objective (Inr text) (Inr (py_strip (py_str (por target (PStr [])))))))
       (\<lambda>(key_result, objective).
     bind_c (today env) (\<lambda>day.
     let objective = stamp_row objective day next_rev;
         data = put_row data ''objectives'' k objective in
     bind_c (key_result_event env activity objective key_result ''key_result.created''
       [(''revision'', PInt next_rev)]) (\<lambda>activity.
     bind_c (save_many [(Objectives_Doc, data), (Activity_Doc, activity)]
       (''key-result-create-'' @ py_str (dget key_result ''id'') @ ''-r'' @ int_str next_rev)) (\<lambda>_.
     return_c key_result))))))))"

text \<open>\<open>body["target"].strip()\<close>\<close>

definition body_text :: "dict \<Rightarrow> string \<Rightarrow> string result" where
  "body_text body field =
     bind_r (dindex body field) (\<lambda>v. case v of PStr s \<Rightarrow> Inr (py_strip s) | _ \<Rightarrow> Inl AttributeError)"

definition add_key_result_v1 :: "env \<Rightarrow> string \<Rightarrow> dict \<Rightarrow> pyval \<Rightarrow> string \<Rightarrow> response command" where
  "add_key_result_v1 env objective_id body key path =
     bind_c (lift_c (validate_idempotency_key key)) (\<lambda>_.
     let digest = canonical_digest env (PDict body) in
     keyed_command key ''POST'' path digest (\<lambda>activity.
       bind_c (load Objectives_Doc) (\<lambda>data.
       bind_c (lift_c (find_row data ''objectives'' objective_id ''objective'')) (\<lambda>(k, objective).
       bind_c (lift_c (bind_r (dindex body ''revision'') (objective_next_revision objective))) (\<lambda>next_rev.
       bind_c (lift_c (append_key_result objective (dindex body ''text'') (body_text body ''target''))) (\<lambda>(key_result, objective).
       bind_c (today env) (\<lambda>day.
       let objective = dset (dset objective ''revision'' (PInt next_rev)) ''updated_at'' (PStr day);
           data = put_row data ''objectives'' k objective in
       bind_c (key_result_event env activity objective key_result ''key_result.created''
         [(''revision'', PInt next_rev)]) (\<lambda>activity.
       bind_c (lift_c (project_objective objective)) (\<lambda>projected.
       commit_keyed env activity key ''POST'' path digest 201 (response_body projected)
         [(Objectives_Doc, data)] [] (''key-result-create-'' @ str_of key))))))))))"

text \<open>The fields of a Key Result patch, one after the other, each validated before it is written.\<close>

definition patch_text :: "dict \<Rightarrow> string \<Rightarrow> string \<Rightarrow> dict \<Rightarrow> dict result" where
  "patch_text body field label r =
     (if \<not> dhas body field then Inr r
      else bind_r (required_text (dget body field) label) (\<lambda>text. Inr (dset r field (PStr text))))"

definition patch_target :: "dict \<Rightarrow> dict \<Rightarrow> dict result" where
  "patch_target body r =
     (if \<not> dhas body ''target'' then Inr r
      else case dget body ''target'' of
          PStr s \<Rightarrow> Inr (dset r ''target'' (PStr (py_strip s)))
        | _ \<Rightarrow> Inl (domain_error ''key result target must be a string'' []))"

definition patch_progress :: "dict \<Rightarrow> dict \<Rightarrow> dict result" where
  "patch_progress body r =
     (if \<not> dhas body ''progress'' then Inr r
      else let v = dget body ''progress'' in
        if \<not> is_int v \<or> \<not> (0 \<le> int_of v \<and> int_of v \<le> 100)
        then Inl (domain_error ''key result progress is invalid'' []) else Inr (dset r ''progress'' v))"

definition patch_status :: "dict \<Rightarrow> string \<Rightarrow> dict \<Rightarrow> dict result" where
  "patch_status body message r =
     (if \<not> dhas body ''status'' then Inr r
      else let v = dget body ''status'' in
        if \<not> in_tuple v OBJECTIVE_STATUSES then Inl (domain_error message []) else Inr (dset r ''status'' v))"

definition patched_fields :: "dict \<Rightarrow> string list" where
  "patched_fields body = sorted_set (filter (\<lambda>f. f \<noteq> ''revision'') (dkeys body))"

definition patch_key_result_v1 :: "env \<Rightarrow> string \<Rightarrow> string \<Rightarrow> dict \<Rightarrow> dict command" where
  "patch_key_result_v1 env objective_id key_result_id body =
     bind_c (load Objectives_Doc) (\<lambda>data.
     bind_c (load Activity_Doc) (\<lambda>activity.
     bind_c (lift_c (find_row data ''objectives'' objective_id ''objective'')) (\<lambda>(k, objective).
     bind_c (lift_c (bind_r (dindex body ''revision'') (objective_next_revision objective))) (\<lambda>next_rev.
     bind_c (lift_c (bind_r (rows_or objective ''key_results'') (\<lambda>krs. find_record krs key_result_id ''key result'')))
       (\<lambda>(j, key_result).
     bind_c (lift_c (bind_r (patch_text body ''text'' ''text'' key_result) (\<lambda>kr.
       bind_r (patch_target body kr) (\<lambda>kr. bind_r (patch_progress body kr)
         (patch_status body ''key result status is invalid''))))) (\<lambda>key_result.
     bind_c (today env) (\<lambda>day.
     let objective = dset (dset (put_row objective ''key_results'' j key_result) ''revision'' (PInt next_rev))
           ''updated_at'' (PStr day);
         data = put_row data ''objectives'' k objective in
     bind_c (key_result_event env activity objective key_result ''key_result.updated''
       [(''fields'', strs (patched_fields body)), (''revision'', PInt next_rev)]) (\<lambda>activity.
     bind_c (save_many [(Objectives_Doc, data), (Activity_Doc, activity)]
       (''key-result-update-'' @ py_str (dget key_result ''id'') @ ''-r'' @ int_str next_rev)) (\<lambda>_.
     lift_c (project_objective objective))))))))))"

definition patch_objective_v1 :: "env \<Rightarrow> string \<Rightarrow> dict \<Rightarrow> dict command" where
  "patch_objective_v1 env objective_id body =
     bind_c (load Objectives_Doc) (\<lambda>data.
     bind_c (load Activity_Doc) (\<lambda>activity.
     bind_c (lift_c (find_row data ''objectives'' objective_id ''objective'')) (\<lambda>(k, objective).
     bind_c (lift_c (bind_r (dindex body ''revision'') (objective_next_revision objective))) (\<lambda>next_rev.
     let fields = patched_fields body; prior_status = dget_or objective ''status'' (PStr ''active'') in
     bind_c (lift_c (bind_r (patch_text body ''objective'' ''objective'' objective) (\<lambda>o1.
       bind_r (patch_text body ''quarter'' ''quarter'' o1) (patch_status body ''invalid objective status'')))) (\<lambda>objective.
     bind_c (today env) (\<lambda>day.
     let objective = dset (dset objective ''revision'' (PInt next_rev)) ''updated_at'' (PStr day);
         data = put_row data ''objectives'' k objective in
     bind_c (lift_c (dindex objective ''id'')) (\<lambda>oid.
     let details = [(''objective_id'', oid), (''fields'', strs fields), (''revision'', PInt next_rev)];
         status_only = (fields = [''status'']) in
     bind_c (append_event env activity (if status_only then ''objective.status_changed'' else ''objective.updated'')
       PNone PNone PNone
       (if status_only then details @ [(''prior_status'', prior_status), (''status'', dget body ''status'')] else details))
       (\<lambda>(event, activity).
     bind_c (save_many [(Objectives_Doc, data), (Activity_Doc, activity)]
       (''objective-update-'' @ py_str oid @ ''-r'' @ int_str next_rev)) (\<lambda>_.
     lift_c (project_objective objective))))))))))"

definition link_objective_id :: "pyval \<Rightarrow> string \<Rightarrow> string list result" where
  "link_objective_id ids objective_id =
     bind_r (iter_r ids) (\<lambda>vs.
     if list_all is_str vs then Inr (sorted_set (map str_of vs @ [upper_strip objective_id])) else Inl TypeError)"

definition link_task :: "env \<Rightarrow> string \<Rightarrow> string \<Rightarrow> dict command" where
  "link_task env objective_id task_id =
     bind_c (load Objectives_Doc) (\<lambda>objectives.
     bind_c (lift_c (bind_r (rows_or objectives ''objectives'') (\<lambda>rs. find_record rs objective_id ''objective''))) (\<lambda>_.
     bind_c (load Tasks_Doc) (\<lambda>data.
     bind_c (lift_c (find_row data ''tasks'' task_id ''task'')) (\<lambda>(k, task).
     bind_c (lift_c (next_revision task)) (\<lambda>next_rev.
     bind_c (lift_c (link_objective_id (dget_or task ''objective_ids'' (PList [])) objective_id)) (\<lambda>links.
     bind_c (today env) (\<lambda>day.
     let task = stamp_row (dset task ''objective_ids'' (strs links)) day next_rev in
     bind_c (save_one Tasks_Doc (put_row data ''tasks'' k task)) (\<lambda>_.
     return_c task))))))))"

definition clamp_progress :: "int \<Rightarrow> int" where
  "clamp_progress n = max 0 (min 100 n)"

definition set_key_result_progress :: "env \<Rightarrow> string \<Rightarrow> string \<Rightarrow> int \<Rightarrow> dict command" where
  "set_key_result_progress env objective_id key_result_id progress =
     (let progress = clamp_progress progress in
     bind_c (load Objectives_Doc) (\<lambda>data.
     bind_c (load Activity_Doc) (\<lambda>activity.
     bind_c (lift_c (find_row data ''objectives'' objective_id ''objective'')) (\<lambda>(k, objective).
     bind_c (lift_c (objective_successor objective)) (\<lambda>next_rev.
     bind_c (lift_c (bind_r (rows_or objective ''key_results'') (\<lambda>krs. find_record krs key_result_id ''key result'')))
       (\<lambda>(j, key_result).
     let prior = [(''progress'', dget_or key_result ''progress'' (PInt 0)),
                  (''status'', dget_or key_result ''status'' (PStr ''active''))];
         status = PStr (if progress = 100 then ''done'' else ''active'');
         key_result = dset (dset key_result ''progress'' (PInt progress)) ''status'' status in
     bind_c (today env) (\<lambda>day.
     let objective = stamp_row (put_row objective ''key_results'' j key_result) day next_rev;
         data = put_row data ''objectives'' k objective in
     bind_c (key_result_event env activity objective key_result ''key_result.updated''
       [(''prior'', PDict prior), (''current'', PDict [(''progress'', PInt progress), (''status'', status)]),
        (''revision'', PInt next_rev)]) (\<lambda>activity.
     bind_c (save_many [(Objectives_Doc, data), (Activity_Doc, activity)]
       (''key-result-update-'' @ py_str (dget key_result ''id'') @ ''-r'' @ int_str next_rev)) (\<lambda>_.
     return_c key_result)))))))))"

section \<open>The revision of an Objective\<close>

lemma objective_revision_Inr:
  "objective_revision o1 = Inr n \<longleftrightarrow> dget_or o1 ''revision'' (PInt 0) = PInt n \<and> 0 \<le> n \<and> n \<le> MAX_REVISION"
  by (auto simp: objective_revision_def is_int_iff Let_def)

lemma objective_next_Inr:
  "objective_next_revision o1 e = Inr m \<longleftrightarrow>
   objective_revision o1 = Inr (m - 1) \<and> e = PInt (m - 1) \<and> m \<le> MAX_REVISION"
  by (auto simp: objective_next_revision_def result_iffs is_int_iff objective_revision_Inr split: if_splits)

lemma objective_next_stale:
  "objective_revision o1 = Inr n \<Longrightarrow> 0 \<le> r \<Longrightarrow> r \<noteq> n \<Longrightarrow>
   objective_next_revision o1 (PInt r) = Inl (stale_revision ''objective'' n (PInt r))"
  by (simp add: objective_next_revision_def)

interpretation objective_ladder: revision_ladder objective_revision objective_successor
  "\<lambda>n r. dset r ''revision'' (PInt n)"
proof (unfold_locales, goal_cases)
  case (1 r m)
  then show ?case by (auto simp: objective_successor_def objective_next_Inr objective_revision_Inr)
next
  case (2 r n)
  then show ?case by (simp add: objective_successor_def objective_next_Inr objective_revision_Inr)
next
  case (3 n r)
  then show ?case by (simp add: objective_revision_Inr)
qed

section \<open>What a write leaves\<close>

text \<open>
  One Objective goes from revision \<open>r\<close> to \<open>r + 1\<close>, at its position; the Objectives beside it
  stay; the audit event is committed with it, in one save.
\<close>

definition objective_written :: "string \<Rightarrow> int \<Rightarrow> world \<Rightarrow> world \<Rightarrow> bool" where
  "objective_written i r w w' \<longleftrightarrow>
     (\<exists>k o1 o2 activity oid. find_row (documents w Objectives_Doc) ''objectives'' i ''objective'' = Inr (k, o1) \<and>
        dget_or o2 ''id'' (PStr []) = dget_or o1 ''id'' (PStr []) \<and>
        objective_revision o1 = Inr r \<and> objective_revision o2 = Inr (r + 1) \<and>
        documents w' = (documents w)(Objectives_Doc := put_row (documents w Objectives_Doc) ''objectives'' k o2,
          Activity_Doc := activity) \<and>
        saved w' = saved w @ [(oid, [(Objectives_Doc, put_row (documents w Objectives_Doc) ''objectives'' k o2),
          (Activity_Doc, activity)])])"

lemma stamp_objective:
  "dget_or o1 ''id'' d = x \<Longrightarrow> dget_or (dset (dset o1 ''revision'' v) ''updated_at'' u) ''id'' d = x"
  "dget_or o1 ''id'' d = x \<Longrightarrow> dget_or (stamp_row o1 day n) ''id'' d = x"
  by (simp_all add: stamp_row_def)

lemma patch_keeps_id:
  "patch_text body field label r = Inr r' \<Longrightarrow> field \<noteq> ''id'' \<Longrightarrow> dget_or r' ''id'' d = dget_or r ''id'' d"
  "patch_target body r = Inr r' \<Longrightarrow> dget_or r' ''id'' d = dget_or r ''id'' d"
  "patch_progress body r = Inr r' \<Longrightarrow> dget_or r' ''id'' d = dget_or r ''id'' d"
  "patch_status body msg r = Inr r' \<Longrightarrow> dget_or r' ''id'' d = dget_or r ''id'' d"
  by (auto simp: patch_text_def patch_target_def patch_progress_def patch_status_def Let_def result_iffs
      split: if_splits pyval.splits)

lemma put_row_id [simp]: "field \<noteq> ''id'' \<Longrightarrow> dget_or (put_row r field k x) ''id'' d = dget_or r ''id'' d"
  by (simp add: put_row_def)

lemma objective_commit:
  assumes "find_row (documents w Objectives_Doc) ''objectives'' i ''objective'' = Inr (k, o1)"
    and "objective_next_revision o1 (PInt r) = Inr n" and "dget_or o2 ''id'' (PStr []) = dget_or o1 ''id'' (PStr [])"
    and "objective_revision o2 = Inr n" and "documents w1 = documents w" "saved w1 = saved w"
    and "w' = after_save [(Objectives_Doc, put_row (documents w Objectives_Doc) ''objectives'' k o2), (Activity_Doc, act)] oid w1"
  shows "objective_written i r w w'"
  unfolding objective_written_def using assms
  by (intro exI [of _ k] exI [of _ o1] exI [of _ o2] exI [of _ act] exI [of _ oid])
    (auto simp: objective_next_Inr)

lemma objective_next_dindex:
  "bind_r (dindex body ''revision'') (objective_next_revision o1) = Inr n \<longleftrightarrow>
   (\<exists>r. map_of body ''revision'' = Some (PInt r) \<and> objective_next_revision o1 (PInt r) = Inr n \<and> n = r + 1)"
  by (auto simp: result_iffs objective_next_Inr)

lemma revision_stamped:
  "objective_next_revision o1 e = Inr n \<Longrightarrow> objective_revision (dset (dset x ''revision'' (PInt n)) ''updated_at'' d) = Inr n"
  "objective_next_revision o1 e = Inr n \<Longrightarrow> objective_revision (stamp_row x day n) = Inr n"
  by (auto simp: objective_next_Inr objective_revision_Inr stamp_row_def)

lemma run_key_result_event [runs]:
  "bind_c (key_result_event env a o1 kr ty d) f w = (Inr y, w') \<longleftrightarrow>
   (\<exists>oid krid ev act. dindex o1 ''id'' = Inr oid \<and> dindex kr ''id'' = Inr krid \<and>
      event_of (utc_at env (clock_reads w)) a ty PNone PNone PNone ([(''objective_id'', oid), (''key_result_id'', krid)] @ d)
        = Inr (ev, act) \<and> f act (tick w) = (Inr y, w'))"
  by (simp only: key_result_event_def runs plumbing) blast

lemma reads_only_key_result_event [commits]: "reads_only (key_result_event env a o1 kr ty d)"
  unfolding key_result_event_def by (intro commits)

lemma patch_objective_written:
  assumes "patch_objective_v1 env i body w = (Inr p, w')"
  shows "\<exists>r. map_of body ''revision'' = Some (PInt r) \<and> objective_written i r w w'"
proof -
  obtain k o1 r n o2 day act w1 oid where
    f: "find_row (documents w Objectives_Doc) ''objectives'' i ''objective'' = Inr (k, o1)" and
    r: "map_of body ''revision'' = Some (PInt r)" "objective_next_revision o1 (PInt r) = Inr n" and
    o2: "bind_r (patch_text body ''objective'' ''objective'' o1) (\<lambda>o1.
       bind_r (patch_text body ''quarter'' ''quarter'' o1) (patch_status body ''invalid objective status'')) = Inr o2" and
    w': "w' = after_save [(Objectives_Doc, put_row (documents w Objectives_Doc) ''objectives'' k
        (dset (dset o2 ''revision'' (PInt n)) ''updated_at'' (PStr day))), (Activity_Doc, act)] oid w1" and
    w1: "documents w1 = documents w" "saved w1 = saved w"
    using assms unfolding patch_objective_v1_def
    by (simp only: runs plumbing objective_next_dindex) (elim exE conjE, rule that, assumption+, simp_all only: tick_simps)
  have "dget_or o2 ''id'' (PStr []) = dget_or o1 ''id'' (PStr [])"
    using o2 by (auto simp: result_iffs patch_keeps_id)
  then show ?thesis
    using r objective_commit [OF f r(2) _ revision_stamped(1) [OF r(2)] w1 w'] by (auto simp: stamp_objective)
qed

lemma patch_key_result_written:
  assumes "patch_key_result_v1 env i kid body w = (Inr p, w')"
  shows "\<exists>r. map_of body ''revision'' = Some (PInt r) \<and> objective_written i r w w'"
proof -
  obtain k o1 r n j kr day act w1 oid where
    f: "find_row (documents w Objectives_Doc) ''objectives'' i ''objective'' = Inr (k, o1)" and
    r: "map_of body ''revision'' = Some (PInt r)" "objective_next_revision o1 (PInt r) = Inr n" and
    w': "w' = after_save [(Objectives_Doc, put_row (documents w Objectives_Doc) ''objectives'' k
        (dset (dset (put_row o1 ''key_results'' j kr) ''revision'' (PInt n)) ''updated_at'' (PStr day))), (Activity_Doc, act)] oid w1" and
    w1: "documents w1 = documents w" "saved w1 = saved w"
    using assms unfolding patch_key_result_v1_def
    by (simp only: runs plumbing objective_next_dindex) (elim exE conjE, rule that, assumption+, simp_all only: tick_simps)
  then show ?thesis
    using objective_commit [OF f r(2) _ revision_stamped(1) [OF r(2)] w1 w'] by (auto simp: stamp_objective)
qed

lemma append_key_result_id:
  "append_key_result o1 text target = Inr (kr, o2) \<Longrightarrow> dget_or o2 ''id'' d = dget_or o1 ''id'' d"
  by (auto simp: append_key_result_def result_iffs Let_def append_row_def dsetdefault_def)


lemma add_key_result_written:
  assumes "add_key_result env i text target w = (Inr kr, w')"
  shows "\<exists>r. objective_written i r w w'"
proof -
  obtain k o1 m kr' o2 day act w1 oid where
    f: "find_row (documents w Objectives_Doc) ''objectives'' i ''objective'' = Inr (k, o1)" and
    r: "objective_successor o1 = Inr m" and
    o2: "append_key_result o1 (Inr text) (Inr (py_strip (py_str (por target (PStr []))))) = Inr (kr', o2)" and
    w': "w' = after_save [(Objectives_Doc, put_row (documents w Objectives_Doc) ''objectives'' k
        (stamp_row o2 day m)), (Activity_Doc, act)] oid w1" and
    w1: "documents w1 = documents w" "saved w1 = saved w"
    using assms unfolding add_key_result_def
    by (simp only: runs plumbing) (elim exE conjE, rule that, assumption+, simp_all only: tick_simps)
  from r have n: "objective_next_revision o1 (PInt (m - 1)) = Inr m"
    by (auto simp: objective_successor_def objective_next_Inr)
  show ?thesis
    using objective_commit [OF f n _ revision_stamped(2) [OF n] w1 w'] append_key_result_id [OF o2]
    by (auto simp: stamp_objective)
qed

text \<open>The Objective a write left refuses every writer that still holds the revision before it.\<close>

lemma written_refuses:
  assumes "objective_written i r w w'"
  obtains k o2 where "find_row (documents w' Objectives_Doc) ''objectives'' i ''objective'' = Inr (k, o2)"
    "objective_next_revision o2 (PInt r) = Inl (stale_revision ''objective'' (r + 1) (PInt r))"
proof -
  obtain k o1 o2 where f: "find_row (documents w Objectives_Doc) ''objectives'' i ''objective'' = Inr (k, o1)"
    and i: "dget_or o2 ''id'' (PStr []) = dget_or o1 ''id'' (PStr [])"
    and r: "objective_revision o1 = Inr r" "objective_revision o2 = Inr (r + 1)"
    and w': "documents w' Objectives_Doc = put_row (documents w Objectives_Doc) ''objectives'' k o2"
    using assms by (auto simp: objective_written_def)
  have "find_row (documents w' Objectives_Doc) ''objectives'' i ''objective'' = Inr (k, o2)"
    unfolding w' using f i by (rule find_row_put)
  moreover have "objective_next_revision o2 (PInt r) = Inl (stale_revision ''objective'' (r + 1) (PInt r))"
    using r by (intro objective_next_stale) (auto simp: objective_revision_Inr)
  ultimately show thesis by (rule that)
qed

lemma patch_refused:
  assumes "find_row (documents w Objectives_Doc) ''objectives'' i ''objective'' = Inr (k, o2)"
    and "map_of body ''revision'' = Some (PInt r)" and "objective_next_revision o2 (PInt r) = Inl e"
  shows "patch_objective_v1 env i body w = (Inl e, w)" and "patch_key_result_v1 env i kid body w = (Inl e, w)"
  using assms by (simp_all add: patch_objective_v1_def patch_key_result_v1_def dindex_def bind_c_def)

section \<open>Properties\<close>

text \<open>
  C18. No update of an Objective is lost: once a patch that read revision \<open>r\<close> has been committed,
  every other patch of that Objective or of one of its Key Results that read the same revision
  is refused as stale and changes nothing.
\<close>

theorem objective_updates_not_lost:
  assumes "patch_objective_v1 env i body w = (Inr p, w1)" and "map_of body2 ''revision'' = map_of body ''revision''"
  shows "\<exists>r. map_of body ''revision'' = Some (PInt r) \<and>
    patch_objective_v1 env i body2 w1 = (Inl (stale_revision ''objective'' (r + 1) (PInt r)), w1) \<and>
    patch_key_result_v1 env i kid body2 w1 = (Inl (stale_revision ''objective'' (r + 1) (PInt r)), w1)"
proof -
  obtain r where r: "map_of body ''revision'' = Some (PInt r)" and "objective_written i r w w1"
    using patch_objective_written [OF assms(1)] by blast
  from this(2) obtain k o2 where "find_row (documents w1 Objectives_Doc) ''objectives'' i ''objective'' = Inr (k, o2)"
    "objective_next_revision o2 (PInt r) = Inl (stale_revision ''objective'' (r + 1) (PInt r))"
    by (rule written_refuses)
  with r assms(2) show ?thesis by (auto simp: patch_refused)
qed

theorem objective_updates_not_lost_witness:
  "\<exists>w1. patch_objective_v1 sample_env ''o-1'' [(''revision'', PInt 4), (''status'', PStr ''done'')] w1 =
     (Inl (stale_revision ''objective'' 5 (PInt 4)), w1)"
proof -
  have "\<not> isl (fst (patch_objective_v1 sample_env ''o-1'' [(''revision'', PInt 4), (''objective'', PStr ''Land'')] sample_world))"
    by code_simp
  then obtain p w1 where "patch_objective_v1 sample_env ''o-1'' [(''revision'', PInt 4), (''objective'', PStr ''Land'')] sample_world
      = (Inr p, w1)" by (metis fst_conv isl_def sum.exhaust_sel surj_pair)
  from objective_updates_not_lost [OF this, of "[(''revision'', PInt 4), (''status'', PStr ''done'')]"]
  show ?thesis by auto
qed



section \<open>One commit per command\<close>

lemma all_or_nothing_key_result_event [commits]:
  "(\<And>x. all_or_nothing (f x)) \<Longrightarrow> all_or_nothing (bind_c (key_result_event env a o1 kr ty d) f)"
  by (rule all_or_nothing_bind [OF reads_only_key_result_event])

lemma reads_only_quarter [commits]: "reads_only (pick_quarter env q)" "reads_only (new_objective env data q1 t)"
  unfolding new_objective_def pick_quarter_def by (intro commits)+

lemma all_or_nothing_new_objective [commits]:
  "(\<And>x. all_or_nothing (g x)) \<Longrightarrow> all_or_nothing (bind_c (new_objective env data q1 t) g)"
  by (rule all_or_nothing_bind [OF reads_only_quarter(2)])

lemma projects: "bind_r (dindex body ''revision'') (objective_next_revision o1) = Inr n \<Longrightarrow>
   \<not> isl (project_objective (dset (dset x ''revision'' (PInt n)) ''updated_at'' d))"
  by (auto simp: result_iffs project_objective_def revision_stamped(1))

lemma objective_commands_atomic:
  "all_or_nothing (add_objective env text q)"
  "all_or_nothing (create_objective_v1 env body key path)"
  "all_or_nothing (add_key_result env i v target)"
  "all_or_nothing (add_key_result_v1 env i body key path)"
  "all_or_nothing (link_task env i t)"
  "all_or_nothing (set_key_result_progress env i kid n)"
  unfolding add_objective_def create_objective_v1_def add_key_result_def add_key_result_v1_def link_task_def
    set_key_result_progress_def Let_def
  by (intro commits)+

lemma patch_commands_atomic:
  "all_or_nothing (patch_objective_v1 env i body)"
  "all_or_nothing (patch_key_result_v1 env i kid body)"
  unfolding patch_objective_v1_def patch_key_result_v1_def Let_def
  by (intro commits projects, assumption)+

end
