(* ===== verification/WS_TaskCommands.thy ===== *)
theory WS_TaskCommands
  imports WS_Objectives
begin

text \<open>
  \<open>workstack/service_task_commands.py\<close>: creating Tasks, adding notes and subtasks. Each command
  ends in one save, so that a Task, its planning fact and the receipt of its key are committed
  together. The status commands are in \<open>WS_TaskStatus\<close>.
\<close>

section \<open>Creating a Task\<close>

text \<open>\<open>_next_task_display\<close> reads the workspace document itself.\<close>

definition next_display :: "dict \<Rightarrow> (string \<times> dict) command" where
  "next_display data =
     bind_c (load Workspace_Doc) (\<lambda>workspace.
     lift_c (bind_r (rows data ''tasks'') (next_task_display workspace)))"

definition workspace_text :: "pyval \<Rightarrow> string result" where
  "workspace_text v = (case v of PStr s \<Rightarrow> Inr s | PNone \<Rightarrow> Inl TypeError | _ \<Rightarrow> Inl AttributeError)"

definition known_ids :: "dict list \<Rightarrow> pyval list result" where
  "known_ids items = map_r (\<lambda>d. bind_r (dindex d ''id'') (\<lambda>i. if hashable i then Inr i else Inl TypeError)) items"

definition refuse_unknown_objectives :: "string list \<Rightarrow> pyval list \<Rightarrow> unit result" where
  "refuse_unknown_objectives ids known =
     (let unknown = missing_from ids known in
      if unknown \<noteq> [] then Inl (ValueErr (''unknown objective ids: '' @ py_join '', '' unknown)) else Inr ())"

text \<open>
  \<open>_append_task\<close>: the new record, the document it was appended to and the workspace document
  with the advanced high-water mark. The days are read after the rest of the record is known.
\<close>

definition append_task ::
  "env \<Rightarrow> dict \<Rightarrow> pyval \<Rightarrow> pyval \<Rightarrow> pyval \<Rightarrow> pyval \<Rightarrow> pyval list \<Rightarrow> pyval list \<Rightarrow> pyval \<Rightarrow> pyval list \<Rightarrow>
   pyval \<Rightarrow> pyval \<Rightarrow> (dict \<times> dict \<times> dict) command" where
  "append_task env data title detail priority due tags objective_ids parent_id dependencies scheduled estimate_minutes =
     bind_c (lift_c (validate_new_task_schedule priority due scheduled estimate_minutes)) (\<lambda>_.
     bind_c (lift_c (bind_r (rows data ''tasks'') (\<lambda>tasks.
       normalize_new_task_relationships tasks parent_id dependencies))) (\<lambda>(parent, deps).
     bind_c (next_display data) (\<lambda>(task_id, workspace).
     bind_c (load Workspace_Doc) (\<lambda>stored.
     bind_c (lift_c (bind_r (dindex stored ''id'') workspace_text)) (\<lambda>workspace_id.
     bind_c (lift_c (new_task_record (uuid5 env) task_id workspace_id title detail priority due scheduled
       estimate_minutes tags objective_ids parent deps [] [])) (\<lambda>task.
     bind_c (today env) (\<lambda>created.
     bind_c (today env) (\<lambda>updated_at.
     let task = dset (dset task ''created'' (PStr created)) ''updated_at'' (PStr updated_at) in
     bind_c (load Objectives_Doc) (\<lambda>objectives.
     bind_c (lift_c (bind_r (list_objectives objectives ''all'') known_ids)) (\<lambda>known.
     bind_c (lift_c (refuse_unknown_objectives (map str_of (list_of (dget task ''objective_ids''))) known)) (\<lambda>_.
     bind_c (lift_c (append_row data ''tasks'' task)) (\<lambda>data.
     return_c (task, data, workspace)))))))))))))"

text \<open>The appended record is the one \<open>append_bootstrap\<close> writes the head of its history to.\<close>

definition put_last :: "dict \<Rightarrow> string \<Rightarrow> dict \<Rightarrow> dict" where
  "put_last doc field r = put_row doc field (length (list_of (dget doc field)) - 1) r"

definition add_task ::
  "env \<Rightarrow> pyval \<Rightarrow> pyval \<Rightarrow> pyval \<Rightarrow> pyval \<Rightarrow> pyval list \<Rightarrow> pyval list \<Rightarrow> pyval \<Rightarrow> pyval list \<Rightarrow> dict command" where
  "add_task env title detail priority due tags objective_ids parent_id dependencies =
     bind_c (load Tasks_Doc) (\<lambda>data.
     bind_c (append_task env data title detail priority due tags objective_ids parent_id dependencies PNone PNone)
       (\<lambda>(task, data, workspace).
     bind_c (load Activity_Doc) (\<lambda>activity.
     bind_c (utc_now env) (\<lambda>created_at.
     bind_c (lift_c (append_bootstrap activity task created_at ''local.user'' ''cli'')) (\<lambda>(item, activity, task).
     bind_c (save_many [(Tasks_Doc, put_last data ''tasks'' task), (Activity_Doc, activity), (Workspace_Doc, workspace)]
       (''task-create-cli-'' @ py_str (dget task ''id''))) (\<lambda>_.
     return_c task))))))"

definition validate_task_create_v1 :: "pyval \<Rightarrow> dict result" where
  "validate_task_create_v1 body =
     bind_r (validate_task_create_shape body) (\<lambda>body.
     bind_r (task_create_text_fields body) (\<lambda>(title, detail, priority).
     bind_r (task_create_date body ''due'') (\<lambda>due.
     bind_r (task_create_date body ''scheduled'') (\<lambda>scheduled.
     bind_r (task_create_estimate body) (\<lambda>estimate_minutes.
     bind_r (task_create_string_list body ''tags'' False) (\<lambda>tags.
     bind_r (task_create_string_list body ''objective_ids'' True) (\<lambda>objective_ids.
     Inr [(''title'', PStr title), (''detail'', PStr detail), (''priority'', PStr priority), (''due'', due),
       (''scheduled'', scheduled), (''estimate_minutes'', estimate_minutes), (''tags'', strs tags),
       (''objective_ids'', strs objective_ids)])))))))"

text \<open>What the keyed command does once its key has no receipt yet.\<close>

definition create_intent :: "env \<Rightarrow> dict \<Rightarrow> pyval \<Rightarrow> string \<Rightarrow> string \<Rightarrow> dict \<Rightarrow> response command" where
  "create_intent env c key path digest activity =
     bind_c (load Tasks_Doc) (\<lambda>backlog.
     bind_c (append_task env backlog (dget c ''title'') (dget c ''detail'') (dget c ''priority'') (dget c ''due'')
       (list_of (dget c ''tags'')) (list_of (dget c ''objective_ids'')) PNone [] (dget c ''scheduled'')
       (dget c ''estimate_minutes'')) (\<lambda>(task, backlog, workspace).
     bind_c (utc_now env) (\<lambda>created_at.
     bind_c (lift_c (append_bootstrap activity task created_at ''local.user'' ''api.v1'')) (\<lambda>(item, activity, task).
     bind_c (lift_c (project_task task 0 (PStr ''open''))) (\<lambda>projected.
     commit_keyed env activity key ''POST'' path digest 201 (response_body projected)
       [(Tasks_Doc, put_last backlog ''tasks'' task)] [(Workspace_Doc, workspace)]
       (''task-create-'' @ str_of key))))))"

definition create_task_v1 :: "env \<Rightarrow> pyval \<Rightarrow> pyval \<Rightarrow> string \<Rightarrow> response command" where
  "create_task_v1 env body key path =
     bind_c (lift_c (validate_idempotency_key key)) (\<lambda>_.
     bind_c (lift_c (validate_task_create_v1 body)) (\<lambda>c.
     let digest = canonical_digest env (PDict c) in
     keyed_command key ''POST'' path digest (create_intent env c key path digest)))"

section \<open>Notes and subtasks\<close>

text \<open>\<open>task.setdefault(field, []).append(item)\<close>\<close>

definition append_item :: "dict \<Rightarrow> string \<Rightarrow> dict \<Rightarrow> dict result" where
  "append_item r field item = append_row (dsetdefault r field (PList [])) field item"

definition new_note :: "string \<Rightarrow> pyval result \<Rightarrow> dict result" where
  "new_note day text =
     bind_r (bind_r text (\<lambda>v. required_text v ''text'')) (\<lambda>text. Inr [(''date'', PStr day), (''text'', PStr text)])"

text \<open>The status the two keyed commands report is looked up under the identifier as it was given.\<close>

definition status_for :: "dict \<Rightarrow> dict \<Rightarrow> string \<Rightarrow> pyval result" where
  "status_for backlog activity task_id =
     bind_r (validate_and_project backlog activity) (\<lambda>proj. dindex proj task_id)"

definition note_intent :: "env \<Rightarrow> string \<Rightarrow> dict \<Rightarrow> pyval \<Rightarrow> string \<Rightarrow> string \<Rightarrow> dict \<Rightarrow> response command" where
  "note_intent env task_id body key path digest activity =
     bind_c (load Tasks_Doc) (\<lambda>backlog.
     bind_c (lift_c (find_row backlog ''tasks'' task_id ''task'')) (\<lambda>(k, task).
     bind_c (lift_c (bind_r (dindex body ''revision'') (guard_revision task))) (\<lambda>next_rev.
     bind_c (today env) (\<lambda>day.
     bind_c (lift_c (bind_r (new_note day (dindex body ''text'')) (append_item task ''notes''))) (\<lambda>task.
     bind_c (today env) (\<lambda>updated_at.
     let task = stamp_row task updated_at next_rev; backlog = put_row backlog ''tasks'' k task in
     bind_c (lift_c (status_for backlog activity task_id)) (\<lambda>planning_status.
     bind_c (lift_c (project_task task 0 planning_status)) (\<lambda>projected.
     commit_keyed env activity key ''POST'' path digest 200 (response_body projected)
       [(Tasks_Doc, backlog)] [] (''task-note-'' @ str_of key)))))))))"

definition add_task_note_v1 :: "env \<Rightarrow> string \<Rightarrow> dict \<Rightarrow> pyval \<Rightarrow> string \<Rightarrow> response command" where
  "add_task_note_v1 env task_id body key path =
     bind_c (lift_c (validate_idempotency_key key)) (\<lambda>_.
     let digest = canonical_digest env (PDict body) in
     keyed_command key ''POST'' path digest (note_intent env task_id body key path digest))"

definition new_subtask :: "dict \<Rightarrow> pyval result \<Rightarrow> pyval \<Rightarrow> dict result" where
  "new_subtask task title priority =
     bind_r (bind_r (rows (dsetdefault task ''subtasks'' (PList [])) ''subtasks'') (\<lambda>rs. next_id rs ''S'' 0)) (\<lambda>i.
     bind_r (bind_r title (\<lambda>v. required_text v ''title'')) (\<lambda>title.
     Inr [(''id'', PStr i), (''title'', PStr title), (''priority'', priority), (''status'', PStr ''open'')]))"

definition priority_checked :: "pyval \<Rightarrow> unit result" where
  "priority_checked v = (if in_tuple v PRIORITIES then Inr () else Inl (ValueErr ''invalid priority''))"

definition subtask_intent :: "env \<Rightarrow> string \<Rightarrow> dict \<Rightarrow> pyval \<Rightarrow> string \<Rightarrow> string \<Rightarrow> dict \<Rightarrow> response command" where
  "subtask_intent env task_id body key path digest activity =
     bind_c (lift_c (bind_r (dindex body ''priority'') priority_checked)) (\<lambda>_.
     bind_c (load Tasks_Doc) (\<lambda>backlog.
     bind_c (lift_c (find_row backlog ''tasks'' task_id ''task'')) (\<lambda>(k, task).
     bind_c (lift_c (bind_r (dindex body ''revision'') (guard_revision task))) (\<lambda>next_rev.
     bind_c (lift_c (bind_r (new_subtask task (dindex body ''title'') (dget body ''priority''))
       (append_item task ''subtasks''))) (\<lambda>task.
     bind_c (today env) (\<lambda>updated_at.
     let task = stamp_row task updated_at next_rev; backlog = put_row backlog ''tasks'' k task in
     bind_c (lift_c (status_for backlog activity task_id)) (\<lambda>planning_status.
     bind_c (lift_c (project_task task 0 planning_status)) (\<lambda>projected.
     commit_keyed env activity key ''POST'' path digest 200 (response_body projected)
       [(Tasks_Doc, backlog)] [] (''task-subtask-'' @ str_of key)))))))))"

definition add_subtask_v1 :: "env \<Rightarrow> string \<Rightarrow> dict \<Rightarrow> pyval \<Rightarrow> string \<Rightarrow> response command" where
  "add_subtask_v1 env task_id body key path =
     bind_c (lift_c (validate_idempotency_key key)) (\<lambda>_.
     let digest = canonical_digest env (PDict body) in
     keyed_command key ''POST'' path digest (subtask_intent env task_id body key path digest))"

definition add_subtask :: "env \<Rightarrow> string \<Rightarrow> pyval \<Rightarrow> pyval \<Rightarrow> pyval \<Rightarrow> dict command" where
  "add_subtask env task_id title priority expected_revision =
     bind_c (lift_c (priority_checked priority)) (\<lambda>_.
     bind_c (load Tasks_Doc) (\<lambda>data.
     bind_c (lift_c (find_row data ''tasks'' task_id ''task'')) (\<lambda>(k, task).
     bind_c (lift_c (guard_revision task expected_revision)) (\<lambda>next_rev.
     bind_c (lift_c (new_subtask task (Inr title) priority)) (\<lambda>subtask.
     bind_c (lift_c (append_item task ''subtasks'' subtask)) (\<lambda>task.
     bind_c (today env) (\<lambda>updated_at.
     bind_c (save_one Tasks_Doc (put_row data ''tasks'' k (stamp_row task updated_at next_rev))) (\<lambda>_.
     return_c subtask))))))))"

definition set_subtask_status :: "env \<Rightarrow> string \<Rightarrow> string \<Rightarrow> pyval \<Rightarrow> pyval \<Rightarrow> dict command" where
  "set_subtask_status env task_id subtask_id status expected_revision =
     bind_c (lift_c (if in_tuple status TASK_STATUSES then Inr () else Inl (ValueErr ''invalid task status''))) (\<lambda>_.
     bind_c (load Tasks_Doc) (\<lambda>data.
     bind_c (lift_c (find_row data ''tasks'' task_id ''task'')) (\<lambda>(k, task).
     bind_c (lift_c (guard_revision task expected_revision)) (\<lambda>next_rev.
     let task = dsetdefault task ''subtasks'' (PList []) in
     bind_c (lift_c (find_row task ''subtasks'' subtask_id ''subtask'')) (\<lambda>(j, subtask).
     let subtask = dset subtask ''status'' status in
     bind_c (today env) (\<lambda>updated_at.
     bind_c (save_one Tasks_Doc (put_row data ''tasks'' k
       (stamp_row (put_row task ''subtasks'' j subtask) updated_at next_rev))) (\<lambda>_.
     return_c subtask)))))))"

definition add_task_note :: "env \<Rightarrow> string \<Rightarrow> pyval \<Rightarrow> pyval \<Rightarrow> dict command" where
  "add_task_note env task_id text expected_revision =
     bind_c (load Tasks_Doc) (\<lambda>data.
     bind_c (lift_c (find_row data ''tasks'' task_id ''task'')) (\<lambda>(k, task).
     bind_c (lift_c (guard_revision task expected_revision)) (\<lambda>next_rev.
     bind_c (today env) (\<lambda>day.
     bind_c (lift_c (new_note day (Inr text))) (\<lambda>note.
     bind_c (lift_c (append_item task ''notes'' note)) (\<lambda>task.
     bind_c (today env) (\<lambda>updated_at.
     bind_c (save_one Tasks_Doc (put_row data ''tasks'' k (stamp_row task updated_at next_rev))) (\<lambda>_.
     return_c note))))))))"

end
