(* ===== verification/WS_TaskStatus.thy ===== *)
theory WS_TaskStatus
  imports WS_TaskCommands
begin

text \<open>
  The status of a Task: \<open>set_task_status\<close> and its keyed form in
  \<open>workstack/service_task_commands.py\<close>, \<open>patch_task\<close> in \<open>workstack/service.py\<close> and the undo of a
  recorded change in \<open>workstack/mutation_service.py\<close>. A change of status appends one fact to
  the planning history and one notice to the activity, advances the Task by one revision and
  commits the two documents in one save.
\<close>

section \<open>The notice of a status change\<close>

definition notice_refusal :: "pyexc \<Rightarrow> pyexc option" where
  "notice_refusal e = (case e of
     MutationNoticeError _ \<Rightarrow> Some (MutationReceiptError ''invalid_request'' ''invalid mutation notice'' []) | _ \<Rightarrow> None)"

definition record_task_status_notice ::
  "env \<Rightarrow> dict \<Rightarrow> dict \<Rightarrow> pyval \<Rightarrow> pyval \<Rightarrow> int \<Rightarrow> int \<Rightarrow> string \<Rightarrow> string \<Rightarrow> (dict \<times> dict) command" where
  "record_task_status_notice env activity task status_before status_after before_revision after_revision key source =
     bind_c (ready_uid env) (\<lambda>uid.
     bind_c (utc_now env) (\<lambda>created_at.
     lift_c (catch_r (record_committed_status_notice env activity (PStr uid) task status_before status_after
       before_revision after_revision (PStr key) (PStr source) created_at) notice_refusal)))"

definition status_notice_key :: "dict \<Rightarrow> int \<Rightarrow> string result" where
  "status_notice_key task before_revision =
     bind_r (dindex task ''uid'') (\<lambda>uid. Inr (unkeyed_status_key (py_str uid) before_revision))"

text \<open>\<open>task["updated_at"]\<close>, then \<open>task["revision"]\<close>; the Task goes back into its document.\<close>

definition stamped :: "env \<Rightarrow> dict \<Rightarrow> nat \<Rightarrow> dict \<Rightarrow> int \<Rightarrow> (dict \<times> dict) command" where
  "stamped env data k task next_rev =
     bind_c (today env) (\<lambda>day.
     let task = stamp_row task day next_rev in return_c (task, put_row data ''tasks'' k task))"

text \<open>
  The sequence \<open>set_task_status\<close>, its keyed form and the undo share: the successor revision, the
  fact of the transition, the two fields of the Task and the notice, whose key is read last.
\<close>

definition move_task ::
  "env \<Rightarrow> dict \<Rightarrow> dict \<Rightarrow> nat \<Rightarrow> dict \<Rightarrow> pyval \<Rightarrow> pyval \<Rightarrow> int \<Rightarrow> int result \<Rightarrow> string \<Rightarrow> string result \<Rightarrow> string \<Rightarrow>
   (int \<times> dict \<times> dict \<times> dict) command" where
  "move_task env activity data k task current_status status current_rev successor provenance notice_key source =
     bind_c (lift_c successor) (\<lambda>next_rev.
     bind_c (utc_now env) (\<lambda>created_at.
     bind_c (lift_c (append_transition activity task current_status status current_rev next_rev created_at
       ''local.user'' provenance)) (\<lambda>(item, activity, task).
     bind_c (stamped env data k task next_rev) (\<lambda>(task, data).
     bind_c (lift_c notice_key) (\<lambda>notice_key.
     bind_c (record_task_status_notice env activity task current_status status current_rev next_rev notice_key source)
       (\<lambda>(notice, activity).
     return_c (next_rev, task, data, activity)))))))"

section \<open>Setting the status\<close>

text \<open>
  Both ways out of the command project the Task it read or wrote: the first part returns that
  Task, after its commit, with the status to report.
\<close>

definition set_task_status_commit ::
  "env \<Rightarrow> string \<Rightarrow> pyval \<Rightarrow> pyval \<Rightarrow> string \<Rightarrow> (dict \<times> pyval) command" where
  "set_task_status_commit env task_id status expected_revision provenance =
     bind_c (lift_c (if \<not> in_tuple status TASK_STATUSES then Inl (ValueErr ''invalid task status'')
       else if provenance \<notin> {''cli'', ''api.legacy''} then Inl (ValueErr ''invalid planning status provenance'')
       else Inr ())) (\<lambda>_.
     bind_c (load Tasks_Doc) (\<lambda>data.
     bind_c (load Activity_Doc) (\<lambda>activity.
     bind_c (lift_c (find_row data ''tasks'' task_id ''task'')) (\<lambda>(k, task).
     bind_c (lift_c (revision_of task)) (\<lambda>current_rev.
     let expected = (if expected_revision = PNone then PInt current_rev else expected_revision) in
     bind_c (lift_c (if \<not> is_int expected \<or> int_of expected < 0 then Inl revision_required
       else if int_of expected \<noteq> current_rev then Inl (stale_revision ''task'' current_rev expected)
       else Inr ())) (\<lambda>_.
     bind_c (lift_c (bind_r (validate_and_project data activity) (\<lambda>proj.
       bind_r (dindex task ''id'') (index_status proj)))) (\<lambda>current_status.
     if status = current_status then return_c (task, current_status)
     else
     bind_c (move_task env activity data k task current_status status current_rev (next_revision task) provenance
       (status_notice_key task current_rev) (if provenance = ''cli'' then ''cli'' else ''gui''))
       (\<lambda>(next_rev, task, data, activity).
     bind_c (save_many [(Tasks_Doc, data), (Activity_Doc, activity)]
       (''task-status-'' @ py_str (dget task ''id'') @ ''-r'' @ int_str next_rev)) (\<lambda>_.
     return_c (task, status))))))))))"

definition set_task_status :: "env \<Rightarrow> string \<Rightarrow> pyval \<Rightarrow> pyval \<Rightarrow> string \<Rightarrow> dict command" where
  "set_task_status env task_id status expected_revision provenance =
     bind_c (set_task_status_commit env task_id status expected_revision provenance) (\<lambda>(task, planning_status).
     lift_c (project_task task 0 planning_status))"

definition validate_keyed_intent_request :: "pyval \<Rightarrow> pyval \<Rightarrow> dict result" where
  "validate_keyed_intent_request key body =
     (if \<not> is_str key
      then Inl (domain_error ''Idempotency-Key must be a string'' [(''field'', PStr ''idempotency_key'')])
      else bind_r (validate_idempotency_key key) (\<lambda>_.
        case body of
          PDict b \<Rightarrow>
            (if \<not> exact_keys b [''status'', ''revision'']
             then Inl (domain_error ''a keyed task status intent requires exactly status and revision'' [])
             else if \<not> is_str (dget b ''status'') \<or> \<not> in_tuple (dget b ''status'') TASK_STATUSES
             then Inl (domain_error ''invalid task status'' [(''field'', PStr ''status'')])
             else if \<not> is_int (dget b ''revision'') \<or> int_of (dget b ''revision'') < 0
             then Inl (domain_error ''revision is required and must be a non-negative integer''
                    [(''field'', PStr ''revision'')])
             else Inr b)
        | _ \<Rightarrow> Inl (domain_error ''a keyed task status intent requires exactly status and revision'' [])))"

definition released_composition_required :: "bool \<Rightarrow> string \<Rightarrow> unit result" where
  "released_composition_required released message = (if released then Inr () else Inl (domain_error message []))"

text \<open>What the keyed command does once its key has no receipt yet.\<close>

definition status_intent :: "env \<Rightarrow> string \<Rightarrow> dict \<Rightarrow> pyval \<Rightarrow> string \<Rightarrow> string \<Rightarrow> dict \<Rightarrow> response command" where
  "status_intent env task_id b key path digest activity =
     bind_c (load Tasks_Doc) (\<lambda>data.
     bind_c (lift_c (find_row data ''tasks'' task_id ''task'')) (\<lambda>(k, task).
     bind_c (lift_c (revision_of task)) (\<lambda>current_rev.
     bind_c (lift_c (if int_of (dget b ''revision'') \<noteq> current_rev
       then Inl (stale_revision ''task'' current_rev (dget b ''revision'')) else Inr ())) (\<lambda>_.
     let status = dget b ''status'' in
     bind_c (lift_c (bind_r (validate_and_project data activity) (\<lambda>proj.
       bind_r (dindex task ''id'') (index_status proj)))) (\<lambda>current_status.
     if status = current_status
     then bind_c (lift_c (project_task task 0 current_status)) (\<lambda>projected.
          commit_keyed env activity key ''PATCH'' path digest 200 (response_body projected) [] []
            (''task-status-intent-'' @ str_of key))
     else
     bind_c (move_task env activity data k task current_status status current_rev (next_revision task) ''cli''
       (Inr (str_of key)) ''gui'') (\<lambda>(next_rev, task, data, activity).
     bind_c (lift_c (project_task task 0 status)) (\<lambda>projected.
     commit_keyed env activity key ''PATCH'' path digest 200 (response_body projected)
       [(Tasks_Doc, data)] [] (''task-status-intent-'' @ str_of key))))))))"

definition set_task_status_v1 :: "env \<Rightarrow> string \<Rightarrow> pyval \<Rightarrow> pyval \<Rightarrow> string \<Rightarrow> pyval \<Rightarrow> response command" where
  "set_task_status_v1 env task_id body key path request_digest =
     bind_c (lift_c (validate_keyed_intent_request key body)) (\<lambda>b.
     bind_c (lift_c (released_composition_required (released_composition env)
       ''keyed task status intents are not supported by this storage composition'')) (\<lambda>_.
     bind_c (lift_c (raw_request_digest env body request_digest)) (\<lambda>digest.
     keyed_command key ''PATCH'' path digest (status_intent env task_id b key path digest))))"

section \<open>Patching a Task\<close>

text \<open>\<open>{item["id"]: item for item in tasks}\<close>; only string identifiers can be looked up later.\<close>

definition add_by_id :: "pyval \<Rightarrow> tasks_by_id \<Rightarrow> tasks_by_id result" where
  "add_by_id item indexed =
     bind_r (getitem item ''id'') (\<lambda>i.
     if \<not> hashable i then Inl TypeError
     else Inr (case i of PStr s \<Rightarrow> AList.update s (dict_of item) indexed | _ \<Rightarrow> indexed))"

definition tasks_index :: "pyval list \<Rightarrow> tasks_by_id result" where
  "tasks_index tasks = fold_r add_by_id tasks []"

definition unknown_patch_fields :: "dict \<Rightarrow> string list" where
  "unknown_patch_fields patch = sorted_set (filter (\<lambda>f. f \<notin> set TASK_PATCH_FIELDS) (dkeys patch))"

definition check_patch_shape :: "pyval \<Rightarrow> dict result" where
  "check_patch_shape patch =
     (case patch of
        PDict p \<Rightarrow>
          (if unknown_patch_fields p \<noteq> []
           then Inl (domain_error ''unknown task fields'' [(''fields'', strs (unknown_patch_fields p))])
           else if \<not> is_int (dget p ''revision'') \<or> int_of (dget p ''revision'') < 0 then Inl revision_required
           else Inr p)
      | _ \<Rightarrow> Inl (domain_error ''task patch must be an object'' []))"

definition require_released_for_refs :: "env \<Rightarrow> dict \<Rightarrow> unit result" where
  "require_released_for_refs env patch =
     released_composition_required (dhas patch ''key_result_refs'' \<longrightarrow> released_documents env)
       ''key result references are not supported by this storage composition''"

text \<open>The fact and the notice of a patch that changes the status; the key is read before the notice.\<close>

definition patch_transition ::
  "env \<Rightarrow> dict \<Rightarrow> dict \<Rightarrow> pyval \<Rightarrow> pyval \<Rightarrow> int \<Rightarrow> int \<Rightarrow> pyval \<Rightarrow> (dict \<times> dict) command" where
  "patch_transition env activity task current_status requested current_rev next_rev origin =
     bind_c (utc_now env) (\<lambda>created_at.
     bind_c (lift_c (append_transition activity task current_status requested current_rev next_rev created_at
       ''local.user'' ''api.v1'')) (\<lambda>(item, activity, task).
     bind_c (lift_c (status_notice_key task current_rev)) (\<lambda>notice_key.
     bind_c (record_task_status_notice env activity task current_status requested current_rev next_rev notice_key
       (notice_source_for_origin origin)) (\<lambda>(notice, activity).
     return_c (activity, task)))))"

text \<open>What is written once the changes are known and there are some.\<close>

definition patch_write ::
  "env \<Rightarrow> dict \<Rightarrow> dict \<Rightarrow> nat \<Rightarrow> dict \<Rightarrow> dict \<Rightarrow> pyval \<Rightarrow> pyval \<Rightarrow> int \<Rightarrow> string list \<Rightarrow> pyval \<Rightarrow> (dict \<times> pyval) command" where
  "patch_write env activity backlog k task changes requested current_status current_rev changed_fields origin =
     bind_c (lift_c (next_revision task)) (\<lambda>next_rev.
     let task = dupdate task changes; moves = (requested \<noteq> PNone \<and> \<not> py_eq requested current_status) in
     bind_c (if moves then patch_transition env activity task current_status requested current_rev next_rev origin
       else return_c (activity, task)) (\<lambda>(activity, task).
     bind_c (stamped env backlog k task next_rev) (\<lambda>(task, backlog).
     bind_c (lift_c (dindex task ''id'')) (\<lambda>i.
     bind_c (append_event env activity ''task.updated'' PNone i PNone [(''fields'', strs changed_fields)])
       (\<lambda>(event, activity).
     bind_c (save_many [(Tasks_Doc, backlog), (Activity_Doc, activity)]
       (''task-patch-'' @ py_str i @ ''-r'' @ int_str next_rev)) (\<lambda>_.
     return_c (task, if moves then requested else current_status)))))))"

definition patch_task_commit :: "env \<Rightarrow> string \<Rightarrow> pyval \<Rightarrow> pyval \<Rightarrow> (dict \<times> pyval) command" where
  "patch_task_commit env task_id patch origin =
     bind_c (lift_c (check_patch_shape patch)) (\<lambda>p.
     bind_c (load Tasks_Doc) (\<lambda>backlog.
     bind_c (lift_c (bind_r (rows_or backlog ''tasks'') (\<lambda>rs. find_record rs task_id ''task''))) (\<lambda>(k, task).
     bind_c (lift_c (revision_of task)) (\<lambda>current_rev.
     bind_c (lift_c (if int_of (dget p ''revision'') \<noteq> current_rev
       then Inl (stale_revision ''task'' current_rev (dget p ''revision'')) else Inr ())) (\<lambda>_.
     bind_c (lift_c (require_released_for_refs env p)) (\<lambda>_.
     bind_c (lift_c (bind_r (rows_or backlog ''tasks'') tasks_index)) (\<lambda>tasks.
     bind_c (load Objectives_Doc) (\<lambda>okr.
     bind_c (lift_c (bind_r (rows_or okr ''objectives'') objective_records_by_id)) (\<lambda>objectives.
     bind_c (lift_c (patch_change_set p task tasks (map fst objectives))) (\<lambda>(changes, requested).
     bind_c (lift_c (apply_outcome_invariant changes task objectives)) (\<lambda>changes.
     bind_c (load Activity_Doc) (\<lambda>activity.
     bind_c (lift_c (bind_r (validate_and_project backlog activity) (\<lambda>proj.
       bind_r (dindex task ''id'') (index_status proj)))) (\<lambda>current_status.
     let changed_fields = patch_changed_fields changes requested current_status in
     if changed_fields = [] then return_c (task, current_status)
     else patch_write env activity backlog k task changes requested current_status current_rev changed_fields
            origin)))))))))))))"

definition patch_task :: "env \<Rightarrow> string \<Rightarrow> pyval \<Rightarrow> pyval \<Rightarrow> dict command" where
  "patch_task env task_id patch origin =
     bind_c (patch_task_commit env task_id patch origin) (\<lambda>(task, planning_status).
     lift_c (project_task task 0 planning_status))"

section \<open>Undo\<close>

definition undo_revision :: "pyval \<Rightarrow> int result" where
  "undo_revision body =
     (case body of
        PDict b \<Rightarrow>
          (if \<not> exact_keys b [''revision'']
           then Inl (MutationReceiptError ''invalid_request'' ''undo requires exactly revision'' [])
           else let v = dget b ''revision'' in
             if \<not> is_int v \<or> int_of v < 0
             then Inl (MutationReceiptError ''invalid_request'' ''revision is required and must be a non-negative integer''
                    [(''field'', PStr ''revision'')])
             else Inr (int_of v))
      | _ \<Rightarrow> Inl (MutationReceiptError ''invalid_request'' ''undo requires exactly revision'' []))"

definition canonical_notice_id :: "string \<Rightarrow> string result" where
  "canonical_notice_id v =
     (if \<not> uuid_shape v \<or> \<not> uuid_nonzero v \<or> \<not> uuid_rfc4122 v
      then Inl (MutationReceiptError ''invalid_request'' ''mutation notice id is invalid'' []) else Inr v)"

definition required_notice :: "env \<Rightarrow> dict \<Rightarrow> string \<Rightarrow> dict command" where
  "required_notice env activity notice_id =
     bind_c (lift_c (find_notice env activity notice_id)) (\<lambda>found.
     let refusal = raise_c (MutationReceiptError ''not_found'' ''mutation notice not found'' []) in
     case found of
       None \<Rightarrow> refusal
     | Some notice \<Rightarrow>
         bind_c (ready_uid env) (\<lambda>uid.
         if dget notice ''workspace_uid'' \<noteq> PStr uid then refusal else return_c notice))"

fun find_by_uid :: "nat \<Rightarrow> pyval list \<Rightarrow> pyval \<Rightarrow> (nat \<times> dict) option" where
  "find_by_uid k [] uid = None"
| "find_by_uid k (PDict d # rs) uid = (if py_eq (dget d ''uid'') uid then Some (k, d) else find_by_uid (Suc k) rs uid)"
| "find_by_uid k (r # rs) uid = find_by_uid (Suc k) rs uid"

definition task_for_notice :: "dict \<Rightarrow> dict \<Rightarrow> (nat \<times> dict) result" where
  "task_for_notice data notice =
     bind_r (iter_r (por (dget data ''tasks'') (PList []))) (\<lambda>tasks.
     case find_by_uid 0 tasks (dget notice ''entity_uid'') of
       Some found \<Rightarrow> Inr found
     | None \<Rightarrow> Inl (MutationReceiptError ''not_found'' ''task not found'' []))"

definition compensation_refusal :: "dict \<Rightarrow> int \<Rightarrow> pyexc \<Rightarrow> pyexc option" where
  "compensation_refusal notice current_rev e =
     (case e of
        MutationNoticeError code \<Rightarrow> Some
          (if code = ''revision_mismatch''
           then MutationReceiptError ''revision_conflict'' ''task revision is stale''
                  [(''expected'', dget notice ''after_revision''), (''received'', PInt current_rev)]
           else MutationReceiptError ''invalid_request'' ''mutation notice is not undoable'' [])
      | _ \<Rightarrow> None)"

definition compensation_for :: "env \<Rightarrow> dict \<Rightarrow> dict \<Rightarrow> int \<Rightarrow> dict command" where
  "compensation_for env notice task current_rev =
     bind_c (ready_uid env) (\<lambda>uid.
     bind_c (lift_c (dindex task ''uid'')) (\<lambda>task_uid.
     lift_c (catch_r (build_compensation env (PDict notice) (PStr uid) task_uid (PInt current_rev))
       (compensation_refusal notice current_rev))))"

text \<open>\<open>_next_revision\<close> of this module refuses with its own error.\<close>

definition receipt_next_revision :: "dict \<Rightarrow> int result" where
  "receipt_next_revision task =
     bind_r (revision_of task) (\<lambda>current.
     if MAX_REVISION \<le> current then Inl (MutationReceiptError ''revision_exhausted'' RECEIPT_MESSAGE [])
     else Inr (current + 1))"

definition apply_compensation ::
  "env \<Rightarrow> dict \<Rightarrow> dict \<Rightarrow> nat \<Rightarrow> dict \<Rightarrow> dict \<Rightarrow> int \<Rightarrow> (string \<times> dict \<times> dict \<times> dict) command" where
  "apply_compensation env activity data k task compensation current_rev =
     bind_c (lift_c (bind_r (validate_and_project data activity) (\<lambda>proj.
       bind_r (dindex task ''id'') (index_status proj)))) (\<lambda>current_status.
     bind_c (lift_c (dindex compensation ''requested_status'')) (\<lambda>requested.
     let requested = py_str requested in
     bind_c (lift_c (if PStr requested = current_status
       then Inl (MutationReceiptError ''invalid_request'' ''mutation notice is not undoable'' []) else Inr ())) (\<lambda>_.
     bind_c (move_task env activity data k task current_status (PStr requested) current_rev (receipt_next_revision task)
       ''api.v1'' (bind_r (dindex compensation ''idempotency_key'') (\<lambda>key. Inr (py_str key))) ''gui'')
       (\<lambda>(next_rev, task, data, activity).
     return_c (requested, activity, task, data)))))"

definition undone_body :: "dict \<Rightarrow> string \<Rightarrow> pyval" where
  "undone_body projected notice_id =
     PDict [(''data'', PDict projected),
            (''meta'', PDict [(''replayed'', PBool False), (''undone_notice_id'', PStr notice_id)])]"

definition undo_notice :: "env \<Rightarrow> string \<Rightarrow> int \<Rightarrow> pyval \<Rightarrow> string \<Rightarrow> string \<Rightarrow> dict \<Rightarrow> response command" where
  "undo_notice env canonical_id revision key path digest activity =
     bind_c (required_notice env activity canonical_id) (\<lambda>notice.
     bind_c (load Tasks_Doc) (\<lambda>data.
     bind_c (lift_c (task_for_notice data notice)) (\<lambda>(k, task).
     bind_c (lift_c (revision_of task)) (\<lambda>current_rev.
     bind_c (lift_c (if revision \<noteq> current_rev
       then Inl (MutationReceiptError ''revision_conflict'' ''task revision is stale''
              [(''expected'', PInt current_rev), (''received'', PInt revision)]) else Inr ())) (\<lambda>_.
     bind_c (compensation_for env notice task current_rev) (\<lambda>compensation.
     bind_c (apply_compensation env activity data k task compensation current_rev)
       (\<lambda>(projected_status, activity, task, data).
     bind_c (lift_c (project_task task 0 (PStr projected_status))) (\<lambda>projected.
     commit_keyed env activity key ''POST'' path digest 200 (undone_body projected canonical_id)
       [(Tasks_Doc, data)] [] (''mutation-notice-undo-'' @ str_of key)))))))))"

definition undo_mutation_notice :: "env \<Rightarrow> string \<Rightarrow> pyval \<Rightarrow> pyval \<Rightarrow> string \<Rightarrow> pyval \<Rightarrow> response command" where
  "undo_mutation_notice env notice_id body key path request_digest =
     bind_c (lift_c (validate_idempotency_key key)) (\<lambda>_.
     bind_c (lift_c (undo_revision body)) (\<lambda>revision.
     bind_c (lift_c (canonical_notice_id notice_id)) (\<lambda>canonical_id.
     bind_c (lift_c (raw_request_digest env body request_digest)) (\<lambda>digest.
     keyed_command key ''POST'' path digest (undo_notice env canonical_id revision key path digest)))))"

section \<open>Running the status commands\<close>

lemma run_ready_uid [runs]:
  "bind_c (ready_uid env) f w = (Inr y, w') \<longleftrightarrow> (\<exists>u. ready_workspace env = Some u \<and> f u w = (Inr y, w'))"
  by (auto simp: bind_c_def ready_uid_def split: option.splits)

lemma run_notice [runs]:
  "bind_c (record_task_status_notice env a t sb sa br ar key src) f w = (Inr y, w') \<longleftrightarrow>
   (\<exists>u n a'. ready_workspace env = Some u \<and>
      record_committed_status_notice env a (PStr u) t sb sa br ar (PStr key) (PStr src) (utc_at env (clock_reads w)) = Inr (n, a') \<and>
      f (n, a') (tick w) = (Inr y, w'))"
  by (simp only: record_task_status_notice_def runs plumbing catch_r_Inr) blast

lemma run_stamped [runs]:
  "bind_c (stamped env data k t n) f w =
   f (stamp_row t (today_at env (clock_reads w)) n, put_row data ''tasks'' k (stamp_row t (today_at env (clock_reads w)) n)) (tick w)"
  by (simp add: stamped_def runs Let_def)

lemma reads_only_status [commits]:
  "reads_only (record_task_status_notice env a t sb sa br ar key src)" "reads_only (stamped env data k t n)"
  "reads_only (required_notice env a nid)" "reads_only (compensation_for env notice t r)"
  "reads_only (move_task env a data k t cur st r nr prov nk src)"
  "reads_only (apply_compensation env a data k t c r)"
  unfolding apply_compensation_def move_task_def record_task_status_notice_def stamped_def required_notice_def compensation_for_def Let_def
  by (intro commits)+

lemmas all_or_nothing_status [commits] =
  all_or_nothing_bind [OF reads_only_status(1)] all_or_nothing_bind [OF reads_only_status(2)]
  all_or_nothing_bind [OF reads_only_status(3)] all_or_nothing_bind [OF reads_only_status(4)]
  all_or_nothing_bind [OF reads_only_status(5)] all_or_nothing_bind [OF reads_only_status(6)]

text \<open>A notice only adds an event to the activity; the Task it is about has a canonical uid.\<close>

lemma notice_keeps:
  assumes "record_committed_status_notice env a u t sb sa br ar key src at = Inr (n, a')" and "x \<noteq> ''activity''"
  shows "map_of a' x = map_of a x"
  using assms
  by (auto simp: record_committed_status_notice_def result_iffs dsetdefault_def Let_def split: option.splits if_splits)

end
