(* ===== verification/WS_History.thy ===== *)
theory WS_History
  imports WS_TaskStatus
begin

text \<open>
  What every Task command keeps true of the workspace: the planning history of the activity
  document validates against the Task document and projects one status per Task, the Task
  identifiers are distinct, and every Task has a canonical uid and a revision. The commands are
  the steps of a transition relation on worlds; the invariant holds in every reachable world
  and each command's effect on the projected statuses is the one its name promises.
\<close>

section \<open>The invariant\<close>

definition uid_ok :: "string \<Rightarrow> bool" where
  "uid_ok u \<longleftrightarrow> uuid_shape u \<and> uuid_nonzero u"

definition tracked :: "pyval \<Rightarrow> bool" where
  "tracked v \<longleftrightarrow> (\<exists>t u r. v = PDict t \<and> dget t ''uid'' = PStr u \<and> uid_ok u \<and> revision_of t = Inr r)"

definition history :: "dict \<Rightarrow> dict \<Rightarrow> dict \<Rightarrow> bool" where
  "history backlog activity statuses \<longleftrightarrow> validate_and_project backlog activity = Inr statuses \<and>
     (\<exists>ts. dget backlog ''tasks'' = PList ts \<and> distinct (map (fst \<circ> task_row) ts) \<and> list_all tracked ts)"

definition world_history :: "world \<Rightarrow> dict \<Rightarrow> bool" where
  "world_history w statuses \<longleftrightarrow> history (documents w Tasks_Doc) (documents w Activity_Doc) statuses"

text \<open>
  The documented behaviour of the clock (\<open>utc_now\<close> formats a second of UTC) and of \<open>uuid5\<close>.
\<close>

definition clock_ok :: "env \<Rightarrow> bool" where
  "clock_ok env \<longleftrightarrow> (\<forall>n. planning_timestamp (PStr (utc_at env n)) = Inr (utc_at env n))"

definition uuids_ok :: "env \<Rightarrow> bool" where
  "uuids_ok env \<longleftrightarrow> (\<forall>ns n u. uuid5 env ns n = Inr u \<longrightarrow> uid_ok u)"

lemma statuses_known:
  assumes "validate_and_project backlog activity = Inr proj" and "dget backlog ''tasks'' = PList ts"
    and "distinct (map (fst \<circ> task_row) ts)" and "map_of proj i = Some v"
  shows "\<exists>s \<in> set TASK_STATUSES. v = PStr s"
proof -
  obtain fs h where h: "check_facts (map task_row ts) fs = Inr h" and p: "project_heads (map task_row ts) h = Inr proj"
    using assms(1) by (auto simp: validate_and_project_Inr [OF assms(2,3)])
  have "(i, v) \<in> set proj" using assms(4) by (rule map_of_SomeD)
  with p obtain q where "project_head h q = Inr (i, v)"
    by (auto simp: project_heads_def map_r_Inr dest: list_all2_right)
  then obtain f where "map_of h (fst q) = Some f" "map_of f ''status'' = Some v"
    by (auto simp: project_head_Inr)
  with heads_ok [OF h] show ?thesis by (fastforce simp: head_ok_def in_tuple_iff dest: dget_map_of)
qed

lemma history_status_known: "history b a sts \<Longrightarrow> map_of sts i = Some v \<Longrightarrow> \<exists>s \<in> set TASK_STATUSES. v = PStr s"
  using statuses_known by (fastforce simp: history_def)

lemma history_activity:
  "dget a' ''planning_status'' = dget a ''planning_status'' \<Longrightarrow> history b a' sts = history b a sts"
  by (simp add: history_def validate_and_project_def)

lemma dget_setrow: "dget (put_row b f k t) x = (if x = f then PList ((list_of (dget b f))[k := PDict t]) else dget b x)"
  by (simp add: put_row_def)

lemma tracked_update:
  "list_all tracked ts \<Longrightarrow> tracked v \<Longrightarrow> list_all tracked (ts[k := v])"
  by (auto simp: list_all_iff dest!: set_update_subset_insert [THEN subsetD])

lemma row_update:
  "ts ! k = PDict t \<Longrightarrow> dget t2 ''id'' = dget t ''id'' \<Longrightarrow>
   map (fst \<circ> task_row) (ts[k := PDict t2]) = map (fst \<circ> task_row) ts"
  by (cases "k < length ts") (auto simp: map_update list_update_same_conv list_update_beyond task_row_def)

lemma tracked_row:
  "list_all tracked ts \<Longrightarrow> k < length ts \<Longrightarrow> ts ! k = PDict t \<Longrightarrow>
   \<exists>u r. dget t ''uid'' = PStr u \<and> uid_ok u \<and> revision_of t = Inr r"
  by (force simp: tracked_def list_all_length)

definition at_row :: "dict \<Rightarrow> string \<Rightarrow> nat \<Rightarrow> dict \<Rightarrow> bool" where
  "at_row b f k t \<longleftrightarrow> (\<exists>ts. dget b f = PList ts \<and> k < length ts \<and> ts ! k = PDict t)"

lemma find_row_at: "find_row b f i l = Inr (k, t) \<Longrightarrow> at_row b f k t"
  by (erule find_row_Inr) (auto simp: at_row_def)

text \<open>An edit of one Task that keeps its identity and its head.\<close>

lemma history_edit:
  assumes h: "history b a sts" and f: "at_row b ''tasks'' k t"
    and r: "revision_of t = Inr r" "revision_of t2 = Inr r2" "r \<le> r2"
    and same: "\<And>x. x \<in> {''id'', ''uid'', ''status'', ''status_fact_id''} \<Longrightarrow> dget t2 x = dget t x"
  shows "history (put_row b ''tasks'' k t2) a sts"
proof -
  obtain ts where ts: "dget b ''tasks'' = PList ts" "distinct (map (fst \<circ> task_row) ts)" "list_all tracked ts"
    and v: "validate_and_project b a = Inr sts" using h by (auto simp: history_def)
  obtain k': "k < length ts" "ts ! k = PDict t" using f ts(1) by (auto simp: at_row_def)
  have p: "put_row b ''tasks'' k t2 = dset b ''tasks'' (PList (ts[k := PDict t2]))" by (simp add: put_row_def ts(1))
  have "validate_and_project (put_row b ''tasks'' k t2) a = Inr sts"
    unfolding p using same by (rule edit_valid [OF v ts(1,2) k' r])
  moreover have "tracked (PDict t2)" using tracked_row [OF ts(3) k'] same [of "''uid''"] r(2) by (auto simp: tracked_def)
  ultimately show ?thesis
    using ts row_update [OF k'(2), of t2] same [of "''id''"] tracked_update [OF ts(3)]
    by (auto simp: history_def p)
qed

text \<open>A move of one Task to another status.\<close>

lemma history_move:
  assumes h: "history b a sts" and f: "at_row b ''tasks'' k t"
    and r: "revision_of t = Inr r" "next_revision t = Inr n"
    and cur: "bind_r (dindex t ''id'') (index_status sts) = Inr cur" and st: "cur \<noteq> PStr st" "st \<in> set TASK_STATUSES"
    and env: "planning_timestamp (PStr at) = Inr at" "provenance_ok ''local.user'' prov"
    and t1: "\<And>x. x \<in> {''id'', ''uid'', ''status_fact_id'', ''status''} \<Longrightarrow> dget t1 x = dget t x"
    and app: "append_transition a t1 cur (PStr st) r n at ''local.user'' prov = Inr (item, a', t')"
    and t2: "\<And>x. x \<in> {''id'', ''uid'', ''status''} \<Longrightarrow> dget t2 x = dget t x"
      "dget t2 ''status_fact_id'' = dget t' ''status_fact_id''" "revision_of t2 = Inr n"
  obtains tid where "dget t ''id'' = PStr tid" "history (put_row b ''tasks'' k t2) a' (dset sts tid (PStr st))"
    "map_of sts tid = Some cur"
proof -
  obtain ts where ts: "dget b ''tasks'' = PList ts" "distinct (map (fst \<circ> task_row) ts)" "list_all tracked ts"
    and v: "validate_and_project b a = Inr sts" using h by (auto simp: history_def)
  obtain k': "k < length ts" "ts ! k = PDict t" using f ts(1) by (auto simp: at_row_def)
  obtain u where u: "dget t ''uid'' = PStr u" "uid_ok u" using tracked_row [OF ts(3) k'] by blast
  obtain tid where tid: "dget t ''id'' = PStr tid" "map_of sts tid = Some cur"
    using cur by (auto simp: result_iffs dget_map_of)
  obtain ps where ps: "cur = PStr ps" using history_status_known [OF h tid(2)] by blast
  have n: "n = r + 1" "r < MAX_REVISION" using r task_revision.succ_step [of t n] by auto
  have p: "put_row b ''tasks'' k t2 = dset b ''tasks'' (PList (ts[k := PDict t2]))" by (simp add: put_row_def ts(1))
  have "validate_and_project (put_row b ''tasks'' k t2) a' = Inr (dset sts tid (PStr st))"
    unfolding p
    using t1 t2 app st tid(2)
    by (intro transition_valid [OF v ts(1,2) k' tid(1) u(1) r(1) n(2) _ _ st(2) env, where ?t1.0 = t1 and t' = t' and f = item])
      (auto simp: ps n dget_map_of)
  moreover have "tracked (PDict t2)" using u t2 by (auto simp: tracked_def)
  ultimately have "history (put_row b ''tasks'' k t2) a' (dset sts tid (PStr st))"
    using ts row_update [OF k'(2), of t2] t2(1) [of "''id''"] tracked_update [OF ts(3)]
    by (auto simp: history_def p)
  with tid show thesis by (intro that)
qed

section \<open>Creating a Task\<close>

lemma display_fresh:
  assumes "next_task_display ws ts = Inr (i, ws')" and "list_all is_task_row ts"
  shows "i \<notin> set (map (fst \<circ> task_row) ts)"
proof
  assume "i \<in> set (map (fst \<circ> task_row) ts)"
  then obtain v where v: "v \<in> set ts" "fst (task_row v) = i" by auto
  with assms(2) obtain t where t: "v = PDict t" "dget t ''id'' = PStr i"
    by (cases v) (auto simp: list_all_iff is_task_row_def task_row_def is_str_iff)
  obtain stored ids w where c: "task_ids_from_records ts = Inr ids" "admitted_high_water stored ids = Inr (w - 1)"
    "format_display_id w = Inr i" using next_task_display_Inr [OF assms(1)] by metis
  from c(1) have "list_all2 (\<lambda>x y. vget x ''id'' = Inr y) ts ids" by (simp add: task_ids_from_records_def map_r_Inr)
  from list_all2_left [OF this v(1)] t have "PStr i \<in> set ids" by auto
  from admitted_above(2) [OF c(2) this] parse_format [OF c(3)] show False by simp
qed

lemma new_task_record_Inr:
  assumes "new_task_record uuid task_id ws title detail priority due scheduled est tags oids parent deps d1 d2 = Inr t"
  shows "dget t ''id'' = PStr task_id" "\<exists>u. uuid ws task_id = Inr u \<and> dget t ''uid'' = PStr u"
    "dget t ''status'' = PStr ''open''" "revision_of t = Inr 0" "dget t ''status_fact_id'' = PNone"
  using assms by (auto simp: new_task_record_def result_iffs dget_def dget_or_def revision_of_Inr MAX_REVISION_def)

lemma append_row_Inr:
  "append_row doc f r = Inr doc' \<longleftrightarrow>
   (\<exists>xs. map_of doc f = Some (PList xs) \<and> doc' = dset doc f (PList (xs @ [PDict r])))"
  by (auto simp: append_row_def result_iffs)

lemma append_task_Inr:
  assumes "append_task env data title detail priority due tags oids parent deps scheduled est w = (Inr (task, data', ws'), w1)"
  obtains ts i ns where "dget data ''tasks'' = PList ts" "data' = dset data ''tasks'' (PList (ts @ [PDict task]))"
    "next_task_display (documents w Workspace_Doc) ts = Inr (i, ws')" "dget task ''id'' = PStr i"
    "\<exists>u. uuid5 env ns i = Inr u \<and> dget task ''uid'' = PStr u" "dget task ''status'' = PStr ''open''"
    "revision_of task = Inr 0" "w1 = tick (tick w)"
proof -
  obtain i wsid p d t d1 d2 where
    n: "bind_r (rows data ''tasks'') (next_task_display (documents w Workspace_Doc)) = Inr (i, ws')" and
    t: "new_task_record (uuid5 env) i wsid title detail priority due scheduled est tags oids p d [] [] = Inr t" and
    a: "append_row data ''tasks'' (dset (dset t ''created'' (PStr d1)) ''updated_at'' (PStr d2)) = Inr data'" and
    k: "task = dset (dset t ''created'' (PStr d1)) ''updated_at'' (PStr d2)" and w1: "w1 = tick (tick w)"
    using assms unfolding append_task_def next_display_def
    by (simp only: runs plumbing prod.inject) (elim exE conjE, hypsubst, rule that, (assumption | rule refl)+)
  from a obtain ts where ts: "map_of data ''tasks'' = Some (PList ts)" "data' = dset data ''tasks'' (PList (ts @ [PDict task]))"
    by (auto simp: append_row_Inr k)
  note r = new_task_record_Inr [OF t]
  show thesis
    using n ts r w1 that [of ts i wsid] by (auto simp: rows_def result_iffs k dget_map_of revision_of_Inr)
qed

lemma dset_dset: "dset (dset d k v) k w = dset d k w"
  by (simp add: dset_def)

lemma history_create:
  assumes h: "history b a sts" and ts: "dget b ''tasks'' = PList ts"
    and d: "next_task_display ws ts = Inr (i, ws')" and t: "dget t ''id'' = PStr i" "dget t ''uid'' = PStr u" "uid_ok u"
      "dget t ''status'' = PStr ''open''" "revision_of t = Inr 0"
    and env: "planning_timestamp (PStr at) = Inr at" "provenance_ok actor prov"
    and app: "append_bootstrap a t at actor prov = Inr (item, a', t')"
  shows "history (put_last (dset b ''tasks'' (PList (ts @ [PDict t]))) ''tasks'' t') a' (sts @ [(i, PStr ''open'')])"
    and "i \<notin> set (dkeys sts)" and "ledger_of a' = ledger_of a" and "t' = dset t ''status_fact_id'' (dget t' ''status_fact_id'')"
proof -
  have v: "validate_and_project b a = Inr sts" "distinct (map (fst \<circ> task_row) ts)" "list_all tracked ts"
    using h ts by (auto simp: history_def)
  then have rows: "list_all is_task_row ts" by (auto simp: validate_and_project_Inr [OF ts])
  note fresh = display_fresh [OF d rows]
  obtain fs where fs: "dget a ''planning_status'' = PList fs" using v by (auto simp: validate_and_project_Inr [OF ts])
  have t': "t' = dset t ''status_fact_id'' (PStr (next_fact_id (length fs)))"
    and a': "a' = dset a ''planning_status'' (PList (fs @ [PDict item]))"
    using append_bootstrap_Inr [OF app fs] by auto
  have p: "put_last (dset b ''tasks'' (PList (ts @ [PDict t]))) ''tasks'' t' = dset b ''tasks'' (PList (ts @ [PDict t']))"
    by (simp add: put_last_def put_row_def dset_dset)
  show "history (put_last (dset b ''tasks'' (PList (ts @ [PDict t]))) ''tasks'' t') a' (sts @ [(i, PStr ''open'')])"
  proof -
    have "validate_and_project (dset b ''tasks'' (PList (ts @ [PDict t']))) a' = Inr (sts @ [(i, PStr ''open'')])"
      using fresh by (intro bootstrap_valid [OF v(1) ts v(2) t(1) _ t(2,5,4) _ env app]) (auto simp: TASK_STATUSES_def)
    moreover have "tracked (PDict t')" using t by (auto simp: tracked_def t' revision_of_Inr)
    moreover have "distinct (map (fst \<circ> task_row) (ts @ [PDict t']))"
      using v(2) fresh t(1) by (simp add: t' task_row_def)
    ultimately show ?thesis unfolding p using v(3) by (auto simp: history_def)
  qed
  show "i \<notin> set (dkeys sts)" using fresh project_keys [OF v(1) ts v(2)] by (simp add: dkeys_def)
  show "ledger_of a' = ledger_of a" by (simp add: a')
  show "t' = dset t ''status_fact_id'' (dget t' ''status_fact_id'')" by (simp add: t')
qed

section \<open>What a change of status leaves\<close>

text \<open>
  Task \<open>tid\<close> has status \<open>s\<close> in the history afterwards; it is still the Task it was, one revision
  on, and no other Task has changed.
\<close>

definition moved :: "string \<Rightarrow> string \<Rightarrow> int \<Rightarrow> dict \<Rightarrow> dict \<Rightarrow> bool" where
  "moved tid s r b b' \<longleftrightarrow> (\<exists>ts k t t2. dget b ''tasks'' = PList ts \<and> k < length ts \<and> ts ! k = PDict t \<and>
     dget t ''id'' = PStr tid \<and> revision_of t = Inr r \<and> revision_of t2 = Inr (r + 1) \<and>
     dget t2 ''id'' = PStr tid \<and> dget t2 ''uid'' = dget t ''uid'' \<and> b' = dset b ''tasks'' (PList (ts[k := PDict t2])))"

lemma dset_same: "map_of d k = Some v \<Longrightarrow> dset d k v = d"
  by (simp add: dset_def update_triv)

lemma next_of: "next_revision t = Inr n \<Longrightarrow> revision_of t = Inr r \<Longrightarrow> n = r + 1"
  using task_revision.succ_step [of t n] by auto

lemma revision_stamp: "next_revision t = Inr n \<Longrightarrow> revision_of (stamp_row x day n) = Inr n"
  using task_revision.succ_step [of t n] by (auto simp: stamp_row_def revision_of_Inr)

lemma stamp_dget: "x \<noteq> ''revision'' \<Longrightarrow> x \<noteq> ''updated_at'' \<Longrightarrow> dget (stamp_row t day n) x = dget t x"
  by (simp add: stamp_row_def)

lemma transition_task:
  assumes "append_transition a t ps st r n at actor prov = Inr (item, a', t')"
  shows "\<exists>f. t' = dset t ''status_fact_id'' f" "dget a' ''idempotency'' = dget a ''idempotency''"
    "x \<noteq> ''planning_status'' \<Longrightarrow> map_of a' x = map_of a x"
  using assms by (auto simp: append_transition_def Let_def result_iffs dsetdefault_def)

lemma reads_only_same: "reads_only m \<Longrightarrow> m w = (r, w') \<Longrightarrow> documents w' = documents w \<and> saved w' = saved w"
  by (auto simp: reads_only_def dest: spec [of _ w])

text \<open>The step every status command is built on.\<close>

lemma move_task_effect:
  assumes h: "history b a sts" and f: "at_row b ''tasks'' k t"
    and r: "revision_of t = Inr r" "nr = Inr n \<longrightarrow> next_revision t = Inr n"
    and cur: "bind_r (dindex t ''id'') (index_status sts) = Inr cur" and st: "cur \<noteq> PStr st" "st \<in> set TASK_STATUSES"
    and env: "clock_ok env" "provenance_ok ''local.user'' prov"
    and m: "move_task env a b k t cur (PStr st) r nr prov key src w = (Inr (n, t2, b2, a2), w1)"
  obtains tid where "history b2 a2 (dset sts tid (PStr st))" "map_of sts tid = Some cur" "dget t ''id'' = PStr tid"
    "moved tid st r b b2" "ledger_of a2 = ledger_of a" "documents w1 = documents w" "saved w1 = saved w"
    "dget t2 ''id'' = PStr tid" "dget t2 ''uid'' = dget t ''uid''" "revision_of t2 = Inr n" "n = r + 1"
    "at_row b2 ''tasks'' k t2"
proof -
  obtain item a' t' day nk u n' where nr: "nr = Inr n" and
    app: "append_transition a t cur (PStr st) r n (utc_at env (clock_reads w)) ''local.user'' prov = Inr (item, a', t')"
    and t2: "t2 = stamp_row t' day n" and b2: "b2 = put_row b ''tasks'' k (stamp_row t' day n)"
    and nt: "record_committed_status_notice env a' (PStr u) (stamp_row t' day n) cur (PStr st) r n (PStr nk) (PStr src)
        (utc_at env (clock_reads (tick (tick w)))) = Inr (n', a2)"
    using m unfolding move_task_def
    by (simp only: runs plumbing prod.inject) (elim exE conjE, hypsubst, rule that, (assumption | rule refl)+)
  have nx: "next_revision t = Inr n" using r(2) nr by blast
  obtain g where t': "t' = dset t ''status_fact_id'' g" using transition_task [OF app] by blast
  have at: "planning_timestamp (PStr (utc_at env (clock_reads w))) = Inr (utc_at env (clock_reads w))"
    using env(1) by (simp add: clock_ok_def)
  have same: "dget (stamp_row t' day n) x = dget t x" if "x \<in> {''id'', ''uid'', ''status''}" for x
    using that by (auto simp: stamp_row_def t')
  obtain tid where tid: "dget t ''id'' = PStr tid" "map_of sts tid = Some cur"
    "history (put_row b ''tasks'' k (stamp_row t' day n)) a' (dset sts tid (PStr st))"
    by (rule history_move [OF h f r(1) nx cur st at env(2) _ app same stamp_dget revision_stamp [OF nx]]) auto
  note keeps = notice_keeps [OF nt]
  have "history b2 a2 (dset sts tid (PStr st))"
    using tid(3) keeps [of "''planning_status''"] by (subst history_activity [of a2 a']) (simp_all add: b2 dget_def dget_or_def)
  moreover obtain ts where ts: "dget b ''tasks'' = PList ts" "k < length ts" "ts ! k = PDict t"
    using f by (auto simp: at_row_def)
  then have "moved tid st r b b2"
    using tid(1) same r(1) revision_stamp [OF nx] next_of [OF nx r(1)] unfolding moved_def b2
    by (intro exI [of _ ts] exI [of _ k] exI [of _ t] exI [of _ "stamp_row t' day n"]) (simp add: put_row_def)
  moreover have "ledger_of a2 = ledger_of a"
    using keeps [of "''idempotency''"] transition_task(3) [OF app, of "''idempotency''"] by (simp add: ledger_of_def dget_or_def)
  moreover have "at_row b2 ''tasks'' k t2" using ts by (simp add: at_row_def b2 t2 put_row_def)
  ultimately show thesis
    using that tid same next_of [OF nx r(1)] revision_stamp [OF nx] reads_only_same [OF reads_only_status(5) m]
    by (auto simp: t2)
qed

section \<open>The keyed status intent\<close>

lemma provenances: "provenance_ok ''local.user'' ''cli''" "provenance_ok ''local.user'' ''api.v1''"
  "provenance_ok ''local.user'' ''api.legacy''"
  by (auto simp: provenance_ok_def ALLOWED_PROVENANCE_def)

lemma keyed_intent_Inr:
  "validate_keyed_intent_request key body = Inr b \<Longrightarrow>
   body = PDict b \<and> key_ok key \<and> (\<exists>s r. dget b ''status'' = PStr s \<and> s \<in> set TASK_STATUSES \<and> dget b ''revision'' = PInt r \<and> 0 \<le> r)"
  by (auto simp: validate_keyed_intent_request_def validate_idempotency_key_def result_iffs is_str_iff is_int_iff in_tuple_iff
      split: if_splits pyval.splits)

lemma raw_digest_Inr: "raw_request_digest env body dg = Inr d \<Longrightarrow> d = canonical_digest env body"
  by (auto simp: raw_request_digest_def Let_def split: if_splits)

lemma write_all_other: "d \<notin> fst ` set ws \<Longrightarrow> write_all ws ds d = ds d"
  by (induction ws arbitrary: ds) auto

lemma write_all_cong: "ds d = ds' d \<Longrightarrow> write_all ws ds d = write_all ws ds' d"
proof (induction ws arbitrary: ds ds')
  case (Cons p ws)
  obtain x v where "p = (x, v)" by (cases p)
  then show ?case by (simp only: write_all.simps) (rule Cons.IH, simp add: Cons.prems)
qed simp

lemma write_all_upd: "d \<noteq> x \<Longrightarrow> write_all ws (ds(x := v)) d = write_all ws ds d"
  by (rule write_all_cong) simp

lemma write_all_append: "write_all (xs @ ys) ds = write_all ys (write_all xs ds)"
  by (induction xs arbitrary: ds) auto

text \<open>The activity a keyed command commits answers its key.\<close>

lemma committed_answer:
  assumes "receipt_lookup ds (PStr k) = None" and "ledger_of a = PList xs" and "\<And>ys. ledger_of a = PList ys \<Longrightarrow> ys = map PDict ds"
    and "a' = dset (with_ledger a) ''idempotency'' (PList (xs @ [PDict
       [(''key'', PStr k), (''method'', PStr m), (''path'', PStr p), (''request_digest'', PStr d),
        (''response_status'', PInt st), (''created_at'', at), (''response_body'', body)]]))"
  shows "answered a' k m p d body" "dget a' ''planning_status'' = dget a ''planning_status''"
proof -
  let ?r = "[(''key'', PStr k), (''method'', PStr m), (''path'', PStr p), (''request_digest'', PStr d),
        (''response_status'', PInt st), (''created_at'', at), (''response_body'', body)]"
  have "xs = map PDict ds" using assms(2,3) by blast
  then have "ledger_of a' = PList (map PDict (ds @ [?r]))" by (simp add: assms(4))
  moreover have "receipt_lookup (ds @ [?r]) (PStr k) = Some ?r"
    using assms(1) by (simp add: receipt_lookup_def dget_def dget_or_def)
      (induction ds; simp add: dget_def dget_or_def split: if_splits)
  ultimately show "answered a' k m p d body"
    unfolding answered_def by (intro exI [of _ "ds @ [?r]"] exI [of _ ?r]) (simp add: same_request_def dget_def dget_or_def)
  show "dget a' ''planning_status'' = dget a ''planning_status''" by (simp add: assms(4) with_ledger_def)
qed

lemma history_with_ledger [simp]: "history b (with_ledger a) sts = history b a sts"
  by (rule history_activity) (simp add: with_ledger_def)

text \<open>
  The commit of a keyed command whose key had no receipt: the history is the one of the
  documents it wrote, and the key is answered.
\<close>

lemma commit_keyed_history:
  assumes c: "commit_keyed env a key m p d st body pre post oid w = (Inr (st', resp), w')"
    and l: "receipt_lookup ds (PStr (str_of key)) = None" "\<And>xs. ledger_of a = PList xs \<Longrightarrow> xs = map PDict ds"
    and post: "Activity_Doc \<notin> fst ` set post"
  shows "st' = st" "resp = body" "answered (documents w' Activity_Doc) (str_of key) m p d body"
    "d' \<noteq> Activity_Doc \<Longrightarrow> documents w' d' = write_all (pre @ post) (documents w) d'"
    "history b (documents w' Activity_Doc) sts = history b a sts"
    "\<exists>entry. saved w' = saved w @ [entry]"
proof -
  obtain xs a' where x: "st' = st" "resp = body" "ledger_of a = PList xs"
    "a' = dset (with_ledger a) ''idempotency'' (PList (xs @ [PDict
       [(''key'', PStr (str_of key)), (''method'', PStr m), (''path'', PStr p), (''request_digest'', PStr d),
        (''response_status'', PInt st), (''created_at'', PStr (utc_at env (clock_reads w))), (''response_body'', body)]]))"
    "documents w' = write_all (pre @ [(Activity_Doc, a')] @ post) (documents w)"
    "saved w' = saved w @ [(oid, pre @ [(Activity_Doc, a')] @ post)]"
    by (rule commit_keyed_Inr [OF c post])
  have act: "documents w' Activity_Doc = a'" using x(5) post by (simp add: write_all_append write_all_other)
  note ans = committed_answer [OF l(1) x(3) l(2) x(4)]
  show "st' = st" "resp = body" by (fact x)+
  show "answered (documents w' Activity_Doc) (str_of key) m p d body" unfolding act by (rule ans)
  show "documents w' d' = write_all (pre @ post) (documents w) d'" if "d' \<noteq> Activity_Doc"
    using x(5) that by (simp add: write_all_append write_all_upd)
  show "history b (documents w' Activity_Doc) sts = history b a sts" unfolding act by (rule history_activity [OF ans(2)])
  show "\<exists>entry. saved w' = saved w @ [entry]" using x(6) by blast
qed

lemma status_intent_effect:
  assumes h: "world_history w sts" and env: "clock_ok env"
    and b: "dget b ''status'' = PStr s" "s \<in> set TASK_STATUSES" "dget b ''revision'' = PInt r"
    and l: "receipt_lookup ds (PStr (str_of key)) = None"
      "\<And>xs. ledger_of (documents w Activity_Doc) = PList xs \<Longrightarrow> xs = map PDict ds"
    and run: "status_intent env i b key path d (with_ledger (documents w Activity_Doc)) w = (Inr (code, resp), w')"
  shows "code = 200 \<and> (\<exists>tid cur p. map_of sts tid = Some cur \<and> world_history w' (dset sts tid (PStr s)) \<and>
      resp = response_body p \<and> dget p ''id'' = PStr tid \<and> dget p ''status'' = PStr s \<and>
      answered (documents w' Activity_Doc) (str_of key) ''PATCH'' path d resp \<and>
      (if cur = PStr s then documents w' Tasks_Doc = documents w Tasks_Doc \<and> revision_of p = Inr r
       else moved tid s r (documents w Tasks_Doc) (documents w' Tasks_Doc) \<and> revision_of p = Inr (r + 1)))"
proof -
  let ?b = "documents w Tasks_Doc" and ?a = "with_ledger (documents w Activity_Doc)"
  have h': "history ?b ?a sts" using h by (simp add: world_history_def)
  then have v: "validate_and_project ?b ?a = Inr sts" by (simp add: history_def)
  obtain k t cur cr and u :: unit where f: "find_row ?b ''tasks'' i ''task'' = Inr (k, t)" and r: "revision_of t = Inr cr"
    and eq: "(if r \<noteq> cr then Inl (stale_revision ''task'' cr (PInt r)) else Inr ()) = Inr u"
    and cur: "bind_r (dindex t ''id'') (index_status sts) = Inr cur"
    and rest: "(if PStr s = cur
     then bind_c (lift_c (project_task t 0 cur)) (\<lambda>projected.
          commit_keyed env ?a key ''PATCH'' path d 200 (response_body projected) [] []
            (''task-status-intent-'' @ str_of key))
     else
     bind_c (move_task env ?a ?b k t cur (PStr s) cr (next_revision t) ''cli''
       (Inr (str_of key)) ''gui'') (\<lambda>(next_rev, task, data, activity).
     bind_c (lift_c (project_task task 0 (PStr s))) (\<lambda>projected.
     commit_keyed env activity key ''PATCH'' path d 200 (response_body projected)
       [(Tasks_Doc, data)] [] (''task-status-intent-'' @ str_of key)))) w = (Inr (code, resp), w')"
    using run unfolding status_intent_def
    by (simp only: run_load run_lift split_paired_Ex case_prod_conv Let_def v bind_r_simps b int_of.simps)
      (elim exE conjE, rule that, assumption+)
  have cr: "cr = r" using eq by (simp split: if_splits)
  obtain tid where tid: "dget t ''id'' = PStr tid" "map_of sts tid = Some cur"
    using cur by (auto simp: result_iffs dget_map_of)
  show ?thesis
  proof (cases "PStr s = cur")
    case True
    with rest obtain p where p: "project_task t 0 cur = Inr p"
      and c: "commit_keyed env ?a key ''PATCH'' path d 200 (response_body p) [] [] (''task-status-intent-'' @ str_of key) w = (Inr (code, resp), w')"
      by (auto simp: run_lift)
    have e: "Activity_Doc \<notin> fst ` set []" by simp
    note k = commit_keyed_history [OF c l(1) _ e]
    show ?thesis
      using k(1-3) k(4) [of Tasks_Doc] k(5) [of ?b sts] h' l(2) tid project_task_Inr [OF p] dset_same [OF tid(2)] True r cr
      by (intro conjI exI [of _ tid] exI [of _ cur] exI [of _ p]) (simp_all add: world_history_def)
  next
    case False
    from rest False obtain n t2 b2 a2 w1 p where
      m: "move_task env ?a ?b k t cur (PStr s) cr (next_revision t) ''cli'' (Inr (str_of key)) ''gui'' w = (Inr (n, t2, b2, a2), w1)"
      and p: "project_task t2 0 (PStr s) = Inr p"
      and c: "commit_keyed env a2 key ''PATCH'' path d 200 (response_body p) [(Tasks_Doc, b2)] []
        (''task-status-intent-'' @ str_of key) w1 = (Inr (code, resp), w')"
      by (auto simp: run_lift bind_c_Inr [of "move_task env ?a ?b k t cur (PStr s) cr (next_revision t) ''cli'' (Inr (str_of key)) ''gui''"])
    obtain tid' where e: "history b2 a2 (dset sts tid' (PStr s))" "map_of sts tid' = Some cur" "dget t ''id'' = PStr tid'"
      "moved tid' s cr ?b b2" "ledger_of a2 = ledger_of ?a" "documents w1 = documents w"
      "dget t2 ''id'' = PStr tid'" "revision_of t2 = Inr n" "n = cr + 1"
      by (rule move_task_effect [OF h' find_row_at [OF f] r _ cur False [symmetric] b(2) env provenances(1) m]) auto
    have e': "Activity_Doc \<notin> fst ` set []" by simp
    note k = commit_keyed_history [OF c l(1) _ e']
    show ?thesis
      using k(1-3) k(4) [of Tasks_Doc] k(5) [of b2 "dset sts tid' (PStr s)"] e l(2) project_task_Inr [OF p] False cr
      by (intro conjI exI [of _ tid'] exI [of _ cur] exI [of _ p]) (simp_all add: world_history_def)
  qed
qed

lemma status_v1_Inr:
  assumes "set_task_status_v1 env i body key path dg w = (Inr (code, resp), w')"
  obtains b s r where "body = PDict b" "key_ok key" "dget b ''status'' = PStr s" "s \<in> set TASK_STATUSES"
    "dget b ''revision'' = PInt r"
    "\<And>v. set_task_status_v1 env i body key path dg v = keyed_command key ''PATCH'' path (canonical_digest env body)
       (status_intent env i b key path (canonical_digest env body)) v"
proof -
  obtain b d where b: "validate_keyed_intent_request key body = Inr b" and d: "raw_request_digest env body dg = Inr d"
    and rc: "\<exists>u. released_composition_required (released_composition env)
       ''keyed task status intents are not supported by this storage composition'' = Inr u"
    using assms unfolding set_task_status_v1_def by (simp only: runs plumbing) blast
  from b d rc have "set_task_status_v1 env i body key path dg v =
      keyed_command key ''PATCH'' path d (status_intent env i b key path d) v" for v
    by (auto simp: set_task_status_v1_def bind_c_def)
  with keyed_intent_Inr [OF b] raw_digest_Inr [OF d] that show thesis by auto
qed

section \<open>The keyed create\<close>

lemma create_intent_effect:
  assumes h: "world_history w sts" and env: "clock_ok env" "uuids_ok env"
    and l: "receipt_lookup ds (PStr (str_of key)) = None"
      "\<And>xs. ledger_of (documents w Activity_Doc) = PList xs \<Longrightarrow> xs = map PDict ds"
    and run: "create_intent env c key path d (with_ledger (documents w Activity_Doc)) w = (Inr (code, resp), w')"
  shows "code = 201 \<and> (\<exists>tid p ts t. map_of sts tid = None \<and> world_history w' (sts @ [(tid, PStr ''open'')]) \<and>
      resp = response_body p \<and> dget p ''id'' = PStr tid \<and> dget p ''status'' = PStr ''open'' \<and> revision_of p = Inr 0 \<and>
      answered (documents w' Activity_Doc) (str_of key) ''POST'' path d resp \<and>
      dget (documents w Tasks_Doc) ''tasks'' = PList ts \<and> dget t ''id'' = PStr tid \<and>
      documents w' Tasks_Doc = dset (documents w Tasks_Doc) ''tasks'' (PList (ts @ [PDict t])) \<and>
      next_task_display (documents w Workspace_Doc) ts = Inr (tid, documents w' Workspace_Doc))"
proof -
  let ?b = "documents w Tasks_Doc" and ?a = "with_ledger (documents w Activity_Doc)"
  have h': "history ?b ?a sts" using h by (simp add: world_history_def)
  obtain t b2 ws' w1 item a2 t2 p at w2 where
    at: "append_task env ?b (dget c ''title'') (dget c ''detail'') (dget c ''priority'') (dget c ''due'')
       (list_of (dget c ''tags'')) (list_of (dget c ''objective_ids'')) PNone [] (dget c ''scheduled'')
       (dget c ''estimate_minutes'') w = (Inr (t, b2, ws'), w1)"
    and bs: "append_bootstrap ?a t (utc_at env (clock_reads w1)) ''local.user'' ''api.v1'' = Inr (item, a2, t2)"
    and p: "project_task t2 0 (PStr ''open'') = Inr p"
    and cm: "commit_keyed env a2 key ''POST'' path d 201 (response_body p)
       [(Tasks_Doc, put_last b2 ''tasks'' t2)] [(Workspace_Doc, ws')] (''task-create-'' @ str_of key) (tick w1) = (Inr (code, resp), w')"
    using run unfolding create_intent_def
    by (auto simp: runs bind_c_Inr [of "append_task env ?b t1 t2 t3 t4 t5 t6 t7 t8 t9 t10" for t1 t2 t3 t4 t5 t6 t7 t8 t9 t10])
  obtain ts i ns u where e: "dget ?b ''tasks'' = PList ts" "b2 = dset ?b ''tasks'' (PList (ts @ [PDict t]))"
    "next_task_display (documents w Workspace_Doc) ts = Inr (i, ws')" "dget t ''id'' = PStr i"
    "uuid5 env ns i = Inr u" "dget t ''uid'' = PStr u" "dget t ''status'' = PStr ''open''"
    "revision_of t = Inr 0" "w1 = tick (tick w)"
    by (rule append_task_Inr [OF at]) blast
  have u: "uid_ok u" using env(2) e(5) by (auto simp: uuids_ok_def)
  have tm: "planning_timestamp (PStr (utc_at env (clock_reads w1))) = Inr (utc_at env (clock_reads w1))"
    using env(1) by (simp add: clock_ok_def)
  note hc = history_create [OF h' e(1,3,4,6) u e(7,8) tm provenances(2) bs]
  let ?t2 = "put_last b2 ''tasks'' t2"
  have led: "ledger_of a2 = ledger_of (documents w Activity_Doc)" using hc(3) by simp
  have b2: "?t2 = dset ?b ''tasks'' (PList (ts @ [PDict t2]))"
    by (simp add: put_last_def put_row_def dset_dset e(2))
  have post: "Activity_Doc \<notin> fst ` set [(Workspace_Doc, ws')]" by simp
  note k = commit_keyed_history [OF cm l(1) _ post]
  obtain g where "t2 = dset t ''status_fact_id'' g" using hc(4) by blast
  then have t2: "dget t2 ''id'' = PStr i" "revision_of t2 = Inr 0"
    using e(4,8) by (simp_all add: revision_of_Inr)
  have "map_of sts i = None" using hc(2) by (simp add: dkeys_def map_of_eq_None_iff)
  then show ?thesis
    using k(1-3) k(4) [of Tasks_Doc] k(4) [of Workspace_Doc] k(5) [of ?t2 "sts @ [(i, PStr ''open'')]"] hc(1) e l(2) led
      project_task_Inr [OF p] t2 b2
    by (intro conjI exI [of _ i] exI [of _ p] exI [of _ ts] exI [of _ t2]) (simp_all add: world_history_def)
qed

end
