(* ===== verification/WS_TaskSteps.thy ===== *)
theory WS_TaskSteps
  imports WS_History
begin

text \<open>
  Every command of the service as a step on worlds. \<open>sound\<close> says what each of them keeps: the
  planning history stays valid, no Task is lost or renamed, and a Task whose revision has not
  moved has not changed. The commands of the service are then gathered in one datatype and the
  worlds they lead to in one reachability relation.
\<close>

section \<open>What a step keeps\<close>

text \<open>The row is the one it was, or the same Task at a higher revision.\<close>

definition row_kept :: "pyval \<Rightarrow> pyval \<Rightarrow> bool" where
  "row_kept v v' \<longleftrightarrow> v' = v \<or> (\<exists>t t' r r'. v = PDict t \<and> v' = PDict t' \<and> dget t' ''id'' = dget t ''id'' \<and>
     dget t' ''uid'' = dget t ''uid'' \<and> revision_of t = Inr r \<and> revision_of t' = Inr r' \<and> r < r')"

definition rows_kept :: "pyval list \<Rightarrow> pyval list \<Rightarrow> bool" where
  "rows_kept ts ts' \<longleftrightarrow> (\<exists>us vs. ts' = us @ vs \<and> list_all2 row_kept ts us)"

definition tasks_kept :: "dict \<Rightarrow> dict \<Rightarrow> bool" where
  "tasks_kept b b' \<longleftrightarrow> (\<exists>ts ts'. dget b ''tasks'' = PList ts \<and> dget b' ''tasks'' = PList ts' \<and> rows_kept ts ts')"

lemma row_kept_refl [simp, intro]: "row_kept v v"
  by (simp add: row_kept_def)

lemma row_kept_trans: "row_kept u v \<Longrightarrow> row_kept v w \<Longrightarrow> row_kept u w"
  unfolding row_kept_def by fastforce

lemma rows_kept_refl [simp, intro]: "rows_kept ts ts"
  unfolding rows_kept_def by (intro exI [of _ ts] exI [of _ "[]"]) (simp add: list_all2_refl)

lemma rows_kept_append [intro]: "rows_kept ts (ts @ vs)"
  unfolding rows_kept_def by (intro exI [of _ ts] exI [of _ vs]) (simp add: list_all2_refl)

lemma rows_kept_trans: "rows_kept xs ys \<Longrightarrow> rows_kept ys zs \<Longrightarrow> rows_kept xs zs"
proof -
  assume "rows_kept xs ys" "rows_kept ys zs"
  then obtain us vs us' vs' where e: "ys = us @ vs" "list_all2 row_kept xs us" "zs = us' @ vs'" "list_all2 row_kept (us @ vs) us'"
    unfolding rows_kept_def by blast
  then obtain us1 us2 where s: "us' = us1 @ us2" "list_all2 row_kept us us1" by (auto simp: list_all2_append1)
  have "list_all2 row_kept xs us1" by (rule list_all2_trans [OF row_kept_trans e(2) s(2)])
  with e(3) s(1) show "rows_kept xs zs" unfolding rows_kept_def by (intro exI [of _ us1] exI [of _ "us2 @ vs'"]) simp
qed

lemma tasks_kept_trans: "tasks_kept a b \<Longrightarrow> tasks_kept b c \<Longrightarrow> tasks_kept a c"
  unfolding tasks_kept_def using rows_kept_trans by fastforce

lemma rows_kept_update:
  assumes "k < length ts" and "row_kept (ts ! k) v"
  shows "rows_kept ts (ts[k := v])"
proof -
  have "list_all2 row_kept ts (ts[k := v])"
    using assms by (auto simp: list_all2_conv_all_nth nth_list_update)
  then show ?thesis unfolding rows_kept_def by (intro exI [of _ "ts[k := v]"] exI [of _ "[]"]) simp
qed

definition advances :: "world \<Rightarrow> world \<Rightarrow> bool" where
  "advances w w' \<longleftrightarrow> (\<forall>sts. world_history w sts \<longrightarrow>
     (\<exists>sts' more_keys. world_history w' sts' \<and> dkeys sts' = dkeys sts @ more_keys \<and>
        tasks_kept (documents w Tasks_Doc) (documents w' Tasks_Doc)))"

definition sound :: "'a command \<Rightarrow> bool" where
  "sound m \<longleftrightarrow> (\<forall>w. advances w (snd (m w)))"

lemma advancesI:
  "(\<And>sts. world_history w sts \<Longrightarrow> \<exists>sts' more_keys. world_history w' sts' \<and> dkeys sts' = dkeys sts @ more_keys \<and>
     tasks_kept (documents w Tasks_Doc) (documents w' Tasks_Doc)) \<Longrightarrow> advances w w'"
  by (auto simp: advances_def)

lemma advances_trans: "advances u v \<Longrightarrow> advances v w \<Longrightarrow> advances u w"
proof (rule advancesI)
  fix sts assume a: "advances u v" "advances v w" "world_history u sts"
  then obtain s1 k1 where "world_history v s1" "dkeys s1 = dkeys sts @ k1" "tasks_kept (documents u Tasks_Doc) (documents v Tasks_Doc)"
    unfolding advances_def by blast
  moreover from this a(2) obtain s2 k2 where "world_history w s2" "dkeys s2 = dkeys s1 @ k2" "tasks_kept (documents v Tasks_Doc) (documents w Tasks_Doc)"
    unfolding advances_def by blast
  ultimately show "\<exists>sts' more_keys. world_history w sts' \<and> dkeys sts' = dkeys sts @ more_keys \<and>
     tasks_kept (documents u Tasks_Doc) (documents w Tasks_Doc)"
    by (intro exI [of _ s2] exI [of _ "k1 @ k2"]) (auto intro: tasks_kept_trans)
qed

lemma world_history_tasks: "world_history w sts \<Longrightarrow> \<exists>ts. dget (documents w Tasks_Doc) ''tasks'' = PList ts \<and> list_all tracked ts"
  by (auto simp: world_history_def history_def)

lemma tasks_kept_refl: "world_history w sts \<Longrightarrow> tasks_kept (documents w Tasks_Doc) (documents w Tasks_Doc)"
  by (drule world_history_tasks) (auto simp: tasks_kept_def)

text \<open>A step that leaves the Tasks and the planning history alone.\<close>

lemma advances_aside:
  assumes "documents w' Tasks_Doc = documents w Tasks_Doc"
    and "dget (documents w' Activity_Doc) ''planning_status'' = dget (documents w Activity_Doc) ''planning_status''"
  shows "advances w w'"
proof (rule advancesI)
  fix sts assume h: "world_history w sts"
  with assms have "world_history w' sts"
    using history_activity [of "documents w' Activity_Doc" "documents w Activity_Doc"] by (simp add: world_history_def)
  with assms(1) world_history_tasks [OF h] show "\<exists>sts' more_keys. world_history w' sts' \<and> dkeys sts' = dkeys sts @ more_keys \<and>
     tasks_kept (documents w Tasks_Doc) (documents w' Tasks_Doc)"
    by (intro exI [of _ sts] exI [of _ "[]"]) (auto simp: tasks_kept_def)
qed

lemma advances_same: "documents w' = documents w \<Longrightarrow> advances w w'"
  by (simp add: advances_aside)

text \<open>A step that edits one Task.\<close>

lemma advances_edit:
  assumes f: "at_row (documents w Tasks_Doc) ''tasks'' k t" and n: "next_revision t = Inr n" and t2: "revision_of t2 = Inr n"
    and same: "\<And>x. x \<in> {''id'', ''uid'', ''status'', ''status_fact_id''} \<Longrightarrow> dget t2 x = dget t x"
    and w': "documents w' Tasks_Doc = put_row (documents w Tasks_Doc) ''tasks'' k t2"
      "dget (documents w' Activity_Doc) ''planning_status'' = dget (documents w Activity_Doc) ''planning_status''"
  shows "advances w w'"
proof (rule advancesI)
  fix sts assume "world_history w sts"
  then have h: "history (documents w Tasks_Doc) (documents w' Activity_Doc) sts"
    using history_activity [OF w'(2)] by (simp add: world_history_def)
  obtain ts where ts: "dget (documents w Tasks_Doc) ''tasks'' = PList ts" "k < length ts" "ts ! k = PDict t"
    using f by (auto simp: at_row_def)
  obtain r where r: "revision_of t = Inr r" "n = r + 1"
    using task_revision.succ_step [OF n] by (intro that [of "n - 1"]) auto
  have "row_kept (ts ! k) (PDict t2)" using same [of "''id''"] same [of "''uid''"] r t2 by (auto simp: row_kept_def ts(3))
  then have "tasks_kept (documents w Tasks_Doc) (documents w' Tasks_Doc)"
    using ts rows_kept_update [OF ts(2)] by (auto simp: tasks_kept_def w'(1) put_row_def)
  moreover have "world_history w' sts"
    using history_edit [OF h f r(1) t2 _ same] by (simp add: world_history_def w'(1) r(2))
  ultimately show "\<exists>sts' more_keys. world_history w' sts' \<and> dkeys sts' = dkeys sts @ more_keys \<and>
     tasks_kept (documents w Tasks_Doc) (documents w' Tasks_Doc)" by (intro exI [of _ sts] exI [of _ "[]"]) simp
qed

text \<open>A refused command has changed nothing.\<close>

lemma soundI:
  assumes "all_or_nothing m" and "\<And>w x w'. m w = (Inr x, w') \<Longrightarrow> advances w w'"
  shows "sound m"
  unfolding sound_def
proof
  fix w
  obtain r w' where m: "m w = (r, w')" by (cases "m w")
  show "advances w (snd (m w))"
  proof (cases r)
    case (Inl e)
    with assms(1) m have "documents w' = documents w" by (auto simp: all_or_nothing_def dest: spec [of _ w])
    then show ?thesis by (simp add: m advances_same)
  next
    case (Inr x)
    with assms(2) m show ?thesis by simp
  qed
qed

lemma sound_lift: "(\<And>x. r = Inr x \<Longrightarrow> sound (f x)) \<Longrightarrow> sound (bind_c (lift_c r) f)"
  by (cases r) (auto simp: sound_def bind_c_def advances_same)

text \<open>
  A keyed command is judged by what it does under a key without a receipt: a replay reads only.
\<close>

lemma sound_keyed:
  assumes "\<And>a. all_or_nothing (act a)"
    and "\<And>w ds st b w'. receipt_lookup ds (PStr (str_of key)) = None \<Longrightarrow>
       (\<And>xs. ledger_of (documents w Activity_Doc) = PList xs \<Longrightarrow> xs = map PDict ds) \<Longrightarrow>
       act (with_ledger (documents w Activity_Doc)) w = (Inr (st, b), w') \<Longrightarrow> advances w w'"
  shows "sound (keyed_command key m p d act)"
proof (rule soundI)
  show a: "all_or_nothing (keyed_command key m p d act)" using assms(1) by (rule all_or_nothing_keyed)
  fix w x w' assume run: "keyed_command key m p d act w = (Inr x, w')"
  obtain st b where x: "x = (st, b)" by (cases x)
  show "advances w w'"
  proof (cases "saved w' = saved w")
    case True
    with a run have "documents w' = documents w" by (auto simp: all_or_nothing_def dest: spec [of _ w])
    then show ?thesis by (rule advances_same)
  next
    case False
    with run x obtain ds where "act (with_ledger (documents w Activity_Doc)) w = (Inr (st, b), w')"
      "receipt_lookup ds (PStr (str_of key)) = None"
      "\<And>xs. ledger_of (documents w Activity_Doc) = PList xs \<Longrightarrow> xs = map PDict ds"
      by (metis keyed_command_new)
    then show ?thesis by (intro assms(2))
  qed
qed

section \<open>Objectives\<close>

lemma event_planning: "event_of at a ty c t r d = Inr (ev, a') \<Longrightarrow> dget a' ''planning_status'' = dget a ''planning_status''"
  by (simp add: dget_def dget_or_def event_of_other)

lemma objective_save_advances:
  assumes "event_of at (documents w Activity_Doc) ty c t r d = Inr (ev, act)" and "documents w1 = documents w"
    and "w' = after_save [(Objectives_Doc, x), (Activity_Doc, act)] oid w1"
  shows "advances w w'"
  using assms event_planning [OF assms(1)] by (intro advances_aside) simp_all

lemma commit_keyed_aside:
  assumes "commit_keyed env a key m p d st body [(Objectives_Doc, x)] [] oid w1 = (Inr (st', b), w')" and "documents w1 = documents w"
    and "dget a ''planning_status'' = dget (documents w Activity_Doc) ''planning_status''"
  shows "advances w w'"
proof -
  have e: "Activity_Doc \<notin> fst ` set []" by simp
  obtain xs a' where "documents w' = write_all [(Objectives_Doc, x), (Activity_Doc, a')] (documents w1)"
    and "a' = dset (with_ledger a) ''idempotency'' (PList xs)"
    using commit_keyed_Inr [OF assms(1) e] by (metis append_Cons append_Nil)
  then show ?thesis using assms(2,3) by (intro advances_aside) (simp_all add: with_ledger_def)
qed

lemma planning_with_ledger [simp]: "dget (with_ledger a) ''planning_status'' = dget a ''planning_status''"
  by (simp add: with_ledger_def)

lemma sound_objective_patches:
  "sound (patch_objective_v1 env i body)" "sound (patch_key_result_v1 env i kid body)"
  "sound (add_key_result env i v target)" "sound (set_key_result_progress env i kid n)"
proof -
  show "sound (patch_objective_v1 env i body)"
  proof (rule soundI [OF patch_commands_atomic(1)])
    fix w p w' assume "patch_objective_v1 env i body w = (Inr p, w')"
    then show "advances w w'" unfolding patch_objective_v1_def
      by (simp only: runs plumbing) (elim exE conjE, erule objective_save_advances, simp_all)
  qed
  show "sound (patch_key_result_v1 env i kid body)"
  proof (rule soundI [OF patch_commands_atomic(2)])
    fix w p w' assume "patch_key_result_v1 env i kid body w = (Inr p, w')"
    then show "advances w w'" unfolding patch_key_result_v1_def
      by (simp only: runs plumbing) (elim exE conjE, erule objective_save_advances, simp_all)
  qed
  show "sound (add_key_result env i v target)"
  proof (rule soundI [OF objective_commands_atomic(3)])
    fix w p w' assume "add_key_result env i v target w = (Inr p, w')"
    then show "advances w w'" unfolding add_key_result_def
      by (simp only: runs plumbing) (elim exE conjE, erule objective_save_advances, simp_all)
  qed
  show "sound (set_key_result_progress env i kid n)"
  proof (rule soundI [OF objective_commands_atomic(6)])
    fix w p w' assume "set_key_result_progress env i kid n w = (Inr p, w')"
    then show "advances w w'" unfolding set_key_result_progress_def
      by (simp only: runs plumbing) (elim exE conjE, erule objective_save_advances, simp_all)
  qed
qed

lemma run_new_objective:
  assumes "bind_c (new_objective env data q v) f w = (Inr y, w')"
  obtains o1 w1 where "f o1 w1 = (Inr y, w')" "documents w1 = documents w"
proof -
  obtain r w1 where m: "new_objective env data q v w = (r, w1)" by (cases "new_objective env data q v w")
  with assms obtain o1 where "r = Inr o1" by (cases r) (auto simp: bind_c_def)
  with m assms reads_only_same [OF reads_only_quarter(2) m] that show thesis by (auto simp: bind_c_def)
qed

lemma sound_objective_creates:
  "sound (add_objective env v q)" "sound (create_objective_v1 env body key path)" "sound (add_key_result_v1 env i body key path)"
proof -
  show "sound (add_objective env v q)"
  proof (rule soundI [OF objective_commands_atomic(1)])
    fix w p w' assume "add_objective env v q w = (Inr p, w')"
    then show "advances w w'" unfolding add_objective_def
      by (simp only: runs save_one_def, elim run_new_objective) (auto simp: runs intro!: advances_aside)
  qed
  show "sound (create_objective_v1 env body key path)"
    unfolding create_objective_v1_def Let_def
  proof (intro sound_lift sound_keyed, (intro commits)[1], goal_cases)
    case (1 x w ds st b w')
    from 1(4) show ?case
      by (simp only: runs) (erule run_new_objective, simp only: runs plumbing,
        elim exE conjE, erule commit_keyed_aside, simp, drule event_planning, simp)
  qed
  show "sound (add_key_result_v1 env i body key path)"
    unfolding add_key_result_v1_def Let_def
  proof (intro sound_lift sound_keyed, (intro commits)[1], goal_cases)
    case (1 x w ds st b w')
    from 1(4) show ?case
      by (simp only: runs plumbing)
        (elim exE conjE, erule commit_keyed_aside, simp, drule event_planning, simp)
  qed
qed

section \<open>Notes, subtasks and links\<close>

definition same_identity :: "dict \<Rightarrow> dict \<Rightarrow> bool" where
  "same_identity t t' \<longleftrightarrow> dget t' ''id'' = dget t ''id'' \<and> dget t' ''uid'' = dget t ''uid'' \<and>
     dget t' ''status'' = dget t ''status'' \<and> dget t' ''status_fact_id'' = dget t ''status_fact_id''"

lemma same_identity_trans: "same_identity a b \<Longrightarrow> same_identity b c \<Longrightarrow> same_identity a c"
  by (simp add: same_identity_def)

lemma append_item_keeps: "append_item r f item = Inr r' \<Longrightarrow> f \<in> {''notes'', ''subtasks''} \<Longrightarrow> same_identity r r'"
  by (auto simp: append_item_def append_row_Inr same_identity_def dsetdefault_def)

lemma put_row_keeps: "f = ''subtasks'' \<Longrightarrow> same_identity r (put_row (dsetdefault r f v) f k x)"
  by (simp add: same_identity_def put_row_def dsetdefault_def)

lemma stamped_edit_advances:
  assumes f: "find_row (documents w Tasks_Doc) ''tasks'' i ''task'' = Inr (k, t)" and n: "next_revision t = Inr n"
    and same: "same_identity t t1"
    and w': "documents w' Tasks_Doc = put_row (documents w Tasks_Doc) ''tasks'' k (stamp_row t1 day n)"
      "dget (documents w' Activity_Doc) ''planning_status'' = dget (documents w Activity_Doc) ''planning_status''"
  shows "advances w w'"
proof (rule advances_edit [OF find_row_at [OF f] n revision_stamp [OF n] _ w'])
  show "dget (stamp_row t1 day n) x = dget t x" if "x \<in> {''id'', ''uid'', ''status'', ''status_fact_id''}" for x
    using that same by (auto simp: stamp_dget same_identity_def)
qed

lemma task_save_advances:
  assumes "find_row (documents w Tasks_Doc) ''tasks'' i ''task'' = Inr (k, t)" and "next_revision t = Inr n"
    and "same_identity t t1" and "documents w1 = documents w"
    and "w' = after_save [(Tasks_Doc, put_row (documents w Tasks_Doc) ''tasks'' k (stamp_row t1 day n))] oid w1"
  shows "advances w w'"
  using assms by (intro stamped_edit_advances [OF assms(1-3)]) simp_all

lemma task_commit_advances:
  assumes "find_row (documents w Tasks_Doc) ''tasks'' i ''task'' = Inr (k, t)" and "next_revision t = Inr n"
    and "same_identity t t1" and "documents w1 = documents w"
    and "commit_keyed env (with_ledger (documents w Activity_Doc)) key m p d st body
      [(Tasks_Doc, put_row (documents w Tasks_Doc) ''tasks'' k (stamp_row t1 day n))] [] oid w1 = (Inr (st', b), w')"
  shows "advances w w'"
proof -
  have e: "Activity_Doc \<notin> fst ` set []" by simp
  obtain xs a' where "documents w' = write_all ([(Tasks_Doc, put_row (documents w Tasks_Doc) ''tasks'' k (stamp_row t1 day n))] @
      [(Activity_Doc, a')] @ []) (documents w1)"
    and "a' = dset (with_ledger (with_ledger (documents w Activity_Doc))) ''idempotency'' (PList xs)"
    using commit_keyed_Inr [OF assms(5) e] by metis
  then show ?thesis using assms(4) by (intro stamped_edit_advances [OF assms(1-3), of w' day]) simp_all
qed

lemma task_edits_atomic:
  "all_or_nothing (add_task_note env i v r)" "all_or_nothing (add_subtask env i v p r)"
  "all_or_nothing (set_subtask_status env i sid st r)"
  "all_or_nothing (note_intent env i body key path digest a)" "all_or_nothing (subtask_intent env i body key path digest a)"
  unfolding add_task_note_def add_subtask_def set_subtask_status_def note_intent_def subtask_intent_def Let_def
  by (intro commits)+

lemma sound_edits:
  "sound (add_task_note env i v r)" "sound (add_subtask env i v p r)" "sound (set_subtask_status env i sid st r)"
  "sound (link_task env oid i)"
proof -
  show "sound (add_task_note env i v r)"
  proof (rule soundI [OF task_edits_atomic(1)])
    fix w x w' assume "add_task_note env i v r w = (Inr x, w')"
    then show "advances w w'" unfolding add_task_note_def save_one_def
      by (simp only: runs plumbing guard_revision_Inr)
        (elim exE conjE, erule task_save_advances, assumption, erule append_item_keeps, simp_all)
  qed
  show "sound (add_subtask env i v p r)"
  proof (rule soundI [OF task_edits_atomic(2)])
    fix w x w' assume "add_subtask env i v p r w = (Inr x, w')"
    then show "advances w w'" unfolding add_subtask_def save_one_def
      by (simp only: runs plumbing guard_revision_Inr)
        (elim exE conjE, erule task_save_advances, assumption, erule append_item_keeps, simp_all)
  qed
  show "sound (set_subtask_status env i sid st r)"
  proof (rule soundI [OF task_edits_atomic(3)])
    fix w x w' assume "set_subtask_status env i sid st r w = (Inr x, w')"
    then show "advances w w'" unfolding set_subtask_status_def save_one_def
      by (simp only: runs plumbing guard_revision_Inr)
        (elim exE conjE, erule task_save_advances, assumption, rule put_row_keeps, simp_all)
  qed
  show "sound (link_task env oid i)"
  proof (rule soundI [OF objective_commands_atomic(5)])
    fix w x w' assume "link_task env oid i w = (Inr x, w')"
    then show "advances w w'" unfolding link_task_def save_one_def
      by (simp only: runs plumbing)
        (elim exE conjE, erule task_save_advances, assumption, simp_all add: same_identity_def)
  qed
qed

lemma sound_keyed_edits:
  "sound (add_task_note_v1 env i body key path)" "sound (add_subtask_v1 env i body key path)"
proof -
  show "sound (add_task_note_v1 env i body key path)"
    unfolding add_task_note_v1_def Let_def
  proof (intro sound_lift sound_keyed task_edits_atomic, goal_cases)
    case (1 x w ds st b w')
    from 1(4) show ?case unfolding note_intent_def
      by (simp only: runs plumbing bind_r_Inr guard_revision_Inr)
        (elim exE conjE, erule task_commit_advances, assumption, erule append_item_keeps, simp_all)
  qed
  show "sound (add_subtask_v1 env i body key path)"
    unfolding add_subtask_v1_def Let_def
  proof (intro sound_lift sound_keyed task_edits_atomic, goal_cases)
    case (1 x w ds st b w')
    from 1(4) show ?case unfolding subtask_intent_def
      by (simp only: runs plumbing bind_r_Inr guard_revision_Inr)
        (elim exE conjE, erule task_commit_advances, assumption, erule append_item_keeps, simp_all)
  qed
qed

section \<open>Creating Tasks and changing their status\<close>

lemma reads_only_append_task [commits]:
  "reads_only (next_display data)" "reads_only (append_task env data title detail priority due tags oids parent deps sch est)"
  unfolding append_task_def next_display_def Let_def by (intro commits)+

lemmas all_or_nothing_append_task [commits] = all_or_nothing_bind [OF reads_only_append_task(2)]

lemma create_commands_atomic:
  "all_or_nothing (add_task env title detail priority due tags oids parent deps)" "all_or_nothing (create_intent env c key path digest a)"
  unfolding add_task_def create_intent_def Let_def
  by (intro commits)+

lemma history_kept:
  "world_history w' sts' \<Longrightarrow> dkeys sts' = dkeys sts @ ks \<Longrightarrow> tasks_kept (documents w Tasks_Doc) (documents w' Tasks_Doc) \<Longrightarrow>
   \<exists>sts' more_keys. world_history w' sts' \<and> dkeys sts' = dkeys sts @ more_keys \<and>
     tasks_kept (documents w Tasks_Doc) (documents w' Tasks_Doc)"
  by blast

lemma moved_kept: "moved tid s r b b' \<Longrightarrow> tasks_kept b b'"
proof -
  assume "moved tid s r b b'"
  then obtain ts k t t2 where e: "dget b ''tasks'' = PList ts" "k < length ts" "ts ! k = PDict t" "dget t ''id'' = PStr tid"
    "revision_of t = Inr r" "revision_of t2 = Inr (r + 1)" "dget t2 ''id'' = PStr tid" "dget t2 ''uid'' = dget t ''uid''"
    "b' = dset b ''tasks'' (PList (ts[k := PDict t2]))" unfolding moved_def by blast
  then have "row_kept (ts ! k) (PDict t2)" by (auto simp: row_kept_def)
  with e rows_kept_update [OF e(2)] show ?thesis by (auto simp: tasks_kept_def)
qed

lemma dkeys_moved: "map_of sts tid = Some v \<Longrightarrow> dkeys (dset sts tid x) = dkeys sts @ []"
  by (force simp: dkeys_def dset_def update_keys dest: map_of_SomeD)

lemma sound_create_v1: "clock_ok env \<Longrightarrow> uuids_ok env \<Longrightarrow> sound (create_task_v1 env body key path)"
  unfolding create_task_v1_def Let_def
proof (intro sound_lift sound_keyed create_commands_atomic, goal_cases)
  case (1 x c w ds st b w')
  show ?case
  proof (rule advancesI)
    fix sts assume h: "world_history w sts"
    obtain tid ts t where e: "world_history w' (sts @ [(tid, PStr ''open'')])"
      "dget (documents w Tasks_Doc) ''tasks'' = PList ts"
      "documents w' Tasks_Doc = dset (documents w Tasks_Doc) ''tasks'' (PList (ts @ [PDict t]))"
      using create_intent_effect [OF h 1(1,2,5,6,7)] by blast
    then show "\<exists>sts' more_keys. world_history w' sts' \<and> dkeys sts' = dkeys sts @ more_keys \<and>
       tasks_kept (documents w Tasks_Doc) (documents w' Tasks_Doc)"
      by (intro history_kept [OF e(1), of _ "[tid]"]) (auto simp: dkeys_def tasks_kept_def)
  qed
qed

lemma sound_status_v1: "clock_ok env \<Longrightarrow> sound (set_task_status_v1 env i body key path dg)"
  unfolding set_task_status_v1_def
proof (intro sound_lift sound_keyed, goal_cases)
  case (1 b u d a)
  show ?case unfolding status_intent_def Let_def by (intro commits)
next
  case (2 b u d w ds st resp w')
  show ?case
  proof (rule advancesI)
    fix sts assume h: "world_history w sts"
    from keyed_intent_Inr [OF 2(2)] obtain s r where b: "dget b ''status'' = PStr s" "s \<in> set TASK_STATUSES" "dget b ''revision'' = PInt r"
      by blast
    obtain tid cur where e: "map_of sts tid = Some cur" "world_history w' (dset sts tid (PStr s))"
      "documents w' Tasks_Doc = documents w Tasks_Doc \<or> moved tid s r (documents w Tasks_Doc) (documents w' Tasks_Doc)"
      using status_intent_effect [OF h 2(1) b 2(5,6,7)] by (metis (full_types))
    have "tasks_kept (documents w Tasks_Doc) (documents w' Tasks_Doc)"
      using e(3) moved_kept tasks_kept_refl [OF h] by auto
    then show "\<exists>sts' more_keys. world_history w' sts' \<and> dkeys sts' = dkeys sts @ more_keys \<and>
       tasks_kept (documents w Tasks_Doc) (documents w' Tasks_Doc)"
      by (rule history_kept [OF e(2) dkeys_moved [OF e(1)]])
  qed
qed

lemma sound_add_task:
  assumes env: "clock_ok env" "uuids_ok env"
  shows "sound (add_task env title detail priority due tags oids parent deps)"
proof (rule soundI [OF create_commands_atomic(1)], rule advancesI)
  fix w x w' sts assume run: "add_task env title detail priority due tags oids parent deps w = (Inr x, w')"
    and h: "world_history w sts"
  obtain t b2 ws' w1 item a2 where
    at: "append_task env (documents w Tasks_Doc) title detail priority due tags oids parent deps PNone PNone w = (Inr (t, b2, ws'), w1)"
    and bs: "append_bootstrap (documents w1 Activity_Doc) t (utc_at env (clock_reads w1)) ''local.user'' ''cli'' = Inr (item, a2, x)"
    and w': "w' = after_save [(Tasks_Doc, put_last b2 ''tasks'' x), (Activity_Doc, a2), (Workspace_Doc, ws')]
       (''task-create-cli-'' @ py_str (dget x ''id'')) (tick w1)"
    using run unfolding add_task_def
    by (auto simp: runs bind_c_Inr [of "append_task env b t1 t2 t3 t4 t5 t6 t7 t8 t9 t10" for b t1 t2 t3 t4 t5 t6 t7 t8 t9 t10])
  obtain ts i ns u where e: "dget (documents w Tasks_Doc) ''tasks'' = PList ts"
    "b2 = dset (documents w Tasks_Doc) ''tasks'' (PList (ts @ [PDict t]))"
    "next_task_display (documents w Workspace_Doc) ts = Inr (i, ws')" "dget t ''id'' = PStr i"
    "uuid5 env ns i = Inr u" "dget t ''uid'' = PStr u" "dget t ''status'' = PStr ''open''"
    "revision_of t = Inr 0" "w1 = tick (tick w)"
    by (rule append_task_Inr [OF at]) blast
  have u: "uid_ok u" using env(2) e(5) by (auto simp: uuids_ok_def)
  have tm: "planning_timestamp (PStr (utc_at env (clock_reads w1))) = Inr (utc_at env (clock_reads w1))"
    using env(1) by (simp add: clock_ok_def)
  have h': "history (documents w Tasks_Doc) (documents w1 Activity_Doc) sts" using h by (simp add: world_history_def e(9))
  note hc = history_create [OF h' e(1,3,4,6) u e(7,8) tm provenances(1) bs]
  have d: "documents w' Tasks_Doc = put_last b2 ''tasks'' x" "documents w' Activity_Doc = a2" by (simp_all add: w')
  show "\<exists>sts' more_keys. world_history w' sts' \<and> dkeys sts' = dkeys sts @ more_keys \<and>
       tasks_kept (documents w Tasks_Doc) (documents w' Tasks_Doc)"
  proof (rule history_kept)
    show "world_history w' (sts @ [(i, PStr ''open'')])" using hc(1) by (simp add: world_history_def d e(2))
    show "dkeys (sts @ [(i, PStr ''open'')]) = dkeys sts @ [i]" by (simp add: dkeys_def)
    show "tasks_kept (documents w Tasks_Doc) (documents w' Tasks_Doc)"
      using e(1) by (auto simp: tasks_kept_def d e(2) put_last_def put_row_def)
  qed
qed

text \<open>A command that ends in a projection has the world of its first part.\<close>

lemma sound_projected: "sound m \<Longrightarrow> sound (bind_c m (\<lambda>x. lift_c (f x)))"
  unfolding sound_def by (auto simp: bind_c_def split: prod.splits sum.splits) (metis snd_conv)+

lemma sound_set_status:
  assumes env: "clock_ok env"
  shows "sound (set_task_status env i st r prov)"
  unfolding set_task_status_def case_prod_unfold
proof (rule sound_projected, rule soundI)
  show "all_or_nothing (set_task_status_commit env i st r prov)"
    unfolding set_task_status_commit_def Let_def by (intro commits)
  fix w x w' assume run: "set_task_status_commit env i st r prov w = (Inr x, w')"
  show "advances w w'"
  proof (rule advancesI)
    fix sts assume h: "world_history w sts"
    then have v: "validate_and_project (documents w Tasks_Doc) (documents w Activity_Doc) = Inr sts"
      by (simp add: world_history_def history_def)
    obtain k t cr cur and u :: unit where ok: "(if \<not> in_tuple st TASK_STATUSES then Inl (ValueErr ''invalid task status'')
       else if prov \<notin> {''cli'', ''api.legacy''} then Inl (ValueErr ''invalid planning status provenance'') else Inr ()) = Inr u"
      and f: "find_row (documents w Tasks_Doc) ''tasks'' i ''task'' = Inr (k, t)" and r: "revision_of t = Inr cr"
      and cur: "bind_r (dindex t ''id'') (index_status sts) = Inr cur"
      and rest: "(if st = cur then return_c (t, cur) w else
        bind_c (move_task env (documents w Activity_Doc) (documents w Tasks_Doc) k t cur st cr (next_revision t) prov
          (status_notice_key t cr) (if prov = ''cli'' then ''cli'' else ''gui'')) (\<lambda>(next_rev, task, data, activity).
        bind_c (save_many [(Tasks_Doc, data), (Activity_Doc, activity)]
          (''task-status-'' @ py_str (dget task ''id'') @ ''-r'' @ int_str next_rev)) (\<lambda>_.
        return_c (task, st))) w) = (Inr x, w')"
      using run unfolding set_task_status_commit_def
      by (simp only: run_load run_lift run_if split_paired_Ex case_prod_conv Let_def v bind_r_simps)
        (elim exE conjE, rule that, assumption+)
    have st: "in_tuple st TASK_STATUSES" "prov \<in> {''cli'', ''api.legacy''}" using ok by (auto split: if_splits)
    show "\<exists>sts' more_keys. world_history w' sts' \<and> dkeys sts' = dkeys sts @ more_keys \<and>
       tasks_kept (documents w Tasks_Doc) (documents w' Tasks_Doc)"
    proof (cases "st = cur")
      case True
      with rest h show ?thesis by (intro history_kept [of w' sts sts "[]"]) (auto simp: tasks_kept_refl)
    next
      case False
      from st(1) obtain s where s: "st = PStr s" "s \<in> set TASK_STATUSES" by (auto simp: in_tuple_iff)
      from rest False obtain n t2 b2 a2 w1 where
        m: "move_task env (documents w Activity_Doc) (documents w Tasks_Doc) k t cur (PStr s) cr (next_revision t) prov
          (status_notice_key t cr) (if prov = ''cli'' then ''cli'' else ''gui'') w = (Inr (n, t2, b2, a2), w1)"
        and d: "documents w' Tasks_Doc = b2" "documents w' Activity_Doc = a2"
        by (auto simp: s run_save runs bind_c_Inr [of "move_task env a b k t cur st' cr nr prov nk src" for a b st' nr nk src])
      have p: "provenance_ok ''local.user'' prov" using st(2) provenances by auto
      obtain tid where e: "history b2 a2 (dset sts tid (PStr s))" "map_of sts tid = Some cur"
        "moved tid s cr (documents w Tasks_Doc) b2"
        by (rule move_task_effect [OF h [unfolded world_history_def] find_row_at [OF f] r _ cur False [symmetric, unfolded s] s(2) env p m]) auto
      show ?thesis
        using e by (intro history_kept [OF _ dkeys_moved [OF e(2)], of _ "PStr s"]) (auto simp: world_history_def d intro: moved_kept)
    qed
  qed
qed

section \<open>Patching a Task\<close>

lemma dget_dupdate_other: "map_of c x = None \<Longrightarrow> dget (dupdate t c) x = dget t x"
  by (induction c arbitrary: t) (auto simp: dupdate_def split: if_splits)

text \<open>A patch writes none of the fields the history and the identity of a Task rest on.\<close>

lemma outcome_stage: "apply_outcome_invariant c t objs = Inr c' \<Longrightarrow> x \<noteq> ''objective_ids'' \<Longrightarrow> map_of c' x = map_of c x"
  by (auto simp: apply_outcome_invariant_def catch_r_Inr apply_task_outcome_write_invariant_def align_parents_def result_iffs
      outcome_refusal_def split: if_splits)

lemma parent_stage: "normalize_and_validate_patch_parent c t ts = Inr c' \<Longrightarrow> x \<noteq> ''parent_id'' \<Longrightarrow> map_of c' x = map_of c x"
  by (auto simp: normalize_and_validate_patch_parent_def result_iffs split: if_splits)

lemma patch_safe:
  assumes shape: "check_patch_shape v = Inr p" and change: "patch_change_set p t ts objs = Inr (c, requested)"
    and out: "apply_outcome_invariant c t roster = Inr changes"
  shows "x \<in> {''id'', ''uid'', ''status'', ''status_fact_id'', ''revision''} \<Longrightarrow> map_of changes x = None"
    and "requested = PNone \<or> (\<exists>s \<in> set TASK_STATUSES. requested = PStr s)"
proof -
  obtain c1 c2 c3 where
    c1: "normalize_patch_scalar_fields (ddel p ''revision'') = Inr c1" and
    c2: "normalize_patch_collection_fields c1 objs = Inr c2" and
    c3: "normalize_and_validate_patch_parent c2 t ts = Inr c3" and
    c: "c = ddel c3 ''status''" and q: "requested = dget c3 ''status''"
    using change by (auto simp: patch_change_set_def normalize_and_validate_patch_relationships_def result_iffs)
  have keep: "map_of c3 x = map_of (ddel p ''revision'') x" if "x \<in> {''id'', ''uid'', ''status'', ''status_fact_id'', ''revision''}" for x
    using that scalar_stage(1) [OF c1, of x] collection_stage(1) [OF c2, of x] parent_stage [OF c3, of x] by auto
  have "unknown_patch_fields p = []"
    using shape by (auto simp: check_patch_shape_def split: pyval.splits if_splits)
  then have "set (sorted_set (filter (\<lambda>f. f \<notin> set TASK_PATCH_FIELDS) (dkeys p))) = {}"
    by (simp add: unknown_patch_fields_def)
  then have "set (filter (\<lambda>f. f \<notin> set TASK_PATCH_FIELDS) (dkeys p)) = {}" unfolding set_sorted_set .
  then have known: "dkeys p = [] \<or> set (dkeys p) \<subseteq> set TASK_PATCH_FIELDS" by (auto simp: filter_empty_conv)
  have "''id'' \<notin> set TASK_PATCH_FIELDS" "''uid'' \<notin> set TASK_PATCH_FIELDS" "''status_fact_id'' \<notin> set TASK_PATCH_FIELDS"
    by (simp_all add: TASK_PATCH_FIELDS_def)
  with known have "''id'' \<notin> set (dkeys p)" "''uid'' \<notin> set (dkeys p)" "''status_fact_id'' \<notin> set (dkeys p)" by auto
  then have none: "map_of p ''id'' = None" "map_of p ''uid'' = None" "map_of p ''status_fact_id'' = None"
    by (simp_all add: dkeys_def map_of_eq_None_iff)
  show "map_of changes x = None" if x: "x \<in> {''id'', ''uid'', ''status'', ''status_fact_id'', ''revision''}"
  proof -
    have "map_of (ddel (ddel p ''revision'') ''status'') x = None" using x none by auto
    moreover have "map_of changes x = map_of (ddel c3 ''status'') x" using x outcome_stage [OF out, of x] by (auto simp: c)
    ultimately show ?thesis using keep [OF x] by (simp split: if_splits)
  qed
  have "validate_patch_enums c1 = Inr ()"
    using c1 scalar_stage(1) [OF c1, of "''status''"] by (auto simp: normalize_patch_scalar_fields_def result_iffs)
  moreover have "map_of c3 ''status'' = map_of c1 ''status''"
    using collection_stage(1) [OF c2, of "''status''"] parent_stage [OF c3, of "''status''"] by simp
  ultimately show "requested = PNone \<or> (\<exists>s \<in> set TASK_STATUSES. requested = PStr s)"
    by (auto simp: q validate_patch_enums_def dhas_def dget_def dget_or_def in_tuple_iff split: option.splits if_splits)
qed

lemma run_if_Inr: "(if b then m else n) w = (Inr y, w') \<longleftrightarrow> b \<and> m w = (Inr y, w') \<or> \<not> b \<and> n w = (Inr y, w')"
  by simp

lemma run_patch_transition:
  assumes "bind_c (patch_transition env a t cur req cr n origin) f w = (Inr y, w')"
  obtains item a1 t1 nk u nt a2 where
    "append_transition a t cur req cr n (utc_at env (clock_reads w)) ''local.user'' ''api.v1'' = Inr (item, a1, t1)"
    "record_committed_status_notice env a1 (PStr u) t1 cur req cr n (PStr nk) (PStr (notice_source_for_origin origin))
       (utc_at env (clock_reads (tick w))) = Inr (nt, a2)"
    "f (a2, t1) (tick (tick w)) = (Inr y, w')"
  using assms unfolding patch_transition_def
  by (simp only: runs plumbing) (elim exE conjE, rule that, assumption+)

lemma patch_write_advances:
  assumes h: "world_history w sts" and f: "at_row (documents w Tasks_Doc) ''tasks'' k t" and r: "revision_of t = Inr cr"
    and cur: "bind_r (dindex t ''id'') (index_status sts) = Inr cur" and env: "clock_ok env"
    and safe: "\<And>x. x \<in> {''id'', ''uid'', ''status'', ''status_fact_id'', ''revision''} \<Longrightarrow> map_of c x = None"
    and req: "req = PNone \<or> (\<exists>s \<in> set TASK_STATUSES. req = PStr s)"
    and run: "patch_write env (documents w Activity_Doc) (documents w Tasks_Doc) k t c req cur cr flds origin w = (Inr x, w')"
  shows "\<exists>sts' more_keys. world_history w' sts' \<and> dkeys sts' = dkeys sts @ more_keys \<and>
     tasks_kept (documents w Tasks_Doc) (documents w' Tasks_Doc)"
proof -
  let ?b = "documents w Tasks_Doc" and ?a = "documents w Activity_Doc" and ?t = "dupdate t c"
  have same: "dget ?t ''id'' = dget t ''id''" "dget ?t ''uid'' = dget t ''uid''" "dget ?t ''status'' = dget t ''status''"
    "dget ?t ''status_fact_id'' = dget t ''status_fact_id''"
    by (simp_all add: dget_dupdate_other safe)
  obtain n where n: "next_revision t = Inr n" and rest: "(if req \<noteq> PNone \<and> \<not> py_eq req cur
      then bind_c (patch_transition env ?a ?t cur req cr n origin) else bind_c (return_c (?a, ?t)))
      (\<lambda>(activity, task). bind_c (stamped env ?b k task n) (\<lambda>(task, backlog).
        bind_c (lift_c (dindex task ''id'')) (\<lambda>i.
        bind_c (append_event env activity ''task.updated'' PNone i PNone [(''fields'', strs flds)]) (\<lambda>(event, activity).
        bind_c (save_many [(Tasks_Doc, backlog), (Activity_Doc, activity)] (''task-patch-'' @ py_str i @ ''-r'' @ int_str n)) (\<lambda>_.
        return_c (task, if req \<noteq> PNone \<and> \<not> py_eq req cur then req else cur)))))) w = (Inr x, w')"
    using run unfolding patch_write_def by (simp only: run_lift Let_def if_distrib [of bind_c]) blast
  show ?thesis
  proof (cases "req \<noteq> PNone \<and> \<not> py_eq req cur")
    case False
    with rest obtain i ev a2 where ev: "event_of (utc_at env (clock_reads (tick w))) ?a ''task.updated'' PNone i PNone
        [(''fields'', strs flds)] = Inr (ev, a2)"
      and w': "documents w' = (documents w)(Tasks_Doc := put_row ?b ''tasks'' k (stamp_row ?t (today_at env (clock_reads w)) n), Activity_Doc := a2)"
      by (simp only: if_False runs plumbing) (elim exE conjE, rule that, auto)
    have "advances w w'"
      by (rule advances_edit [OF f n revision_stamp [OF n]]) (auto simp: w' stamp_dget same event_planning [OF ev])
    with h show ?thesis by (simp add: advances_def)
  next
    case True
    then obtain s where s: "req = PStr s" "s \<in> set TASK_STATUSES" "cur \<noteq> PStr s" using req by auto
    obtain item a1 t1 nk u nt a2 where
      app: "append_transition ?a ?t cur (PStr s) cr n (utc_at env (clock_reads w)) ''local.user'' ''api.v1'' = Inr (item, a1, t1)" and
      nt: "record_committed_status_notice env a1 (PStr u) t1 cur (PStr s) cr n (PStr nk) (PStr (notice_source_for_origin origin))
         (utc_at env (clock_reads (tick w))) = Inr (nt, a2)" and
      rest': "bind_c (stamped env ?b k t1 n) (\<lambda>(task, backlog).
        bind_c (lift_c (dindex task ''id'')) (\<lambda>i.
        bind_c (append_event env a2 ''task.updated'' PNone i PNone [(''fields'', strs flds)]) (\<lambda>(event, activity).
        bind_c (save_many [(Tasks_Doc, backlog), (Activity_Doc, activity)] (''task-patch-'' @ py_str i @ ''-r'' @ int_str n)) (\<lambda>_.
        return_c (task, req))))) (tick (tick w)) = (Inr x, w')"
      using rest [unfolded if_P [OF True]] s(1) by (elim run_patch_transition) (rule that, simp_all only: s(1) case_prod_conv)
    let ?t2 = "stamp_row t1 (today_at env (clock_reads (tick (tick w)))) n"
    from rest' obtain i ev a3 at where ev: "event_of at a2 ''task.updated'' PNone i PNone [(''fields'', strs flds)] = Inr (ev, a3)"
      and w': "documents w' Tasks_Doc = put_row ?b ''tasks'' k ?t2" "documents w' Activity_Doc = a3"
      by (simp only: runs plumbing) (elim exE conjE, rule that, auto)
    obtain g where t1: "t1 = dset ?t ''status_fact_id'' g" using transition_task(1) [OF app] by blast
    have tm: "planning_timestamp (PStr (utc_at env (clock_reads w))) = Inr (utc_at env (clock_reads w))"
      using env by (simp add: clock_ok_def)
    have t2: "dget ?t2 x = dget t x" if "x \<in> {''id'', ''uid'', ''status''}" for x
      using that by (auto simp: stamp_dget t1 same)
    obtain tid where tid: "dget t ''id'' = PStr tid" "history (put_row ?b ''tasks'' k ?t2) a1 (dset sts tid (PStr s))" "map_of sts tid = Some cur"
      by (rule history_move [OF h [unfolded world_history_def] f r n cur s(3,2) tm provenances(2) _ app t2 stamp_dget revision_stamp [OF n]])
        (auto simp: same)
    have "dget a3 ''planning_status'' = dget a1 ''planning_status''"
      using event_planning [OF ev] notice_keeps [OF nt, of "''planning_status''"] by (simp add: dget_def dget_or_def)
    then have hist: "world_history w' (dset sts tid (PStr s))"
      using tid(2) by (simp add: world_history_def w' history_activity [of a3 a1])
    obtain ts where ts: "dget ?b ''tasks'' = PList ts" "k < length ts" "ts ! k = PDict t" using f by (auto simp: at_row_def)
    have "row_kept (ts ! k) (PDict ?t2)"
      using t2 [of "''id''"] t2 [of "''uid''"] r revision_stamp [OF n] next_of [OF n r] by (auto simp: row_kept_def ts(3))
    then have kept: "tasks_kept ?b (documents w' Tasks_Doc)"
      using ts rows_kept_update [OF ts(2)] by (auto simp: tasks_kept_def w' put_row_def)
    show ?thesis by (rule history_kept [OF hist dkeys_moved [OF tid(3)] kept])
  qed
qed

lemma reads_only_patch_transition [commits]: "reads_only (patch_transition env a t cur req cr n origin)"
  unfolding patch_transition_def by (intro commits)

lemma patch_commit_atomic:
  "all_or_nothing (patch_write env a b k t c req cur cr flds origin)" "all_or_nothing (patch_task_commit env i patch origin)"
proof -
  show w: "all_or_nothing (patch_write env a b k t c req cur cr flds origin)" for a b k t c req cur cr flds
    unfolding patch_write_def Let_def
    by (intro all_or_nothing_lift all_or_nothing_bind [OF commits_if(2)] commits)
  show "all_or_nothing (patch_task_commit env i patch origin)"
    unfolding patch_task_commit_def Let_def by (intro commits w)
qed

lemma sound_patch:
  assumes env: "clock_ok env"
  shows "sound (patch_task env i patch origin)"
  unfolding patch_task_def case_prod_unfold
proof (rule sound_projected, rule soundI [OF patch_commit_atomic(2)], rule advancesI)
  fix w x w' sts assume run: "patch_task_commit env i patch origin w = (Inr x, w')" and h: "world_history w sts"
  let ?b = "documents w Tasks_Doc"
  have v: "validate_and_project ?b (documents w Activity_Doc) = Inr sts" using h by (simp add: world_history_def history_def)
  obtain p k t cr ts objectives c req changes cur where shape: "check_patch_shape patch = Inr p"
    and f: "bind_r (rows_or ?b ''tasks'') (\<lambda>rs. find_record rs i ''task'') = Inr (k, t)" and r: "revision_of t = Inr cr"
    and change: "patch_change_set p t ts (map fst objectives) = Inr (c, req)"
    and out: "apply_outcome_invariant c t objectives = Inr changes"
    and cur: "bind_r (dindex t ''id'') (index_status sts) = Inr cur"
    and rest: "(if patch_changed_fields changes req cur = [] then return_c (t, cur) w
      else patch_write env (documents w Activity_Doc) ?b k t changes req cur cr (patch_changed_fields changes req cur) origin w) = (Inr x, w')"
    using run unfolding patch_task_commit_def
    by (simp only: run_load run_lift run_if(1) split_paired_Ex case_prod_conv Let_def v bind_r_simps) (elim exE conjE, rule that, assumption+)
  obtain rs where rs: "dget ?b ''tasks'' = PList rs" using h by (auto simp: world_history_def history_def)
  then have "rows_or ?b ''tasks'' = Inr rs"
    by (auto simp: rows_or_def dget_def dget_or_def split: option.splits)
  with f have "find_record rs i ''task'' = Inr (k, t)" by simp
  from find_record_Inr [OF this] rs have at: "at_row ?b ''tasks'' k t" by (auto simp: at_row_def)
  note safe = patch_safe [OF shape change out]
  show "\<exists>sts' more_keys. world_history w' sts' \<and> dkeys sts' = dkeys sts @ more_keys \<and> tasks_kept ?b (documents w' Tasks_Doc)"
  proof (cases "patch_changed_fields changes req cur = []")
    case True
    with rest have "w' = w" by simp
    then show ?thesis using h by (intro history_kept [of w' sts sts "[]"]) (auto simp: tasks_kept_refl)
  next
    case False
    show ?thesis
      by (rule patch_write_advances [OF h at r cur env safe rest [unfolded if_not_P [OF False]]])
  qed
qed

section \<open>Undo\<close>

lemma requested_known:
  assumes "build_compensation env v cw ce cr = Inr c"
  shows "\<exists>s \<in> set TASK_STATUSES. dget c ''requested_status'' = PStr s"
proof -
  obtain m where "validate_compensation m = Inr c"
    using assms unfolding build_compensation_def by (auto simp: result_iffs split: if_splits)
  then show ?thesis
    unfolding validate_compensation_def
    by (simp only: result_iffs notice_enum_Inr) (elim exE conjE, auto simp: dget_def dget_or_def)
qed

lemma shifted:
  assumes "Suc k \<le> j \<and> j - Suc k < length rs \<and> rs ! (j - Suc k) = v"
  shows "k \<le> j \<and> j - k < length (x # rs) \<and> (x # rs) ! (j - k) = v"
proof -
  have "j - k = Suc (j - Suc k)" using assms by arith
  with assms show ?thesis by simp
qed

lemma find_by_uid_at:
  "find_by_uid k rs u = Some (j, d) \<Longrightarrow> k \<le> j \<and> j - k < length rs \<and> rs ! (j - k) = PDict d"
proof (induction k rs u rule: find_by_uid.induct)
  case (2 k e rs u)
  show ?case
  proof (cases "py_eq (dget e ''uid'') u")
    case False
    with 2 have "find_by_uid (Suc k) rs u = Some (j, d)" by simp
    from 2(1) [OF False this] show ?thesis by (rule shifted)
  qed (use 2 in auto)
qed (auto intro!: shifted simp del: length_Cons)

lemma compensation_for_Inr:
  assumes "compensation_for env n t cr w = (Inr c, w')"
  shows "w' = w" "\<exists>s \<in> set TASK_STATUSES. dget c ''requested_status'' = PStr s"
proof -
  obtain u tu where "ready_workspace env = Some u" "dindex t ''uid'' = Inr tu" "w' = w"
    and b: "build_compensation env (PDict n) (PStr u) tu (PInt cr) = Inr c"
    using assms unfolding compensation_for_def by (simp only: runs plumbing catch_r_Inr) blast
  show "w' = w" by fact
  show "\<exists>s \<in> set TASK_STATUSES. dget c ''requested_status'' = PStr s" by (rule requested_known [OF b])
qed

lemma undo_notice_advances:
  assumes h: "world_history w sts" and env: "clock_ok env"
    and run: "undo_notice env nid rv key path d (with_ledger (documents w Activity_Doc)) w = (Inr (code, resp), w')"
  shows "\<exists>tid s. map_of sts tid \<noteq> None \<and> map_of sts tid \<noteq> Some (PStr s) \<and> world_history w' (dset sts tid (PStr s)) \<and>
     moved tid s rv (documents w Tasks_Doc) (documents w' Tasks_Doc)"
proof -
  let ?b = "documents w Tasks_Doc" and ?a = "with_ledger (documents w Activity_Doc)"
  have h': "history ?b ?a sts" using h by (simp add: world_history_def)
  then have v: "validate_and_project ?b ?a = Inr sts" by (simp add: history_def)
  obtain ts where ts: "dget ?b ''tasks'' = PList ts" using h' by (auto simp: history_def)
  obtain n w1 k t cr c w2 and u :: unit where
    n: "required_notice env ?a nid w = (Inr n, w1)" and
    f: "task_for_notice (documents w1 Tasks_Doc) n = Inr (k, t)" and r: "revision_of t = Inr cr" and
    eq: "(if rv \<noteq> cr then Inl (MutationReceiptError ''revision_conflict'' ''task revision is stale''
              [(''expected'', PInt cr), (''received'', PInt rv)]) else Inr ()) = Inr u" and
    c: "compensation_for env n t cr w1 = (Inr c, w2)" and
    rest: "bind_c (apply_compensation env ?a (documents w1 Tasks_Doc) k t c cr) (\<lambda>(projected_status, activity, task, data).
     bind_c (lift_c (project_task task 0 (PStr projected_status))) (\<lambda>projected.
     commit_keyed env activity key ''POST'' path d 200 (undone_body projected nid)
       [(Tasks_Doc, data)] [] (''mutation-notice-undo-'' @ str_of key))) w2 = (Inr (code, resp), w')"
    using run unfolding undo_notice_def
    by (simp only: bind_c_Inr [of "required_notice env ?a nid"] run_load run_lift
        bind_c_Inr [of "compensation_for env n t cr" for n t cr] split_paired_Ex case_prod_conv)
      (elim exE conjE, rule that, assumption+)
  have w1: "documents w1 = documents w" using reads_only_same [OF reads_only_status(3) n] by simp
  have rv: "rv = cr" using eq by (simp split: if_splits)
  have at: "at_row ?b ''tasks'' k t"
    using f ts by (auto simp: task_for_notice_def w1 por_def at_row_def dest!: find_by_uid_at split: option.splits if_splits)
  obtain s where s: "s \<in> set TASK_STATUSES" "dget c ''requested_status'' = PStr s"
    using compensation_for_Inr(2) [OF c] by blast
  have w2: "w2 = w1" by (rule compensation_for_Inr(1) [OF c])
  obtain cur nk n2 t2 b2 a2 w3 p where cur: "bind_r (dindex t ''id'') (index_status sts) = Inr cur" "cur \<noteq> PStr s"
    and m: "move_task env ?a ?b k t cur (PStr s) cr (receipt_next_revision t) ''api.v1'' nk ''gui'' w1 = (Inr (n2, t2, b2, a2), w3)"
    and p: "project_task t2 0 (PStr s) = Inr p"
    and cm: "commit_keyed env a2 key ''POST'' path d 200 (undone_body p nid) [(Tasks_Doc, b2)] []
       (''mutation-notice-undo-'' @ str_of key) w3 = (Inr (code, resp), w')"
    using rest s(2) unfolding apply_compensation_def w1 w2
    by (auto simp: runs v result_iffs dget_map_of Let_def
        bind_c_Inr [of "move_task env a b k t cur st cr nr prov nk src" for a b t cur st cr nr prov nk src] split: if_splits)
  have nr: "receipt_next_revision t = Inr n2 \<longrightarrow> next_revision t = Inr n2"
    by (auto simp: receipt_next_revision_def next_revision_def result_iffs)
  have h1: "history ?b ?a sts" by (fact h')
  obtain tid where e: "history b2 a2 (dset sts tid (PStr s))" "map_of sts tid = Some cur" "moved tid s cr ?b b2"
    "documents w3 = documents w1"
    by (rule move_task_effect [OF h1 at r nr cur(1) cur(2) s(1) env provenances(2) m]) auto
  have post: "Activity_Doc \<notin> fst ` set []" by simp
  obtain xs a' where k: "documents w' = write_all ([(Tasks_Doc, b2)] @ [(Activity_Doc, a')] @ []) (documents w3)"
    "a' = dset (with_ledger a2) ''idempotency'' (PList xs)"
    using commit_keyed_Inr [OF cm post] by metis
  have "world_history w' (dset sts tid (PStr s))"
    using e(1) history_activity [of a' a2] by (simp add: world_history_def k with_ledger_def)
  with e cur(2) rv show ?thesis
    by (intro exI [of _ tid] exI [of _ s]) (auto simp: k)
qed

lemma undo_atomic: "all_or_nothing (undo_notice env nid rv key path d a)"
  unfolding undo_notice_def by (intro commits)

lemma sound_undo: "clock_ok env \<Longrightarrow> sound (undo_mutation_notice env nid body key path dg)"
  unfolding undo_mutation_notice_def
proof (intro sound_lift sound_keyed undo_atomic, goal_cases)
  case (1 u rv nid d w ds st resp w')
  show ?case
  proof (rule advancesI)
    fix sts assume h: "world_history w sts"
    obtain tid s where e: "map_of sts tid \<noteq> None" "world_history w' (dset sts tid (PStr s))"
      "moved tid s rv (documents w Tasks_Doc) (documents w' Tasks_Doc)"
      using undo_notice_advances [OF h 1(1) 1(8)] by blast
    then obtain v where "map_of sts tid = Some v" by blast
    from history_kept [OF e(2) dkeys_moved [OF this] moved_kept [OF e(3)]]
    show "\<exists>sts' more_keys. world_history w' sts' \<and> dkeys sts' = dkeys sts @ more_keys \<and>
       tasks_kept (documents w Tasks_Doc) (documents w' Tasks_Doc)" .
  qed
qed

end
