(* ===== verification/WS_Ledger.thy ===== *)
theory WS_Ledger
  imports WS_TaskSteps
begin

text \<open>
  The idempotency ledger under every command: receipts are only ever appended, so a key that has
  been answered keeps its answer whatever is done afterwards.
\<close>

definition ledger_kept :: "world \<Rightarrow> world \<Rightarrow> bool" where
  "ledger_kept w w' \<longleftrightarrow> (\<forall>xs. ledger_of (documents w Activity_Doc) = PList (map PDict xs) \<longrightarrow>
     (\<exists>ys. ledger_of (documents w' Activity_Doc) = PList (map PDict (xs @ ys))))"

definition keeps_ledger :: "'a command \<Rightarrow> bool" where
  "keeps_ledger m \<longleftrightarrow> (\<forall>w. ledger_kept w (snd (m w)))"

lemma ledger_kept_same: "ledger_of (documents w' Activity_Doc) = ledger_of (documents w Activity_Doc) \<Longrightarrow> ledger_kept w w'"
  unfolding ledger_kept_def by (metis append_Nil2)

lemma ledger_kept_trans: "ledger_kept u v \<Longrightarrow> ledger_kept v w \<Longrightarrow> ledger_kept u w"
  unfolding ledger_kept_def by (metis append.assoc)

lemma ledger_kept_extends:
  "ledger_kept w w' \<Longrightarrow> ledger_of (documents w Activity_Doc) = PList (map PDict xs) \<Longrightarrow>
   ledger_extends (documents w Activity_Doc) (documents w' Activity_Doc)"
  unfolding ledger_kept_def ledger_extends_def by blast

lemma keeps_ledgerI:
  assumes "all_or_nothing m" and "\<And>w x w'. m w = (Inr x, w') \<Longrightarrow> ledger_kept w w'"
  shows "keeps_ledger m"
  unfolding keeps_ledger_def
proof
  fix w
  obtain r w' where m: "m w = (r, w')" by (cases "m w")
  show "ledger_kept w (snd (m w))"
  proof (cases r)
    case (Inl e)
    with assms(1) m have "documents w' = documents w" by (auto simp: all_or_nothing_def dest: spec [of _ w])
    then show ?thesis by (simp add: m ledger_kept_same)
  next
    case (Inr x)
    with assms(2) m show ?thesis by simp
  qed
qed

lemma keeps_ledger_lift: "(\<And>x. r = Inr x \<Longrightarrow> keeps_ledger (f x)) \<Longrightarrow> keeps_ledger (bind_c (lift_c r) f)"
  by (cases r) (auto simp: keeps_ledger_def bind_c_def ledger_kept_same)

lemma keeps_ledger_projected: "keeps_ledger m \<Longrightarrow> keeps_ledger (bind_c m (\<lambda>x. lift_c (f x)))"
  unfolding keeps_ledger_def by (auto simp: bind_c_def split: prod.splits sum.splits) (metis snd_conv)+

lemma keeps_ledger_keyed:
  assumes "\<And>a. all_or_nothing (act a)"
    and "\<And>w st b w'. act (with_ledger (documents w Activity_Doc)) w = (Inr (st, b), w') \<Longrightarrow> ledger_kept w w'"
  shows "keeps_ledger (keyed_command key m p d act)"
proof (rule keeps_ledgerI)
  show a: "all_or_nothing (keyed_command key m p d act)" using assms(1) by (rule all_or_nothing_keyed)
  fix w x w' assume run: "keyed_command key m p d act w = (Inr x, w')"
  obtain st b where x: "x = (st, b)" by (cases x)
  show "ledger_kept w w'"
  proof (cases "saved w' = saved w")
    case True
    with a run have "documents w' = documents w" by (auto simp: all_or_nothing_def dest: spec [of _ w])
    then show ?thesis by (simp add: ledger_kept_same)
  next
    case False
    with run x have "act (with_ledger (documents w Activity_Doc)) w = (Inr (st, b), w')" by (metis keyed_command_new)
    then show ?thesis by (rule assms(2))
  qed
qed

section \<open>What the steps do to the ledger\<close>

lemma commit_keyed_ledger:
  assumes c: "commit_keyed env a key m p d st body pre post oid w1 = (Inr (st', b), w')" and "Activity_Doc \<notin> fst ` set post"
    and "ledger_of a = ledger_of (documents w Activity_Doc)"
  shows "ledger_kept w w'"
proof -
  obtain xs a' r where x: "ledger_of a = PList xs" "a' = dset (with_ledger a) ''idempotency'' (PList (xs @ [PDict r]))"
    "documents w' = write_all (pre @ [(Activity_Doc, a')] @ post) (documents w1)"
    using commit_keyed_Inr [OF assms(1,2)] by metis
  have "documents w' Activity_Doc = a'" using x(3) assms(2) by (simp add: write_all_append write_all_other)
  then have "ledger_of (documents w' Activity_Doc) = PList (xs @ [PDict r])" by (simp add: x(2))
  then show ?thesis using x(1) assms(3) unfolding ledger_kept_def
    by (metis list.simps(8,9) map_append pyval.inject(5))
qed

lemma ledger_of_map: "map_of a' ''idempotency'' = map_of a ''idempotency'' \<Longrightarrow> ledger_of a' = ledger_of a"
  by (simp add: ledger_of_def dget_or_def)

lemma event_ledger: "event_of at a ty c t r d = Inr (ev, a') \<Longrightarrow> ledger_of a' = ledger_of a"
  by (rule ledger_of_map) (simp add: event_of_other)

lemma transition_ledger: "append_transition a t ps st r n at actor prov = Inr (item, a', t') \<Longrightarrow> ledger_of a' = ledger_of a"
  by (rule ledger_of_map) (simp add: transition_task(3))

lemma bootstrap_ledger: "append_bootstrap a t at actor prov = Inr (item, a', t') \<Longrightarrow> ledger_of a' = ledger_of a"
  by (rule ledger_of_map) (auto simp: append_bootstrap_def Let_def result_iffs dsetdefault_def)

lemma notice_ledger: "record_committed_status_notice env a u t sb sa br ar key src at = Inr (n, a') \<Longrightarrow> ledger_of a' = ledger_of a"
  by (rule ledger_of_map) (simp add: notice_keeps)

lemma move_task_ledger:
  assumes "move_task env a b k t cur st r nr prov key src w = (Inr (n, t2, b2, a2), w1)"
  shows "ledger_of a2 = ledger_of a"
proof -
  obtain item a' t' at at' t3 u nk n' where "append_transition a t cur st r n at ''local.user'' prov = Inr (item, a', t')"
    "record_committed_status_notice env a' (PStr u) t3 cur st r n (PStr nk) (PStr src) at' = Inr (n', a2)"
    using assms unfolding move_task_def
    by (simp only: runs plumbing prod.inject) (elim exE conjE, hypsubst, rule that, (assumption | rule refl)+)
  then show ?thesis by (simp add: notice_ledger transition_ledger)
qed

lemma saved_two:
  "w' = after_save [(d, x), (Activity_Doc, a)] oid w1 \<Longrightarrow> ledger_of a = ledger_of (documents w Activity_Doc) \<Longrightarrow> ledger_kept w w'"
  by (rule ledger_kept_same) simp

lemma saved_task:
  "w' = after_save [(Tasks_Doc, x), (Activity_Doc, a), (Workspace_Doc, y)] oid w1 \<Longrightarrow>
   ledger_of a = ledger_of (documents w Activity_Doc) \<Longrightarrow> ledger_kept w w'"
  by (rule ledger_kept_same) simp

lemma saved_aside:
  "w' = after_save [(d, x)] oid w1 \<Longrightarrow> d \<noteq> Activity_Doc \<Longrightarrow> documents w1 = documents w \<Longrightarrow> ledger_kept w w'"
  by (rule ledger_kept_same) simp

lemma commit_one: "commit_keyed env a key m p d st body pre [] oid w1 = (Inr (st', b), w') \<Longrightarrow>
   ledger_of a = ledger_of (documents w Activity_Doc) \<Longrightarrow> ledger_kept w w'"
  by (erule commit_keyed_ledger) simp_all

section \<open>Every command\<close>

lemma objectives_keep_ledger:
  "keeps_ledger (patch_objective_v1 env i body)" "keeps_ledger (patch_key_result_v1 env i kid body)"
  "keeps_ledger (add_key_result env i v target)" "keeps_ledger (set_key_result_progress env i kid n)"
  "keeps_ledger (add_objective env v q)"
proof -
  show "keeps_ledger (patch_objective_v1 env i body)"
  proof (rule keeps_ledgerI [OF patch_commands_atomic(1)])
    fix w p w' assume "patch_objective_v1 env i body w = (Inr p, w')"
    then show "ledger_kept w w'" unfolding patch_objective_v1_def
      by (simp only: runs plumbing) (elim exE conjE, erule saved_two, erule event_ledger)
  qed
  show "keeps_ledger (patch_key_result_v1 env i kid body)"
  proof (rule keeps_ledgerI [OF patch_commands_atomic(2)])
    fix w p w' assume "patch_key_result_v1 env i kid body w = (Inr p, w')"
    then show "ledger_kept w w'" unfolding patch_key_result_v1_def
      by (simp only: runs plumbing) (elim exE conjE, erule saved_two, erule event_ledger)
  qed
  show "keeps_ledger (add_key_result env i v target)"
  proof (rule keeps_ledgerI [OF objective_commands_atomic(3)])
    fix w p w' assume "add_key_result env i v target w = (Inr p, w')"
    then show "ledger_kept w w'" unfolding add_key_result_def
      by (simp only: runs plumbing) (elim exE conjE, erule saved_two, erule event_ledger)
  qed
  show "keeps_ledger (set_key_result_progress env i kid n)"
  proof (rule keeps_ledgerI [OF objective_commands_atomic(6)])
    fix w p w' assume "set_key_result_progress env i kid n w = (Inr p, w')"
    then show "ledger_kept w w'" unfolding set_key_result_progress_def
      by (simp only: runs plumbing) (elim exE conjE, erule saved_two, erule event_ledger)
  qed
  show "keeps_ledger (add_objective env v q)"
  proof (rule keeps_ledgerI [OF objective_commands_atomic(1)])
    fix w p w' assume "add_objective env v q w = (Inr p, w')"
    then show "ledger_kept w w'" unfolding add_objective_def
      by (simp only: runs save_one_def, elim run_new_objective) (auto simp: runs intro: saved_aside)
  qed
qed

lemma keyed_objectives_keep_ledger:
  "keeps_ledger (create_objective_v1 env body key path)" "keeps_ledger (add_key_result_v1 env i body key path)"
proof -
  show "keeps_ledger (create_objective_v1 env body key path)"
    unfolding create_objective_v1_def Let_def
  proof (intro keeps_ledger_lift keeps_ledger_keyed, (intro commits)[1], goal_cases)
    case (1 x w st b w')
    from 1(2) show ?case
      by (simp only: runs) (erule run_new_objective, simp only: runs plumbing,
        elim exE conjE, erule commit_one, drule event_ledger, simp)
  qed
  show "keeps_ledger (add_key_result_v1 env i body key path)"
    unfolding add_key_result_v1_def Let_def
  proof (intro keeps_ledger_lift keeps_ledger_keyed, (intro commits)[1], goal_cases)
    case (1 x w st b w')
    from 1(2) show ?case
      by (simp only: runs plumbing) (elim exE conjE, erule commit_one, drule event_ledger, simp)
  qed
qed

lemma edits_keep_ledger:
  "keeps_ledger (add_task_note env i v r)" "keeps_ledger (add_subtask env i v p r)" "keeps_ledger (set_subtask_status env i sid st r)"
  "keeps_ledger (link_task env oid i)"
proof -
  show "keeps_ledger (add_task_note env i v r)"
  proof (rule keeps_ledgerI [OF task_edits_atomic(1)])
    fix w x w' assume "add_task_note env i v r w = (Inr x, w')"
    then show "ledger_kept w w'" unfolding add_task_note_def save_one_def
      by (simp only: runs plumbing) (elim exE conjE, erule saved_aside, simp_all)
  qed
  show "keeps_ledger (add_subtask env i v p r)"
  proof (rule keeps_ledgerI [OF task_edits_atomic(2)])
    fix w x w' assume "add_subtask env i v p r w = (Inr x, w')"
    then show "ledger_kept w w'" unfolding add_subtask_def save_one_def
      by (simp only: runs plumbing) (elim exE conjE, erule saved_aside, simp_all)
  qed
  show "keeps_ledger (set_subtask_status env i sid st r)"
  proof (rule keeps_ledgerI [OF task_edits_atomic(3)])
    fix w x w' assume "set_subtask_status env i sid st r w = (Inr x, w')"
    then show "ledger_kept w w'" unfolding set_subtask_status_def save_one_def
      by (simp only: runs plumbing) (elim exE conjE, erule saved_aside, simp_all)
  qed
  show "keeps_ledger (link_task env oid i)"
  proof (rule keeps_ledgerI [OF objective_commands_atomic(5)])
    fix w x w' assume "link_task env oid i w = (Inr x, w')"
    then show "ledger_kept w w'" unfolding link_task_def save_one_def
      by (simp only: runs plumbing) (elim exE conjE, erule saved_aside, simp_all)
  qed
qed

lemma keyed_edits_keep_ledger:
  "keeps_ledger (add_task_note_v1 env i body key path)" "keeps_ledger (add_subtask_v1 env i body key path)"
proof -
  show "keeps_ledger (add_task_note_v1 env i body key path)"
    unfolding add_task_note_v1_def Let_def
  proof (intro keeps_ledger_lift keeps_ledger_keyed task_edits_atomic, goal_cases)
    case (1 x w st b w')
    from 1(2) show ?case unfolding note_intent_def
      by (simp only: runs plumbing) (elim exE conjE, erule commit_one, simp)
  qed
  show "keeps_ledger (add_subtask_v1 env i body key path)"
    unfolding add_subtask_v1_def Let_def
  proof (intro keeps_ledger_lift keeps_ledger_keyed task_edits_atomic, goal_cases)
    case (1 x w st b w')
    from 1(2) show ?case unfolding subtask_intent_def
      by (simp only: runs plumbing) (elim exE conjE, erule commit_one, simp)
  qed
qed

lemma creates_keep_ledger:
  "keeps_ledger (create_task_v1 env body key path)" "keeps_ledger (add_task env title detail priority due tags oids parent deps)"
proof -
  show "keeps_ledger (create_task_v1 env body key path)"
    unfolding create_task_v1_def Let_def
  proof (intro keeps_ledger_lift keeps_ledger_keyed create_commands_atomic, goal_cases)
    case (1 x c w st b w')
    let ?a = "with_ledger (documents w Activity_Doc)"
    obtain t w1 item a2 t2 x y body oid where
      bs: "append_bootstrap ?a t (utc_at env (clock_reads w1)) ''local.user'' ''api.v1'' = Inr (item, a2, t2)" and
      c: "commit_keyed env a2 key ''POST'' path (canonical_digest env (PDict c)) 201 body [(Tasks_Doc, x)] [(Workspace_Doc, y)] oid
        (tick w1) = (Inr (st, b), w')"
      using 1(3) unfolding create_intent_def
      by (auto simp: runs bind_c_Inr [of "append_task env b t1 t2 t3 t4 t5 t6 t7 t8 t9 t10" for b t1 t2 t3 t4 t5 t6 t7 t8 t9 t10])
    show ?case by (rule commit_keyed_ledger [OF c]) (simp_all add: bootstrap_ledger [OF bs])
  qed
  show "keeps_ledger (add_task env title detail priority due tags oids parent deps)"
  proof (rule keeps_ledgerI [OF create_commands_atomic(1)])
    fix w x w' assume "add_task env title detail priority due tags oids parent deps w = (Inr x, w')"
    then obtain t b2 ws' w1 item a2 where
      at: "append_task env (documents w Tasks_Doc) title detail priority due tags oids parent deps PNone PNone w = (Inr (t, b2, ws'), w1)"
      and bs: "append_bootstrap (documents w1 Activity_Doc) t (utc_at env (clock_reads w1)) ''local.user'' ''cli'' = Inr (item, a2, x)"
      and w': "documents w' Activity_Doc = a2"
      unfolding add_task_def
      by (auto simp: runs bind_c_Inr [of "append_task env b t1 t2 t3 t4 t5 t6 t7 t8 t9 t10" for b t1 t2 t3 t4 t5 t6 t7 t8 t9 t10])
    from reads_only_same [OF reads_only_append_task(2) at] bootstrap_ledger [OF bs] w'
    show "ledger_kept w w'" by (intro ledger_kept_same) simp
  qed
qed

lemma status_keeps_ledger:
  "keeps_ledger (set_task_status env i st r prov)" "keeps_ledger (set_task_status_v1 env i body key path dg)"
proof -
  show "keeps_ledger (set_task_status env i st r prov)"
    unfolding set_task_status_def case_prod_unfold
  proof (intro keeps_ledger_projected keeps_ledgerI)
    show "all_or_nothing (set_task_status_commit env i st r prov)"
      unfolding set_task_status_commit_def Let_def by (intro commits)
    fix w x w' assume "set_task_status_commit env i st r prov w = (Inr x, w')"
    then show "ledger_kept w w'" unfolding set_task_status_commit_def
      by (simp only: run_load run_lift run_if_Inr split_paired_Ex case_prod_conv Let_def
          bind_c_Inr [of "move_task env a b k t cur st' cr nr prov nk src" for a b k t cur st' cr nr nk src])
        (elim exE conjE disjE, simp add: ledger_kept_same, auto simp: runs move_task_ledger intro!: ledger_kept_same)
  qed
  show "keeps_ledger (set_task_status_v1 env i body key path dg)"
    unfolding set_task_status_v1_def
  proof (intro keeps_ledger_lift keeps_ledger_keyed, goal_cases)
    case 1
    show ?case unfolding status_intent_def Let_def by (intro commits)
  next
    case (2 b u d w st resp w')
    from 2(4) show ?case unfolding status_intent_def
      by (simp only: run_load run_lift run_if_Inr split_paired_Ex case_prod_conv Let_def
          bind_c_Inr [of "move_task env a b k t cur st' cr nr prov nk src" for a b k t cur st' cr nr prov nk src])
        (elim exE conjE disjE, (erule commit_one, simp), erule commit_one, simp add: move_task_ledger)
  qed
qed

lemma patch_keeps_ledger: "keeps_ledger (patch_task env i patch origin)"
  unfolding patch_task_def case_prod_unfold
proof (intro keeps_ledger_projected keeps_ledgerI patch_commit_atomic)
  fix w x w' assume "patch_task_commit env i patch origin w = (Inr x, w')"
  then show "ledger_kept w w'" unfolding patch_task_commit_def
  proof (simp only: run_load run_lift run_if_Inr split_paired_Ex case_prod_conv Let_def, elim exE conjE disjE, goal_cases)
    case 1
    then show ?case by (simp add: ledger_kept_same)
  next
    case (2 p k t cr u1 u2 ts objs c req changes cur)
    from 2(13) show ?case
      unfolding patch_write_def Let_def
      by (auto simp: runs event_ledger notice_ledger transition_ledger patch_transition_def intro!: ledger_kept_same split: if_splits)
  qed
qed

lemma undo_keeps_ledger: "keeps_ledger (undo_mutation_notice env nid body key path dg)"
  unfolding undo_mutation_notice_def
proof (intro keeps_ledger_lift keeps_ledger_keyed undo_atomic, goal_cases)
  case (1 u rv cid d w st resp w')
  from 1(5) show ?case unfolding undo_notice_def apply_compensation_def
    by (simp only: runs run_load run_lift split_paired_Ex case_prod_conv Let_def
        bind_c_Inr [of "required_notice env a n" for a n] bind_c_Inr [of "compensation_for env n t r" for n t r]
        bind_c_Inr [of "move_task env a b k t cur st' cr nr prov nk src" for a b k t cur st' cr nr prov nk src])
      (elim exE conjE, erule commit_one, simp add: move_task_ledger)
qed

end
