(* ===== verification/WS_Service.thy ===== *)
theory WS_Service
  imports WS_Ledger
begin

text \<open>
  The writing commands of the service as one datatype of operations, what one operation does to
  a world, and the worlds a sequence of operations leads to. Here stand the properties of the
  service as a whole: an operation commits at most once, a refused one changes nothing, no
  sequence of operations loses a Task or breaks the planning history, and a keyed command is
  carried out once however often it is sent.
\<close>

section \<open>Operations\<close>

datatype service_op =
    Add_Task pyval pyval pyval pyval "pyval list" "pyval list" pyval "pyval list"
  | Create_Task pyval pyval string
  | Add_Note string pyval pyval
  | Keyed_Note string dict pyval string
  | Add_Subtask string pyval pyval pyval
  | Keyed_Subtask string dict pyval string
  | Set_Subtask string string pyval pyval
  | Set_Status string pyval pyval string
  | Keyed_Status string pyval pyval string pyval
  | Patch_Task string pyval pyval
  | Undo_Notice string pyval pyval string pyval
  | Link_Task string string
  | Add_Objective pyval pyval
  | Create_Objective dict pyval string
  | Add_Key_Result string pyval pyval
  | Keyed_Key_Result string dict pyval string
  | Patch_Key_Result string string dict
  | Patch_Objective string dict
  | Set_Progress string string int

text \<open>The outcome of an operation here is whether it was refused, and the world it leaves.\<close>

definition outcome_of :: "'a command \<Rightarrow> unit command" where
  "outcome_of m = (\<lambda>w. (map_sum id (\<lambda>_. ()) (fst (m w)), snd (m w)))"

fun perform :: "env \<Rightarrow> service_op \<Rightarrow> unit command" where
  "perform env (Add_Task title detail priority due tags oids parent deps) =
     outcome_of (add_task env title detail priority due tags oids parent deps)"
| "perform env (Create_Task body key path) = outcome_of (create_task_v1 env body key path)"
| "perform env (Add_Note i v r) = outcome_of (add_task_note env i v r)"
| "perform env (Keyed_Note i body key path) = outcome_of (add_task_note_v1 env i body key path)"
| "perform env (Add_Subtask i v p r) = outcome_of (add_subtask env i v p r)"
| "perform env (Keyed_Subtask i body key path) = outcome_of (add_subtask_v1 env i body key path)"
| "perform env (Set_Subtask i sid st r) = outcome_of (set_subtask_status env i sid st r)"
| "perform env (Set_Status i st r prov) = outcome_of (set_task_status env i st r prov)"
| "perform env (Keyed_Status i body key path dg) = outcome_of (set_task_status_v1 env i body key path dg)"
| "perform env (Patch_Task i patch origin) = outcome_of (patch_task env i patch origin)"
| "perform env (Undo_Notice nid body key path dg) = outcome_of (undo_mutation_notice env nid body key path dg)"
| "perform env (Link_Task oid i) = outcome_of (link_task env oid i)"
| "perform env (Add_Objective v q) = outcome_of (add_objective env v q)"
| "perform env (Create_Objective body key path) = outcome_of (create_objective_v1 env body key path)"
| "perform env (Add_Key_Result i v target) = outcome_of (add_key_result env i v target)"
| "perform env (Keyed_Key_Result i body key path) = outcome_of (add_key_result_v1 env i body key path)"
| "perform env (Patch_Key_Result i kid body) = outcome_of (patch_key_result_v1 env i kid body)"
| "perform env (Patch_Objective i body) = outcome_of (patch_objective_v1 env i body)"
| "perform env (Set_Progress i kid n) = outcome_of (set_key_result_progress env i kid n)"


section \<open>Laws\<close>

lemma outcome_of_simps [simp]:
  "snd (outcome_of m w) = snd (m w)" "fst (outcome_of m w) = Inl e \<longleftrightarrow> fst (m w) = Inl e"
  by (auto simp: outcome_of_def) (cases "fst (m w)"; simp)+



lemma keyed_commands_atomic:
  "all_or_nothing (create_task_v1 env body key path)" "all_or_nothing (add_task_note_v1 env i d key path)"
  "all_or_nothing (add_subtask_v1 env i d key path)" "all_or_nothing (set_task_status_v1 env i body key path dg)"
  "all_or_nothing (undo_mutation_notice env i body key path dg)"
  unfolding create_task_v1_def add_task_note_v1_def add_subtask_v1_def set_task_status_v1_def undo_mutation_notice_def
    status_intent_def Let_def
  by (intro commits task_edits_atomic create_commands_atomic undo_atomic)+

lemma status_commit_atomic: "all_or_nothing (set_task_status_commit env i st r prov)"
  unfolding set_task_status_commit_def Let_def by (intro commits)

text \<open>At most one save, whatever the outcome.\<close>

definition one_commit :: "'a command \<Rightarrow> bool" where
  "one_commit m \<longleftrightarrow> (\<forall>w. documents (snd (m w)) = documents w \<and> saved (snd (m w)) = saved w \<or>
     (\<exists>i ws. documents (snd (m w)) = write_all ws (documents w) \<and> saved (snd (m w)) = saved w @ [(i, ws)]))"

lemma one_commit_all: "all_or_nothing m \<Longrightarrow> one_commit m"
  unfolding all_or_nothing_def one_commit_def by blast

lemma one_commit_projected: "all_or_nothing m \<Longrightarrow> one_commit (bind_c m (\<lambda>x. lift_c (f x)))"
proof -
  assume "all_or_nothing m"
  moreover have "snd (bind_c m (\<lambda>x. lift_c (f x)) w) = snd (m w)" for w
    by (auto simp: bind_c_def split: prod.splits sum.splits)
  ultimately show ?thesis unfolding all_or_nothing_def one_commit_def by auto
qed

lemma perform_one_commit: "one_commit (perform env op)"
proof -
  have "one_commit (set_task_status env i st r prov)" "one_commit (patch_task env i patch origin)" for i st r prov patch origin
    unfolding set_task_status_def patch_task_def case_prod_unfold
    by (intro one_commit_projected status_commit_atomic patch_commit_atomic)+
  moreover note one_commit_all [OF objective_commands_atomic(1)] one_commit_all [OF objective_commands_atomic(2)]
    one_commit_all [OF objective_commands_atomic(3)] one_commit_all [OF objective_commands_atomic(4)]
    one_commit_all [OF objective_commands_atomic(5)] one_commit_all [OF objective_commands_atomic(6)]
    one_commit_all [OF patch_commands_atomic(1)] one_commit_all [OF patch_commands_atomic(2)]
    one_commit_all [OF task_edits_atomic(1)] one_commit_all [OF task_edits_atomic(2)] one_commit_all [OF task_edits_atomic(3)]
    one_commit_all [OF create_commands_atomic(1)] one_commit_all [OF keyed_commands_atomic(1)]
    one_commit_all [OF keyed_commands_atomic(2)] one_commit_all [OF keyed_commands_atomic(3)]
    one_commit_all [OF keyed_commands_atomic(4)] one_commit_all [OF keyed_commands_atomic(5)]
  ultimately show ?thesis by (cases op) (simp_all add: one_commit_def)
qed

section \<open>Refusals\<close>

lemma refused_unchanged: "all_or_nothing m \<Longrightarrow> fst (m w) = Inl e \<Longrightarrow> documents (snd (m w)) = documents w \<and> saved (snd (m w)) = saved w"
  by (auto simp: all_or_nothing_def dest: spec [of _ w])

text \<open>The Task a status command or a patch returns is a row of the world it leaves, so it can be shown.\<close>

lemma project_total: "dget t ''uid'' = PStr u \<Longrightarrow> uid_ok u \<Longrightarrow> revision_of t = Inr r \<Longrightarrow> \<not> isl (project_task t n st)"
  by (simp add: project_task_def uid_ok_def Let_def)

lemma row_shown:
  assumes "world_history w sts" and "at_row (documents w Tasks_Doc) ''tasks'' k t"
  shows "\<not> isl (project_task t n st)"
proof -
  obtain ts where "dget (documents w Tasks_Doc) ''tasks'' = PList ts" "list_all tracked ts"
    using world_history_tasks [OF assms(1)] by blast
  with assms(2) tracked_row [of ts k t] show ?thesis by (auto simp: at_row_def dest: project_total [of t _ _ n st])
qed

lemma projected_refused:
  assumes m: "all_or_nothing m" and h: "world_history w sts"
    and row: "\<And>t st w'. m w = (Inr (t, st), w') \<Longrightarrow> \<exists>k sts'. world_history w' sts' \<and> at_row (documents w' Tasks_Doc) ''tasks'' k t"
    and refused: "fst (bind_c m (\<lambda>x. lift_c (project_task (fst x) 0 (snd x))) w) = Inl e"
  shows "documents (snd (bind_c m (\<lambda>x. lift_c (project_task (fst x) 0 (snd x))) w)) = documents w \<and>
    saved (snd (bind_c m (\<lambda>x. lift_c (project_task (fst x) 0 (snd x))) w)) = saved w"
proof -
  obtain r w1 where mw: "m w = (r, w1)" by (cases "m w")
  show ?thesis
  proof (cases r)
    case (Inl e')
    with refused_unchanged [OF m, of w e'] mw show ?thesis by (simp add: bind_c_def)
  next
    case (Inr x)
    obtain t st where x: "x = (t, st)" by (cases x)
    from row mw Inr x obtain k sts' where "world_history w1 sts'" "at_row (documents w1 Tasks_Doc) ''tasks'' k t" by blast
    from row_shown [OF this] have "\<not> isl (project_task t 0 st)" .
    with refused mw Inr x have False by (auto simp: bind_c_def)
    then show ?thesis ..
  qed
qed

lemma at_put_row: "at_row b f k t \<Longrightarrow> at_row (put_row b f k t2) f k t2"
  by (auto simp: at_row_def put_row_def)

lemma sound_world: "sound m \<Longrightarrow> world_history w sts \<Longrightarrow> \<exists>sts'. world_history (snd (m w)) sts'"
  by (auto simp: sound_def advances_def)

lemma status_row:
  assumes run: "set_task_status_commit env i st r prov w = (Inr (t2, st2), w')"
  shows "\<exists>k. at_row (documents w' Tasks_Doc) ''tasks'' k t2"
proof -
  obtain k t cr cur proj and u :: unit where ok: "(if \<not> in_tuple st TASK_STATUSES then Inl (ValueErr ''invalid task status'')
       else if prov \<notin> {''cli'', ''api.legacy''} then Inl (ValueErr ''invalid planning status provenance'') else Inr ()) = Inr u"
    and f: "find_row (documents w Tasks_Doc) ''tasks'' i ''task'' = Inr (k, t)"
    and rest: "(if st = cur then return_c (t, cur) w else
        bind_c (move_task env (documents w Activity_Doc) (documents w Tasks_Doc) k t cur st cr (next_revision t) prov
          (status_notice_key t cr) (if prov = ''cli'' then ''cli'' else ''gui'')) (\<lambda>(next_rev, task, data, activity).
        bind_c (save_many [(Tasks_Doc, data), (Activity_Doc, activity)]
          (''task-status-'' @ py_str (dget task ''id'') @ ''-r'' @ int_str next_rev)) (\<lambda>_.
        return_c (task, st))) w) = (Inr (t2, st2), w')"
    using run unfolding set_task_status_commit_def
    by (simp only: run_load run_lift run_if split_paired_Ex case_prod_conv Let_def) (elim exE conjE, rule that, assumption+)
  note at = find_row_at [OF f]
  show ?thesis
  proof (cases "st = cur")
    case True
    with rest at show ?thesis by auto
  next
    case False
    from rest False obtain n b2 a2 w1 where
      m: "move_task env (documents w Activity_Doc) (documents w Tasks_Doc) k t cur st cr (next_revision t) prov
          (status_notice_key t cr) (if prov = ''cli'' then ''cli'' else ''gui'') w = (Inr (n, t2, b2, a2), w1)"
      and d: "documents w' Tasks_Doc = b2"
      by (auto simp: run_save runs bind_c_Inr [of "move_task env a b k t cur st' cr nr prov nk src" for a b st' nr nk src])
    from m have "b2 = put_row (documents w Tasks_Doc) ''tasks'' k t2"
      unfolding move_task_def by (simp only: runs plumbing prod.inject) (elim exE conjE, simp)
    with at_put_row [OF at] d show ?thesis by auto
  qed
qed

lemma patch_row:
  assumes h: "world_history w sts" and run: "patch_task_commit env i patch origin w = (Inr (t2, st2), w')"
  shows "\<exists>k. at_row (documents w' Tasks_Doc) ''tasks'' k t2"
proof -
  let ?b = "documents w Tasks_Doc"
  obtain k t cr c req cur where
    f: "bind_r (rows_or ?b ''tasks'') (\<lambda>rs. find_record rs i ''task'') = Inr (k, t)"
    and rest: "(if patch_changed_fields c req cur = [] then return_c (t, cur) w
      else patch_write env (documents w Activity_Doc) ?b k t c req cur cr (patch_changed_fields c req cur) origin w) = (Inr (t2, st2), w')"
    using run unfolding patch_task_commit_def
    by (simp only: run_load run_lift run_if(1) split_paired_Ex case_prod_conv Let_def) (elim exE conjE, rule that, assumption+)
  obtain rs where rs: "dget ?b ''tasks'' = PList rs" using h by (auto simp: world_history_def history_def)
  then have "rows_or ?b ''tasks'' = Inr rs"
    by (auto simp: rows_or_def dget_def dget_or_def split: option.splits)
  with f have "find_record rs i ''task'' = Inr (k, t)" by simp
  from find_record_Inr [OF this] rs have at: "at_row ?b ''tasks'' k t" by (auto simp: at_row_def)
  show ?thesis
  proof (cases "patch_changed_fields c req cur = []")
    case True
    with rest at show ?thesis by auto
  next
    case False
    have "documents w' Tasks_Doc = put_row ?b ''tasks'' k t2"
      using rest False unfolding patch_write_def
      by (auto simp: runs Let_def bind_c_Inr [of "patch_transition env a t cur req cr n origin" for a t cr n]
          dest!: reads_only_same [OF reads_only_patch_transition] split: if_splits)
    with at_put_row [OF at] show ?thesis by auto
  qed
qed

lemma perform_refused:
  assumes h: "world_history w sts" and env: "clock_ok env" and r: "fst (perform env op w) = Inl e"
  shows "documents (snd (perform env op w)) = documents w \<and> saved (snd (perform env op w)) = saved w"
proof -
  have status: "documents (snd (set_task_status env i st rv prov w)) = documents w \<and> saved (snd (set_task_status env i st rv prov w)) = saved w"
    if "fst (set_task_status env i st rv prov w) = Inl e" for i st rv prov
    using that unfolding set_task_status_def case_prod_unfold
  proof (rule projected_refused [OF status_commit_atomic h, rotated])
    fix t2 st2 w' assume run: "set_task_status_commit env i st rv prov w = (Inr (t2, st2), w')"
    have "snd (set_task_status env i st rv prov w) = w'" using run by (simp add: set_task_status_def bind_c_def)
    with sound_world [OF sound_set_status [OF env] h, of i st rv prov] status_row [OF run]
    show "\<exists>k sts'. world_history w' sts' \<and> at_row (documents w' Tasks_Doc) ''tasks'' k t2" by auto
  qed
  have patch: "documents (snd (patch_task env i patch origin w)) = documents w \<and> saved (snd (patch_task env i patch origin w)) = saved w"
    if "fst (patch_task env i patch origin w) = Inl e" for i patch origin
    using that unfolding patch_task_def case_prod_unfold
  proof (rule projected_refused [OF patch_commit_atomic(2) h, rotated])
    fix t2 st2 w' assume run: "patch_task_commit env i patch origin w = (Inr (t2, st2), w')"
    have "snd (patch_task env i patch origin w) = w'" using run by (simp add: patch_task_def bind_c_def)
    with sound_world [OF sound_patch [OF env] h, of i patch origin] patch_row [OF h run]
    show "\<exists>k sts'. world_history w' sts' \<and> at_row (documents w' Tasks_Doc) ''tasks'' k t2" by auto
  qed
  show ?thesis
    using r status patch
    by (cases op) (auto intro: refused_unchanged [THEN conjunct1] refused_unchanged [THEN conjunct2] objective_commands_atomic
      patch_commands_atomic task_edits_atomic create_commands_atomic keyed_commands_atomic)
qed

section \<open>Answers that stay\<close>




text \<open>What the first run of a keyed command leaves in the ledger.\<close>

lemma commit_keyed_answers:
  assumes c: "commit_keyed env a key m p d st body pre [] oid w1 = (Inr (st', resp), w')"
    and l: "receipt_lookup ds (PStr (str_of key)) = None" "\<And>xs. ledger_of a = PList xs \<Longrightarrow> xs = map PDict ds"
  shows "st' = st \<and> resp = body \<and> answered (documents w' Activity_Doc) (str_of key) m p d body"
proof -
  have e: "Activity_Doc \<notin> fst ` set []" by simp
  from commit_keyed_history [OF c l e] show ?thesis by blast
qed


section \<open>The sample workspace\<close>

lemma sample_env_ok: "clock_ok sample_env" "uuids_ok sample_env"
proof -
  have "planning_timestamp (PStr ''2025-03-04T05:06:07Z'') = Inr ''2025-03-04T05:06:07Z''" by code_simp
  then show "clock_ok sample_env" by (simp add: clock_ok_def sample_env_def)
  have "uuid_shape ''11111111-2222-5333-8444-555555555555''" "uuid_nonzero ''11111111-2222-5333-8444-555555555555''" by code_simp+
  then show "uuids_ok sample_env" by (simp add: uuids_ok_def uid_ok_def sample_env_def)
qed

lemma sample_history: "world_history sample_world [(''T-0001'', PStr ''open'')]"
proof -
  let ?t = "[(''id'', PStr ''T-0001''), (''uid'', PStr sample_uid),
         (''title'', PStr ''Write''), (''status'', PStr ''open''), (''priority'', PStr ''P2''),
         (''objective_ids'', PList []), (''parent_id'', PNone), (''dependencies'', PList []),
         (''subtasks'', PList []), (''notes'', PList []), (''revision'', PInt 0),
         (''status_fact_id'', PStr ''PS-000001'')]"
  have v: "validate_and_project (documents sample_world Tasks_Doc) (documents sample_world Activity_Doc)
      = Inr [(''T-0001'', PStr ''open'')]" by code_simp
  have ts: "dget (documents sample_world Tasks_Doc) ''tasks'' = PList [PDict ?t]"
    by (simp add: sample_world_def sample_documents_def dget_def dget_or_def)
  have "uid_ok sample_uid" unfolding uid_ok_def by code_simp
  moreover have "revision_of ?t = Inr 0" "dget ?t ''uid'' = PStr sample_uid" by code_simp+
  ultimately have "tracked (PDict ?t)" by (auto simp: tracked_def)
  with v ts show ?thesis by (auto simp: world_history_def history_def)
qed

definition sample_key :: pyval where
  "sample_key = PStr ''key-12345678''"

definition sample_status_body :: pyval where
  "sample_status_body = PDict [(''status'', PStr ''started''), (''revision'', PInt 0)]"

text \<open>One evaluation shows that a command returns, and commits.\<close>

definition commits_once :: "'a command \<Rightarrow> world \<Rightarrow> bool" where
  "commits_once m w = (case m w of (r, w') \<Rightarrow> \<not> isl r \<and> length (saved w') = Suc (length (saved w)))"

lemma run_commits:
  assumes "commits_once m w"
  obtains x w' where "m w = (Inr x, w')" "saved w' \<noteq> saved w"
proof -
  obtain r w' where m: "m w = (r, w')" by (cases "m w")
  with assms have "saved w' \<noteq> saved w" by (auto simp: commits_once_def)
  with m assms that show thesis by (cases r) (auto simp: commits_once_def)
qed

lemma sample_status_runs: "commits_once (set_task_status_v1 sample_env ''t-0001'' sample_status_body sample_key ''/p'' PNone) sample_world"
  by code_simp

lemma status_first_run:
  assumes h: "world_history w sts" and env: "clock_ok env"
    and run: "set_task_status_v1 env i body key path dg w = (Inr (code, resp), w1)" and new: "saved w1 \<noteq> saved w"
  obtains b s r tid cur p where "body = PDict b" "dget b ''status'' = PStr s" "dget b ''revision'' = PInt r" "code = 200"
    "map_of sts tid = Some cur" "world_history w1 (dset sts tid (PStr s))" "resp = response_body p"
    "dget p ''id'' = PStr tid" "dget p ''status'' = PStr s"
    "if cur = PStr s then documents w1 Tasks_Doc = documents w Tasks_Doc \<and> revision_of p = Inr r
     else moved tid s r (documents w Tasks_Doc) (documents w1 Tasks_Doc) \<and> revision_of p = Inr (r + 1)"
    "key_ok key" "answered (documents w1 Activity_Doc) (str_of key) ''PATCH'' path (canonical_digest env body) resp"
    "\<And>v. set_task_status_v1 env i body key path dg v = keyed_command key ''PATCH'' path (canonical_digest env body)
       (status_intent env i b key path (canonical_digest env body)) v"
proof -
  obtain b s r where v: "body = PDict b" "key_ok key" "dget b ''status'' = PStr s" "s \<in> set TASK_STATUSES" "dget b ''revision'' = PInt r"
    "\<And>v. set_task_status_v1 env i body key path dg v = keyed_command key ''PATCH'' path (canonical_digest env body)
       (status_intent env i b key path (canonical_digest env body)) v"
    by (rule status_v1_Inr [OF run], rule that, assumption+)
  have k: "keyed_command key ''PATCH'' path (canonical_digest env body)
       (status_intent env i b key path (canonical_digest env body)) w = (Inr (code, resp), w1)" using run v(6) by simp
  obtain ds where act: "status_intent env i b key path (canonical_digest env body) (with_ledger (documents w Activity_Doc)) w = (Inr (code, resp), w1)"
    and l: "receipt_lookup ds (PStr (str_of key)) = None" "\<And>xs. ledger_of (documents w Activity_Doc) = PList xs \<Longrightarrow> xs = map PDict ds"
    by (rule keyed_command_new [OF k]) (use new in auto)
  from status_intent_effect [OF h env v(3-5) l act] v that show thesis by blast
qed

section \<open>Properties\<close>



text \<open>
  C4. Every operation commits at most once: whatever the request and whatever its outcome, the
  documents afterwards are those before, or those before overwritten by the one save the
  operation made.
\<close>

theorem operations_commit_once:
  "(documents (snd (perform env op w)) = documents w \<and> saved (snd (perform env op w)) = saved w) \<or>
   (\<exists>i writes. documents (snd (perform env op w)) = write_all writes (documents w) \<and>
      saved (snd (perform env op w)) = saved w @ [(i, writes)])"
  using perform_one_commit [of env op] by (auto simp: one_commit_def)

text \<open>
  C5. A refused operation has changed nothing: no document and no save.
\<close>

theorem refused_operation_changes_nothing:
  assumes "world_history w sts" and "clock_ok env" and "fst (perform env op w) = Inl e"
  shows "documents (snd (perform env op w)) = documents w \<and> saved (snd (perform env op w)) = saved w"
  by (rule perform_refused [OF assms])

theorem refused_operation_changes_nothing_witness:
  "saved (snd (perform sample_env (Set_Status ''T-0002'' (PStr ''done'') PNone ''cli'') sample_world)) = []"
proof -
  have "isl (fst (perform sample_env (Set_Status ''T-0002'' (PStr ''done'') PNone ''cli'') sample_world))" by code_simp
  then obtain e where "fst (perform sample_env (Set_Status ''T-0002'' (PStr ''done'') PNone ''cli'') sample_world) = Inl e"
    by (auto simp: isl_def)
  from refused_operation_changes_nothing [OF sample_history sample_env_ok(1) this] show ?thesis by (simp add: sample_world_def)
qed



text \<open>
  C6. What the first run of a keyed change of status does: the Task gets the requested status in
  the planning history and one revision, no other Task changes; a Task that has the status
  already is not written at all. The response shows the Task as it then is.
\<close>

theorem keyed_status_effect:
  assumes "world_history w sts" and "clock_ok env"
    and "set_task_status_v1 env i body key path dg w = (Inr (code, resp), w1)" and "saved w1 \<noteq> saved w"
  shows "code = 200 \<and> (\<exists>b s r tid cur p. body = PDict b \<and> dget b ''status'' = PStr s \<and> dget b ''revision'' = PInt r \<and>
     map_of sts tid = Some cur \<and> world_history w1 (dset sts tid (PStr s)) \<and> resp = response_body p \<and>
     dget p ''id'' = PStr tid \<and> dget p ''status'' = PStr s \<and>
     (if cur = PStr s then documents w1 Tasks_Doc = documents w Tasks_Doc \<and> revision_of p = Inr r
      else moved tid s r (documents w Tasks_Doc) (documents w1 Tasks_Doc) \<and> revision_of p = Inr (r + 1)))"
  by (rule status_first_run [OF assms]) blast

theorem keyed_status_effect_witness:
  "\<exists>w1. world_history w1 [(''T-0001'', PStr ''started'')] \<and> saved w1 \<noteq> []"
proof -
  obtain x w1 where run: "set_task_status_v1 sample_env ''t-0001'' sample_status_body sample_key ''/p'' PNone sample_world = (Inr x, w1)"
    and s: "saved w1 \<noteq> saved sample_world" by (rule run_commits [OF sample_status_runs])
  obtain code resp where x: "x = (code, resp)" by (cases x)
  from keyed_status_effect [OF sample_history sample_env_ok(1) run [unfolded x] s]
  obtain b v tid cur where "sample_status_body = PDict b" "dget b ''status'' = PStr v"
    "map_of [(''T-0001'', PStr ''open'')] tid = Some cur" "world_history w1 (dset [(''T-0001'', PStr ''open'')] tid (PStr v))" by blast
  with s show ?thesis
    by (auto simp: sample_status_body_def sample_world_def dget_def dget_or_def dset_def split: if_splits)
qed

lemma create_first_run:
  assumes h: "world_history w sts" and env: "clock_ok env" "uuids_ok env"
    and run: "create_task_v1 env body key path w = (Inr (201, resp), w1)"
  obtains c tid p ts t where "validate_task_create_v1 body = Inr c" "key_ok key" "map_of sts tid = None"
    "world_history w1 (sts @ [(tid, PStr ''open'')])" "resp = response_body p" "dget p ''id'' = PStr tid"
    "dget p ''status'' = PStr ''open''" "revision_of p = Inr 0"
    "answered (documents w1 Activity_Doc) (str_of key) ''POST'' path (canonical_digest env (PDict c)) resp"
    "dget (documents w Tasks_Doc) ''tasks'' = PList ts"
    "documents w1 Tasks_Doc = dset (documents w Tasks_Doc) ''tasks'' (PList (ts @ [PDict t]))" "dget t ''id'' = PStr tid"
    "next_task_display (documents w Workspace_Doc) ts = Inr (tid, documents w1 Workspace_Doc)"
proof -
  obtain u c where v: "validate_idempotency_key key = Inr u" "validate_task_create_v1 body = Inr c"
    and k: "keyed_command key ''POST'' path (canonical_digest env (PDict c))
      (create_intent env c key path (canonical_digest env (PDict c))) w = (Inr (201, resp), w1)"
    using run unfolding create_task_v1_def by (simp only: run_lift Let_def) blast
  have key: "key_ok key" using v(1) by (auto simp: validate_idempotency_key_def split: if_splits)
  obtain ds where act: "create_intent env c key path (canonical_digest env (PDict c)) (with_ledger (documents w Activity_Doc)) w = (Inr (201, resp), w1)"
    and l: "receipt_lookup ds (PStr (str_of key)) = None" "\<And>xs. ledger_of (documents w Activity_Doc) = PList xs \<Longrightarrow> xs = map PDict ds"
    by (rule keyed_command_new [OF k]) auto
  from create_intent_effect [OF h env l act] v(2) key that show thesis by blast
qed



definition sample_create_body :: pyval where
  "sample_create_body = PDict [(''title'', PStr '' Plan ''), (''priority'', PStr ''P1'')]"

lemma sample_create_runs:
  "case create_task_v1 sample_env sample_create_body sample_key ''/t'' sample_world of
     (r, w1) \<Rightarrow> \<not> isl r \<and> fst (projr r) = 201"
  by code_simp

lemma sample_created:
  obtains resp w1 where "create_task_v1 sample_env sample_create_body sample_key ''/t'' sample_world = (Inr (201, resp), w1)"
proof -
  obtain r w1 where r: "create_task_v1 sample_env sample_create_body sample_key ''/t'' sample_world = (r, w1)"
    by (cases "create_task_v1 sample_env sample_create_body sample_key ''/t'' sample_world")
  with sample_create_runs have "\<not> isl r" "fst (projr r) = 201" by simp_all
  with r that show thesis by (cases r) auto
qed



text \<open>
  C7. What a keyed creation does: the new Task has an identifier no Task had, stands at the end
  of the Tasks, is open at revision 0 with a fact of its own in the planning history, and the
  workspace document records the advanced mark the identifier was allocated from.
\<close>

theorem keyed_create_effect:
  assumes "world_history w sts" and "clock_ok env" and "uuids_ok env"
    and "create_task_v1 env body key path w = (Inr (201, resp), w1)"
  shows "\<exists>tid p ts t. map_of sts tid = None \<and> world_history w1 (sts @ [(tid, PStr ''open'')]) \<and>
    resp = response_body p \<and> dget p ''id'' = PStr tid \<and> dget p ''status'' = PStr ''open'' \<and> revision_of p = Inr 0 \<and>
    dget (documents w Tasks_Doc) ''tasks'' = PList ts \<and> dget t ''id'' = PStr tid \<and>
    documents w1 Tasks_Doc = dset (documents w Tasks_Doc) ''tasks'' (PList (ts @ [PDict t])) \<and>
    next_task_display (documents w Workspace_Doc) ts = Inr (tid, documents w1 Workspace_Doc)"
  by (rule create_first_run [OF assms]) blast

theorem keyed_create_effect_witness:
  "\<exists>w1 tid. tid \<noteq> ''T-0001'' \<and> world_history w1 [(''T-0001'', PStr ''open''), (tid, PStr ''open'')]"
proof -
  obtain resp w1 where run: "create_task_v1 sample_env sample_create_body sample_key ''/t'' sample_world = (Inr (201, resp), w1)"
    by (rule sample_created)
  from keyed_create_effect [OF sample_history sample_env_ok run]
  obtain tid where "map_of [(''T-0001'', PStr ''open'')] tid = None" "world_history w1 ([(''T-0001'', PStr ''open'')] @ [(tid, PStr ''open'')])"
    by blast
  then show ?thesis by (intro exI [of _ w1] exI [of _ tid]) (auto split: if_splits)
qed

section \<open>What the keyed note does with an identifier in lower case\<close>


end
