(* ===== verification/WS_Checkpoint.thy ===== *)
theory WS_Checkpoint
  imports WS_Patterns WS_Dates
begin

text \<open>
  \<open>workstack/checkpoint_transition.py\<close>: the pure contract of checkpoint transitions. A recorded
  work entry is active at revision 0; each transition flips it between active and superseded and
  counts one revision. The history of all entries of a workspace is validated as a whole before
  anything is projected from it. Refusals carry one of six codes and no content.
\<close>

section \<open>Vocabulary\<close>

definition CHECKPOINT_MAX :: int where
  "CHECKPOINT_MAX = 9007199254740991"

definition AGENT_ORIGIN :: string where
  "AGENT_ORIGIN = ''agent-cli-v1''"

definition CHECKPOINT_STATES :: "string list" where
  "CHECKPOINT_STATES = [''active'', ''superseded'']"

definition SUPERSEDED_CODES :: "string list" where
  "SUPERSEDED_CODES = [''incorrect'', ''duplicate'', ''obsolete'']"

definition ACTIVE_CODES :: "string list" where
  "ACTIVE_CODES = [''restore'']"

definition RECORDED_KEYS :: "string list" where
  "RECORDED_KEYS = [''type'', ''workspace_uid'', ''task_id'', ''checkpoint_id'', ''date'', ''ordinal'',
     ''entry_digest'', ''origin'']"

definition LOCATOR_KEYS :: "string list" where
  "LOCATOR_KEYS = [''workspace_uid'', ''task_id'', ''date'', ''ordinal'', ''entry_digest'']"

definition EVENT_KEYS :: "string list" where
  "EVENT_KEYS = [''type'', ''workspace_uid'', ''task_id'', ''checkpoint_id'', ''date'', ''ordinal'',
     ''entry_digest'', ''state'', ''revision'', ''reason'', ''origin'']"

definition checkpoint_fail :: "string \<Rightarrow> 'a result" where
  "checkpoint_fail code = Inl (CheckpointTransitionError code)"

definition is_task_id :: "string \<Rightarrow> bool" where
  "is_task_id s \<longleftrightarrow> take 2 s = ''T-'' \<and> 4 \<le> length (drop 2 s) \<and> all_digits (drop 2 s)"

definition is_checkpoint_id :: "string \<Rightarrow> bool" where
  "is_checkpoint_id s \<longleftrightarrow> take 3 s = ''CP-'' \<and> length (drop 3 s) = 64 \<and> list_all is_lower_hex (drop 3 s)"

definition is_entry_digest :: "string \<Rightarrow> bool" where
  "is_entry_digest s \<longleftrightarrow> take 7 s = ''sha256:'' \<and> length (drop 7 s) = 64 \<and> list_all is_lower_hex (drop 7 s)"

section \<open>Exact built-in values\<close>

definition exact_dict :: "pyval \<Rightarrow> dict result" where
  "exact_dict v = (case v of PDict d \<Rightarrow> Inr d | _ \<Rightarrow> checkpoint_fail ''malformed'')"

definition exact_list :: "pyval \<Rightarrow> pyval list result" where
  "exact_list v = (case v of PList xs \<Rightarrow> Inr xs | _ \<Rightarrow> checkpoint_fail ''malformed'')"

definition checkpoint_fields :: "pyval \<Rightarrow> string list \<Rightarrow> dict result" where
  "checkpoint_fields v expected =
     bind_r (exact_dict v) (\<lambda>d. if exact_keys d expected then Inr d else checkpoint_fail ''malformed'')"

definition checkpoint_text :: "pyval \<Rightarrow> string result" where
  "checkpoint_text v = (case v of PStr s \<Rightarrow> Inr s | _ \<Rightarrow> checkpoint_fail ''malformed'')"

definition int_in :: "pyval \<Rightarrow> int \<Rightarrow> int \<Rightarrow> int result" where
  "int_in v low high =
     (case v of PInt n \<Rightarrow> if low \<le> n \<and> n \<le> high then Inr n else checkpoint_fail ''malformed''
      | _ \<Rightarrow> checkpoint_fail ''malformed'')"

definition checkpoint_workspace_uid :: "pyval \<Rightarrow> string result" where
  "checkpoint_workspace_uid v =
     bind_r (checkpoint_text v) (\<lambda>text.
     if uuid_shape text \<and> uuid_nonzero text \<and> uuid_rfc4122 text then Inr text else checkpoint_fail ''malformed'')"

definition checkpoint_pattern :: "pyval \<Rightarrow> (string \<Rightarrow> bool) \<Rightarrow> string result" where
  "checkpoint_pattern v matches =
     bind_r (checkpoint_text v) (\<lambda>text. if matches text then Inr text else checkpoint_fail ''malformed'')"

definition calendar_date :: "pyval \<Rightarrow> string result" where
  "calendar_date v =
     bind_r (checkpoint_text v) (\<lambda>text. if canonical_date text then Inr text else checkpoint_fail ''malformed'')"

definition checkpoint_origin :: "pyval \<Rightarrow> pyval result" where
  "checkpoint_origin v =
     (if v = PNone then Inr PNone else if v = PStr AGENT_ORIGIN then Inr v else checkpoint_fail ''malformed'')"

definition checkpoint_state :: "pyval \<Rightarrow> string result" where
  "checkpoint_state v =
     bind_r (checkpoint_text v) (\<lambda>text. if text \<in> set CHECKPOINT_STATES then Inr text else checkpoint_fail ''malformed'')"

definition checkpoint_reason :: "pyval \<Rightarrow> bool \<Rightarrow> dict result" where
  "checkpoint_reason v repair =
     bind_r (checkpoint_fields v [''code'', ''explanation'']) (\<lambda>reason.
     bind_r (checkpoint_text (dget reason ''code'')) (\<lambda>code.
     bind_r (checkpoint_text (dget reason ''explanation'')) (\<lambda>explanation.
     if code \<notin> set (SUPERSEDED_CODES @ ACTIVE_CODES) then checkpoint_fail ''malformed''
     else if \<not> repair \<and> explanation \<noteq> py_strip explanation then checkpoint_fail ''malformed''
     else let explanation = py_strip explanation in
       if \<not> (1 \<le> length explanation \<and> length explanation \<le> 240) then checkpoint_fail ''malformed''
       else if 1024 < length explanation then checkpoint_fail ''malformed''
       else Inr [(''code'', PStr code), (''explanation'', PStr explanation)])))"

definition reason_for_state :: "dict \<Rightarrow> string \<Rightarrow> unit result" where
  "reason_for_state reason state =
     (if dget reason ''code'' \<in> PStr ` set (if state = ''superseded'' then SUPERSEDED_CODES else ACTIVE_CODES)
      then Inr () else checkpoint_fail ''malformed'')"

definition state_at :: "int \<Rightarrow> string" where
  "state_at revision = (if even revision then ''active'' else ''superseded'')"

definition parity :: "string \<Rightarrow> int \<Rightarrow> unit result" where
  "parity state revision =
     (if state \<noteq> state_at revision then checkpoint_fail ''history_invalid'' else Inr ())"

section \<open>Requests and events\<close>

definition normalize_transition_request :: "pyval \<Rightarrow> dict result" where
  "normalize_transition_request request =
     bind_r (checkpoint_fields request [''state'', ''revision'', ''reason'']) (\<lambda>f.
     bind_r (checkpoint_state (dget f ''state'')) (\<lambda>state.
     bind_r (int_in (dget f ''revision'') 0 CHECKPOINT_MAX) (\<lambda>revision.
     bind_r (checkpoint_reason (dget f ''reason'') True) (\<lambda>reason.
     bind_r (reason_for_state reason state) (\<lambda>_.
     Inr [(''state'', PStr state), (''revision'', PInt revision), (''reason'', PDict reason)])))))"

definition next_transition :: "pyval \<Rightarrow> dict result" where
  "next_transition context =
     bind_r (checkpoint_fields context [''current'', ''request'']) (\<lambda>f.
     bind_r (checkpoint_fields (dget f ''current'') [''state'', ''revision'']) (\<lambda>current.
     bind_r (checkpoint_state (dget current ''state'')) (\<lambda>current_state.
     bind_r (int_in (dget current ''revision'') 0 CHECKPOINT_MAX) (\<lambda>current_revision.
     bind_r (normalize_transition_request (dget f ''request'')) (\<lambda>request.
     bind_r (parity current_state current_revision) (\<lambda>_.
     if int_of (dget request ''revision'') \<noteq> current_revision then checkpoint_fail ''stale_revision''
     else if dget request ''state'' = PStr current_state then checkpoint_fail ''same_state''
     else if current_revision = CHECKPOINT_MAX then checkpoint_fail ''exhausted''
     else Inr [(''state'', dget request ''state''), (''revision'', PInt (current_revision + 1)),
            (''reason'', dget request ''reason'')]))))))"

text \<open>In the locator of a legacy entry the Task and the digest may be null.\<close>

definition checkpoint_locator :: "pyval \<Rightarrow> bool \<Rightarrow> dict result" where
  "checkpoint_locator v legacy =
     bind_r (checkpoint_fields v LOCATOR_KEYS) (\<lambda>f.
     bind_r (if legacy \<and> dget f ''task_id'' = PNone then Inr PNone
             else bind_r (checkpoint_pattern (dget f ''task_id'') is_task_id) (\<lambda>s. Inr (PStr s))) (\<lambda>task_id.
     bind_r (if legacy \<and> dget f ''entry_digest'' = PNone then Inr PNone
             else bind_r (checkpoint_pattern (dget f ''entry_digest'') is_entry_digest) (\<lambda>s. Inr (PStr s))) (\<lambda>entry_digest.
     bind_r (checkpoint_workspace_uid (dget f ''workspace_uid'')) (\<lambda>workspace_uid.
     bind_r (calendar_date (dget f ''date'')) (\<lambda>date.
     bind_r (int_in (dget f ''ordinal'') 0 CHECKPOINT_MAX) (\<lambda>ordinal.
     Inr [(''workspace_uid'', PStr workspace_uid), (''task_id'', task_id), (''date'', PStr date),
       (''ordinal'', PInt ordinal), (''entry_digest'', entry_digest)]))))))"

definition checkpoint_recorded :: "pyval \<Rightarrow> dict result" where
  "checkpoint_recorded v =
     bind_r (checkpoint_fields v RECORDED_KEYS) (\<lambda>f.
     bind_r (checkpoint_text (dget f ''type'')) (\<lambda>t.
     if t \<noteq> ''worklog.recorded'' then checkpoint_fail ''malformed''
     else
     bind_r (checkpoint_workspace_uid (dget f ''workspace_uid'')) (\<lambda>workspace_uid.
     bind_r (checkpoint_pattern (dget f ''task_id'') is_task_id) (\<lambda>task_id.
     bind_r (checkpoint_pattern (dget f ''checkpoint_id'') is_checkpoint_id) (\<lambda>checkpoint_id.
     bind_r (calendar_date (dget f ''date'')) (\<lambda>date.
     bind_r (int_in (dget f ''ordinal'') 0 CHECKPOINT_MAX) (\<lambda>ordinal.
     bind_r (checkpoint_pattern (dget f ''entry_digest'') is_entry_digest) (\<lambda>entry_digest.
     bind_r (checkpoint_origin (dget f ''origin'')) (\<lambda>origin.
     Inr [(''type'', PStr ''worklog.recorded''), (''workspace_uid'', PStr workspace_uid), (''task_id'', PStr task_id),
       (''checkpoint_id'', PStr checkpoint_id), (''date'', PStr date), (''ordinal'', PInt ordinal),
       (''entry_digest'', PStr entry_digest), (''origin'', origin)])))))))))"

definition recorded_locator :: "dict \<Rightarrow> dict" where
  "recorded_locator recorded = map (\<lambda>k. (k, dget recorded k)) LOCATOR_KEYS"

definition same_locator :: "dict \<Rightarrow> dict \<Rightarrow> bool" where
  "same_locator a b \<longleftrightarrow> list_all (\<lambda>k. dget a k = dget b k) LOCATOR_KEYS"

definition verify_locator :: "pyval \<Rightarrow> dict result" where
  "verify_locator context =
     bind_r (checkpoint_fields context [''workspace_uid'', ''checkpoint_id'', ''recorded'', ''actual_locator'']) (\<lambda>f.
     bind_r (checkpoint_workspace_uid (dget f ''workspace_uid'')) (\<lambda>workspace_uid.
     bind_r (checkpoint_pattern (dget f ''checkpoint_id'') is_checkpoint_id) (\<lambda>checkpoint_id.
     bind_r (checkpoint_recorded (dget f ''recorded'')) (\<lambda>recorded.
     bind_r (checkpoint_locator (dget f ''actual_locator'') False) (\<lambda>actual.
     if PStr workspace_uid \<noteq> dget recorded ''workspace_uid'' \<or> PStr checkpoint_id \<noteq> dget recorded ''checkpoint_id''
     then checkpoint_fail ''locator_mismatch''
     else if \<not> same_locator (recorded_locator recorded) actual then checkpoint_fail ''locator_mismatch''
     else Inr (recorded_locator recorded))))))"

definition event_type_of :: "string \<Rightarrow> string" where
  "event_type_of state = (if state = ''superseded'' then ''worklog.superseded'' else ''worklog.restored'')"

definition build_transition_event :: "pyval \<Rightarrow> dict result" where
  "build_transition_event context =
     bind_r (checkpoint_fields context [''workspace_uid'', ''checkpoint_id'', ''locator'', ''transition'', ''origin'']) (\<lambda>f.
     bind_r (checkpoint_workspace_uid (dget f ''workspace_uid'')) (\<lambda>workspace_uid.
     bind_r (checkpoint_pattern (dget f ''checkpoint_id'') is_checkpoint_id) (\<lambda>checkpoint_id.
     bind_r (checkpoint_locator (dget f ''locator'') False) (\<lambda>locator.
     bind_r (checkpoint_origin (dget f ''origin'')) (\<lambda>origin.
     bind_r (checkpoint_fields (dget f ''transition'') [''state'', ''revision'', ''reason'']) (\<lambda>transition.
     bind_r (checkpoint_state (dget transition ''state'')) (\<lambda>state.
     bind_r (int_in (dget transition ''revision'') 1 CHECKPOINT_MAX) (\<lambda>revision.
     bind_r (checkpoint_reason (dget transition ''reason'') False) (\<lambda>reason.
     bind_r (reason_for_state reason state) (\<lambda>_.
     if PStr workspace_uid \<noteq> dget locator ''workspace_uid'' then checkpoint_fail ''locator_mismatch''
     else bind_r (parity state revision) (\<lambda>_.
     Inr [(''type'', PStr (event_type_of state)), (''workspace_uid'', PStr workspace_uid),
       (''task_id'', dget locator ''task_id''), (''checkpoint_id'', PStr checkpoint_id), (''date'', dget locator ''date''),
       (''ordinal'', dget locator ''ordinal''), (''entry_digest'', dget locator ''entry_digest''),
       (''state'', PStr state), (''revision'', PInt revision), (''reason'', PDict reason), (''origin'', origin)])))))))))))"

definition checkpoint_event :: "pyval \<Rightarrow> dict result" where
  "checkpoint_event v =
     bind_r (checkpoint_fields v EVENT_KEYS) (\<lambda>f.
     bind_r (checkpoint_state (dget f ''state'')) (\<lambda>state.
     bind_r (checkpoint_text (dget f ''type'')) (\<lambda>t.
     if t \<noteq> event_type_of state then checkpoint_fail ''malformed''
     else
     bind_r (int_in (dget f ''revision'') 1 CHECKPOINT_MAX) (\<lambda>revision.
     bind_r (checkpoint_reason (dget f ''reason'') False) (\<lambda>reason.
     bind_r (reason_for_state reason state) (\<lambda>_.
     bind_r (checkpoint_workspace_uid (dget f ''workspace_uid'')) (\<lambda>workspace_uid.
     bind_r (checkpoint_pattern (dget f ''task_id'') is_task_id) (\<lambda>task_id.
     bind_r (checkpoint_pattern (dget f ''checkpoint_id'') is_checkpoint_id) (\<lambda>checkpoint_id.
     bind_r (calendar_date (dget f ''date'')) (\<lambda>date.
     bind_r (int_in (dget f ''ordinal'') 0 CHECKPOINT_MAX) (\<lambda>ordinal.
     bind_r (checkpoint_pattern (dget f ''entry_digest'') is_entry_digest) (\<lambda>entry_digest.
     bind_r (checkpoint_origin (dget f ''origin'')) (\<lambda>origin.
     Inr [(''type'', PStr t), (''workspace_uid'', PStr workspace_uid),
       (''task_id'', PStr task_id), (''checkpoint_id'', PStr checkpoint_id), (''date'', PStr date),
       (''ordinal'', PInt ordinal), (''entry_digest'', PStr entry_digest),
       (''state'', PStr state), (''revision'', PInt revision), (''reason'', PDict reason), (''origin'', origin)])))))))))))))"

definition build_transition_notice :: "pyval \<Rightarrow> pyval \<Rightarrow> dict result" where
  "build_transition_notice event event_id =
     bind_r (checkpoint_event event) (\<lambda>e.
     bind_r (int_in event_id 1 CHECKPOINT_MAX) (\<lambda>identifier.
     if dget e ''origin'' \<noteq> PStr AGENT_ORIGIN then checkpoint_fail ''malformed''
     else bind_r (parity (str_of (dget e ''state'')) (int_of (dget e ''revision''))) (\<lambda>_.
     Inr [(''event_id'', PInt identifier),
       (''kind'', PStr (if dget e ''state'' = PStr ''superseded'' then ''agent.checkpoint.superseded''
          else ''agent.checkpoint.restored'')),
       (''workspace_uid'', dget e ''workspace_uid''), (''task_id'', dget e ''task_id''), (''date'', dget e ''date''),
       (''checkpoint_id'', dget e ''checkpoint_id''), (''ordinal'', dget e ''ordinal''),
       (''entry_digest'', dget e ''entry_digest''), (''state'', dget e ''state''),
       (''transition_revision'', dget e ''revision''), (''origin'', dget e ''origin'')])))"

section \<open>The projection\<close>

text \<open>One entry with its locator; the opaque entry itself is never looked into.\<close>

record entry_row =
  row_locator :: dict
  row_recorded :: "dict option"
  row_entry :: pyval
  row_checkpoint :: "string option"
  row_state :: string
  row_revision :: int
  row_transitions :: "dict list"

definition wrapper_row :: "pyval \<Rightarrow> entry_row result" where
  "wrapper_row wrapper =
     bind_r (checkpoint_fields wrapper [''locator'', ''recorded'', ''entry'']) (\<lambda>f.
     let legacy = (dget f ''recorded'' = PNone) in
     bind_r (checkpoint_locator (dget f ''locator'') legacy) (\<lambda>locator.
     bind_r (if legacy then Inr None
             else bind_r (checkpoint_recorded (dget f ''recorded'')) (\<lambda>r. Inr (Some r))) (\<lambda>recorded.
     Inr \<lparr>row_locator = locator, row_recorded = recorded, row_entry = dget f ''entry'',
       row_checkpoint = map_option (\<lambda>r. str_of (dget r ''checkpoint_id'')) recorded,
       row_state = ''active'', row_revision = 0, row_transitions = []\<rparr>)))"

definition bind_row :: "string \<Rightarrow> entry_row \<Rightarrow> unit \<Rightarrow> unit result" where
  "bind_row workspace_uid row u =
     (if dget (row_locator row) ''workspace_uid'' \<noteq> PStr workspace_uid then checkpoint_fail ''locator_mismatch''
      else case row_recorded row of
          None \<Rightarrow> Inr ()
        | Some recorded \<Rightarrow>
            (if same_locator (recorded_locator recorded) (row_locator row) then Inr ()
             else checkpoint_fail ''locator_mismatch''))"

definition bind_rows :: "entry_row list \<Rightarrow> string \<Rightarrow> unit result" where
  "bind_rows rows workspace_uid = fold_r (bind_row workspace_uid) rows ()"

text \<open>The slots and the checkpoint identifiers seen so far.\<close>

definition check_unique ::
  "entry_row \<Rightarrow> (pyval \<times> pyval \<times> pyval) list \<times> string list \<Rightarrow> ((pyval \<times> pyval \<times> pyval) list \<times> string list) result" where
  "check_unique row seen =
     (let (slots, checkpoints) = seen; l = row_locator row;
          slot = (dget l ''workspace_uid'', dget l ''date'', dget l ''ordinal'') in
      if slot \<in> set slots then checkpoint_fail ''history_invalid''
      else case row_checkpoint row of
          None \<Rightarrow> Inr (slot # slots, checkpoints)
        | Some c \<Rightarrow>
            (if c \<in> set checkpoints then checkpoint_fail ''history_invalid''
             else Inr (slot # slots, c # checkpoints)))"

definition check_uniqueness :: "entry_row list \<Rightarrow> unit result" where
  "check_uniqueness rows = bind_r (fold_r check_unique rows ([], [])) (\<lambda>_. Inr ())"

definition carries :: "dict \<Rightarrow> entry_row \<Rightarrow> bool" where
  "carries event row \<longleftrightarrow> map_option PStr (row_checkpoint row) = Some (dget event ''checkpoint_id'') \<and>
     same_locator event (row_locator row)"

type_synonym histories = "(string \<times> dict list) list"

definition bind_transition :: "entry_row list \<Rightarrow> string \<Rightarrow> dict \<Rightarrow> histories \<Rightarrow> histories result" where
  "bind_transition rows workspace_uid event by_checkpoint =
     (if dget event ''workspace_uid'' \<noteq> PStr workspace_uid then checkpoint_fail ''locator_mismatch''
      else if \<not> list_ex (carries event) rows then checkpoint_fail ''locator_mismatch''
      else let c = str_of (dget event ''checkpoint_id'') in
        Inr (AList.update c ((case map_of by_checkpoint c of None \<Rightarrow> [] | Some h \<Rightarrow> h) @ [event]) by_checkpoint))"

definition bind_transitions :: "dict list \<Rightarrow> entry_row list \<Rightarrow> string \<Rightarrow> histories result" where
  "bind_transitions events rows workspace_uid = fold_r (bind_transition rows workspace_uid) events []"

text \<open>Encounter order is contiguous from revision 1, alternating from superseded.\<close>

fun history_from :: "nat \<Rightarrow> dict list \<Rightarrow> bool" where
  "history_from n [] = True"
| "history_from n (e # es) \<longleftrightarrow> dget e ''revision'' = PInt (int n) \<and> dget e ''state'' = PStr (state_at (int n)) \<and>
     history_from (Suc n) es"

definition check_history :: "histories \<Rightarrow> unit result" where
  "check_history by_checkpoint =
     (if list_all (\<lambda>(c, h). history_from 1 h) by_checkpoint then Inr () else checkpoint_fail ''history_invalid'')"

definition with_history :: "histories \<Rightarrow> entry_row \<Rightarrow> entry_row" where
  "with_history by_checkpoint row =
     (let h = (case row_checkpoint row of
            None \<Rightarrow> [] | Some c \<Rightarrow> if c = [] then [] else case map_of by_checkpoint c of None \<Rightarrow> [] | Some h \<Rightarrow> h) in
      if h \<noteq> []
      then row\<lparr>row_state := str_of (dget (last h) ''state''), row_revision := int_of (dget (last h) ''revision''),
            row_transitions := h\<rparr>
      else row\<lparr>row_state := ''active'', row_revision := 0, row_transitions := []\<rparr>)"

definition wrappers :: "pyval \<Rightarrow> (string \<times> entry_row list \<times> dict list) result" where
  "wrappers context =
     bind_r (checkpoint_fields context [''workspace_uid'', ''entries'', ''transitions'']) (\<lambda>f.
     bind_r (checkpoint_workspace_uid (dget f ''workspace_uid'')) (\<lambda>workspace_uid.
     bind_r (exact_list (dget f ''entries'')) (\<lambda>entries.
     bind_r (exact_list (dget f ''transitions'')) (\<lambda>transitions.
     bind_r (map_r wrapper_row entries) (\<lambda>rows.
     bind_r (map_r checkpoint_event transitions) (\<lambda>events.
     bind_r (bind_rows rows workspace_uid) (\<lambda>_.
     bind_r (bind_transitions events rows workspace_uid) (\<lambda>by_checkpoint.
     bind_r (check_uniqueness rows) (\<lambda>_.
     bind_r (check_history by_checkpoint) (\<lambda>_.
     Inr (workspace_uid, map (with_history by_checkpoint) rows, events)))))))))))"

definition project_active_entries :: "pyval \<Rightarrow> pyval list result" where
  "project_active_entries context =
     bind_r (wrappers context) (\<lambda>(workspace_uid, rows, events).
     Inr (map row_entry (filter (\<lambda>row. row_state row = ''active'') rows)))"

definition audit_row :: "entry_row \<Rightarrow> pyval" where
  "audit_row row = PDict
     [(''locator'', PDict (row_locator row)),
      (''checkpoint_id'', case row_checkpoint row of None \<Rightarrow> PNone | Some c \<Rightarrow> PStr c),
      (''entry'', row_entry row),
      (''recorded'', case row_recorded row of None \<Rightarrow> PNone | Some r \<Rightarrow> PDict r),
      (''state'', PStr (row_state row)), (''revision'', PInt (row_revision row)),
      (''transitions'', PList (map (\<lambda>event. PDict (map (\<lambda>k. (k, dget event k)) EVENT_KEYS)) (row_transitions row)))]"

definition build_audit_view :: "pyval \<Rightarrow> dict result" where
  "build_audit_view context =
     bind_r (wrappers context) (\<lambda>(workspace_uid, rows, events).
     Inr [(''workspace_uid'', PStr workspace_uid), (''entries'', PList (map audit_row rows))])"

section \<open>Laws of the validators\<close>

named_theorems checked

lemma checkpoint_fail_Inr [simp]: "checkpoint_fail c \<noteq> Inr x" "(if b then checkpoint_fail c else m) = Inr x \<longleftrightarrow> \<not> b \<and> m = Inr x"
  "(if b then m else checkpoint_fail c) = Inr x \<longleftrightarrow> b \<and> m = Inr x"
  by (simp_all add: checkpoint_fail_def)

lemma checkpoint_fields_Inr [checked]: "checkpoint_fields v ks = Inr d \<longleftrightarrow> v = PDict d \<and> exact_keys d ks"
  by (cases v) (auto simp: checkpoint_fields_def exact_dict_def result_iffs)

lemma exact_list_Inr [checked]: "exact_list v = Inr xs \<longleftrightarrow> v = PList xs"
  by (cases v) (simp_all add: exact_list_def)

lemma checkpoint_text_Inr [checked]: "checkpoint_text v = Inr s \<longleftrightarrow> v = PStr s"
  by (cases v) (simp_all add: checkpoint_text_def)

lemma int_in_Inr [checked]: "int_in v a b = Inr n \<longleftrightarrow> v = PInt n \<and> a \<le> n \<and> n \<le> b"
  by (cases v) (auto simp: int_in_def)

lemma checkpoint_uid_Inr [checked]:
  "checkpoint_workspace_uid v = Inr s \<longleftrightarrow> v = PStr s \<and> uuid_shape s \<and> uuid_nonzero s \<and> uuid_rfc4122 s"
  by (auto simp: checkpoint_workspace_uid_def result_iffs checked)

lemma checkpoint_pattern_Inr [checked]: "checkpoint_pattern v f = Inr s \<longleftrightarrow> v = PStr s \<and> f s"
  by (auto simp: checkpoint_pattern_def result_iffs checked)

lemma calendar_date_Inr [checked]: "calendar_date v = Inr s \<longleftrightarrow> v = PStr s \<and> canonical_date s"
  by (auto simp: calendar_date_def result_iffs checked)

lemma checkpoint_origin_Inr [checked]: "checkpoint_origin v = Inr w \<longleftrightarrow> w = v \<and> (v = PNone \<or> v = PStr AGENT_ORIGIN)"
  by (auto simp: checkpoint_origin_def)

lemma checkpoint_state_Inr [checked]: "checkpoint_state v = Inr s \<longleftrightarrow> v = PStr s \<and> s \<in> set CHECKPOINT_STATES"
  by (auto simp: checkpoint_state_def result_iffs checked)

lemma parity_Inr [checked]: "parity s r = Inr u \<longleftrightarrow> s = state_at r"
  by (auto simp: parity_def)

lemma reason_for_state_Inr [checked]:
  "reason_for_state d s = Inr u \<longleftrightarrow> dget d ''code'' \<in> PStr ` set (if s = ''superseded'' then SUPERSEDED_CODES else ACTIVE_CODES)"
  by (auto simp: reason_for_state_def)

text \<open>A validated reason is canonical: it passes either way and comes back as it is.\<close>

lemma reason_canonical:
  assumes "checkpoint_reason v b = Inr d"
  shows "checkpoint_reason (PDict d) b' = Inr d"
proof -
  obtain code ex where c: "code \<in> set (SUPERSEDED_CODES @ ACTIVE_CODES)" "1 \<le> length (py_strip ex)" "length (py_strip ex) \<le> 240"
    and d: "d = [(''code'', PStr code), (''explanation'', PStr (py_strip ex))]"
    using assms by (auto simp: checkpoint_reason_def result_iffs checked Let_def)
  have "exact_keys d [''code'', ''explanation'']" by (auto simp: d exact_keys_def dkeys_def dhas_def)
  then show ?thesis using c by (simp add: checkpoint_reason_def checkpoint_fields_def exact_dict_def checkpoint_text_def d dget_def dget_or_def)
qed

lemma request_canonical:
  assumes "normalize_transition_request v = Inr q"
  shows "normalize_transition_request (PDict q) = Inr q"
proof -
  obtain f state n reason where r: "checkpoint_reason (dget f ''reason'') True = Inr reason"
    and c: "state \<in> set CHECKPOINT_STATES" "0 \<le> n" "n \<le> CHECKPOINT_MAX" "reason_for_state reason state = Inr ()"
    and q: "q = [(''state'', PStr state), (''revision'', PInt n), (''reason'', PDict reason)]"
    using assms by (auto simp: normalize_transition_request_def result_iffs checked)
  have "exact_keys q [''state'', ''revision'', ''reason'']" by (auto simp: q exact_keys_def dkeys_def dhas_def)
  then show ?thesis
    using c reason_canonical [OF r]
    by (simp add: normalize_transition_request_def checkpoint_fields_def exact_dict_def checkpoint_state_def checkpoint_text_def
        int_in_def q dget_def dget_or_def)
qed

lemma next_transition_Inr:
  "next_transition (PDict [(''current'', PDict [(''state'', PStr s), (''revision'', PInt n)]), (''request'', request)]) = Inr tr \<longleftrightarrow>
   (\<exists>q. normalize_transition_request request = Inr q \<and> s \<in> set CHECKPOINT_STATES \<and> s = state_at n \<and> 0 \<le> n \<and> n < CHECKPOINT_MAX \<and>
     dget q ''revision'' = PInt n \<and> dget q ''state'' \<noteq> PStr s \<and>
     tr = [(''state'', dget q ''state''), (''revision'', PInt (n + 1)), (''reason'', dget q ''reason'')])" (is "?l \<longleftrightarrow> ?r")
proof -
  have k: "exact_keys [(''current'', x), (''request'', request)] [''current'', ''request'']" for x
    by (auto simp: exact_keys_def dkeys_def dhas_def)
  have k': "exact_keys [(''state'', PStr s), (''revision'', PInt n)] [''state'', ''revision'']"
    by (auto simp: exact_keys_def dkeys_def dhas_def)
  have "\<exists>m. dget q ''revision'' = PInt m" if "normalize_transition_request request = Inr q" for q
    using that by (auto simp: normalize_transition_request_def result_iffs checked dget_def dget_or_def)
  then have d: "normalize_transition_request request = Inr q \<Longrightarrow> (int_of (dget q ''revision'') = n \<longleftrightarrow> dget q ''revision'' = PInt n) \<and>
      ((dget q ''revision'' = PInt (int_of (dget q ''revision''))) = True)" for q
    by force
  show ?thesis
    unfolding next_transition_def
    by (auto simp: checkpoint_fields_def exact_dict_def k k' result_iffs checked dget_def [of "_ # _"] dget_or_def [of "_ # _"]
        d)
qed

definition locator_ok :: "dict \<Rightarrow> bool" where
  "locator_ok l \<longleftrightarrow> exact_keys l LOCATOR_KEYS \<and>
     (\<exists>w t d n e. dget l ''workspace_uid'' = PStr w \<and> uuid_shape w \<and> uuid_nonzero w \<and> uuid_rfc4122 w \<and>
        dget l ''task_id'' = PStr t \<and> is_task_id t \<and> dget l ''date'' = PStr d \<and> canonical_date d \<and>
        dget l ''ordinal'' = PInt n \<and> 0 \<le> n \<and> n \<le> CHECKPOINT_MAX \<and>
        dget l ''entry_digest'' = PStr e \<and> is_entry_digest e)"

lemma locator_canonical:
  assumes "checkpoint_locator v legacy = Inr l"
  shows "exact_keys l LOCATOR_KEYS" and "legacy = False \<Longrightarrow> locator_ok l"
  using assms
  by (auto simp: checkpoint_locator_def locator_ok_def result_iffs checked exact_keys_def LOCATOR_KEYS_def dkeys_def dhas_def
      dget_def dget_or_def split: if_splits)

lemma locator_again: "locator_ok l \<Longrightarrow>
  checkpoint_locator (PDict l) False = Inr (map (\<lambda>k. (k, dget l k)) LOCATOR_KEYS)"
  by (auto simp: checkpoint_locator_def locator_ok_def checkpoint_fields_def exact_dict_def checkpoint_pattern_def checkpoint_text_def
      checkpoint_workspace_uid_def calendar_date_def int_in_def LOCATOR_KEYS_def)

text \<open>The event of an accepted transition, on the locator of its entry.\<close>

definition event_of_transition :: "string \<Rightarrow> string \<Rightarrow> dict \<Rightarrow> dict \<Rightarrow> pyval \<Rightarrow> dict" where
  "event_of_transition w c l tr orig =
     [(''type'', PStr (event_type_of (str_of (dget tr ''state'')))), (''workspace_uid'', PStr w),
       (''task_id'', dget l ''task_id''), (''checkpoint_id'', PStr c), (''date'', dget l ''date''),
       (''ordinal'', dget l ''ordinal''), (''entry_digest'', dget l ''entry_digest''),
       (''state'', dget tr ''state''), (''revision'', dget tr ''revision''), (''reason'', dget tr ''reason''), (''origin'', orig)]"

definition transition_context :: "string \<Rightarrow> string \<Rightarrow> dict \<Rightarrow> dict \<Rightarrow> pyval \<Rightarrow> pyval" where
  "transition_context w c l tr orig = PDict
     [(''workspace_uid'', PStr w), (''checkpoint_id'', PStr c), (''locator'', PDict l), (''transition'', PDict tr), (''origin'', orig)]"

lemma transition_parts:
  assumes "next_transition (PDict [(''current'', PDict [(''state'', PStr s), (''revision'', PInt n)]), (''request'', request)]) = Inr tr"
  obtains t reason where "s = state_at n" "t = state_at (n + 1)" "dget tr ''state'' = PStr t" "dget tr ''revision'' = PInt (n + 1)"
    "dget tr ''reason'' = PDict reason" "checkpoint_reason (PDict reason) False = Inr reason" "reason_for_state reason t = Inr ()"
    "exact_keys tr [''state'', ''revision'', ''reason'']" "0 \<le> n" "n < CHECKPOINT_MAX" "t \<in> set CHECKPOINT_STATES"
proof -
  obtain q where q: "normalize_transition_request request = Inr q" "s \<in> set CHECKPOINT_STATES" "s = state_at n" "0 \<le> n" "n < CHECKPOINT_MAX"
    "dget q ''revision'' = PInt n" "dget q ''state'' \<noteq> PStr s"
    "tr = [(''state'', dget q ''state''), (''revision'', PInt (n + 1)), (''reason'', dget q ''reason'')]"
    using assms by (auto simp: next_transition_Inr)
  obtain f t m reason where r: "checkpoint_reason (dget f ''reason'') True = Inr reason" "t \<in> set CHECKPOINT_STATES"
    "reason_for_state reason t = Inr ()" "q = [(''state'', PStr t), (''revision'', PInt m), (''reason'', PDict reason)]"
    using q(1) by (auto simp: normalize_transition_request_def result_iffs checked)
  have "t \<noteq> s" using q(7) r(4) by (simp add: dget_def dget_or_def)
  then have "t = state_at (n + 1)" using r(2) q(2,3) by (auto simp: state_at_def CHECKPOINT_STATES_def)
  then show thesis
    using q r reason_canonical [OF r(1), of False]
    by (intro that [of t reason]) (auto simp: dget_def dget_or_def exact_keys_def dkeys_def dhas_def)
qed

lemma event_built:
  assumes tr: "next_transition (PDict [(''current'', PDict [(''state'', PStr s), (''revision'', PInt n)]), (''request'', request)]) = Inr tr"
    and l: "locator_ok l" "dget l ''workspace_uid'' = PStr w" and c: "is_checkpoint_id c" and o1: "checkpoint_origin orig = Inr orig"
  shows "build_transition_event (transition_context w c l tr orig) = Inr (event_of_transition w c l tr orig)"
    and "checkpoint_event (PDict (event_of_transition w c l tr orig)) = Inr (event_of_transition w c l tr orig)"
proof -
  obtain t reason where t: "t = state_at (n + 1)" "dget tr ''state'' = PStr t" "dget tr ''revision'' = PInt (n + 1)"
    "dget tr ''reason'' = PDict reason" "checkpoint_reason (PDict reason) False = Inr reason" "reason_for_state reason t = Inr ()"
    "exact_keys tr [''state'', ''revision'', ''reason'']" "0 \<le> n" "n < CHECKPOINT_MAX" "t \<in> set CHECKPOINT_STATES"
    by (rule transition_parts [OF tr])
  let ?l = "map (\<lambda>k. (k, dget l k)) LOCATOR_KEYS"
  have same: "dget ?l k = dget l k" if "k \<in> set LOCATOR_KEYS" for k
    using that by (auto simp: LOCATOR_KEYS_def dget_def dget_or_def)
  have g: "dget ?l ''workspace_uid'' = PStr w" "dget ?l ''task_id'' = dget l ''task_id''" "dget ?l ''date'' = dget l ''date''"
    "dget ?l ''ordinal'' = dget l ''ordinal''" "dget ?l ''entry_digest'' = dget l ''entry_digest''"
    using l(2) by (simp_all add: same LOCATOR_KEYS_def [THEN arg_cong [of _ _ set]])
  have uid: "checkpoint_workspace_uid (PStr w) = Inr w" using l by (auto simp: locator_ok_def checked)
  have cp: "checkpoint_pattern (PStr c) is_checkpoint_id = Inr c" using c by (simp add: checked)
  have st: "checkpoint_state (PStr t) = Inr t" and rv: "int_in (PInt (n + 1)) 1 CHECKPOINT_MAX = Inr (n + 1)"
    and par: "parity t (n + 1) = Inr ()" using t by (simp_all add: checked)
  note loc = locator_again [OF l(1)]
  have ctx: "checkpoint_fields (transition_context w c l tr orig)
      [''workspace_uid'', ''checkpoint_id'', ''locator'', ''transition'', ''origin''] =
      Inr [(''workspace_uid'', PStr w), (''checkpoint_id'', PStr c), (''locator'', PDict l), (''transition'', PDict tr), (''origin'', orig)]"
    by (auto simp: transition_context_def checked exact_keys_def dkeys_def dhas_def)
  have trf: "checkpoint_fields (PDict tr) [''state'', ''revision'', ''reason''] = Inr tr" using t(7) by (simp add: checked)
  show "build_transition_event (transition_context w c l tr orig) = Inr (event_of_transition w c l tr orig)"
    unfolding build_transition_event_def ctx event_of_transition_def
    by (simp add: dget_def [of "_ # _"] dget_or_def [of "_ # _"] uid cp loc o1 trf t(2-6) st rv par g)
  let ?e = "event_of_transition w c l tr orig"
  have d: "dget ?e ''type'' = PStr (event_type_of t)" "dget ?e ''workspace_uid'' = PStr w" "dget ?e ''task_id'' = dget l ''task_id''"
    "dget ?e ''checkpoint_id'' = PStr c" "dget ?e ''date'' = dget l ''date''" "dget ?e ''ordinal'' = dget l ''ordinal''"
    "dget ?e ''entry_digest'' = dget l ''entry_digest''" "dget ?e ''state'' = PStr t" "dget ?e ''revision'' = PInt (n + 1)"
    "dget ?e ''reason'' = PDict reason" "dget ?e ''origin'' = orig"
    by (simp_all add: event_of_transition_def dget_def [of "_ # _"] dget_or_def [of "_ # _"] t(2-4))
  have ek: "checkpoint_fields (PDict ?e) EVENT_KEYS = Inr ?e"
    by (auto simp: checked exact_keys_def dkeys_def dhas_def event_of_transition_def EVENT_KEYS_def)
  obtain ti da od ed where v: "dget l ''task_id'' = PStr ti" "is_task_id ti" "dget l ''date'' = PStr da" "canonical_date da"
    "dget l ''ordinal'' = PInt od" "0 \<le> od" "od \<le> CHECKPOINT_MAX" "dget l ''entry_digest'' = PStr ed" "is_entry_digest ed"
    using l(1) by (auto simp: locator_ok_def)
  have vs: "checkpoint_pattern (PStr ti) is_task_id = Inr ti" "calendar_date (PStr da) = Inr da"
    "int_in (PInt od) 0 CHECKPOINT_MAX = Inr od" "checkpoint_pattern (PStr ed) is_entry_digest = Inr ed"
    "checkpoint_text (PStr (event_type_of t)) = Inr (event_type_of t)" using v by (simp_all add: checked)
  have "checkpoint_event (PDict ?e) = Inr
      [(''type'', PStr (event_type_of t)), (''workspace_uid'', PStr w), (''task_id'', PStr ti), (''checkpoint_id'', PStr c),
       (''date'', PStr da), (''ordinal'', PInt od), (''entry_digest'', PStr ed), (''state'', PStr t), (''revision'', PInt (n + 1)),
       (''reason'', PDict reason), (''origin'', orig)]"
    unfolding checkpoint_event_def ek by (simp add: d v(1,3,5,8) vs st rv t(5,6) uid cp o1)
  then show "checkpoint_event (PDict ?e) = Inr ?e" by (simp add: event_of_transition_def t(2-4) v(1,3,5,8))
qed

end
