(* ===== verification/WS_CheckpointHistory.thy ===== *)
theory WS_CheckpointHistory
  imports WS_Checkpoint
begin

text \<open>
  The laws of the checkpoint projection of \<open>workstack/checkpoint_transition.py\<close>: what a validated
  context says about each of its rows, and that the event of an accepted transition, appended to the
  recorded ones, is accepted and moves exactly its own row.
\<close>

section \<open>The events of one checkpoint\<close>

definition events_of :: "dict list \<Rightarrow> string \<Rightarrow> dict list" where
  "events_of events c = filter (\<lambda>e. dget e ''checkpoint_id'' = PStr c) events"

lemma events_of_snoc: "events_of (es @ [e]) c = events_of es c @ (if dget e ''checkpoint_id'' = PStr c then [e] else [])"
  by (simp add: events_of_def)

definition or_none :: "'a list option \<Rightarrow> 'a list" where
  "or_none o1 = (case o1 of None \<Rightarrow> [] | Some h \<Rightarrow> h)"

lemma or_none_simps [simp]: "or_none None = []" "or_none (Some h) = h"
  by (simp_all add: or_none_def)

lemma bind_transition_Inr:
  "bind_transition rows w e h = Inr h' \<longleftrightarrow> dget e ''workspace_uid'' = PStr w \<and> list_ex (carries e) rows \<and>
     h' = AList.update (str_of (dget e ''checkpoint_id'')) (or_none (map_of h (str_of (dget e ''checkpoint_id''))) @ [e]) h"
  by (auto simp: bind_transition_def or_none_def Let_def)

lemma bind_transitions_snoc:
  "bind_transitions (es @ [e]) rows w = bind_r (bind_transitions es rows w) (bind_transition rows w e)"
  by (simp add: bind_transitions_def fold_r_append bind_r_def split: sum.split)

lemma carries_checkpoint: "list_ex (carries e) rows \<Longrightarrow> \<exists>c. dget e ''checkpoint_id'' = PStr c"
  by (auto simp: carries_def list_ex_iff intro: sym)

lemma bind_transitions_lookup:
  assumes "bind_transitions es rows w = Inr h"
  shows "or_none (map_of h c) = events_of es c" and "list_all (\<lambda>e. list_ex (carries e) rows) es"
  using assms
proof (induction es arbitrary: h rule: rev_induct)
  case Nil
  { case 1 then show ?case by (simp add: bind_transitions_def events_of_def) }
  { case 2 then show ?case by simp }
next
  case (snoc e es)
  { case 1
    then obtain g where g: "bind_transitions es rows w = Inr g" and s: "bind_transition rows w e g = Inr h"
      by (auto simp: bind_transitions_snoc result_iffs)
    then obtain d where d: "dget e ''checkpoint_id'' = PStr d" using carries_checkpoint by (auto simp: bind_transition_Inr)
    show ?case using s snoc.IH(1) [OF g] by (cases "c = d") (auto simp: bind_transition_Inr events_of_snoc update_conv' d) }
  { case 2 then show ?case using snoc.IH(2) by (auto simp: bind_transitions_snoc result_iffs bind_transition_Inr) }
qed

lemma list_all_update: "list_all P h \<Longrightarrow> P (c, v) \<Longrightarrow> list_all P (AList.update c v h)"
  by (induction h) auto

lemma list_all_map_of: "list_all P h \<Longrightarrow> map_of h c = Some v \<Longrightarrow> P (c, v)"
  by (induction h) (auto split: if_splits)

lemma check_history_Inr [checked]: "check_history h = Inr u \<longleftrightarrow> list_all (\<lambda>(c, es). history_from 1 es) h"
  by (simp add: check_history_def)

section \<open>Contiguous, alternating histories\<close>

lemma history_from_snoc:
  "history_from n (es @ [e]) \<longleftrightarrow> history_from n es \<and> dget e ''revision'' = PInt (int (n + length es)) \<and>
     dget e ''state'' = PStr (state_at (int (n + length es)))"
  by (induction es arbitrary: n) (auto simp: ac_simps)

lemma history_from_nth:
  assumes "history_from n es" and "k < length es"
  shows "dget (es ! k) ''revision'' = PInt (int (n + k))" and "dget (es ! k) ''state'' = PStr (state_at (int (n + k)))"
  using assms
proof (induction es arbitrary: n k)
  case (Cons e es)
  { case 1 then show ?case using Cons.IH(1) [of "Suc n" "k - 1"] by (cases k) auto }
  { case 2 then show ?case using Cons.IH(2) [of "Suc n" "k - 1"] by (cases k) auto }
qed simp_all

definition settled :: "entry_row \<Rightarrow> dict list \<Rightarrow> entry_row" where
  "settled row h = row\<lparr>row_state := state_at (int (length h)), row_revision := int (length h), row_transitions := h\<rparr>"

lemma settled_fields [simp]:
  "row_locator (settled r h) = row_locator r" "row_recorded (settled r h) = row_recorded r" "row_entry (settled r h) = row_entry r"
  "row_checkpoint (settled r h) = row_checkpoint r" "row_state (settled r h) = state_at (int (length h))"
  "row_revision (settled r h) = int (length h)" "row_transitions (settled r h) = h"
  by (simp_all add: settled_def)

lemma settled_again [simp]: "settled (settled r h) h' = settled r h'"
  by (simp add: settled_def)

definition row_history :: "dict list \<Rightarrow> entry_row \<Rightarrow> dict list" where
  "row_history es row = (case row_checkpoint row of None \<Rightarrow> [] | Some c \<Rightarrow> events_of es c)"

lemma row_history_settled [simp]: "row_history es (settled r h) = row_history es r"
  by (simp add: row_history_def)

lemma with_history_settled:
  assumes h: "\<And>c. or_none (map_of h c) = events_of es c" "check_history h = Inr ()" and c: "row_checkpoint row \<noteq> Some []"
  shows "with_history h row = settled row (row_history es row)" and "history_from 1 (row_history es row)"
proof -
  define g where "g = row_history es row"
  have g: "(case row_checkpoint row of None \<Rightarrow> [] | Some c \<Rightarrow> if c = [] then [] else case map_of h c of None \<Rightarrow> [] | Some h \<Rightarrow> h) = g"
    using c by (auto simp: g_def row_history_def h(1) [symmetric] or_none_def split: option.splits)
  show hist: "history_from 1 (row_history es row)"
    using list_all_map_of [OF h(2) [unfolded check_history_Inr]]
    by (fastforce simp: row_history_def h(1) [symmetric] or_none_def split: option.splits)
  have "dget (last g) ''revision'' = PInt (int (length g))" "dget (last g) ''state'' = PStr (state_at (int (length g)))"
    if "g \<noteq> []" using history_from_nth [OF hist [folded g_def], of "length g - 1"] that by (simp_all add: last_conv_nth)
  then show "with_history h row = settled row (row_history es row)"
    by (cases "g = []") (simp_all add: with_history_def g g_def [symmetric] settled_def state_at_def)
qed

section \<open>A validated context\<close>

definition history_context :: "string \<Rightarrow> pyval list \<Rightarrow> pyval list \<Rightarrow> pyval" where
  "history_context w entries transitions =
     PDict [(''workspace_uid'', PStr w), (''entries'', PList entries), (''transitions'', PList transitions)]"

text \<open>The rows as their wrappers give them, before any event is laid on them.\<close>

definition fresh_rows :: "string \<Rightarrow> pyval list \<Rightarrow> entry_row list \<Rightarrow> bool" where
  "fresh_rows w entries rows \<longleftrightarrow> checkpoint_workspace_uid (PStr w) = Inr w \<and> map_r wrapper_row entries = Inr rows \<and>
     bind_rows rows w = Inr () \<and> check_uniqueness rows = Inr ()"

lemma wrapper_row_checkpoint: "wrapper_row v = Inr row \<Longrightarrow> row_checkpoint row = Some c \<Longrightarrow> is_checkpoint_id c"
  by (auto simp: wrapper_row_def checkpoint_recorded_def result_iffs checked Let_def dget_def dget_or_def split: if_splits)

lemma wrapper_row_locator:
  "wrapper_row v = Inr row \<Longrightarrow> row_checkpoint row = Some c \<Longrightarrow> locator_ok (row_locator row)"
  by (auto simp: wrapper_row_def result_iffs checked Let_def locator_canonical split: if_splits)

lemma fresh_row:
  assumes "fresh_rows w entries rows" and "row \<in> set rows" and "row_checkpoint row = Some c"
  shows "is_checkpoint_id c" "locator_ok (row_locator row)" "dget (row_locator row) ''workspace_uid'' = PStr w" "c \<noteq> []"
proof -
  obtain v where "wrapper_row v = Inr row" using assms(1,2) by (auto simp: fresh_rows_def map_r_Inr dest: list_all2_right)
  then show "is_checkpoint_id c" "locator_ok (row_locator row)"
    using assms(3) by (simp_all add: wrapper_row_checkpoint wrapper_row_locator)
  then show "c \<noteq> []" by (auto simp: is_checkpoint_id_def)
  have "bind_row w row () = Inr ()"
    using assms(1,2) by (auto simp: fresh_rows_def bind_rows_def fold_r_unit_Inr)
  then show "dget (row_locator row) ''workspace_uid'' = PStr w" by (simp add: bind_row_def)
qed

lemma wrappers_Inr:
  "wrappers (history_context w entries transitions) = Inr (w', rows, events) \<longleftrightarrow>
     w' = w \<and> (\<exists>fresh h. fresh_rows w entries fresh \<and> map_r checkpoint_event transitions = Inr events \<and>
       bind_transitions events fresh w = Inr h \<and> check_history h = Inr () \<and> rows = map (with_history h) fresh)"
proof -
  have k: "exact_keys [(''workspace_uid'', a), (''entries'', b), (''transitions'', c)] [''workspace_uid'', ''entries'', ''transitions'']"
    for a b c by (auto simp: exact_keys_def dkeys_def dhas_def)
  show ?thesis
    unfolding wrappers_def history_context_def fresh_rows_def
    by (auto simp: result_iffs checkpoint_fields_Inr exact_list_Inr k dget_def [of "_ # _"] dget_or_def [of "_ # _"]
        checkpoint_uid_Inr)
qed


lemma check_unique_Inr:
  "check_unique row (slots, cs) = Inr seen \<Longrightarrow>
     (\<forall>c. row_checkpoint row = Some c \<longrightarrow> c \<notin> set cs \<and> set (snd seen) = insert c (set cs)) \<and> set cs \<subseteq> set (snd seen)"
  by (auto simp: check_unique_def Let_def split: if_splits option.splits)

lemma unique_checkpoints:
  assumes "fold_r check_unique rows seen = Inr seen'" and "i < length rows" and "row_checkpoint (rows ! i) = Some c"
  shows "c \<notin> set (snd seen)" and "\<And>j. j < length rows \<Longrightarrow> row_checkpoint (rows ! j) = Some c \<Longrightarrow> j = i"
proof -
  have fresh: "c \<notin> set (snd seen)" if "fold_r check_unique rows seen = Inr seen'" "row \<in> set rows" "row_checkpoint row = Some c"
    for rows seen row
    using that
  proof (induction rows arbitrary: seen)
    case (Cons r rows seen)
    obtain slots cs where seen: "seen = (slots, cs)" by (cases seen)
    obtain mid where m: "check_unique r seen = Inr mid" "fold_r check_unique rows mid = Inr seen'"
      using Cons.prems(1) by (auto simp: result_iffs)
    show ?case using Cons.IH [OF m(2)] check_unique_Inr [OF m(1) [unfolded seen]] Cons.prems(2,3) by (auto simp: seen)
  qed simp
  show "c \<notin> set (snd seen)" by (rule fresh [OF assms(1) nth_mem]) (use assms in auto)
  show "j = i" if "j < length rows" "row_checkpoint (rows ! j) = Some c" for j
    using assms that
  proof (induction rows arbitrary: seen i j)
    case (Cons r rows seen)
    obtain slots cs where seen: "seen = (slots, cs)" by (cases seen)
    obtain mid where m: "check_unique r seen = Inr mid" "fold_r check_unique rows mid = Inr seen'"
      using Cons.prems(1) by (auto simp: result_iffs)
    have r: "row_checkpoint r \<noteq> Some c" if "row \<in> set rows" "row_checkpoint row = Some c" for row
      using fresh [OF m(2) that] check_unique_Inr [OF m(1) [unfolded seen]] by auto
    have "row_checkpoint r \<noteq> Some c" if "k < length rows" "row_checkpoint (rows ! k) = Some c" for k
      using r [OF nth_mem] that by blast
    then show ?case using Cons.IH [OF m(2)] Cons.prems(2-5) by (cases i; cases j) auto
  qed simp
qed

lemma fresh_unique:
  "fresh_rows w entries rows \<Longrightarrow> i < length rows \<Longrightarrow> j < length rows \<Longrightarrow> row_checkpoint (rows ! i) = Some c \<Longrightarrow>
     row_checkpoint (rows ! j) = Some c \<Longrightarrow> j = i"
  by (auto simp: fresh_rows_def check_uniqueness_def result_iffs dest: unique_checkpoints(2))

lemma wrappers_settled:
  assumes "wrappers (history_context w entries transitions) = Inr (w', rows, events)"
  obtains fresh h where "w' = w" "fresh_rows w entries fresh" "map_r checkpoint_event transitions = Inr events"
    "bind_transitions events fresh w = Inr h" "check_history h = Inr ()"
    "rows = map (\<lambda>r. settled r (row_history events r)) fresh"
    "\<forall>r \<in> set fresh. history_from 1 (row_history events r)"
proof -
  obtain fresh h where f: "w' = w" "fresh_rows w entries fresh" "map_r checkpoint_event transitions = Inr events"
    "bind_transitions events fresh w = Inr h" "check_history h = Inr ()" "rows = map (with_history h) fresh"
    using assms by (auto simp: wrappers_Inr)
  have n: "row_checkpoint r \<noteq> Some []" if "r \<in> set fresh" for r using fresh_row(4) [OF f(2) that] by blast
  note s = with_history_settled [OF bind_transitions_lookup(1) [OF f(4)] f(5) n]
  show thesis
    by (rule that [OF f(1-5)]) (use s f(6) in auto)
qed

text \<open>The event of an accepted transition, appended: the other rows keep their histories.\<close>

definition flipped :: "entry_row \<Rightarrow> dict \<Rightarrow> entry_row" where
  "flipped row ev = row\<lparr>row_state := state_at (row_revision row + 1), row_revision := row_revision row + 1,
     row_transitions := row_transitions row @ [ev]\<rparr>"

lemma transition_appends:
  assumes "wrappers (history_context w entries transitions) = Inr (w', rows, events)"
    and "i < length rows" and "row_checkpoint (rows ! i) = Some c"
    and "next_transition (PDict [(''current'', PDict [(''state'', PStr (row_state (rows ! i))), (''revision'', PInt (row_revision (rows ! i)))]),
           (''request'', request)]) = Inr tr"
    and "checkpoint_origin orig = Inr orig"
  shows "\<exists>ev. build_transition_event (transition_context w c (row_locator (rows ! i)) tr orig) = Inr ev \<and>
    wrappers (history_context w entries (transitions @ [PDict ev])) = Inr (w', rows[i := flipped (rows ! i) ev], events @ [ev])"
proof -
  obtain fresh h where f: "w' = w" "fresh_rows w entries fresh" "map_r checkpoint_event transitions = Inr events"
    "bind_transitions events fresh w = Inr h" "check_history h = Inr ()"
    "rows = map (\<lambda>r. settled r (row_history events r)) fresh"
    "\<forall>r \<in> set fresh. history_from 1 (row_history events r)"
    by (rule wrappers_settled [OF assms(1)])
  have i: "i < length fresh" and r: "rows ! i = settled (fresh ! i) (row_history events (fresh ! i))"
    and c: "row_checkpoint (fresh ! i) = Some c" using assms(2,3) f(6) by auto
  let ?l = "row_locator (fresh ! i)" and ?n = "row_revision (rows ! i)"
  note fr = fresh_row [OF f(2) nth_mem [OF i] c]
  define ev where "ev = event_of_transition w c ?l tr orig"
  obtain t where t: "t = state_at (?n + 1)" "dget tr ''state'' = PStr t" "dget tr ''revision'' = PInt (?n + 1)"
    by (rule transition_parts [OF assms(4)])
  note built = event_built [OF assms(4) fr(2,3,1) assms(5), folded ev_def]
  have evd: "dget ev ''checkpoint_id'' = PStr c" "dget ev ''revision'' = PInt (?n + 1)" "dget ev ''state'' = PStr (state_at (?n + 1))"
    "dget ev ''workspace_uid'' = PStr w" and same: "same_locator ev ?l"
    using t fr(3) by (simp_all add: ev_def event_of_transition_def same_locator_def LOCATOR_KEYS_def dget_def [of "_ # _"] dget_or_def [of "_ # _"])
  have n: "?n = int (length (events_of events c))" by (simp add: r row_history_def c)
  let ?h = "AList.update c (or_none (map_of h c) @ [ev]) h"
  have "list_ex (carries ev) fresh"
    using nth_mem [OF i] same c by (auto simp: list_ex_iff carries_def evd)
  then have bt: "bind_transitions (events @ [ev]) fresh w = Inr ?h"
    by (simp add: bind_transitions_snoc f(4) bind_transition_Inr evd)
  have h1: "history_from 1 (events_of events c)" using bspec [OF f(7) nth_mem [OF i]] by (simp add: row_history_def c)
  have ch: "check_history ?h = Inr ()"
    using f(5) h1 by (auto simp: check_history_Inr bind_transitions_lookup(1) [OF f(4)] history_from_snoc evd n ac_simps intro: list_all_update)
  have "map_r checkpoint_event (transitions @ [PDict ev]) = Inr (events @ [ev])"
    by (simp add: map_r_append f(3) built(2))
  then have new: "wrappers (history_context w entries (transitions @ [PDict ev])) = Inr (w, map (with_history ?h) fresh, events @ [ev])"
    using f(2) bt ch by (auto simp: wrappers_Inr)
  have st: "with_history ?h (fresh ! j) = settled (fresh ! j) (row_history (events @ [ev]) (fresh ! j))" if "j < length fresh" for j
    using fresh_row(4) [OF f(2) nth_mem [OF that]] by (intro with_history_settled(1) bind_transitions_lookup(1) [OF bt] ch) blast
  have "map (with_history ?h) fresh = rows[i := settled (fresh ! i) (events_of events c @ [ev])]"
  proof (rule nth_equalityI)
    show "length (map (with_history ?h) fresh) = length (rows[i := settled (fresh ! i) (events_of events c @ [ev])])" by (simp add: f(6))
    fix j assume "j < length (map (with_history ?h) fresh)"
    then have j: "j < length fresh" by simp
    have "row_history (events @ [ev]) (fresh ! j) = row_history events (fresh ! j)" if "j \<noteq> i"
      using fresh_unique [OF f(2) i j c] that by (auto simp: row_history_def events_of_snoc evd split: option.split)
    then show "map (with_history ?h) fresh ! j = rows[i := settled (fresh ! i) (events_of events c @ [ev])] ! j"
      using j c by (cases "j = i") (auto simp: st f(6) row_history_def events_of_snoc evd)
  qed
  then show ?thesis
    using built(1) new by (intro exI [of _ ev]) (simp add: r f(1) settled_def flipped_def row_history_def c n add.commute)
qed

section \<open>Instances\<close>

definition sample_workspace :: string where
  "sample_workspace = ''01234567-89ab-4cde-8f01-23456789abcd''"

definition sample_checkpoint :: string where
  "sample_checkpoint = ''CP-'' @ replicate 64 (CHR ''a'')"

definition sample_digest :: string where
  "sample_digest = ''sha256:'' @ replicate 64 (CHR ''b'')"

definition sample_locator :: dict where
  "sample_locator = [(''workspace_uid'', PStr sample_workspace), (''task_id'', PStr ''T-0007''), (''date'', PStr ''2026-07-01''),
     (''ordinal'', PInt 1), (''entry_digest'', PStr sample_digest)]"

definition sample_recorded :: dict where
  "sample_recorded = [(''type'', PStr ''worklog.recorded''), (''workspace_uid'', PStr sample_workspace), (''task_id'', PStr ''T-0007''),
     (''checkpoint_id'', PStr sample_checkpoint), (''date'', PStr ''2026-07-01''), (''ordinal'', PInt 1),
     (''entry_digest'', PStr sample_digest), (''origin'', PNone)]"

definition sample_entries :: "pyval list" where
  "sample_entries =
    [PDict [(''locator'', PDict [(''workspace_uid'', PStr sample_workspace), (''task_id'', PNone), (''date'', PStr ''2026-07-01''),
       (''ordinal'', PInt 0), (''entry_digest'', PNone)]), (''recorded'', PNone), (''entry'', PStr ''first'')],
     PDict [(''locator'', PDict sample_locator), (''recorded'', PDict sample_recorded),
       (''entry'', PStr ''second'')]]"

definition sample_request :: "string \<Rightarrow> int \<Rightarrow> string \<Rightarrow> pyval" where
  "sample_request state n code = PDict [(''state'', PStr state), (''revision'', PInt n),
     (''reason'', PDict [(''code'', PStr code), (''explanation'', PStr '' said so '')])]"

definition sample_transition :: "string \<Rightarrow> int \<Rightarrow> string \<Rightarrow> dict" where
  "sample_transition state n code = [(''state'', PStr state), (''revision'', PInt n),
     (''reason'', PDict [(''code'', PStr code), (''explanation'', PStr ''said so'')])]"

definition sample_rows :: "entry_row list" where
  "sample_rows =
    [\<lparr>row_locator = [(''workspace_uid'', PStr sample_workspace), (''task_id'', PNone), (''date'', PStr ''2026-07-01''),
        (''ordinal'', PInt 0), (''entry_digest'', PNone)],
      row_recorded = None, row_entry = PStr ''first'', row_checkpoint = None, row_state = ''active'', row_revision = 0,
      row_transitions = []\<rparr>,
     \<lparr>row_locator = sample_locator, row_recorded = Some sample_recorded, row_entry = PStr ''second'',
      row_checkpoint = Some sample_checkpoint, row_state = ''active'', row_revision = 0, row_transitions = []\<rparr>]"

lemma sample_text:
  "checkpoint_workspace_uid (PStr sample_workspace) = Inr sample_workspace"
  "checkpoint_pattern (PStr sample_checkpoint) is_checkpoint_id = Inr sample_checkpoint"
  "checkpoint_pattern (PStr sample_digest) is_entry_digest = Inr sample_digest"
  "checkpoint_pattern (PStr ''T-0007'') is_task_id = Inr ''T-0007''"
  "calendar_date (PStr ''2026-07-01'') = Inr ''2026-07-01''"
  unfolding checked by code_simp+

lemma sample_wrapped: "map_r wrapper_row sample_entries = Inr sample_rows"
  by (simp add: sample_entries_def sample_rows_def sample_locator_def sample_recorded_def wrapper_row_def checkpoint_locator_def
      checkpoint_recorded_def checkpoint_fields_def exact_dict_def exact_keys_def dkeys_def dhas_def LOCATOR_KEYS_def RECORDED_KEYS_def
      sample_text dget_def dget_or_def int_in_def CHECKPOINT_MAX_def checkpoint_text_def checkpoint_origin_def)

lemma sample_fresh: "fresh_rows sample_workspace sample_entries sample_rows"
  by (simp add: fresh_rows_def sample_text sample_wrapped bind_rows_def bind_row_def check_uniqueness_def check_unique_def Let_def
      sample_rows_def sample_locator_def sample_recorded_def same_locator_def recorded_locator_def LOCATOR_KEYS_def dget_def dget_or_def)

lemma sample_row [simp]:
  "length sample_rows = 2" "row_checkpoint (sample_rows ! 1) = Some sample_checkpoint" "row_state (sample_rows ! 1) = ''active''"
  "row_revision (sample_rows ! 1) = 0" "row_locator (sample_rows ! 1) = sample_locator"
  by (simp_all add: sample_rows_def)

lemma sample_valid: "wrappers (history_context sample_workspace sample_entries []) = Inr (sample_workspace, sample_rows, [])"
proof -
  have "map (with_history []) sample_rows = sample_rows" by (simp add: sample_rows_def with_history_def)
  then show ?thesis using sample_fresh by (auto simp: wrappers_Inr bind_transitions_def check_history_Inr intro!: exI [of _ sample_rows])
qed

lemma sample_accepted:
  "next_transition (PDict [(''current'', PDict [(''state'', PStr ''active''), (''revision'', PInt 0)]),
     (''request'', sample_request ''superseded'' 0 ''duplicate'')]) = Inr (sample_transition ''superseded'' 1 ''duplicate'')"
  "next_transition (PDict [(''current'', PDict [(''state'', PStr ''superseded''), (''revision'', PInt 1)]),
     (''request'', sample_request ''active'' 1 ''restore'')]) = Inr (sample_transition ''active'' 2 ''restore'')"
  "checkpoint_origin PNone = Inr PNone"
  by code_simp+

section \<open>What a validated history says, and how it grows\<close>

text \<open>
  C26. A context that validates gives every entry the state of its number of transitions: the
  revision counts them, an even revision is active and an odd one superseded, the k-th transition
  of the entry has revision k+1 and its state, and the transitions of an entry are exactly the events
  of its checkpoint, in the order in which they were recorded.
\<close>
theorem checkpoint_histories_contiguous:
  assumes "wrappers (history_context w entries transitions) = Inr (w', rows, events)" and "i < length rows"
  shows "row_revision (rows ! i) = int (length (row_transitions (rows ! i))) \<and>
    row_state (rows ! i) = state_at (row_revision (rows ! i)) \<and>
    (row_checkpoint (rows ! i) = None \<longrightarrow> row_transitions (rows ! i) = []) \<and>
    (\<forall>c. row_checkpoint (rows ! i) = Some c \<longrightarrow> row_transitions (rows ! i) = events_of events c) \<and>
    (\<forall>k < length (row_transitions (rows ! i)).
       dget (row_transitions (rows ! i) ! k) ''revision'' = PInt (int k + 1) \<and>
       dget (row_transitions (rows ! i) ! k) ''state'' = PStr (state_at (int k + 1)))"
proof -
  obtain fresh h where f: "w' = w" "fresh_rows w entries fresh" "rows = map (\<lambda>r. settled r (row_history events r)) fresh"
    "\<forall>r \<in> set fresh. history_from 1 (row_history events r)"
    by (rule wrappers_settled [OF assms(1)])
  have r: "rows ! i = settled (fresh ! i) (row_history events (fresh ! i))" and i: "i < length fresh"
    using f(3) assms(2) by auto
  show ?thesis
    using history_from_nth [OF bspec [OF f(4) nth_mem [OF i]]] by (auto simp: r row_history_def add.commute)
qed

theorem checkpoint_histories_contiguous_witness:
  "row_revision (sample_rows ! 1) = int (length (row_transitions (sample_rows ! 1))) \<and>
   row_state (sample_rows ! 1) = state_at (row_revision (sample_rows ! 1))"
proof -
  have "1 < length sample_rows" by simp
  from checkpoint_histories_contiguous [OF sample_valid this] show ?thesis by blast
qed

text \<open>
  C25. The event of an accepted transition extends the history: if the recorded events validate and
  \<open>next_transition\<close> accepts a request against the state and revision of an entry, then
  \<open>build_transition_event\<close> succeeds on the locator of that entry, the events with the new one appended
  validate again, and the entry is the only one that changes: one revision more, the other state, the
  new event last.
\<close>
theorem checkpoint_transition_appends:
  assumes "wrappers (history_context w entries transitions) = Inr (w', rows, events)"
    and "i < length rows" and "row_checkpoint (rows ! i) = Some c"
    and "next_transition (PDict [(''current'', PDict [(''state'', PStr (row_state (rows ! i))), (''revision'', PInt (row_revision (rows ! i)))]),
           (''request'', request)]) = Inr tr"
    and "checkpoint_origin orig = Inr orig"
  shows "\<exists>ev. build_transition_event (transition_context w c (row_locator (rows ! i)) tr orig) = Inr ev \<and>
    wrappers (history_context w entries (transitions @ [PDict ev])) =
      Inr (w', rows[i := flipped (rows ! i) ev], events @ [ev])"
  using assms by (rule transition_appends)


theorem checkpoint_transition_appends_witness:
  "\<exists>ev. wrappers (history_context sample_workspace sample_entries [PDict ev]) =
     Inr (sample_workspace, [sample_rows ! 0, (sample_rows ! 1)\<lparr>row_state := ''superseded'', row_revision := 1, row_transitions := [ev]\<rparr>], [ev])"
  using checkpoint_transition_appends [OF sample_valid, of 1 sample_checkpoint, unfolded sample_row, OF _ refl sample_accepted(1,3)]
  by (auto simp: flipped_def sample_rows_def state_at_def)


text \<open>
  C28. Only the first of two requests made against the same revision is accepted: what
  \<open>next_transition\<close> returns is the state and revision its second caller is checked against, and the
  same request is refused there as stale, with no change to report.
\<close>
theorem checkpoint_request_accepted_once:
  assumes "next_transition (PDict [(''current'', PDict [(''state'', PStr s), (''revision'', PInt n)]), (''request'', request)]) = Inr tr"
    and "n + 1 \<le> CHECKPOINT_MAX"
  shows "next_transition (PDict [(''current'', PDict [(''state'', dget tr ''state''), (''revision'', dget tr ''revision'')]),
    (''request'', request)]) = checkpoint_fail ''stale_revision''"
proof -
  obtain q where q: "normalize_transition_request request = Inr q" "0 \<le> n" "dget q ''revision'' = PInt n"
    using assms(1) by (auto simp: next_transition_Inr)
  obtain t where t: "t = state_at (n + 1)" "t \<in> set CHECKPOINT_STATES" "dget tr ''state'' = PStr t" "dget tr ''revision'' = PInt (n + 1)"
    by (rule transition_parts [OF assms(1)])
  have k: "exact_keys [(''current'', x), (''request'', request)] [''current'', ''request'']"
    "exact_keys [(''state'', x), (''revision'', y)] [''state'', ''revision'']" for x y
    by (auto simp: exact_keys_def dkeys_def dhas_def)
  show ?thesis
    using q t(1,2) assms(2)
    by (simp add: next_transition_def checkpoint_fields_def exact_dict_def k t(3,4) dget_def [of "_ # _"] dget_or_def [of "_ # _"]
        checkpoint_state_def checkpoint_text_def int_in_def parity_def)
qed

theorem checkpoint_request_accepted_once_witness:
  "next_transition (PDict [(''current'', PDict [(''state'', PStr ''superseded''), (''revision'', PInt 1)]),
     (''request'', sample_request ''superseded'' 0 ''duplicate'')]) = checkpoint_fail ''stale_revision''"
  using checkpoint_request_accepted_once [OF sample_accepted(1)]
  by (simp add: CHECKPOINT_MAX_def sample_transition_def dget_def [of "_ # _"] dget_or_def [of "_ # _"])

lemma projection_of:
  "wrappers ctx = Inr (w, rows, events) \<Longrightarrow>
     project_active_entries ctx = Inr (map row_entry (filter (\<lambda>row. row_state row = ''active'') rows))"
  by (simp add: project_active_entries_def)

lemma filter_update_same:
  "i < length xs \<Longrightarrow> P y = P (xs ! i) \<Longrightarrow> f y = f (xs ! i) \<Longrightarrow> map f (filter P (xs[i := y])) = map f (filter P xs)"
  by (induction xs arbitrary: i) (auto split: nat.split)

text \<open>
  C27. Superseding an entry and restoring it gives back the projection that was there before: after two
  accepted transitions of one entry, the second requested against the state and revision the first one
  produced, both events validate and the active entries are those of the history without them, in the
  same order; in between, the entry is in the projection exactly if it was not before.
\<close>
theorem checkpoint_restore_roundtrip:
  assumes "wrappers (history_context w entries transitions) = Inr (w', rows, events)"
    and "i < length rows" and "row_checkpoint (rows ! i) = Some c"
    and "next_transition (PDict [(''current'', PDict [(''state'', PStr (row_state (rows ! i))), (''revision'', PInt (row_revision (rows ! i)))]),
           (''request'', request)]) = Inr tr"
    and "next_transition (PDict [(''current'', PDict [(''state'', dget tr ''state''), (''revision'', dget tr ''revision'')]),
           (''request'', request2)]) = Inr tr2"
    and "checkpoint_origin orig = Inr orig"
  shows "\<exists>ev ev2. build_transition_event (transition_context w c (row_locator (rows ! i)) tr orig) = Inr ev \<and>
    build_transition_event (transition_context w c (row_locator (rows ! i)) tr2 orig) = Inr ev2 \<and>
    project_active_entries (history_context w entries (transitions @ [PDict ev])) =
      Inr (map row_entry (filter (\<lambda>row. row_state row = ''active'')
        (rows[i := (rows ! i)\<lparr>row_state := if row_state (rows ! i) = ''active'' then ''superseded'' else ''active''\<rparr>]))) \<and>
    project_active_entries (history_context w entries (transitions @ [PDict ev, PDict ev2])) =
      project_active_entries (history_context w entries transitions)"
proof -
  let ?n = "row_revision (rows ! i)"
  obtain t where t: "row_state (rows ! i) = state_at ?n" "t = state_at (?n + 1)" "dget tr ''state'' = PStr t" "dget tr ''revision'' = PInt (?n + 1)"
    by (rule transition_parts [OF assms(4)])
  obtain ev where e: "build_transition_event (transition_context w c (row_locator (rows ! i)) tr orig) = Inr ev"
    "wrappers (history_context w entries (transitions @ [PDict ev])) = Inr (w', rows[i := flipped (rows ! i) ev], events @ [ev])"
    using transition_appends [OF assms(1-4,6)] by blast
  have "\<exists>ev2. build_transition_event (transition_context w c (row_locator (rows ! i)) tr2 orig) = Inr ev2 \<and>
      wrappers (history_context w entries ((transitions @ [PDict ev]) @ [PDict ev2])) =
        Inr (w', rows[i := flipped (flipped (rows ! i) ev) ev2], (events @ [ev]) @ [ev2])"
    using transition_appends [OF e(2), of i c request2 tr2 orig] assms(2,3,5,6) t by (simp add: flipped_def)
  then obtain ev2 where e2: "build_transition_event (transition_context w c (row_locator (rows ! i)) tr2 orig) = Inr ev2"
    "wrappers (history_context w entries (transitions @ [PDict ev, PDict ev2])) =
        Inr (w', rows[i := flipped (flipped (rows ! i) ev) ev2], events @ [ev, ev2])" by auto
  have flip2: "state_at (2 + ?n) = state_at ?n" and other: "state_at (?n + 1) = (if state_at ?n = ''active'' then ''superseded'' else ''active'')"
    by (simp_all add: state_at_def)
  have mid: "map row_entry (filter (\<lambda>row. row_state row = ''active'') (rows[i := flipped (rows ! i) ev])) =
      map row_entry (filter (\<lambda>row. row_state row = ''active'')
        (rows[i := (rows ! i)\<lparr>row_state := if row_state (rows ! i) = ''active'' then ''superseded'' else ''active''\<rparr>]))"
    using filter_update_same [where xs = "rows[i := (rows ! i)\<lparr>row_state := if row_state (rows ! i) = ''active'' then ''superseded'' else ''active''\<rparr>]"
        and y = "flipped (rows ! i) ev" and i = i and f = row_entry and P = "\<lambda>row. row_state row = ''active''"] assms(2)
    by (simp add: flipped_def t(1) other)
  have "map row_entry (filter (\<lambda>row. row_state row = ''active'') (rows[i := flipped (flipped (rows ! i) ev) ev2])) =
      map row_entry (filter (\<lambda>row. row_state row = ''active'') rows)"
    by (rule filter_update_same [OF assms(2)]) (simp_all add: flipped_def t(1) flip2)
  then show ?thesis
    using e(1) e2(1) mid by (intro exI [of _ ev] exI [of _ ev2]) (simp add: projection_of [OF e(2)] projection_of [OF e2(2)] projection_of [OF assms(1)])
qed

theorem checkpoint_restore_roundtrip_witness:
  "\<exists>ev ev2. project_active_entries (history_context sample_workspace sample_entries [PDict ev]) = Inr [PStr ''first''] \<and>
     project_active_entries (history_context sample_workspace sample_entries [PDict ev, PDict ev2]) = Inr [PStr ''first'', PStr ''second'']"
proof -
  have d: "dget (sample_transition ''superseded'' 1 ''duplicate'') ''state'' = PStr ''superseded''"
    "dget (sample_transition ''superseded'' 1 ''duplicate'') ''revision'' = PInt 1"
    by (simp_all add: sample_transition_def dget_def dget_or_def)
  have "project_active_entries (history_context sample_workspace sample_entries []) = Inr [PStr ''first'', PStr ''second'']"
    by (simp add: projection_of [OF sample_valid] sample_rows_def)
  then show ?thesis
    using checkpoint_restore_roundtrip [OF sample_valid, of 1 sample_checkpoint, unfolded sample_row, OF _ refl sample_accepted(1),
        unfolded d, OF _ sample_accepted(2,3)]
    by (auto simp: sample_rows_def)
qed

text \<open>
  C29. Normalising a request is idempotent: what \<open>normalize_transition_request\<close> returns is accepted
  again and comes back unchanged, and its reason is the one the strict check of recorded reasons
  accepts as it stands.
\<close>
theorem checkpoint_request_canonical:
  assumes "normalize_transition_request v = Inr q"
  shows "normalize_transition_request (PDict q) = Inr q \<and>
    checkpoint_reason (dget q ''reason'') False = Inr (dict_of (dget q ''reason''))"
proof -
  obtain f reason where "checkpoint_reason (dget f ''reason'') True = Inr reason" "dget q ''reason'' = PDict reason"
    using assms by (auto simp: normalize_transition_request_def result_iffs dget_def [of "_ # _"] dget_or_def [of "_ # _"])
  then show ?thesis using request_canonical [OF assms] reason_canonical by simp
qed

theorem checkpoint_request_canonical_witness:
  "normalize_transition_request (PDict (sample_transition ''superseded'' 0 ''duplicate'')) = Inr (sample_transition ''superseded'' 0 ''duplicate'')"
proof -
  have "normalize_transition_request (sample_request ''superseded'' 0 ''duplicate'') = Inr (sample_transition ''superseded'' 0 ''duplicate'')"
    by code_simp
  then show ?thesis using checkpoint_request_canonical by blast
qed

end
