(* ===== verification/WS_CheckpointChange.thy ===== *)
theory WS_CheckpointChange
  imports WS_CheckpointHistory WS_World WS_Notice
begin

text \<open>
  \<open>workstack/checkpoint_change.py\<close>: the identity and the facts of a work entry at the moment it is
  committed, and the notice about it. The validators here are written apart from those of
  \<open>checkpoint_transition.py\<close>, which later reads what they let through; that the two agree is proved
  below. Every refusal is the one \<open>CheckpointChangeError\<close>, without content.
\<close>

section \<open>Vocabulary and validators\<close>

definition ENTRY_FIELDS :: "string list" where
  "ENTRY_FIELDS = [''task_id'', ''task'', ''done'', ''next'', ''blockers'']"

definition FACTS_FIELDS :: "string list" where
  "FACTS_FIELDS = [''recorded'', ''done_count'', ''next_count'', ''blocker_count'', ''first_for_task'']"

definition RECORDED_FIELDS :: "string list" where
  "RECORDED_FIELDS = [''type'', ''workspace_uid'', ''task_id'', ''checkpoint_id'', ''date'', ''ordinal'',
     ''entry_digest'', ''origin'']"

definition change_refuse :: "'a result" where
  "change_refuse = Inl CheckpointChangeError"

definition change_text :: "pyval \<Rightarrow> string result" where
  "change_text v = (case v of PStr s \<Rightarrow> Inr s | _ \<Rightarrow> change_refuse)"

definition change_integer :: "pyval \<Rightarrow> int \<Rightarrow> int \<Rightarrow> int result" where
  "change_integer v low high =
     (case v of PInt n \<Rightarrow> if low \<le> n \<and> n \<le> high then Inr n else change_refuse | _ \<Rightarrow> change_refuse)"

definition change_workspace_uid :: "pyval \<Rightarrow> string result" where
  "change_workspace_uid v =
     bind_r (change_text v) (\<lambda>text.
     if \<not> uuid_shape text \<or> \<not> uuid_nonzero text \<or> \<not> uuid_rfc4122 text then change_refuse else Inr text)"

definition change_matched :: "pyval \<Rightarrow> (string \<Rightarrow> bool) \<Rightarrow> string result" where
  "change_matched v matches =
     bind_r (change_text v) (\<lambda>text. if \<not> matches text then change_refuse else Inr text)"

definition change_date :: "pyval \<Rightarrow> string result" where
  "change_date v = bind_r (change_text v) (\<lambda>text. if \<not> canonical_date text then change_refuse else Inr text)"

definition change_origin :: "pyval \<Rightarrow> pyval result" where
  "change_origin v =
     (if v = PNone then Inr PNone else if v \<noteq> PStr AGENT_ORIGIN then change_refuse else Inr v)"

definition change_fields :: "pyval \<Rightarrow> string list \<Rightarrow> dict result" where
  "change_fields v ks = (case v of PDict d \<Rightarrow> if \<not> exact_keys d ks then change_refuse else Inr d | _ \<Rightarrow> change_refuse)"

definition change_item :: "pyval \<Rightarrow> unit \<Rightarrow> unit result" where
  "change_item item u =
     bind_r (change_text item) (\<lambda>text.
     if text = [] \<or> text \<noteq> py_strip text \<or> 1000 < length text then change_refuse else Inr ())"

text \<open>An already normalised list of a category, counted.\<close>

definition change_category :: "pyval \<Rightarrow> int result" where
  "change_category v =
     (case v of
        PList items \<Rightarrow>
          (if 20 < length items then change_refuse
           else bind_r (fold_r change_item items ()) (\<lambda>_. Inr (int (length items))))
      | _ \<Rightarrow> change_refuse)"

text \<open>
  \<open>storage/canonical.py\<close>: the values that have canonical bytes, and those bytes. A value of the
  model is a tree, so the test for cycles has nothing to find.
\<close>

fun canonical_ok :: "pyval \<Rightarrow> bool" where
  "canonical_ok PNone = True"
| "canonical_ok (PBool b) = True"
| "canonical_ok (PStr s) = True"
| "canonical_ok (PInt n) \<longleftrightarrow> - CHECKPOINT_MAX \<le> n \<and> n \<le> CHECKPOINT_MAX"
| "canonical_ok (PFloat r) = False"
| "canonical_ok (PList xs) \<longleftrightarrow> (\<forall>x \<in> set xs. canonical_ok x)"
| "canonical_ok (PDict d) \<longleftrightarrow> (\<forall>p \<in> set d. canonical_ok (snd p))"

definition change_canonical :: "pyval \<Rightarrow> string result" where
  "change_canonical v = (if canonical_ok v then Inr (json_compact v) else change_refuse)"

section \<open>Facts and notice\<close>

definition entry_counts :: "pyval \<Rightarrow> (int \<times> int \<times> int) result" where
  "entry_counts entry =
     bind_r (change_fields entry ENTRY_FIELDS) (\<lambda>e.
     bind_r (change_matched (dget e ''task_id'') is_task_id) (\<lambda>_.
     bind_r (change_text (dget e ''task'')) (\<lambda>_.
     bind_r (change_category (dget e ''done'')) (\<lambda>n_done.
     bind_r (change_category (dget e ''next'')) (\<lambda>n_next.
     bind_r (change_category (dget e ''blockers'')) (\<lambda>n_blockers.
     if n_done + n_next + n_blockers < 1 then change_refuse else Inr (n_done, n_next, n_blockers)))))))"

definition linked_task :: "pyval \<Rightarrow> string list \<Rightarrow> string list result" where
  "linked_task item found =
     (case item of
        PDict d \<Rightarrow>
          (if dget d ''task_id'' = PNone then Inr found
           else bind_r (change_matched (dget d ''task_id'') is_task_id) (\<lambda>t. Inr (found @ [t])))
      | _ \<Rightarrow> change_refuse)"

definition prior_task_ids :: "pyval \<Rightarrow> string list result" where
  "prior_task_ids prior_entries =
     (case prior_entries of PList items \<Rightarrow> fold_r linked_task items [] | _ \<Rightarrow> change_refuse)"

definition idempotency_text :: "string \<Rightarrow> bool" where
  "idempotency_text s = class_run key_char 8 128 s"

definition derive_checkpoint_id :: "env \<Rightarrow> pyval \<Rightarrow> pyval \<Rightarrow> string result" where
  "derive_checkpoint_id env workspace_uid idempotency_key =
     bind_r (change_workspace_uid workspace_uid) (\<lambda>canonical_uid.
     bind_r (change_matched idempotency_key idempotency_text) (\<lambda>key.
     bind_r (change_canonical (PList [PStr ''workstack.checkpoint.v1'', PStr canonical_uid, PStr key])) (\<lambda>preimage.
     Inr (''CP-'' @ sha256 env preimage))))"

definition build_checkpoint_facts ::
  "env \<Rightarrow> pyval \<Rightarrow> pyval \<Rightarrow> pyval \<Rightarrow> pyval \<Rightarrow> pyval \<Rightarrow> pyval \<Rightarrow> pyval \<Rightarrow> dict result" where
  "build_checkpoint_facts env workspace_uid idempotency_key date entry ordinal prior_entries origin =
     bind_r (derive_checkpoint_id env workspace_uid idempotency_key) (\<lambda>checkpoint_id.
     bind_r (change_date date) (\<lambda>canonical_date.
     bind_r (entry_counts entry) (\<lambda>(n_done, n_next, n_blockers).
     bind_r (change_integer ordinal 0 CHECKPOINT_MAX) (\<lambda>physical_ordinal.
     bind_r (prior_task_ids prior_entries) (\<lambda>prior.
     bind_r (change_origin origin) (\<lambda>canonical_origin.
     bind_r (change_canonical entry) (\<lambda>bytes.
     bind_r (change_workspace_uid workspace_uid) (\<lambda>uid.
     let task_id = dget (dict_of entry) ''task_id'' in
     Inr [(''recorded'', PDict
            [(''type'', PStr ''worklog.recorded''), (''workspace_uid'', PStr uid), (''task_id'', task_id),
             (''checkpoint_id'', PStr checkpoint_id), (''date'', PStr canonical_date), (''ordinal'', PInt physical_ordinal),
             (''entry_digest'', PStr (''sha256:'' @ sha256 env bytes)), (''origin'', canonical_origin)]),
          (''done_count'', PInt n_done), (''next_count'', PInt n_next), (''blocker_count'', PInt n_blockers),
          (''first_for_task'', PBool (task_id \<notin> PStr ` set prior))]))))))))"

definition validated_counts :: "dict \<Rightarrow> (int \<times> int \<times> int) result" where
  "validated_counts facts =
     bind_r (change_integer (dget facts ''done_count'') 0 20) (\<lambda>n_done.
     bind_r (change_integer (dget facts ''next_count'') 0 20) (\<lambda>n_next.
     bind_r (change_integer (dget facts ''blocker_count'') 0 20) (\<lambda>n_blockers.
     if n_done + n_next + n_blockers < 1 then change_refuse else Inr (n_done, n_next, n_blockers))))"

definition validated_recorded :: "dict \<Rightarrow> dict result" where
  "validated_recorded facts =
     bind_r (change_fields (dget facts ''recorded'') RECORDED_FIELDS) (\<lambda>recorded.
     bind_r (change_text (dget recorded ''type'')) (\<lambda>t.
     if t \<noteq> ''worklog.recorded'' then change_refuse
     else
     bind_r (change_origin (dget recorded ''origin'')) (\<lambda>origin.
     if origin = PNone then change_refuse
     else
     bind_r (change_workspace_uid (dget recorded ''workspace_uid'')) (\<lambda>_.
     bind_r (change_matched (dget recorded ''task_id'') is_task_id) (\<lambda>_.
     bind_r (change_matched (dget recorded ''checkpoint_id'') is_checkpoint_id) (\<lambda>_.
     bind_r (change_matched (dget recorded ''entry_digest'') is_entry_digest) (\<lambda>_.
     bind_r (change_date (dget recorded ''date'')) (\<lambda>_.
     bind_r (change_integer (dget recorded ''ordinal'') 0 CHECKPOINT_MAX) (\<lambda>_.
     Inr recorded)))))))))"

definition build_committed_notice :: "pyval \<Rightarrow> pyval \<Rightarrow> dict result" where
  "build_committed_notice facts event_id =
     bind_r (change_fields facts FACTS_FIELDS) (\<lambda>f.
     bind_r (validated_recorded f) (\<lambda>recorded.
     bind_r (validated_counts f) (\<lambda>(n_done, n_next, n_blockers).
     case dget f ''first_for_task'' of
       PBool first_entry \<Rightarrow>
         bind_r (change_integer event_id 1 CHECKPOINT_MAX) (\<lambda>n.
         Inr [(''event_id'', PInt n), (''kind'', PStr ''agent.checkpoint.committed''),
           (''workspace_uid'', dget recorded ''workspace_uid''), (''task_id'', dget recorded ''task_id''),
           (''date'', dget recorded ''date''), (''checkpoint_id'', dget recorded ''checkpoint_id''),
           (''done_count'', PInt n_done), (''next_count'', PInt n_next), (''blocker_count'', PInt n_blockers),
           (''first_for_task'', PBool first_entry), (''origin'', PStr AGENT_ORIGIN), (''replayed'', PBool False)])
     | _ \<Rightarrow> change_refuse)))"


section \<open>What the two contracts agree on\<close>

named_theorems changed

lemma change_refuse_Inr [simp]: "change_refuse \<noteq> Inr x" "(if b then change_refuse else m) = Inr x \<longleftrightarrow> \<not> b \<and> m = Inr x"
  "(if b then m else change_refuse) = Inr x \<longleftrightarrow> b \<and> m = Inr x"
  by (simp_all add: change_refuse_def)

lemma change_text_Inr [changed]: "change_text v = Inr s \<longleftrightarrow> v = PStr s"
  by (cases v) (simp_all add: change_text_def)

lemma change_integer_Inr [changed]: "change_integer v a b = Inr n \<longleftrightarrow> v = PInt n \<and> a \<le> n \<and> n \<le> b"
  by (cases v) (auto simp: change_integer_def)

lemma change_uid_Inr [changed]:
  "change_workspace_uid v = Inr s \<longleftrightarrow> v = PStr s \<and> uuid_shape s \<and> uuid_nonzero s \<and> uuid_rfc4122 s"
  by (auto simp: change_workspace_uid_def result_iffs changed)

lemma change_matched_Inr [changed]: "change_matched v f = Inr s \<longleftrightarrow> v = PStr s \<and> f s"
  by (auto simp: change_matched_def result_iffs changed)

lemma change_date_Inr [changed]: "change_date v = Inr s \<longleftrightarrow> v = PStr s \<and> canonical_date s"
  by (auto simp: change_date_def result_iffs changed)

lemma change_origin_Inr [changed]: "change_origin v = Inr w \<longleftrightarrow> w = v \<and> (v = PNone \<or> v = PStr AGENT_ORIGIN)"
  by (auto simp: change_origin_def)

lemma change_fields_Inr [changed]: "change_fields v ks = Inr d \<longleftrightarrow> v = PDict d \<and> exact_keys d ks"
  by (cases v) (auto simp: change_fields_def)

lemma change_category_Inr: "change_category v = Inr n \<Longrightarrow> 0 \<le> n \<and> n \<le> 20 \<and> (\<exists>xs. v = PList xs \<and> n = int (length xs))"
  by (cases v) (auto simp: change_category_def result_iffs)

lemma entry_counts_Inr:
  "entry_counts entry = Inr (a, b, c) \<Longrightarrow> \<exists>e t. entry = PDict e \<and> dget e ''task_id'' = PStr t \<and> is_task_id t \<and>
     0 \<le> a \<and> a \<le> 20 \<and> 0 \<le> b \<and> b \<le> 20 \<and> 0 \<le> c \<and> c \<le> 20 \<and> 1 \<le> a + b + c"
  by (auto simp: entry_counts_def result_iffs changed dest!: change_category_Inr)

text \<open>The documented form of \<open>hexdigest\<close>.\<close>

definition digests_ok :: "env \<Rightarrow> bool" where
  "digests_ok env \<longleftrightarrow> (\<forall>t. length (sha256 env t) = 64 \<and> list_all is_lower_hex (sha256 env t))"

definition recorded_of :: "string \<Rightarrow> string \<Rightarrow> string \<Rightarrow> string \<Rightarrow> int \<Rightarrow> string \<Rightarrow> pyval \<Rightarrow> dict" where
  "recorded_of uid t c d n e orig =
     [(''type'', PStr ''worklog.recorded''), (''workspace_uid'', PStr uid), (''task_id'', PStr t), (''checkpoint_id'', PStr c),
      (''date'', PStr d), (''ordinal'', PInt n), (''entry_digest'', PStr e), (''origin'', orig)]"

lemma recorded_of_keys: "exact_keys (recorded_of uid t c d n e orig) RECORDED_FIELDS" "RECORDED_FIELDS = RECORDED_KEYS"
  by (auto simp: recorded_of_def RECORDED_FIELDS_def RECORDED_KEYS_def exact_keys_def dkeys_def dhas_def)

lemma recorded_of_gets:
  "dget (recorded_of uid t c d n e orig) ''type'' = PStr ''worklog.recorded''" "dget (recorded_of uid t c d n e orig) ''workspace_uid'' = PStr uid"
  "dget (recorded_of uid t c d n e orig) ''task_id'' = PStr t" "dget (recorded_of uid t c d n e orig) ''checkpoint_id'' = PStr c"
  "dget (recorded_of uid t c d n e orig) ''date'' = PStr d" "dget (recorded_of uid t c d n e orig) ''ordinal'' = PInt n"
  "dget (recorded_of uid t c d n e orig) ''entry_digest'' = PStr e" "dget (recorded_of uid t c d n e orig) ''origin'' = orig"
  by (simp_all add: recorded_of_def dget_def dget_or_def)

lemma recorded_of_readable:
  assumes "uuid_shape u" "uuid_nonzero u" "uuid_rfc4122 u" "is_task_id t" "is_checkpoint_id c" "canonical_date d" "0 \<le> n" "n \<le> CHECKPOINT_MAX"
    "is_entry_digest e" "origin = PNone \<or> origin = PStr AGENT_ORIGIN"
  shows "checkpoint_recorded (PDict (recorded_of u t c d n e origin)) = Inr (recorded_of u t c d n e origin)"
proof -
  have v: "checkpoint_workspace_uid (PStr u) = Inr u" "checkpoint_pattern (PStr c) is_checkpoint_id = Inr c"
    "checkpoint_pattern (PStr t) is_task_id = Inr t" "checkpoint_pattern (PStr e) is_entry_digest = Inr e" "calendar_date (PStr d) = Inr d"
    "int_in (PInt n) 0 CHECKPOINT_MAX = Inr n" "checkpoint_origin origin = Inr origin"
    "checkpoint_text (PStr ''worklog.recorded'') = Inr ''worklog.recorded''"
    using assms by (simp_all add: checked)
  show ?thesis
    using recorded_of_keys by (simp add: checkpoint_recorded_def checkpoint_fields_def exact_dict_def recorded_of_gets v) (simp add: recorded_of_def)
qed

lemma recorded_of_locator: "recorded_locator (recorded_of u t c d n e origin) =
  [(''workspace_uid'', PStr u), (''task_id'', PStr t), (''date'', PStr d), (''ordinal'', PInt n), (''entry_digest'', PStr e)]"
  by (simp add: recorded_locator_def LOCATOR_KEYS_def recorded_of_gets)

lemma facts_built:
  assumes "build_checkpoint_facts env uid key date entry ordinal prior origin = Inr facts" and "digests_ok env"
  obtains u t c d n e a b k where "dget facts ''recorded'' = PDict (recorded_of u t c d n e origin)"
    "uid = PStr u" "date = PStr d" "ordinal = PInt n" "dget (dict_of entry) ''task_id'' = PStr t"
    "uuid_shape u" "uuid_nonzero u" "uuid_rfc4122 u" "is_task_id t" "is_checkpoint_id c" "canonical_date d" "0 \<le> n" "n \<le> CHECKPOINT_MAX"
    "is_entry_digest e" "origin = PNone \<or> origin = PStr AGENT_ORIGIN" "e = canonical_digest env entry"
    "dget facts ''done_count'' = PInt a" "dget facts ''next_count'' = PInt b" "dget facts ''blocker_count'' = PInt k"
    "0 \<le> a" "a \<le> 20" "0 \<le> b" "b \<le> 20" "0 \<le> k" "k \<le> 20" "1 \<le> a + b + k" "exact_keys facts FACTS_FIELDS"
    "\<exists>ids. prior_task_ids prior = Inr ids \<and> dget facts ''first_for_task'' = PBool (t \<notin> set ids)"
proof -
  obtain c0 d a b k n ids bytes u where f: "derive_checkpoint_id env uid key = Inr c0" "change_date date = Inr d" "entry_counts entry = Inr (a, b, k)"
    "change_integer ordinal 0 CHECKPOINT_MAX = Inr n" "prior_task_ids prior = Inr ids" "change_origin origin = Inr origin"
    "change_canonical entry = Inr bytes" "change_workspace_uid uid = Inr u" and
    facts: "facts = [(''recorded'', PDict
            [(''type'', PStr ''worklog.recorded''), (''workspace_uid'', PStr u), (''task_id'', dget (dict_of entry) ''task_id''),
             (''checkpoint_id'', PStr c0), (''date'', PStr d), (''ordinal'', PInt n),
             (''entry_digest'', PStr (''sha256:'' @ sha256 env bytes)), (''origin'', origin)]),
          (''done_count'', PInt a), (''next_count'', PInt b), (''blocker_count'', PInt k),
          (''first_for_task'', PBool (dget (dict_of entry) ''task_id'' \<notin> PStr ` set ids))]"
    using assms(1) by (auto simp: build_checkpoint_facts_def result_iffs Let_def changed)
  obtain e t where e: "entry = PDict e" "dget e ''task_id'' = PStr t" "is_task_id t" "0 \<le> a" "a \<le> 20" "0 \<le> b" "b \<le> 20" "0 \<le> k" "k \<le> 20" "1 \<le> a + b + k"
    using entry_counts_Inr [OF f(3)] by auto
  have c: "is_checkpoint_id c0" and dg: "is_entry_digest (''sha256:'' @ sha256 env bytes)"
    using f(1) assms(2) by (auto simp: derive_checkpoint_id_def result_iffs is_checkpoint_id_def is_entry_digest_def digests_ok_def)
  have bts: "''sha256:'' @ sha256 env bytes = canonical_digest env entry" using f(7) by (auto simp: change_canonical_def canonical_digest_def)
  show thesis
  proof (rule that)
    show "dget facts ''recorded'' = PDict (recorded_of u t c0 d n (''sha256:'' @ sha256 env bytes) origin)"
      by (simp add: facts recorded_of_def dget_def [of "_ # _"] dget_or_def [of "_ # _"] e)
    show "exact_keys facts FACTS_FIELDS" by (auto simp: facts FACTS_FIELDS_def exact_keys_def dkeys_def dhas_def)
  qed (use f c dg bts e in \<open>auto simp: facts changed dget_def [of "_ # _"] dget_or_def [of "_ # _"]\<close>)
qed

definition sample_entry :: dict where
  "sample_entry = [(''task_id'', PStr ''T-0001''), (''task'', PStr ''W''), (''done'', PList [PStr ''a'']), (''next'', PList []),
     (''blockers'', PList [])]"

lemma sample_digests_ok: "digests_ok sample_env"
proof -
  have "list_all is_lower_hex (replicate 64 (CHR ''a''))" "length (replicate 64 (CHR ''a'')) = 64" by code_simp+
  then show ?thesis by (simp add: digests_ok_def sample_env_def)
qed

definition sample_facts :: "pyval \<Rightarrow> dict result" where
  "sample_facts origin = build_checkpoint_facts sample_env (PStr sample_uid) (PStr ''abcdefgh'') (PStr ''2026-07-01'') (PDict sample_entry)
     (PInt 0) (PList [PDict []]) origin"

lemma sample_facts_built: "\<not> isl (sample_facts (PStr AGENT_ORIGIN))"
  by code_simp

text \<open>
  C23. The facts recorded with a new work entry are facts the transition contract reads: whatever
  \<open>build_checkpoint_facts\<close> returns, its \<open>recorded\<close> part passes \<open>checkpoint_transition._recorded\<close> unchanged,
  and \<open>verify_locator\<close> accepts it for the locator that consists of the workspace, the Task, the date and
  ordinal given, and the digest of the canonical entry.
\<close>
theorem built_facts_are_readable:
  assumes "build_checkpoint_facts env (PStr u) key (PStr d) (PDict entry) (PInt n) prior origin = Inr facts" and "digests_ok env"
  shows "\<exists>r. dget facts ''recorded'' = PDict r \<and> checkpoint_recorded (PDict r) = Inr r \<and>
    verify_locator (PDict [(''workspace_uid'', PStr u), (''checkpoint_id'', dget r ''checkpoint_id''), (''recorded'', PDict r),
      (''actual_locator'', PDict [(''workspace_uid'', PStr u), (''task_id'', dget entry ''task_id''), (''date'', PStr d),
         (''ordinal'', PInt n), (''entry_digest'', PStr (canonical_digest env (PDict entry)))])]) = Inr (recorded_locator r)"
proof -
  obtain t c e a b k where f: "dget facts ''recorded'' = PDict (recorded_of u t c d n e origin)" "dget entry ''task_id'' = PStr t"
    and v: "uuid_shape u" "uuid_nonzero u" "uuid_rfc4122 u" "is_task_id t" "is_checkpoint_id c" "canonical_date d" "0 \<le> n" "n \<le> CHECKPOINT_MAX"
    "is_entry_digest e" "origin = PNone \<or> origin = PStr AGENT_ORIGIN" "e = canonical_digest env (PDict entry)"
    by (rule facts_built [OF assms]) auto
  let ?r = "recorded_of u t c d n e origin"
  have uid: "checkpoint_workspace_uid (PStr u) = Inr u" and cp: "checkpoint_pattern (PStr c) is_checkpoint_id = Inr c"
    and tk: "checkpoint_pattern (PStr t) is_task_id = Inr t" and dg: "checkpoint_pattern (PStr e) is_entry_digest = Inr e"
    and dt: "calendar_date (PStr d) = Inr d" and od: "int_in (PInt n) 0 CHECKPOINT_MAX = Inr n"
    using v by (simp_all add: checked)
  have r: "checkpoint_recorded (PDict ?r) = Inr ?r" by (rule recorded_of_readable [OF v(1-10)])
  let ?l = "[(''workspace_uid'', PStr u), (''task_id'', PStr t), (''date'', PStr d), (''ordinal'', PInt n), (''entry_digest'', PStr e)]"
  have l: "checkpoint_locator (PDict ?l) False = Inr ?l"
    by (simp add: checkpoint_locator_def checkpoint_fields_def exact_dict_def exact_keys_def dkeys_def dhas_def LOCATOR_KEYS_def
        dget_def [of "_ # _"] dget_or_def [of "_ # _"] uid tk dt od dg)
  have same: "same_locator (recorded_locator ?r) ?l"
    by (simp add: same_locator_def recorded_of_locator list.pred_True)
  have k: "exact_keys [(''workspace_uid'', w), (''checkpoint_id'', x), (''recorded'', y), (''actual_locator'', z)]
      [''workspace_uid'', ''checkpoint_id'', ''recorded'', ''actual_locator'']" for w x y z
    by (auto simp: exact_keys_def dkeys_def dhas_def)
  have "verify_locator (PDict [(''workspace_uid'', PStr u), (''checkpoint_id'', dget ?r ''checkpoint_id''), (''recorded'', PDict ?r),
      (''actual_locator'', PDict ?l)]) = Inr (recorded_locator ?r)"
    by (simp add: verify_locator_def checkpoint_fields_def exact_dict_def k dget_def [of "_ # _"] dget_or_def [of "_ # _"] recorded_of_gets
        uid cp r l same)
  then show ?thesis using f v(11) r by auto
qed


theorem built_facts_are_readable_witness:
  "\<exists>facts r. sample_facts (PStr AGENT_ORIGIN) = Inr facts \<and> dget facts ''recorded'' = PDict r \<and> checkpoint_recorded (PDict r) = Inr r"
proof -
  obtain facts where f: "sample_facts (PStr AGENT_ORIGIN) = Inr facts" using sample_facts_built by (cases "sample_facts (PStr AGENT_ORIGIN)") auto
  from built_facts_are_readable [OF f [unfolded sample_facts_def] sample_digests_ok] f show ?thesis by blast
qed

text \<open>
  C24. The notice about an attributed entry can be built at every event identifier from 1 to the largest
  safe integer and at no other: nothing else about the facts that were recorded with the entry can make
  the publication fail after the entry has been saved.
\<close>
theorem committed_notice_buildable:
  assumes "build_checkpoint_facts env uid key date entry ordinal prior (PStr AGENT_ORIGIN) = Inr facts" and "digests_ok env"
  shows "(\<exists>notice. build_committed_notice (PDict facts) (PInt n) = Inr notice) \<longleftrightarrow> 1 \<le> n \<and> n \<le> CHECKPOINT_MAX"
proof -
  obtain u t c d m e a b k where f: "dget facts ''recorded'' = PDict (recorded_of u t c d m e (PStr AGENT_ORIGIN))"
    and v: "uuid_shape u" "uuid_nonzero u" "uuid_rfc4122 u" "is_task_id t" "is_checkpoint_id c" "canonical_date d" "0 \<le> m" "m \<le> CHECKPOINT_MAX"
    "is_entry_digest e" "dget facts ''done_count'' = PInt a" "dget facts ''next_count'' = PInt b" "dget facts ''blocker_count'' = PInt k"
    "0 \<le> a" "a \<le> 20" "0 \<le> b" "b \<le> 20" "0 \<le> k" "k \<le> 20" "1 \<le> a + b + k" "exact_keys facts FACTS_FIELDS"
    and o1: "\<exists>ids. prior_task_ids prior = Inr ids \<and> dget facts ''first_for_task'' = PBool (t \<notin> set ids)"
    by (rule facts_built [OF assms]) auto
  let ?r = "recorded_of u t c d m e (PStr AGENT_ORIGIN)"
  have vs: "change_workspace_uid (PStr u) = Inr u" "change_matched (PStr t) is_task_id = Inr t" "change_matched (PStr c) is_checkpoint_id = Inr c"
    "change_matched (PStr e) is_entry_digest = Inr e" "change_date (PStr d) = Inr d" "change_integer (PInt m) 0 CHECKPOINT_MAX = Inr m"
    "change_origin (PStr AGENT_ORIGIN) = Inr (PStr AGENT_ORIGIN)" "change_text (PStr ''worklog.recorded'') = Inr ''worklog.recorded''"
    "change_fields (PDict ?r) RECORDED_FIELDS = Inr ?r" "change_fields (PDict facts) FACTS_FIELDS = Inr facts"
    using v recorded_of_keys by (simp_all add: changed)
  have r: "validated_recorded facts = Inr ?r"
    unfolding validated_recorded_def f by (simp add: vs recorded_of_gets)
  have c1: "validated_counts facts = Inr (a, b, k)"
    using v by (simp add: validated_counts_def change_integer_def)
  obtain x where x: "dget facts ''first_for_task'' = PBool x" using o1 by blast
  show ?thesis unfolding build_committed_notice_def by (auto simp: vs r c1 x change_integer_def result_iffs)
qed

theorem committed_notice_buildable_witness:
  "\<exists>facts. sample_facts (PStr AGENT_ORIGIN) = Inr facts \<and> (\<exists>notice. build_committed_notice (PDict facts) (PInt 7) = Inr notice) \<and>
     \<not> (\<exists>notice. build_committed_notice (PDict facts) (PInt 0) = Inr notice)"
proof -
  obtain facts where f: "sample_facts (PStr AGENT_ORIGIN) = Inr facts" using sample_facts_built by (cases "sample_facts (PStr AGENT_ORIGIN)") auto
  from committed_notice_buildable [OF f [unfolded sample_facts_def] sample_digests_ok] f show ?thesis
    by (intro exI [of _ facts]) (simp add: CHECKPOINT_MAX_def)
qed

end
