(* ===== verification/WS_Review.thy ===== *)
theory WS_Review
  imports WS_CheckpointChange WS_TaskCommands
begin

text \<open>
  \<open>workstack/service_review.py\<close>: the daily check-in and the entries of the work log. The keyed entry
  records a fact about itself in the activity document, in the same save as the entry and the
  receipt of its key; the fact is what checkpoints are built from. An attributed entry is moreover
  announced to the store's change feed after the save: the model makes the test that comes before
  the save (\<open>_preflight_committed_notice\<close>, at the event identifier \<open>event_id\<close> the store projects) and
  leaves the feed itself outside.
\<close>

section \<open>Dates, times and items\<close>

definition review_date_shape :: "string \<Rightarrow> bool" where
  "review_date_shape s \<longleftrightarrow> length s = 10 \<and>
     list_all2 (\<lambda>p c. if p = CHR ''0'' then is_digit c else c = p) ''0000-00-00'' s"

definition date_must_use :: pyexc where
  "date_must_use = domain_error ''date must use YYYY-MM-DD'' [(''field'', PStr ''date'')]"

definition review_date :: "pyval \<Rightarrow> string result" where
  "review_date v =
     (case v of
        PStr s \<Rightarrow>
          (if \<not> review_date_shape s then Inl date_must_use
           else case date_fromisoformat s of
               None \<Rightarrow> Inl (domain_error ''date is invalid'' [(''field'', PStr ''date'')])
             | Some parsed \<Rightarrow> (if date_isoformat parsed \<noteq> s then Inl date_must_use else Inr s))
      | _ \<Rightarrow> Inl date_must_use)"

definition review_item :: "string \<Rightarrow> pyval \<Rightarrow> string list \<Rightarrow> string list result" where
  "review_item field item found =
     (case item of
        PStr s \<Rightarrow>
          (let normalized = py_strip s in
           if 1000 < length normalized
           then Inl (domain_error (field @ '' items must be at most 1000 characters'') [(''field'', PStr field)])
           else Inr (if normalized = [] then found else found @ [normalized]))
      | _ \<Rightarrow> Inl (domain_error (field @ '' items must be strings'') [(''field'', PStr field)]))"

definition review_items :: "pyval \<Rightarrow> string \<Rightarrow> string list result" where
  "review_items v field =
     (case v of
        PList items \<Rightarrow>
          (if 20 < length items
           then Inl (domain_error (field @ '' must be an array with at most 20 items'') [(''field'', PStr field)])
           else fold_r (review_item field) items [])
      | _ \<Rightarrow> Inl (domain_error (field @ '' must be an array with at most 20 items'') [(''field'', PStr field)]))"

text \<open>\<open>(?:[01]\d|2[0-3]):[0-5]\d\<close>\<close>

definition clock_text :: "string \<Rightarrow> bool" where
  "clock_text s \<longleftrightarrow> length s = 5 \<and>
     (s ! 0 \<in> {CHR ''0'', CHR ''1''} \<and> is_digit (s ! 1) \<or> s ! 0 = CHR ''2'' \<and> s ! 1 \<in> {CHR ''0'', CHR ''1'', CHR ''2'', CHR ''3''}) \<and>
     s ! 2 = CHR '':'' \<and> is_digit (s ! 3) \<and> s ! 3 \<le> CHR ''5'' \<and> is_digit (s ! 4)"

definition TIME_MESSAGE :: string where
  "TIME_MESSAGE = ''time must use HH:MM''"

section \<open>Days of the work log\<close>

text \<open>\<open>worklog.setdefault("days", {}).setdefault(date, {"entries": []})\<close>: the document and the day.\<close>

definition open_day :: "dict \<Rightarrow> string \<Rightarrow> (dict \<times> pyval) result" where
  "open_day worklog date =
     (let worklog = dsetdefault worklog ''days'' (PDict []) in
      bind_r (as_dict (dget worklog ''days'')) (\<lambda>days.
      let days = dsetdefault days date (PDict [(''entries'', PList [])]) in
      Inr (dset worklog ''days'' (PDict days), dget days date)))"

text \<open>The day, changed in place.\<close>

definition put_day :: "dict \<Rightarrow> string \<Rightarrow> dict \<Rightarrow> dict" where
  "put_day worklog date day = dset worklog ''days'' (PDict (dset (dict_of (dget worklog ''days'')) date (PDict day)))"

definition set_start_time :: "dict \<Rightarrow> string \<Rightarrow> string \<Rightarrow> dict result" where
  "set_start_time worklog date time =
     bind_r (open_day worklog date) (\<lambda>(worklog, day). case day of
         PDict d \<Rightarrow> Inr (put_day worklog date (dset d ''start_time'' (PStr time)))
       | _ \<Rightarrow> Inl TypeError)"

definition default_date :: "env \<Rightarrow> string option \<Rightarrow> string command" where
  "default_date env date = (case date of
     None \<Rightarrow> today env | Some s \<Rightarrow> if s = [] then today env else return_c s)"

definition check_isoformat :: "string \<Rightarrow> unit result" where
  "check_isoformat s = (if date_fromisoformat s = None then Inl (ValueErr ''Invalid isoformat string'') else Inr ())"

definition checkin :: "env \<Rightarrow> string option \<Rightarrow> string option \<Rightarrow> dict command" where
  "checkin env time date =
     bind_c (default_date env date) (\<lambda>date.
     bind_c (lift_c (check_isoformat date)) (\<lambda>_.
     bind_c (case time of None \<Rightarrow> local_time env | Some t \<Rightarrow> return_c t) (\<lambda>time.
     bind_c (lift_c (if \<not> clock_text (chomp time) then Inl (ValueErr TIME_MESSAGE) else Inr ())) (\<lambda>_.
     bind_c (load Worklog_Doc) (\<lambda>data.
     bind_c (lift_c (set_start_time data date time)) (\<lambda>data.
     bind_c (save_one Worklog_Doc data) (\<lambda>_.
     return_c [(''date'', PStr date), (''start_time'', PStr time)])))))))"

text \<open>\<open>self.get_task\<close> loads its two documents itself.\<close>

definition fetch_task :: "string \<Rightarrow> dict command" where
  "fetch_task task_id =
     bind_c (load Tasks_Doc) (\<lambda>backlog. bind_c (load Activity_Doc) (\<lambda>activity. lift_c (get_task backlog activity task_id)))"

definition cli_items :: "pyval list \<Rightarrow> pyval" where
  "cli_items items = strs (filter (\<lambda>s. s \<noteq> []) (map (\<lambda>v. py_strip (py_str v)) items))"

definition ONE_ITEM :: string where
  "ONE_ITEM = ''at least one worklog item is required''"

definition add_worklog ::
  "env \<Rightarrow> string \<Rightarrow> pyval list \<Rightarrow> pyval list \<Rightarrow> pyval list \<Rightarrow> string option \<Rightarrow> dict command" where
  "add_worklog env task_id n_done n_next n_blockers date =
     bind_c (fetch_task task_id) (\<lambda>task.
     bind_c (default_date env date) (\<lambda>date.
     bind_c (lift_c (check_isoformat date)) (\<lambda>_.
     bind_c (load Worklog_Doc) (\<lambda>data.
     bind_c (lift_c (open_day data date)) (\<lambda>(data, day).
     bind_c (lift_c (dindex task ''id'')) (\<lambda>i.
     bind_c (lift_c (dindex task ''title'')) (\<lambda>title.
     let entry = [(''task_id'', i), (''task'', title), (''done'', cli_items n_done), (''next'', cli_items n_next),
       (''blockers'', cli_items n_blockers)] in
     bind_c (lift_c (if \<not> list_ex (\<lambda>k. truthy (dget entry k)) [''done'', ''next'', ''blockers'']
       then Inl (ValueErr ONE_ITEM) else Inr ())) (\<lambda>_.
     bind_c (lift_c (bind_r (getitem day ''entries'') as_list)) (\<lambda>entries.
     bind_c (save_one Worklog_Doc
       (put_day data date (dset (dict_of day) ''entries'' (PList (entries @ [PDict entry]))))) (\<lambda>_.
     return_c ((''date'', PStr date) # entry)))))))))))"

section \<open>The keyed commands\<close>

definition checkin_intent :: "env \<Rightarrow> string \<Rightarrow> string \<Rightarrow> pyval \<Rightarrow> string \<Rightarrow> string \<Rightarrow> dict \<Rightarrow> response command" where
  "checkin_intent env date time key path digest activity =
     bind_c (load Worklog_Doc) (\<lambda>worklog.
     bind_c (lift_c (set_start_time worklog date time)) (\<lambda>worklog.
     commit_keyed env activity key ''POST'' path digest 201
       (response_body [(''date'', PStr date), (''start_time'', PStr time)])
       [(Worklog_Doc, worklog)] [] (''review-checkin-'' @ str_of key)))"

definition checkin_v1 :: "env \<Rightarrow> dict \<Rightarrow> pyval \<Rightarrow> string \<Rightarrow> response command" where
  "checkin_v1 env body key path =
     bind_c (lift_c (validate_idempotency_key key)) (\<lambda>_.
     bind_c (lift_c (review_date (dget body ''date''))) (\<lambda>date.
     bind_c (lift_c (if \<not> is_str (dget body ''time'') \<or> \<not> clock_text (str_of (dget body ''time''))
       then Inl (domain_error TIME_MESSAGE [(''field'', PStr ''time'')]) else Inr (str_of (dget body ''time'')))) (\<lambda>time.
     let digest = canonical_digest env (PDict [(''date'', PStr date), (''time'', PStr time)]) in
     keyed_command key ''POST'' path digest (checkin_intent env date time key path digest))))"

definition body_task_id :: "dict \<Rightarrow> string result" where
  "body_task_id body =
     (case dget body ''task_id'' of
        PStr s \<Rightarrow> (if py_strip s = [] then Inl (domain_error ''task_id is required'' [(''field'', PStr ''task_id'')])
                  else Inr (upper_strip s))
      | _ \<Rightarrow> Inl (domain_error ''task_id is required'' [(''field'', PStr ''task_id'')]))"

definition body_items :: "dict \<Rightarrow> dict result" where
  "body_items body =
     bind_r (review_items (dget body ''done'') ''done'') (\<lambda>n_done.
     bind_r (review_items (dget body ''next'') ''next'') (\<lambda>n_next.
     bind_r (review_items (dget body ''blockers'') ''blockers'') (\<lambda>n_blockers.
     Inr [(''done'', strs n_done), (''next'', strs n_next), (''blockers'', strs n_blockers)])))"

definition require_item :: "dict \<Rightarrow> unit result" where
  "require_item canonical =
     (if \<not> list_ex (\<lambda>k. truthy (dget canonical k)) [''done'', ''next'', ''blockers'']
      then Inl (domain_error ONE_ITEM []) else Inr ())"

definition canonical_review_entry :: "dict \<Rightarrow> (dict \<times> dict) command" where
  "canonical_review_entry body =
     bind_c (lift_c (body_task_id body)) (\<lambda>task_id.
     bind_c (fetch_task task_id) (\<lambda>task.
     bind_c (lift_c (
       bind_r (review_date (dget body ''date'')) (\<lambda>date.
       bind_r (dindex task ''id'') (\<lambda>i.
       bind_r (body_items body) (\<lambda>items.
       let canonical = [(''date'', PStr date), (''task_id'', i)] @ items in
       bind_r (require_item canonical) (\<lambda>_. Inr canonical)))))) (\<lambda>canonical.
     return_c (task, canonical))))"

text \<open>The rows of one stored day, the entry's own day only up to the row it will have.\<close>

definition day_entries :: "dict \<Rightarrow> string \<Rightarrow> nat \<Rightarrow> string \<Rightarrow> pyval list \<Rightarrow> pyval list result" where
  "day_entries days date ordinal stored_date found =
     bind_r (vget (dget days stored_date) ''entries'') (\<lambda>stored. case stored of
         PList stored_rows \<Rightarrow> Inr (found @ (if stored_date = date then take ordinal stored_rows else stored_rows))
       | _ \<Rightarrow> Inr found)"

definition prior_physical_entries :: "dict \<Rightarrow> string \<Rightarrow> nat \<Rightarrow> pyval list result" where
  "prior_physical_entries days date ordinal = fold_r (day_entries days date ordinal) (sort (dkeys days)) []"

definition entry_refusal :: "pyexc \<Rightarrow> pyexc option" where
  "entry_refusal e = (case e of
     CheckpointChangeError \<Rightarrow> Some (domain_error ''the review entry could not be recorded'' []) | _ \<Rightarrow> None)"

definition checkpoint_facts ::
  "env \<Rightarrow> pyval \<Rightarrow> pyval \<Rightarrow> dict \<Rightarrow> nat \<Rightarrow> pyval list \<Rightarrow> pyval \<Rightarrow> dict result" where
  "checkpoint_facts env key date entry ordinal prior_entries origin =
     (case ready_workspace env of
        None \<Rightarrow> Inl (domain_error ''the workspace is not ready to record a checkpoint'' [])
      | Some uid \<Rightarrow> catch_r (build_checkpoint_facts env (PStr uid) key date (PDict entry) (PInt (int ordinal))
          (PList prior_entries) origin) entry_refusal)"

definition preflight_committed_notice :: "pyval \<Rightarrow> dict \<Rightarrow> unit result" where
  "preflight_committed_notice event_id facts =
     catch_r (bind_r (build_committed_notice (PDict facts) event_id) (\<lambda>_. Inr ())) entry_refusal"

text \<open>
  The entry at the end of its day: the document with it, and the facts, built from the rows that
  were there before.
\<close>

definition place_entry ::
  "env \<Rightarrow> pyval \<Rightarrow> pyval \<Rightarrow> dict \<Rightarrow> string \<Rightarrow> dict \<Rightarrow> pyval \<Rightarrow> (dict \<times> dict) result" where
  "place_entry env event_id key worklog date entry origin =
     bind_r (open_day worklog date) (\<lambda>(worklog, day).
     bind_r (as_dict day) (\<lambda>day.
     let day = dsetdefault day ''entries'' (PList []); worklog = put_day worklog date day in
     bind_r (len_r (dget day ''entries'')) (\<lambda>ordinal.
     bind_r (prior_physical_entries (dict_of (dget worklog ''days'')) date ordinal) (\<lambda>prior_entries.
     bind_r (checkpoint_facts env key (PStr date) entry ordinal prior_entries origin) (\<lambda>facts.
     bind_r (if dget (dict_of (dget facts ''recorded'')) ''origin'' \<noteq> PNone
             then preflight_committed_notice event_id facts else Inr ()) (\<lambda>_.
     bind_r (as_list (dget day ''entries'')) (\<lambda>entries.
     Inr (put_day worklog date (dset day ''entries'' (PList (entries @ [PDict entry]))), facts))))))))"

text \<open>The recorded fact, appended to the activity feed after the receipt.\<close>

definition recorded_event :: "string \<Rightarrow> string \<Rightarrow> dict \<Rightarrow> dict" where
  "recorded_event event_id created_at recorded =
     [(''id'', PStr event_id), (''type'', PStr ''worklog.recorded''), (''created_at'', PStr created_at),
      (''task_id'', dget recorded ''task_id''), (''details'', PDict recorded)]"

definition worklog_intent ::
  "env \<Rightarrow> pyval \<Rightarrow> dict \<Rightarrow> dict \<Rightarrow> pyval \<Rightarrow> pyval \<Rightarrow> string \<Rightarrow> string \<Rightarrow> dict \<Rightarrow> response command" where
  "worklog_intent env event_id task canonical origin key path digest activity =
     bind_c (load Worklog_Doc) (\<lambda>worklog.
     bind_c (lift_c (dindex task ''title'')) (\<lambda>title.
     let date = str_of (dget canonical ''date'');
         entry = [(''task_id'', dget canonical ''task_id''), (''task'', title), (''done'', dget canonical ''done''),
           (''next'', dget canonical ''next''), (''blockers'', dget canonical ''blockers'')] in
     bind_c (lift_c (place_entry env event_id key worklog date entry origin)) (\<lambda>(worklog, facts).
     let body = response_body ((''date'', PStr date) # entry); recorded = dict_of (dget facts ''recorded'') in
     bind_c (record_idempotency env activity (str_of key) ''POST'' path digest 201 body PNone PNone) (\<lambda>activity.
     let activity = dsetdefault activity ''activity'' (PList []) in
     bind_c (lift_c (bind_r (iter_r (dget activity ''activity'')) (\<lambda>events. next_id events ''E'' 6))) (\<lambda>i.
     bind_c (utc_now env) (\<lambda>created_at.
     bind_c (lift_c (as_list (dget activity ''activity''))) (\<lambda>events.
     bind_c (save_many [(Worklog_Doc, worklog),
         (Activity_Doc, dset activity ''activity'' (PList (events @ [PDict (recorded_event i created_at recorded)])))]
       (''review-entry-'' @ str_of key)) (\<lambda>_.
     return_c (201, body)))))))))"

definition add_worklog_v1 :: "env \<Rightarrow> pyval \<Rightarrow> dict \<Rightarrow> pyval \<Rightarrow> string \<Rightarrow> pyval \<Rightarrow> response command" where
  "add_worklog_v1 env event_id body key path origin =
     (if origin \<noteq> PNone \<and> \<not> released_composition env
      then raise_c (domain_error ''attributed review entries are not supported by this storage composition'' [])
      else
      bind_c (lift_c (validate_idempotency_key key)) (\<lambda>_.
      bind_c (canonical_review_entry body) (\<lambda>(task, canonical).
      let digest = canonical_digest env (PDict canonical) in
      keyed_command key ''POST'' path digest (worklog_intent env event_id task canonical origin key path digest))))"


section \<open>What an accepted entry leaves behind\<close>

lemma open_day_Inr:
  "open_day worklog date = Inr (worklog', day) \<longleftrightarrow> (\<exists>days. dget (dsetdefault worklog ''days'' (PDict [])) ''days'' = PDict days \<and>
     worklog' = dset (dsetdefault worklog ''days'' (PDict [])) ''days'' (PDict (dsetdefault days date (PDict [(''entries'', PList [])]))) \<and>
     day = dget (dsetdefault days date (PDict [(''entries'', PList [])])) date)"
  by (simp only: open_day_def Let_def bind_r_Inr as_dict_Inr sum.inject prod.inject) blast

text \<open>The entries of a day, as a reader of the document finds them.\<close>

definition entries_on :: "dict \<Rightarrow> string \<Rightarrow> pyval" where
  "entries_on worklog date = dget (dict_of (dget (dict_of (dget worklog ''days'')) date)) ''entries''"

lemma entries_on_put: "entries_on (put_day worklog date day) date = dget day ''entries''"
  by (simp add: entries_on_def put_day_def)

lemma catch_entry [simp]: "catch_r m h = Inr x \<longleftrightarrow> m = Inr x"
  by (cases m) (simp_all add: catch_r_def)

lemma place_entry_Inr:
  assumes "place_entry env event_id key worklog date entry origin = Inr (worklog', facts)"
  obtains old prior uid where "entries_on worklog' date = PList (old @ [PDict entry])" "ready_workspace env = Some uid"
    "build_checkpoint_facts env (PStr uid) key (PStr date) (PDict entry) (PInt (int (length old))) (PList prior) origin = Inr facts"
proof -
  obtain w1 day old n prior where o1: "open_day worklog date = Inr (w1, PDict day)"
    and n: "len_r (dget (dsetdefault day ''entries'' (PList [])) ''entries'') = Inr n"
    and f: "checkpoint_facts env key (PStr date) entry n prior origin = Inr facts"
    and old: "dget (dsetdefault day ''entries'' (PList [])) ''entries'' = PList old"
    and w: "worklog' = put_day (put_day w1 date (dsetdefault day ''entries'' (PList []))) date
      (dset (dsetdefault day ''entries'' (PList [])) ''entries'' (PList (old @ [PDict entry])))"
    using assms by (auto simp: place_entry_def Let_def result_iffs)
  have "n = length old" using n by (simp only: old len_r.simps sum.inject)
  moreover obtain uid where "ready_workspace env = Some uid"
    "build_checkpoint_facts env (PStr uid) key (PStr date) (PDict entry) (PInt (int n)) (PList prior) origin = Inr facts"
    using f by (auto simp: checkpoint_facts_def split: option.splits)
  moreover have "entries_on worklog' date = PList (old @ [PDict entry])" by (simp add: w entries_on_put)
  ultimately show thesis using that by blast
qed

text \<open>
  C22. An accepted work entry and the fact about it are committed together and agree: the entry is the
  last one of its day, the last event of the activity document is a \<open>worklog.recorded\<close> event whose details
  the transition contract reads unchanged, and they name the workspace, the day, the position of the
  entry and the digest of exactly the stored entry; both documents are written by the one save of the
  command.
\<close>
theorem recorded_fact_locates_entry:
  assumes "add_worklog_v1 env event_id body key path origin w = (Inr (201, answer), w')" and "digests_ok env"
  shows "\<exists>uid date old entry events i at rec.
    ready_workspace env = Some uid \<and>
    entries_on (documents w' Worklog_Doc) date = PList (old @ [PDict entry]) \<and>
    dget (documents w' Activity_Doc) ''activity'' = PList (events @ [PDict (recorded_event i at rec)]) \<and>
    checkpoint_recorded (PDict rec) = Inr rec \<and>
    recorded_locator rec = [(''workspace_uid'', PStr uid), (''task_id'', dget entry ''task_id''), (''date'', PStr date),
      (''ordinal'', PInt (int (length old))), (''entry_digest'', PStr (canonical_digest env (PDict entry)))] \<and>
    saved w' = saved w @ [(''review-entry-'' @ str_of key,
      [(Worklog_Doc, documents w' Worklog_Doc), (Activity_Doc, documents w' Activity_Doc)])]"
proof -
  obtain task canonical w1 where r1: "canonical_review_entry body w = (Inr (task, canonical), w1)"
    and k: "keyed_command key ''POST'' path (canonical_digest env (PDict canonical))
      (worklog_intent env event_id task canonical origin key path (canonical_digest env (PDict canonical))) w1 = (Inr (201, answer), w')"
    using assms(1) by (auto simp: add_worklog_v1_def result_iffs Let_def split: if_splits)
  have "reads_only (canonical_review_entry body)"
    unfolding canonical_review_entry_def fetch_task_def by (intro commits)
  then have w1: "saved w1 = saved w" using r1 by (auto simp: reads_only_def dest: spec [of _ w])
  obtain ds where i: "worklog_intent env event_id task canonical origin key path (canonical_digest env (PDict canonical))
      (with_ledger (documents w1 Activity_Doc)) w1 = (Inr (201, answer), w')"
    by (rule keyed_command_new [OF k]) auto
  obtain title worklog' facts a1 w2 ev_id at events where
      pl: "place_entry env event_id key (documents w1 Worklog_Doc) (str_of (dget canonical ''date''))
        [(''task_id'', dget canonical ''task_id''), (''task'', title), (''done'', dget canonical ''done''),
         (''next'', dget canonical ''next''), (''blockers'', dget canonical ''blockers'')] origin = Inr (worklog', facts)"
    and r: "record_idempotency env (with_ledger (documents w1 Activity_Doc)) (str_of key) ''POST'' path (canonical_digest env (PDict canonical)) 201
        answer PNone PNone w1 = (Inr a1, w2)"
    and ev: "dget (dsetdefault a1 ''activity'' (PList [])) ''activity'' = PList events"
    and w': "w' = after_save [(Worklog_Doc, worklog'), (Activity_Doc, dset (dsetdefault a1 ''activity'' (PList [])) ''activity''
        (PList (events @ [PDict (recorded_event ev_id at (dict_of (dget facts ''recorded'')))])))] (''review-entry-'' @ str_of key) (tick w2)"
    using i unfolding worklog_intent_def Let_def
    by (simp only: runs plumbing bind_c_Inr [of "record_idempotency a b c d e f g h i j" for a b c d e f g h i j]
        bind_r_Inr as_list_Inr) (elim exE conjE, rule that, assumption+, simp)
  have w2: "saved w2 = saved w1" using r by (auto simp: record_idempotency_Inr)
  let ?entry = "[(''task_id'', dget canonical ''task_id''), (''task'', title), (''done'', dget canonical ''done''),
         (''next'', dget canonical ''next''), (''blockers'', dget canonical ''blockers'')]" and ?date = "str_of (dget canonical ''date'')"
  obtain old prior uid where p: "entries_on worklog' ?date = PList (old @ [PDict ?entry])" "ready_workspace env = Some uid"
    "build_checkpoint_facts env (PStr uid) key (PStr ?date) (PDict ?entry) (PInt (int (length old))) (PList prior) origin = Inr facts"
    by (rule place_entry_Inr [OF pl])
  obtain t c n e where f: "dget facts ''recorded'' = PDict (recorded_of uid t c ?date n e origin)" "n = int (length old)"
    "dget ?entry ''task_id'' = PStr t" "e = canonical_digest env (PDict ?entry)"
    and v: "uuid_shape uid" "uuid_nonzero uid" "uuid_rfc4122 uid" "is_task_id t" "is_checkpoint_id c" "canonical_date ?date" "0 \<le> n" "n \<le> CHECKPOINT_MAX"
    "is_entry_digest e" "origin = PNone \<or> origin = PStr AGENT_ORIGIN"
    by (rule facts_built [OF p(3) assms(2)]) auto
  show ?thesis
  proof (intro exI conjI)
    show "checkpoint_recorded (PDict (recorded_of uid t c ?date n e origin)) = Inr (recorded_of uid t c ?date n e origin)"
      by (rule recorded_of_readable [OF v])
    show "recorded_locator (recorded_of uid t c ?date n e origin) =
      [(''workspace_uid'', PStr uid), (''task_id'', dget ?entry ''task_id''), (''date'', PStr ?date),
      (''ordinal'', PInt (int (length old))), (''entry_digest'', PStr (canonical_digest env (PDict ?entry)))]"
      by (simp only: recorded_of_locator f)
    show "entries_on (documents w' Worklog_Doc) ?date = PList (old @ [PDict ?entry])" by (simp add: w' p(1))
    show "dget (documents w' Activity_Doc) ''activity'' = PList (events @ [PDict (recorded_event ev_id at (recorded_of uid t c ?date n e origin))])"
      by (simp add: w' f(1))
    show "ready_workspace env = Some uid" by (rule p(2))
    show "saved w' = saved w @ [(''review-entry-'' @ str_of key, [(Worklog_Doc, documents w' Worklog_Doc), (Activity_Doc, documents w' Activity_Doc)])]"
      by (simp add: w' w1 w2)
  qed
qed


definition sample_entry_body :: dict where
  "sample_entry_body = [(''task_id'', PStr '' t-0001''), (''date'', PStr ''2026-07-01''), (''done'', PList [PStr ''a'', PStr '' '']),
     (''next'', PList []), (''blockers'', PList [])]"

definition answered_with :: "int \<Rightarrow> response result \<times> world \<Rightarrow> bool" where
  "answered_with status run = (case fst run of Inr (n, b) \<Rightarrow> n = status | Inl e \<Rightarrow> False)"

lemma answered_withD: "answered_with status run \<Longrightarrow> \<exists>b w'. run = (Inr (status, b), w')"
  by (cases run) (auto simp: answered_with_def split: sum.splits)

lemma sample_entry_accepted:
  "answered_with 201 (add_worklog_v1 sample_env (PInt 5) sample_entry_body (PStr ''abcdefgh'') ''/e'' (PStr AGENT_ORIGIN) sample_world)"
  by code_simp

theorem recorded_fact_locates_entry_witness:
  "\<exists>answer w' date entry. add_worklog_v1 sample_env (PInt 5) sample_entry_body (PStr ''abcdefgh'') ''/e'' (PStr AGENT_ORIGIN) sample_world =
     (Inr (201, answer), w') \<and> (\<exists>old. entries_on (documents w' Worklog_Doc) date = PList (old @ [PDict entry]))"
proof -
  from answered_withD [OF sample_entry_accepted] obtain b w' where
    "add_worklog_v1 sample_env (PInt 5) sample_entry_body (PStr ''abcdefgh'') ''/e'' (PStr AGENT_ORIGIN) sample_world = (Inr (201, b), w')"
    by blast
  then show ?thesis using recorded_fact_locates_entry [OF _ sample_digests_ok] by blast
qed

end
