(* ===== verification/WS_CheckpointProjection.thy ===== *)
theory WS_CheckpointProjection
  imports WS_Review
begin

text \<open>
  \<open>workstack/checkpoint_projection.py\<close> and \<open>workstack/service_checkpoints.py\<close>: the stored documents
  rearranged into the context the pure contract validates, the active view of the work log and the
  keyed command that supersedes or restores a checkpoint. The code keeps the active entries by the
  identity of the entry objects; a loaded document is a tree and a row that can be superseded is a
  dictionary, so an entry is its place, and the model keeps places: date and ordinal.
\<close>

section \<open>Recognised records\<close>

definition TRANSITION_TYPES :: "string list" where
  "TRANSITION_TYPES = [''worklog.superseded'', ''worklog.restored'']"

type_synonym recognized = "(string \<times> pyval) list"

definition recognized_records :: "pyval list \<Rightarrow> recognized" where
  "recognized_records records =
     map (\<lambda>r. (str_of (dget (dict_of r) ''type''), dget (dict_of r) ''details''))
       (filter (\<lambda>r. is_dict r \<and> in_tuple (dget (dict_of r) ''type'') (''worklog.recorded'' # TRANSITION_TYPES)) records)"

definition validate_fact_syntax :: "dict \<Rightarrow> unit result" where
  "validate_fact_syntax details =
     bind_r (verify_locator (PDict
       [(''workspace_uid'', dget details ''workspace_uid''), (''checkpoint_id'', dget details ''checkpoint_id''),
        (''recorded'', PDict details),
        (''actual_locator'', PDict (map (\<lambda>k. (k, dget details k)) LOCATOR_KEYS))])) (\<lambda>_. Inr ())"

definition validate_event_syntax :: "dict \<Rightarrow> string \<Rightarrow> unit result" where
  "validate_event_syntax details workspace_uid =
     (case build_audit_view (history_context workspace_uid [] [PDict details]) of
        Inl (CheckpointTransitionError code) \<Rightarrow> (if code = ''malformed'' then checkpoint_fail code else Inr ())
      | Inl e \<Rightarrow> Inl e
      | Inr view \<Rightarrow> Inr ())"

definition validate_record_syntax :: "string \<Rightarrow> string \<times> pyval \<Rightarrow> unit \<Rightarrow> unit result" where
  "validate_record_syntax workspace_uid r u =
     (case snd r of
        PDict details \<Rightarrow>
          (if details = [] \<or> dget details ''type'' \<noteq> PStr (fst r) then checkpoint_fail ''malformed''
           else if fst r = ''worklog.recorded'' then validate_fact_syntax details
           else validate_event_syntax details workspace_uid)
      | _ \<Rightarrow> checkpoint_fail ''malformed'')"

definition validate_recognized_syntax :: "recognized \<Rightarrow> string \<Rightarrow> unit result" where
  "validate_recognized_syntax recs workspace_uid = fold_r (validate_record_syntax workspace_uid) recs ()"

definition validate_record_binding :: "string \<Rightarrow> string \<times> pyval \<Rightarrow> unit \<Rightarrow> unit result" where
  "validate_record_binding workspace_uid r u =
     bind_r (getitem (snd r) ''workspace_uid'') (\<lambda>v.
     if v \<noteq> PStr workspace_uid then checkpoint_fail ''locator_mismatch'' else Inr ())"

definition validate_recognized_binding :: "recognized \<Rightarrow> string \<Rightarrow> unit result" where
  "validate_recognized_binding recs workspace_uid = fold_r (validate_record_binding workspace_uid) recs ()"

section \<open>The physical rows\<close>

definition validate_day_envelope :: "string \<times> pyval \<Rightarrow> unit \<Rightarrow> unit result" where
  "validate_day_envelope p u =
     (case p of (date, day) \<Rightarrow>
        if \<not> canonical_date date then checkpoint_fail ''malformed''
        else case day of
            PDict d \<Rightarrow> (if dhas d ''entries'' \<and> \<not> is_list (dget d ''entries'') then checkpoint_fail ''malformed'' else Inr ())
          | _ \<Rightarrow> checkpoint_fail ''malformed'')"

definition validate_worklog_envelope :: "dict \<Rightarrow> unit result" where
  "validate_worklog_envelope worklog =
     (case dget worklog ''days'' of
        PNone \<Rightarrow> Inr ()
      | PDict days \<Rightarrow> fold_r validate_day_envelope days ()
      | _ \<Rightarrow> checkpoint_fail ''malformed'')"

definition entry_digest_of :: "env \<Rightarrow> pyval \<Rightarrow> pyval" where
  "entry_digest_of env entry = (if canonical_ok entry then PStr (canonical_digest env entry) else PNone)"

definition physical_task_id :: "pyval \<Rightarrow> pyval" where
  "physical_task_id entry =
     (case entry of
        PDict e \<Rightarrow> (case dget e ''task_id'' of PStr t \<Rightarrow> if is_task_id t then PStr t else PNone | _ \<Rightarrow> PNone)
      | _ \<Rightarrow> PNone)"

type_synonym physical_row = "string \<times> nat \<times> pyval"

definition physical_rows :: "dict \<Rightarrow> physical_row list" where
  "physical_rows worklog =
     (case dget worklog ''days'' of
        PDict days \<Rightarrow> concat (map (\<lambda>date. map (\<lambda>(k, entry). (date, k, entry))
            (enumerate 0 (list_of (dget (dict_of (dget days date)) ''entries'')))) (sort (dkeys days)))
      | _ \<Rightarrow> [])"

definition at_slot :: "string \<Rightarrow> nat \<Rightarrow> string \<times> pyval \<Rightarrow> bool" where
  "at_slot date ordinal r \<longleftrightarrow> fst r = ''worklog.recorded'' \<and>
     dget (dict_of (snd r)) ''date'' = PStr date \<and> dget (dict_of (snd r)) ''ordinal'' = PInt (int ordinal)"

text \<open>The facts that claim a slot, and those that claim none there is.\<close>

definition claims_of :: "recognized \<Rightarrow> string \<Rightarrow> nat \<Rightarrow> pyval list" where
  "claims_of recs date ordinal = map snd (filter (at_slot date ordinal) recs)"

definition orphans :: "recognized \<Rightarrow> physical_row list \<Rightarrow> pyval list" where
  "orphans recs places =
     map snd (filter (\<lambda>r. fst r = ''worklog.recorded'' \<and> \<not> list_ex (\<lambda>(date, k, entry). at_slot date k r) places) recs)"

definition row_wrappers :: "env \<Rightarrow> string \<Rightarrow> recognized \<Rightarrow> physical_row \<Rightarrow> pyval list" where
  "row_wrappers env workspace_uid recs row =
     (case row of (date, k, entry) \<Rightarrow>
        let claims = claims_of recs date k;
            locator = [(''workspace_uid'', PStr workspace_uid), (''task_id'', physical_task_id entry), (''date'', PStr date),
              (''ordinal'', PInt (int k)), (''entry_digest'', entry_digest_of env entry)]
        in map (\<lambda>recorded. PDict [(''locator'', PDict locator), (''recorded'', recorded), (''entry'', entry)])
             (if claims = [] then [PNone] else claims))"

definition activity_records :: "dict \<Rightarrow> pyval list" where
  "activity_records activity = list_of (dget activity ''activity'')"

definition build_projection_context :: "env \<Rightarrow> string \<Rightarrow> dict \<Rightarrow> dict \<Rightarrow> pyval result" where
  "build_projection_context env workspace_uid worklog activity =
     (let recs = recognized_records (activity_records activity) in
      bind_r (validate_recognized_syntax recs workspace_uid) (\<lambda>_.
      bind_r (validate_worklog_envelope worklog) (\<lambda>_.
      bind_r (validate_recognized_binding recs workspace_uid) (\<lambda>_.
      let places = physical_rows worklog;
          context = history_context workspace_uid (concat (map (row_wrappers env workspace_uid recs) places))
            (map snd (filter (\<lambda>r. fst r \<in> set TRANSITION_TYPES) recs))
      in if orphans recs places \<noteq> []
         then bind_r (build_audit_view context) (\<lambda>_. checkpoint_fail ''history_invalid'')
         else Inr context))))"

definition build_audit :: "env \<Rightarrow> string \<Rightarrow> dict \<Rightarrow> dict \<Rightarrow> dict result" where
  "build_audit env workspace_uid worklog activity =
     bind_r (build_projection_context env workspace_uid worklog activity) build_audit_view"

section \<open>The active view\<close>

definition active_slots :: "entry_row list \<Rightarrow> (pyval \<times> pyval) list" where
  "active_slots placed =
     map (\<lambda>row. (dget (row_locator row) ''date'', dget (row_locator row) ''ordinal'')) (filter (\<lambda>row. row_state row = ''active'') placed)"

definition active_entries :: "(pyval \<times> pyval) list \<Rightarrow> string \<Rightarrow> pyval list \<Rightarrow> pyval list" where
  "active_entries slots date entries =
     map snd (filter (\<lambda>(k, entry). (PStr date, PInt (int k)) \<in> set slots) (enumerate 0 entries))"

definition active_day :: "(pyval \<times> pyval) list \<Rightarrow> string \<times> pyval \<Rightarrow> string \<times> pyval" where
  "active_day slots p =
     (case p of (date, day) \<Rightarrow> case day of
         PDict d \<Rightarrow> (case dget d ''entries'' of
             PList entries \<Rightarrow> (date, PDict (dset d ''entries'' (PList (active_entries slots date entries))))
           | _ \<Rightarrow> p)
       | _ \<Rightarrow> p)"

definition active_worklog_document :: "env \<Rightarrow> string \<Rightarrow> dict \<Rightarrow> dict \<Rightarrow> dict result" where
  "active_worklog_document env workspace_uid worklog activity =
     bind_r (build_projection_context env workspace_uid worklog activity) (\<lambda>context.
     bind_r (wrappers context) (\<lambda>(uid, placed, events).
     Inr (case dget worklog ''days'' of
         PDict days \<Rightarrow> dset worklog ''days'' (PDict (map (active_day (active_slots placed)) days))
       | _ \<Rightarrow> worklog)))"

definition physical_locator_for :: "env \<Rightarrow> string \<Rightarrow> string \<Rightarrow> dict \<Rightarrow> dict \<Rightarrow> (dict \<times> dict) result" where
  "physical_locator_for env workspace_uid checkpoint_id worklog activity =
     bind_r (build_audit env workspace_uid worklog activity) (\<lambda>audit.
     case filter (\<lambda>e. dget (dict_of e) ''checkpoint_id'' = PStr checkpoint_id) (list_of (dget audit ''entries'')) of
       [m] \<Rightarrow> Inr (dict_of (dget (dict_of m) ''locator''), dict_of m)
     | _ \<Rightarrow> checkpoint_fail ''locator_mismatch'')"

section \<open>The service\<close>

definition CONFLICT_CODES :: "string list" where
  "CONFLICT_CODES = [''stale_revision'', ''same_state'', ''exhausted'', ''locator_mismatch'', ''history_invalid'']"

definition refuse_transition :: "pyexc \<Rightarrow> pyexc option" where
  "refuse_transition e =
     (case e of
        CheckpointTransitionError code \<Rightarrow> Some (
          if code \<in> set CONFLICT_CODES
          then DomainError Checkpoint_Transition_Conflict ''the checkpoint transition conflicts with recorded history''
            [(''transition_code'', PStr code)]
          else domain_error ''the checkpoint transition request is invalid'' [])
      | _ \<Rightarrow> None)"


definition active_worklog :: "env \<Rightarrow> dict command" where
  "active_worklog env =
     bind_c (ready_uid env) (\<lambda>uid.
     bind_c (load Worklog_Doc) (\<lambda>worklog.
     bind_c (load Activity_Doc) (\<lambda>activity.
     lift_c (catch_r (active_worklog_document env uid worklog activity) refuse_transition))))"

definition list_checkpoint_audit :: "env \<Rightarrow> dict command" where
  "list_checkpoint_audit env =
     bind_c (ready_uid env) (\<lambda>uid.
     bind_c (load Worklog_Doc) (\<lambda>worklog.
     bind_c (load Activity_Doc) (\<lambda>activity.
     lift_c (catch_r (build_audit env uid worklog activity) refuse_transition))))"

definition admitted_transition_request :: "env \<Rightarrow> pyval \<Rightarrow> pyval \<Rightarrow> pyval \<Rightarrow> dict result" where
  "admitted_transition_request env checkpoint_id body key =
     (if \<not> is_str key
      then Inl (domain_error ''Idempotency-Key must be a string'' [(''field'', PStr ''idempotency_key'')])
      else bind_r (validate_idempotency_key key) (\<lambda>_.
        if \<not> is_str checkpoint_id \<or> \<not> is_checkpoint_id (str_of checkpoint_id)
        then Inl (domain_error ''the checkpoint identifier is invalid'' [])
        else if \<not> released_composition env
        then Inl (domain_error ''checkpoint transitions are not supported by this storage composition'' [])
        else catch_r (normalize_transition_request body) refuse_transition))"

definition transition_event ::
  "env \<Rightarrow> pyval \<Rightarrow> string \<Rightarrow> dict \<Rightarrow> dict \<Rightarrow> dict \<Rightarrow> pyval \<Rightarrow> string \<Rightarrow> dict result" where
  "transition_event env event_id checkpoint_id request worklog activity origin workspace_uid =
     catch_r (
       bind_r (physical_locator_for env workspace_uid checkpoint_id worklog activity) (\<lambda>(locator, row).
       bind_r (verify_locator (PDict [(''workspace_uid'', PStr workspace_uid), (''checkpoint_id'', PStr checkpoint_id),
         (''recorded'', dget row ''recorded''), (''actual_locator'', PDict locator)])) (\<lambda>_.
       bind_r (next_transition (PDict
         [(''current'', PDict [(''state'', dget row ''state''), (''revision'', dget row ''revision'')]),
          (''request'', PDict request)])) (\<lambda>transition.
       bind_r (build_transition_event (transition_context workspace_uid checkpoint_id locator transition origin)) (\<lambda>event.
       bind_r (if origin \<noteq> PNone then bind_r (build_transition_notice (PDict event) event_id) (\<lambda>_. Inr ()) else Inr ()) (\<lambda>_.
       Inr event)))))) refuse_transition"

text \<open>The event record of a transition, appended to the activity feed before the receipt.\<close>

definition feed_record :: "string \<Rightarrow> string \<Rightarrow> dict \<Rightarrow> dict" where
  "feed_record i created_at event =
     [(''id'', PStr i), (''type'', dget event ''type''), (''created_at'', PStr created_at), (''task_id'', dget event ''task_id''),
      (''details'', PDict event)]"

definition transition_intent ::
  "env \<Rightarrow> pyval \<Rightarrow> string \<Rightarrow> dict \<Rightarrow> pyval \<Rightarrow> pyval \<Rightarrow> string \<Rightarrow> string \<Rightarrow> dict \<Rightarrow> response command" where
  "transition_intent env event_id checkpoint_id request origin key path digest activity =
     bind_c (load Worklog_Doc) (\<lambda>worklog.
     bind_c (ready_uid env) (\<lambda>uid.
     bind_c (lift_c (transition_event env event_id checkpoint_id request worklog activity origin uid)) (\<lambda>event.
     let activity = dsetdefault activity ''activity'' (PList []) in
     bind_c (lift_c (bind_r (iter_r (dget activity ''activity'')) (\<lambda>events. next_id events ''E'' 6))) (\<lambda>i.
     bind_c (utc_now env) (\<lambda>created_at.
     bind_c (lift_c (as_list (dget activity ''activity''))) (\<lambda>events.
     commit_keyed env (dset activity ''activity'' (PList (events @ [PDict (feed_record i created_at event)])))
       key ''POST'' path digest 201 (response_body event) [] [] (''checkpoint-transition-'' @ str_of key)))))))"

definition apply_checkpoint_transition_v1 ::
  "env \<Rightarrow> pyval \<Rightarrow> pyval \<Rightarrow> pyval \<Rightarrow> pyval \<Rightarrow> string \<Rightarrow> pyval \<Rightarrow> pyval \<Rightarrow> response command" where
  "apply_checkpoint_transition_v1 env event_id checkpoint_id body key path request_digest origin =
     bind_c (lift_c (admitted_transition_request env checkpoint_id body key)) (\<lambda>request.
     bind_c (lift_c (raw_request_digest env body request_digest)) (\<lambda>digest.
     keyed_command key ''POST'' path digest
       (transition_intent env event_id (str_of checkpoint_id) request origin key path digest)))"


text \<open>\<open>list_worklog\<close> of \<open>service_review.py\<close>, one of the readers of the active view.\<close>

definition list_worklog :: "env \<Rightarrow> string \<Rightarrow> dict command" where
  "list_worklog env date =
     bind_c (active_worklog env) (\<lambda>data.
     if date = [] then return_c data
     else lift_c (bind_r (check_isoformat date) (\<lambda>_.
       bind_r (vget_or (dget_or data ''days'' (PDict [])) date (PDict [])) (\<lambda>day.
       bind_r (vget_or day ''entries'' (PList [])) (\<lambda>entries.
       Inr [(''date'', PStr date), (''entries'', entries)])))))"

section \<open>A transition event among the recognised records\<close>

lemma recognized_records_append: "recognized_records (xs @ ys) = recognized_records xs @ recognized_records ys"
  by (simp add: recognized_records_def)

lemma built_event:
  assumes "build_transition_event (transition_context w c l tr orig) = Inr ev"
  obtains st where "st \<in> set CHECKPOINT_STATES" "dget ev ''type'' = PStr (event_type_of st)" "dget ev ''workspace_uid'' = PStr w"
    "ev \<noteq> []" "checkpoint_origin orig = Inr orig"
proof -
  have g: "dget [(''workspace_uid'', a), (''checkpoint_id'', b), (''locator'', d), (''transition'', e), (''origin'', f)] ''workspace_uid'' = a"
    "dget [(''workspace_uid'', a), (''checkpoint_id'', b), (''locator'', d), (''transition'', e), (''origin'', f)] ''origin'' = f" for a b d e f
    by (simp_all add: dget_def dget_or_def)
  show thesis
    using assms that
    by (auto simp: build_transition_event_def transition_context_def result_iffs checked g dget_def [of "(''type'', _) # _"]
        dget_or_def [of "(''type'', _) # _"])
qed

lemma recognized_event:
  assumes "st \<in> set CHECKPOINT_STATES" and "dget ev ''type'' = PStr (event_type_of st)"
  shows "recognized_records [PDict (feed_record i at ev)] = [(event_type_of st, PDict ev)]"
    and "event_type_of st \<in> set TRANSITION_TYPES" and "event_type_of st \<noteq> ''worklog.recorded''"
proof -
  show t: "event_type_of st \<in> set TRANSITION_TYPES" "event_type_of st \<noteq> ''worklog.recorded''"
    by (simp_all add: event_type_of_def TRANSITION_TYPES_def)
  have "dget (feed_record i at ev) ''type'' = PStr (event_type_of st)" "dget (feed_record i at ev) ''details'' = PDict ev"
    using assms(2) by (simp_all add: feed_record_def dget_def [of "_ # _"] dget_or_def [of "_ # _"])
  then show "recognized_records [PDict (feed_record i at ev)] = [(event_type_of st, PDict ev)]"
    using t by (simp add: recognized_records_def)
qed

lemma lone_event_syntax:
  assumes "checkpoint_workspace_uid (PStr w) = Inr w" and "checkpoint_event (PDict ev) = Inr ev"
  shows "validate_event_syntax ev w = Inr ()"
proof -
  have k: "exact_keys [(''workspace_uid'', a), (''entries'', b), (''transitions'', c)] [''workspace_uid'', ''entries'', ''transitions'']"
    for a b c by (auto simp: exact_keys_def dkeys_def dhas_def)
  have "wrappers (history_context w [] [PDict ev]) = checkpoint_fail ''locator_mismatch''"
    by (simp add: wrappers_def history_context_def checkpoint_fields_def exact_dict_def exact_list_def k dget_def [of "_ # _"]
        dget_or_def [of "_ # _"] assms bind_rows_def bind_transitions_def bind_transition_def) (simp add: checkpoint_fail_def)
  then show ?thesis by (simp add: validate_event_syntax_def build_audit_view_def checkpoint_fail_def)
qed

lemma fold_r_snoc_unit: "fold_r f (xs @ [x]) () = Inr () \<longleftrightarrow> fold_r f xs () = Inr () \<and> f x () = Inr ()"
  by (auto simp: fold_r_append result_iffs)

lemma claims_of_snoc: "fst r \<noteq> ''worklog.recorded'' \<Longrightarrow> claims_of (recs @ [r]) = claims_of recs"
  by (simp add: claims_of_def at_slot_def fun_eq_iff)

lemma orphans_snoc: "fst r \<noteq> ''worklog.recorded'' \<Longrightarrow> orphans (recs @ [r]) = orphans recs"
  by (simp add: orphans_def fun_eq_iff)

lemma row_wrappers_snoc: "fst r \<noteq> ''worklog.recorded'' \<Longrightarrow> row_wrappers env w (recs @ [r]) = row_wrappers env w recs"
  by (simp add: row_wrappers_def claims_of_snoc fun_eq_iff)

lemma projection_context_Inr:
  "build_projection_context env w worklog activity = Inr ctx \<longleftrightarrow>
     (let recs = recognized_records (activity_records activity); places = physical_rows worklog in
      validate_recognized_syntax recs w = Inr () \<and> validate_worklog_envelope worklog = Inr () \<and> validate_recognized_binding recs w = Inr () \<and>
      orphans recs places = [] \<and>
      ctx = history_context w (concat (map (row_wrappers env w recs) places)) (map snd (filter (\<lambda>r. fst r \<in> set TRANSITION_TYPES) recs)))"
  by (auto simp: build_projection_context_def Let_def result_iffs checkpoint_fail_def split: if_splits)

text \<open>The context after a transition event has been appended to the activity feed.\<close>

lemma context_appends:
  assumes "build_projection_context env w worklog activity = Inr (history_context w entries transitions)"
    and "activity_records activity' = activity_records activity @ [PDict (feed_record i at ev)]"
    and "build_transition_event (transition_context w c l tr orig) = Inr ev"
    and "checkpoint_workspace_uid (PStr w) = Inr w" and "checkpoint_event (PDict ev) = Inr ev"
  shows "build_projection_context env w worklog activity' = Inr (history_context w entries (transitions @ [PDict ev]))"
proof -
  obtain st where e: "st \<in> set CHECKPOINT_STATES" "dget ev ''type'' = PStr (event_type_of st)" "dget ev ''workspace_uid'' = PStr w" "ev \<noteq> []"
    by (rule built_event [OF assms(3)])
  note r = recognized_event [OF e(1,2)]
  let ?recs = "recognized_records (activity_records activity)"
  have recs: "recognized_records (activity_records activity') = ?recs @ [(event_type_of st, PDict ev)]"
    by (simp add: assms(2) recognized_records_append r(1))
  have "validate_record_syntax w (event_type_of st, PDict ev) () = Inr ()"
    using e r(3) lone_event_syntax [OF assms(4,5)] by (simp add: validate_record_syntax_def)
  moreover have "validate_record_binding w (event_type_of st, PDict ev) () = Inr ()"
    using e(3) dget_neq_None [OF e(3)] by (simp add: validate_record_binding_def getitem_def dindex_def)
  ultimately show ?thesis
    using assms(1) r(2,3)
    by (simp add: projection_context_Inr Let_def recs validate_recognized_syntax_def validate_recognized_binding_def fold_r_snoc_unit
        orphans_snoc row_wrappers_snoc history_context_def)
qed


section \<open>The transition command\<close>

text \<open>What the stored documents say about every entry: the abstract state of the command.\<close>

definition checkpoint_rows :: "env \<Rightarrow> (document \<Rightarrow> dict) \<Rightarrow> (string \<times> entry_row list \<times> dict list) result" where
  "checkpoint_rows env ds =
     (case ready_workspace env of
        None \<Rightarrow> checkpoint_fail ''malformed''
      | Some uid \<Rightarrow> bind_r (build_projection_context env uid (ds Worklog_Doc) (ds Activity_Doc)) wrappers)"

lemma audit_row_gets:
  "dget (dict_of (audit_row r)) ''checkpoint_id'' = (case row_checkpoint r of None \<Rightarrow> PNone | Some c \<Rightarrow> PStr c)"
  "dget (dict_of (audit_row r)) ''locator'' = PDict (row_locator r)"
  "dget (dict_of (audit_row r)) ''state'' = PStr (row_state r)" "dget (dict_of (audit_row r)) ''revision'' = PInt (row_revision r)"
  by (simp_all add: audit_row_def dget_def dget_or_def)

lemma filter_single: "filter P xs = [m] \<Longrightarrow> \<exists>i < length xs. xs ! i = m \<and> P m"
proof -
  assume "filter P xs = [m]"
  then have "m \<in> set (filter P xs)" by simp
  then show ?thesis by (auto simp: in_set_conv_nth)
qed

lemma only_one: "(case xs of [m] \<Rightarrow> Inr (f m) | _ \<Rightarrow> checkpoint_fail c) = Inr x \<Longrightarrow> \<exists>m. xs = [m] \<and> x = f m"
  by (auto split: list.splits)

lemma locator_for_Inr:
  assumes "physical_locator_for env uid cid worklog activity = Inr (l, row)"
  obtains ctx uid' placed events i where "build_projection_context env uid worklog activity = Inr ctx"
    "wrappers ctx = Inr (uid', placed, events)" "i < length placed" "row_checkpoint (placed ! i) = Some cid"
    "l = row_locator (placed ! i)" "dget row ''state'' = PStr (row_state (placed ! i))" "dget row ''revision'' = PInt (row_revision (placed ! i))"
proof -
  obtain audit where a: "build_audit env uid worklog activity = Inr audit" and
    m: "(case filter (\<lambda>e. dget (dict_of e) ''checkpoint_id'' = PStr cid) (list_of (dget audit ''entries'')) of
       [m] \<Rightarrow> Inr (dict_of (dget (dict_of m) ''locator''), dict_of m) | _ \<Rightarrow> checkpoint_fail ''locator_mismatch'') = Inr (l, row)"
    using assms by (auto simp: physical_locator_for_def result_iffs)
  obtain ctx uid' placed events where c: "build_projection_context env uid worklog activity = Inr ctx" "wrappers ctx = Inr (uid', placed, events)"
    and audit: "audit = [(''workspace_uid'', PStr uid'), (''entries'', PList (map audit_row placed))]"
    using a by (auto simp: build_audit_def build_audit_view_def result_iffs)
  obtain m' where f0: "filter (\<lambda>e. dget (dict_of e) ''checkpoint_id'' = PStr cid) (list_of (dget audit ''entries'')) = [m']"
    and lr: "(l, row) = (dict_of (dget (dict_of m') ''locator''), dict_of m')"
    using only_one [OF m] by blast
  have "list_of (dget audit ''entries'') = map audit_row placed" by (simp add: audit dget_def [of "_ # _"] dget_or_def [of "_ # _"])
  with f0 have f: "filter (\<lambda>e. dget (dict_of e) ''checkpoint_id'' = PStr cid) (map audit_row placed) = [m']" by (simp only:)
  obtain i where i: "i < length placed" "audit_row (placed ! i) = m'" "dget (dict_of m') ''checkpoint_id'' = PStr cid"
    using filter_single [OF f] by (metis length_map nth_map)
  have "row_checkpoint (placed ! i) = Some cid"
    using i(3) unfolding i(2) [symmetric] audit_row_gets by (cases "row_checkpoint (placed ! i)") simp_all
  then show thesis
    by (rule that [OF c i(1)]) (use lr in \<open>simp_all add: i(2) [symmetric] audit_row_gets\<close>)
qed

lemma transition_event_Inr:
  assumes "transition_event env event_id cid request worklog activity origin uid = Inr ev"
  obtains ctx uid' placed events i tr where "build_projection_context env uid worklog activity = Inr ctx"
    "wrappers ctx = Inr (uid', placed, events)" "i < length placed" "row_checkpoint (placed ! i) = Some cid"
    "next_transition (PDict [(''current'', PDict [(''state'', PStr (row_state (placed ! i))), (''revision'', PInt (row_revision (placed ! i)))]),
           (''request'', PDict request)]) = Inr tr"
    "build_transition_event (transition_context uid cid (row_locator (placed ! i)) tr origin) = Inr ev"
proof -
  obtain l row tr where l: "physical_locator_for env uid cid worklog activity = Inr (l, row)"
    and t: "next_transition (PDict [(''current'', PDict [(''state'', dget row ''state''), (''revision'', dget row ''revision'')]),
           (''request'', PDict request)]) = Inr tr"
    and e: "build_transition_event (transition_context uid cid l tr origin) = Inr ev"
    using assms by (auto simp: transition_event_def result_iffs)
  show thesis by (rule locator_for_Inr [OF l]) (use t e that in auto)
qed

lemma last_event: "map_r f (xs @ [x]) = Inr (ys @ [y]) \<Longrightarrow> f x = Inr y"
  by (auto simp: map_r_append result_iffs)

lemma transition_event_extends:
  assumes "transition_event env event_id cid request worklog activity origin uid = Inr ev"
    and "activity_records activity' = activity_records activity @ [PDict (feed_record k at ev)]"
  obtains ctx placed events i ctx' where "build_projection_context env uid worklog activity = Inr ctx" "wrappers ctx = Inr (uid, placed, events)"
    "i < length placed" "row_checkpoint (placed ! i) = Some cid" "build_projection_context env uid worklog activity' = Inr ctx'"
    "wrappers ctx' = Inr (uid, placed[i := flipped (placed ! i) ev], events @ [ev])"
proof -
  obtain ctx uid' placed events i tr where c: "build_projection_context env uid worklog activity = Inr ctx"
    "wrappers ctx = Inr (uid', placed, events)" "i < length placed" "row_checkpoint (placed ! i) = Some cid"
    "next_transition (PDict [(''current'', PDict [(''state'', PStr (row_state (placed ! i))), (''revision'', PInt (row_revision (placed ! i)))]),
           (''request'', PDict request)]) = Inr tr"
    and e: "build_transition_event (transition_context uid cid (row_locator (placed ! i)) tr origin) = Inr ev"
    by (rule transition_event_Inr [OF assms(1)])
  obtain entries transitions where ctx: "ctx = history_context uid entries transitions"
    using c(1) by (auto simp: projection_context_Inr Let_def)
  obtain fresh where u: "uid' = uid" "fresh_rows uid entries fresh" using c(2) by (auto simp: ctx wrappers_Inr)
  have o1: "checkpoint_origin origin = Inr origin" by (rule built_event [OF e])
  obtain ev' where ev': "build_transition_event (transition_context uid cid (row_locator (placed ! i)) tr origin) = Inr ev'"
    "wrappers (history_context uid entries (transitions @ [PDict ev'])) = Inr (uid', placed[i := flipped (placed ! i) ev'], events @ [ev'])"
    using transition_appends [OF c(2) [unfolded ctx] c(3-5) o1] by blast
  with e have w: "wrappers (history_context uid entries (transitions @ [PDict ev])) = Inr (uid, placed[i := flipped (placed ! i) ev], events @ [ev])"
    by (simp add: u)
  then have "map_r checkpoint_event (transitions @ [PDict ev]) = Inr (events @ [ev])" by (auto simp: wrappers_Inr)
  then have ok: "checkpoint_event (PDict ev) = Inr ev" by (rule last_event)
  have "checkpoint_workspace_uid (PStr uid) = Inr uid" using u(2) by (simp add: fresh_rows_def)
  from context_appends [OF c(1) [unfolded ctx] assms(2) e this ok] show thesis
    using that c w by (simp add: u)
qed

lemma activity_records_keyed:
  "dget (dsetdefault a ''activity'' (PList [])) ''activity'' = PList events \<Longrightarrow> activity_records a = events"
  by (auto simp: activity_records_def dget_absent split: if_splits)

lemma activity_records_with_ledger: "activity_records (with_ledger a) = activity_records a"
  by (simp add: activity_records_def with_ledger_def)

text \<open>
  C20. A checkpoint transition that is accepted moves exactly its own entry: before the command the
  stored documents validate as a whole and hold exactly one entry with that checkpoint; after it they
  validate again, that entry has the other state, one revision more and the answered event as its last
  transition, and every other entry is as it was. The event and the receipt are written by one save of the
  activity document; no other document changes.
\<close>
theorem checkpoint_command_flips_entry:
  assumes "apply_checkpoint_transition_v1 env event_id (PStr cid) body key path digest origin w = (Inr (201, answer), w')"
  shows "\<exists>uid placed events i ev a. checkpoint_rows env (documents w) = Inr (uid, placed, events) \<and> i < length placed \<and>
    row_checkpoint (placed ! i) = Some cid \<and> answer = response_body ev \<and>
    checkpoint_rows env (documents w') = Inr (uid, placed[i := flipped (placed ! i) ev], events @ [ev]) \<and>
    documents w' = (documents w)(Activity_Doc := a) \<and>
    saved w' = saved w @ [(''checkpoint-transition-'' @ str_of key, [(Activity_Doc, a)])]"
proof -
  obtain request rd where k: "keyed_command key ''POST'' path rd (transition_intent env event_id cid request origin key path rd) w
      = (Inr (201, answer), w')"
    using assms by (auto simp: apply_checkpoint_transition_v1_def result_iffs)
  have i: "transition_intent env event_id cid request origin key path rd (with_ledger (documents w Activity_Doc)) w = (Inr (201, answer), w')"
    by (rule keyed_command_new [OF k]) auto
  let ?act = "with_ledger (documents w Activity_Doc)"
  let ?d = "dsetdefault ?act ''activity'' (PList [])"
  obtain uid w1 ev k at events w2 where u: "ready_uid env w = (Inr uid, w1)"
    and e: "transition_event env event_id cid request (documents w Worklog_Doc) ?act origin uid = Inr ev"
    and evs: "dget ?d ''activity'' = PList events"
    and c: "commit_keyed env (dset ?d ''activity'' (PList (events @ [PDict (feed_record k at ev)]))) key ''POST'' path rd 201 (response_body ev) [] []
       (''checkpoint-transition-'' @ str_of key) w2 = (Inr (201, answer), w')"
    and w2: "w2 = tick w1"
    using i unfolding transition_intent_def Let_def
    by (simp only: runs plumbing bind_c_Inr [of "ready_uid env" for env] bind_r_Inr as_list_Inr) (elim exE conjE, rule that, assumption+, simp)
  have uid: "ready_workspace env = Some uid" "w1 = w" using u by (auto simp: ready_uid_def split: option.splits)
  obtain xs a' where a': "answer = response_body ev"
    "a' = dset (with_ledger (dset ?d ''activity'' (PList (events @ [PDict (feed_record k at ev)])))) ''idempotency'' xs"
    "documents w' = write_all [(Activity_Doc, a')] (documents w2)"
    "saved w' = saved w2 @ [(''checkpoint-transition-'' @ str_of key, [(Activity_Doc, a')])]"
    by (rule commit_keyed_Inr [OF c]) auto
  have recs: "activity_records a' = activity_records ?act @ [PDict (feed_record k at ev)]"
    using activity_records_keyed [OF evs] by (simp add: a'(2) activity_records_def with_ledger_def)
  obtain ctx placed evl n ctx' where x: "build_projection_context env uid (documents w Worklog_Doc) ?act = Inr ctx" "wrappers ctx = Inr (uid, placed, evl)"
    "n < length placed" "row_checkpoint (placed ! n) = Some cid" "build_projection_context env uid (documents w Worklog_Doc) a' = Inr ctx'"
    "wrappers ctx' = Inr (uid, placed[n := flipped (placed ! n) ev], evl @ [ev])"
    by (rule transition_event_extends [OF e recs])
  have "build_projection_context env uid (documents w Worklog_Doc) (documents w Activity_Doc) = Inr ctx"
    using x(1) by (simp add: build_projection_context_def activity_records_with_ledger)
  then show ?thesis
    using x(2-6) uid w2 a'
    by (intro exI [of _ uid] exI [of _ placed] exI [of _ evl] exI [of _ n] exI [of _ ev] exI [of _ a']) (simp add: checkpoint_rows_def)
qed


definition recorded_documents :: "document \<Rightarrow> dict" where
  "recorded_documents d = (case d of
     Worklog_Doc \<Rightarrow> [(''days'', PDict [(''2026-07-01'', PDict [(''entries'', PList [PDict sample_entry])])])]
   | Activity_Doc \<Rightarrow> [(''activity'', PList [PDict (recorded_event ''E-000001'' ''2026-07-01T08:00:00Z''
       (recorded_of sample_uid ''T-0001'' (''CP-'' @ replicate 64 (CHR ''a'')) ''2026-07-01'' 0
          (''sha256:'' @ replicate 64 (CHR ''a'')) PNone))]), (''idempotency'', PList [])]
   | _ \<Rightarrow> [])"

definition recorded_world :: world where
  "recorded_world = \<lparr>documents = recorded_documents, clock_reads = 0, saved = []\<rparr>"

section \<open>What the active view hides\<close>

definition row_slot :: "entry_row \<Rightarrow> pyval \<times> pyval" where
  "row_slot row = (dget (row_locator row) ''date'', dget (row_locator row) ''ordinal'')"

lemma check_unique_slots:
  "check_unique row seen = Inr seen' \<Longrightarrow>
     (dget (row_locator row) ''workspace_uid'', row_slot row) \<notin> set (fst seen) \<and>
     set (fst seen') = insert (dget (row_locator row) ''workspace_uid'', row_slot row) (set (fst seen))"
  by (cases seen) (auto simp: check_unique_def row_slot_def Let_def split: if_splits option.splits)

lemma distinct_slots:
  assumes "fold_r check_unique rws seen = Inr seen'"
  shows "distinct (map (\<lambda>row. (dget (row_locator row) ''workspace_uid'', row_slot row)) rws)"
    and "r \<in> set rws \<Longrightarrow> (dget (row_locator r) ''workspace_uid'', row_slot r) \<notin> set (fst seen)"
proof -
  have new: "(dget (row_locator r) ''workspace_uid'', row_slot r) \<notin> set (fst seen)"
    if "fold_r check_unique rws seen = Inr seen'" "r \<in> set rws" for rws seen r
    using that
  proof (induction rws arbitrary: seen)
    case (Cons a rws seen)
    obtain mid where m: "check_unique a seen = Inr mid" "fold_r check_unique rws mid = Inr seen'"
      using Cons.prems(1) by (auto simp: result_iffs)
    show ?case using Cons.IH [OF m(2)] check_unique_slots [OF m(1)] Cons.prems(2) by auto
  qed simp
  show "r \<in> set rws \<Longrightarrow> (dget (row_locator r) ''workspace_uid'', row_slot r) \<notin> set (fst seen)"
    by (rule new [OF assms])
  show "distinct (map (\<lambda>row. (dget (row_locator row) ''workspace_uid'', row_slot row)) rws)"
    using assms
  proof (induction rws arbitrary: seen)
    case (Cons a rws seen)
    obtain mid where m: "check_unique a seen = Inr mid" "fold_r check_unique rws mid = Inr seen'"
      using Cons.prems by (auto simp: result_iffs)
    have "(dget (row_locator row) ''workspace_uid'', row_slot row) \<noteq> (dget (row_locator a) ''workspace_uid'', row_slot a)"
      if "row \<in> set rws" for row
      using new [OF m(2) that] check_unique_slots [OF m(1)] by (metis insertI1)
    then show ?case using Cons.IH [OF m(2)] by (simp only: list.map distinct.simps set_map image_iff) metis
  qed simp
qed

lemma one_row_per_slot:
  assumes "fresh_rows w entries rws" and "r \<in> set rws" and "r' \<in> set rws" and "row_slot r = row_slot r'"
  shows "r = r'"
proof -
  obtain seen where f: "fold_r check_unique rws ([], []) = Inr seen" using assms(1) by (auto simp: fresh_rows_def check_uniqueness_def result_iffs)
  have "bind_row w x () = Inr ()" if "x \<in> set rws" for x using assms(1) that by (auto simp: fresh_rows_def bind_rows_def fold_r_unit_Inr)
  then have "dget (row_locator x) ''workspace_uid'' = PStr w" if "x \<in> set rws" for x
    using that by (force simp: bind_row_def split: if_splits)
  with distinct_slots(1) [OF f] assms(2-4) show ?thesis by (auto simp: distinct_map inj_on_def)
qed

lemma wrapper_slot:
  "wrapper_row (PDict [(''locator'', PDict [(''workspace_uid'', a), (''task_id'', b), (''date'', d), (''ordinal'', n), (''entry_digest'', e)]),
     (''recorded'', r), (''entry'', v)]) = Inr row \<Longrightarrow> row_slot row = (d, n)"
  by (auto simp: wrapper_row_def checkpoint_locator_def result_iffs checked row_slot_def Let_def dget_def [of "_ # _"] dget_or_def [of "_ # _"]
      split: if_splits)

lemma row_for_slot:
  assumes "map_r wrapper_row (concat (map (row_wrappers env w recs) places)) = Inr fresh" and "(date, k, e) \<in> set places"
  shows "\<exists>r \<in> set fresh. row_slot r = (PStr date, PInt (int k))"
proof -
  let ?v = "\<lambda>rec. PDict [(''locator'', PDict [(''workspace_uid'', PStr w), (''task_id'', physical_task_id e), (''date'', PStr date),
              (''ordinal'', PInt (int k)), (''entry_digest'', entry_digest_of env e)]), (''recorded'', rec), (''entry'', e)]"
  have "\<exists>rec. ?v rec \<in> set (row_wrappers env w recs (date, k, e))"
    by (cases "claims_of recs date k") (auto simp: row_wrappers_def Let_def)
  then obtain rec where "?v rec \<in> set (concat (map (row_wrappers env w recs) places))" using assms(2) by (auto intro!: bexI [OF _ assms(2)])
  then obtain r where "r \<in> set fresh" "wrapper_row (?v rec) = Inr r"
    using assms(1) by (auto simp: map_r_Inr dest!: list_all2_left)
  then show ?thesis using wrapper_slot by blast
qed

lemma map_of_active_day:
  "map_of (map (active_day slots) days) date = map_option (\<lambda>day. snd (active_day slots (date, day))) (map_of days date)"
  by (induction days) (auto simp: active_day_def split: pyval.splits)

lemma active_day_entries:
  assumes "dget (dict_of (dget days date)) ''entries'' = PList es"
  shows "dget (dict_of (dget (map (active_day slots) days) date)) ''entries'' = PList (active_entries slots date es)"
proof -
  obtain d where d: "map_of days date = Some (PDict d)" "dget d ''entries'' = PList es"
  proof (cases "map_of days date")
    case None
    with assms show thesis by (simp add: dget_def dget_or_def)
  next
    case (Some v)
    with assms that show thesis by (cases v) (auto simp: dget_def dget_or_def)
  qed
  then have "map_of (map (active_day slots) days) date = Some (PDict (dset d ''entries'' (PList (active_entries slots date es))))"
    by (simp add: map_of_active_day active_day_def)
  then show ?thesis by (simp add: dget_map_of)
qed

lemma in_active_slots: "s \<in> set (active_slots placed) \<longleftrightarrow> (\<exists>x \<in> set placed. row_state x = ''active'' \<and> row_slot x = s)"
  by (auto simp: active_slots_def row_slot_def)

text \<open>
  C21. The active view hides the superseded entries and nothing else: on every day the entries of the
  view are those of the stored day, in their order, without the ones whose row is superseded; a day
  stays even when nothing is left of it.
\<close>
theorem active_view_hides_superseded:
  assumes "active_worklog_document env uid worklog activity = Inr view"
    and "build_projection_context env uid worklog activity = Inr ctx" and "wrappers ctx = Inr (uid', placed, events)"
    and "entries_on worklog date = PList es"
  shows "entries_on view date = PList (map snd (filter (\<lambda>(k, e).
    \<not> list_ex (\<lambda>r. row_slot r = (PStr date, PInt (int k)) \<and> row_state r = ''superseded'') placed) (enumerate 0 es)))"
proof -
  obtain days where days: "dget worklog ''days'' = PDict days"
    using assms(4) by (cases "dget worklog ''days''") (simp_all add: entries_on_def dget_def [of "[]"] dget_or_def [of "[]"])
  let ?recs = "recognized_records (activity_records activity)"
  have ctx: "ctx = history_context uid (concat (map (row_wrappers env uid ?recs) (physical_rows worklog)))
      (map snd (filter (\<lambda>r. fst r \<in> set TRANSITION_TYPES) ?recs))"
    using assms(2) by (simp add: projection_context_Inr Let_def)
  obtain fresh h where f: "uid' = uid" "fresh_rows uid (concat (map (row_wrappers env uid ?recs) (physical_rows worklog))) fresh"
    "map_r checkpoint_event (map snd (filter (\<lambda>r. fst r \<in> set TRANSITION_TYPES) ?recs)) = Inr events"
    "bind_transitions events fresh uid = Inr h" "check_history h = Inr ()"
    "placed = map (\<lambda>r. settled r (row_history events r)) fresh" "\<forall>r \<in> set fresh. history_from 1 (row_history events r)"
    by (rule wrappers_settled [OF assms(3) [unfolded ctx]])
  have view: "view = dset worklog ''days'' (PDict (map (active_day (active_slots placed)) days))"
    using assms(1-3) by (auto simp: active_worklog_document_def days)
  have slot: "row_slot (settled r x) = row_slot r" for r x by (simp add: row_slot_def)
  have iff: "(PStr date, PInt (int k)) \<in> set (active_slots placed) \<longleftrightarrow>
      \<not> list_ex (\<lambda>r. row_slot r = (PStr date, PInt (int k)) \<and> row_state r = ''superseded'') placed" if "k < length es" for k
  proof -
    have "date \<in> set (dkeys days)"
      using assms(4) by (cases "dhas days date") (simp_all add: dhas_iff entries_on_def days dget_absent dget_def [of "[]"] dget_or_def [of "[]"])
    then have "(date, k, es ! k) \<in> set (physical_rows worklog)"
      using that assms(4) by (auto simp: physical_rows_def days entries_on_def in_set_enumerate_eq image_iff intro!: bexI [of _ "(k, es ! k)"])
    then obtain r where r: "r \<in> set fresh" "row_slot r = (PStr date, PInt (int k))"
      using row_for_slot [of env uid ?recs "physical_rows worklog" fresh] f(2) unfolding fresh_rows_def by blast
    have only: "x = r" if "x \<in> set fresh" "row_slot x = (PStr date, PInt (int k))" for x
      using one_row_per_slot [OF f(2) that(1) r(1)] that r(2) by simp
    have "(PStr date, PInt (int k)) \<in> set (active_slots placed) \<longleftrightarrow> row_state (settled r (row_history events r)) = ''active''"
      unfolding in_active_slots f(6) set_map bex_simps slot using r only by blast
    moreover have "list_ex (\<lambda>r. row_slot r = (PStr date, PInt (int k)) \<and> row_state r = ''superseded'') placed \<longleftrightarrow>
        row_state (settled r (row_history events r)) = ''superseded''"
      unfolding list_ex_iff f(6) set_map bex_simps slot using r only by blast
    ultimately show ?thesis by (simp add: state_at_def)
  qed
  have "entries_on view date = PList (active_entries (active_slots placed) date es)"
    using active_day_entries [of days date es "active_slots placed"] assms(4) by (simp add: entries_on_def view days)
  also have "active_entries (active_slots placed) date es = map snd (filter (\<lambda>(k, e).
    \<not> list_ex (\<lambda>r. row_slot r = (PStr date, PInt (int k)) \<and> row_state r = ''superseded'') placed) (enumerate 0 es))"
    unfolding active_entries_def by (intro arg_cong [where f = "map snd"] filter_cong refl) (auto simp: in_set_enumerate_eq iff)
  finally show ?thesis .
qed


section \<open>Instances\<close>

lemma sample_transition_accepted:
  "answered_with 201 (apply_checkpoint_transition_v1 sample_env PNone (PStr (''CP-'' @ replicate 64 (CHR ''a'')))
     (sample_request ''superseded'' 0 ''duplicate'') (PStr ''abcdefgh'') ''/c'' PNone PNone recorded_world)"
  by code_simp


theorem checkpoint_command_flips_entry_witness:
  "\<exists>answer w' ev a. apply_checkpoint_transition_v1 sample_env PNone (PStr (''CP-'' @ replicate 64 (CHR ''a'')))
     (sample_request ''superseded'' 0 ''duplicate'') (PStr ''abcdefgh'') ''/c'' PNone PNone recorded_world = (Inr (201, answer), w') \<and>
     answer = response_body ev \<and> documents w' = recorded_documents(Activity_Doc := a)"
proof -
  from answered_withD [OF sample_transition_accepted] obtain answer w' where
    r: "apply_checkpoint_transition_v1 sample_env PNone (PStr (''CP-'' @ replicate 64 (CHR ''a'')))
     (sample_request ''superseded'' 0 ''duplicate'') (PStr ''abcdefgh'') ''/c'' PNone PNone recorded_world = (Inr (201, answer), w')" by blast
  have "documents recorded_world = recorded_documents" by (simp add: recorded_world_def)
  with checkpoint_command_flips_entry [OF r] r show ?thesis by metis
qed

lemma sample_view: "\<not> isl (active_worklog_document sample_env sample_uid (recorded_documents Worklog_Doc) (recorded_documents Activity_Doc))"
  by code_simp

theorem active_view_hides_superseded_witness:
  "\<exists>view placed. active_worklog_document sample_env sample_uid (recorded_documents Worklog_Doc) (recorded_documents Activity_Doc) = Inr view \<and>
     entries_on view ''2026-07-01'' = PList (map snd (filter (\<lambda>(k, e).
       \<not> list_ex (\<lambda>r. row_slot r = (PStr ''2026-07-01'', PInt (int k)) \<and> row_state r = ''superseded'') placed) (enumerate 0 [PDict sample_entry])))"
proof -
  obtain view where v: "active_worklog_document sample_env sample_uid (recorded_documents Worklog_Doc) (recorded_documents Activity_Doc) = Inr view"
    using sample_view by (cases "active_worklog_document sample_env sample_uid (recorded_documents Worklog_Doc) (recorded_documents Activity_Doc)") auto
  then obtain ctx u placed events where c: "build_projection_context sample_env sample_uid (recorded_documents Worklog_Doc) (recorded_documents Activity_Doc) = Inr ctx"
    "wrappers ctx = Inr (u, placed, events)" by (auto simp: active_worklog_document_def result_iffs)
  have "entries_on (recorded_documents Worklog_Doc) ''2026-07-01'' = PList [PDict sample_entry]"
    by (simp add: recorded_documents_def entries_on_def dget_def dget_or_def)
  with active_view_hides_superseded [OF v c] v show ?thesis by blast
qed

end
