(* ===== verification/WS_WorkSessions.thy ===== *)
theory WS_WorkSessions
  imports WS_Review
begin

text \<open>
  \<open>workstack/service_work_sessions.py\<close>: work sessions live inside the days of the work log. Every read
  validates all of them again - identifiers, dates, states, the readiness of the worklog and the
  ladder of segments - and at most one may be active. A session that was looked up is changed in
  place; the model carries its place, the day and the position among the sessions of the day.
\<close>

section \<open>Instants and elapsed time\<close>

definition session_corrupt :: "string \<Rightarrow> pyexc" where
  "session_corrupt what = StoreCorruptError (''persisted '' @ what)"

definition invalid_field :: "string \<Rightarrow> pyexc" where
  "invalid_field field = session_corrupt (''work session '' @ field @ '' is invalid'')"

definition work_session_timestamp :: "pyval \<Rightarrow> string \<Rightarrow> instant result" where
  "work_session_timestamp v field =
     (case v of
        PStr s \<Rightarrow>
          (if s = [] \<or> last s \<noteq> CHR ''Z'' then Inl (invalid_field field)
           else case datetime_fromisoformat (butlast s @ ''+00:00'') of
               None \<Rightarrow> Inl (invalid_field field)
             | Some parsed \<Rightarrow>
                 (if i_offset parsed \<noteq> Some 0 \<or> i_micro parsed \<noteq> 0 then Inl (invalid_field field) else Inr parsed))
      | _ \<Rightarrow> Inl (invalid_field field))"

definition segment_seconds :: "instant option \<Rightarrow> pyval \<Rightarrow> int result" where
  "segment_seconds now segment =
     bind_r (bind_r (getitem segment ''started_at'') (\<lambda>v. work_session_timestamp v ''segment.started_at'')) (\<lambda>started.
     bind_r (vget segment ''ended_at'') (\<lambda>ended_value.
     bind_r (if ended_value \<noteq> PNone
             then bind_r (work_session_timestamp ended_value ''segment.ended_at'') (\<lambda>i. Inr (Some i))
             else Inr now) (\<lambda>ended. case ended of
         None \<Rightarrow> Inl (session_corrupt ''running work session has no current time'')
       | Some ended \<Rightarrow>
           (if instant_seconds ended < instant_seconds started
            then Inl (session_corrupt ''work session segment has negative duration'')
            else Inr (instant_seconds ended - instant_seconds started)))))"

definition add_segment :: "instant option \<Rightarrow> pyval \<Rightarrow> int \<Rightarrow> int result" where
  "add_segment now segment elapsed = bind_r (segment_seconds now segment) (\<lambda>n. Inr (elapsed + n))"

definition work_session_elapsed :: "dict \<Rightarrow> pyval \<Rightarrow> int result" where
  "work_session_elapsed session current_time =
     bind_r (if truthy current_time
             then bind_r (work_session_timestamp current_time ''current_time'') (\<lambda>i. Inr (Some i)) else Inr None) (\<lambda>now.
     bind_r (bind_r (dindex session ''segments'') iter_r) (\<lambda>segments.
     fold_r (add_segment now) segments 0))"

section \<open>Validation\<close>

definition bad_date :: "pyexc \<Rightarrow> pyexc option" where
  "bad_date e = (case e of DomainError k m d \<Rightarrow> Some (session_corrupt ''worklog date is invalid'') | _ \<Rightarrow> None)"

definition work_session_day :: "string \<Rightarrow> pyval \<Rightarrow> (string \<times> pyval list) result" where
  "work_session_day date day =
     bind_r (catch_r (review_date (PStr date)) bad_date) (\<lambda>day_date.
     case day of
       PDict d \<Rightarrow> (case dget_or d ''sessions'' (PList []) of
           PList sessions \<Rightarrow> Inr (day_date, sessions)
         | _ \<Rightarrow> Inl (session_corrupt ''work sessions are invalid''))
     | _ \<Rightarrow> Inl (session_corrupt ''worklog day is invalid''))"

definition is_session_id :: "string \<Rightarrow> bool" where
  "is_session_id s \<longleftrightarrow> take 3 s = ''WS-'' \<and> 6 \<le> length (drop 3 s) \<and> all_digits (drop 3 s)"

definition is_any_task_id :: "string \<Rightarrow> bool" where
  "is_any_task_id s \<longleftrightarrow> take 2 s = ''T-'' \<and> drop 2 s \<noteq> [] \<and> all_digits (drop 2 s)"

definition ACTIVE_STATES :: "string list" where
  "ACTIVE_STATES = [''running'', ''paused'']"

definition worklog_states :: "string \<Rightarrow> string list" where
  "worklog_states state = (if state \<in> set ACTIVE_STATES then [''not_ready''] else [''pending'', ''recorded''])"

text \<open>Everything but the identifier, in the order of the code.\<close>

definition work_session_shape :: "dict \<Rightarrow> string \<Rightarrow> (dict \<times> string) result" where
  "work_session_shape c day_date =
     (if dget c ''date'' \<noteq> PStr day_date then Inl (invalid_field ''date'')
      else if \<not> is_str (dget c ''task_id'') \<or> \<not> is_any_task_id (str_of (dget c ''task_id''))
      then Inl (invalid_field ''task id'')
      else if \<not> is_str (dget c ''task'') \<or> py_strip (str_of (dget c ''task'')) = []
      then Inl (invalid_field ''task title'')
      else
      bind_r (in_set_r (dget c ''state'') [''running'', ''paused'', ''stopped'']) (\<lambda>known.
      if \<not> known then Inl (invalid_field ''state'')
      else let state = str_of (dget c ''state'') in
      bind_r (in_set_r (dget c ''worklog_state'') (worklog_states state)) (\<lambda>ready.
      if \<not> ready then Inl (invalid_field ''worklog state'')
      else
      bind_r (work_session_timestamp (dget c ''started_at'') ''started_at'') (\<lambda>_.
      bind_r (work_session_timestamp (dget c ''updated_at'') ''updated_at'') (\<lambda>_.
      Inr (c, state))))))"

text \<open>The session and its state; the caller adds the identifier to those it has seen.\<close>

definition work_session_header :: "pyval \<Rightarrow> string \<Rightarrow> string list \<Rightarrow> (dict \<times> string) result" where
  "work_session_header candidate day_date seen =
     (case candidate of
        PDict c \<Rightarrow>
          (if \<not> is_str (dget c ''id'') \<or> \<not> is_session_id (str_of (dget c ''id'')) \<or> str_of (dget c ''id'') \<in> set seen
           then Inl (invalid_field ''id'')
           else work_session_shape c day_date)
      | _ \<Rightarrow> Inl (session_corrupt ''work session is invalid''))"

definition work_session_segment :: "pyval \<Rightarrow> nat \<Rightarrow> nat \<Rightarrow> instant option \<Rightarrow> (instant option \<times> bool) result" where
  "work_session_segment candidate pos size_of previous_end =
     (case candidate of
        PDict c \<Rightarrow>
          (if \<not> exact_keys c [''started_at'', ''ended_at''] then Inl (session_corrupt ''work session segment is invalid'')
           else
           bind_r (work_session_timestamp (dget c ''started_at'') ''segment.started_at'') (\<lambda>segment_start.
           if (case previous_end of None \<Rightarrow> False | Some p \<Rightarrow> instant_seconds segment_start < instant_seconds p)
           then Inl (session_corrupt ''work session segments overlap'')
           else if dget c ''ended_at'' = PNone
           then (if pos \<noteq> size_of - 1 then Inl (session_corrupt ''work session open segment is invalid'') else Inr (None, True))
           else
           bind_r (work_session_timestamp (dget c ''ended_at'') ''segment.ended_at'') (\<lambda>segment_end.
           if instant_seconds segment_end < instant_seconds segment_start
           then Inl (session_corrupt ''work session segment has negative duration'')
           else Inr (Some segment_end, False))))
      | _ \<Rightarrow> Inl (session_corrupt ''work session segment is invalid''))"

text \<open>The number of open segments, from a position on.\<close>

fun open_segments :: "nat \<Rightarrow> nat \<Rightarrow> instant option \<Rightarrow> pyval list \<Rightarrow> nat result" where
  "open_segments pos size_of previous_end [] = Inr 0"
| "open_segments pos size_of previous_end (segment # segments) =
     bind_r (work_session_segment segment pos size_of previous_end) (\<lambda>(previous_end, is_open).
     bind_r (open_segments (Suc pos) size_of previous_end segments) (\<lambda>n.
     Inr (n + (if is_open then 1 else 0))))"

definition validate_work_session_segments :: "dict \<Rightarrow> string \<Rightarrow> unit result" where
  "validate_work_session_segments session state =
     (case dget session ''segments'' of
        PList segments \<Rightarrow>
          (if segments = [] then Inl (session_corrupt ''work session segments are invalid'')
           else
           bind_r (open_segments 0 (length segments) None segments) (\<lambda>n.
           if (state = ''running'') \<noteq> (n = 1) then Inl (session_corrupt ''work session open segment is inconsistent'')
           else if state \<in> {''paused'', ''stopped''} \<and> n \<noteq> 0 then Inl (session_corrupt ''work session open segment is inconsistent'')
           else Inr ()))
      | _ \<Rightarrow> Inl (session_corrupt ''work session segments are invalid''))"

text \<open>A session and its place, and what the loop over all of them carries.\<close>

type_synonym placed = "string \<times> nat \<times> dict"

type_synonym roster_state = "placed list \<times> string list \<times> nat"

fun day_records :: "string \<Rightarrow> nat \<Rightarrow> pyval list \<Rightarrow> roster_state \<Rightarrow> roster_state result" where
  "day_records date k [] s = Inr s"
| "day_records date k (candidate # candidates) (sessions, seen, active_count) =
     bind_r (work_session_header candidate date seen) (\<lambda>(session, state).
     bind_r (validate_work_session_segments session state) (\<lambda>_.
     day_records date (Suc k) candidates
       (sessions @ [(date, k, session)], str_of (dget session ''id'') # seen,
        active_count + (if state \<in> set ACTIVE_STATES then 1 else 0))))"

definition day_sessions :: "string \<times> pyval \<Rightarrow> roster_state \<Rightarrow> roster_state result" where
  "day_sessions p s =
     bind_r (work_session_day (fst p) (snd p)) (\<lambda>(day_date, candidates). day_records day_date 0 candidates s)"

definition work_session_records :: "dict \<Rightarrow> placed list result" where
  "work_session_records worklog =
     (case dget worklog ''days'' of
        PDict days \<Rightarrow>
          bind_r (fold_r day_sessions days ([], [], 0)) (\<lambda>(sessions, seen, active_count).
          if 1 < active_count then Inl (StoreCorruptError ''multiple active work sessions are persisted'') else Inr sessions)
      | _ \<Rightarrow> Inl (session_corrupt ''worklog days are invalid''))"

section \<open>Projection\<close>

definition project_work_session :: "dict \<Rightarrow> pyval \<Rightarrow> dict result" where
  "project_work_session session current_time =
     bind_r (map_r (\<lambda>k. bind_r (dindex session k) (\<lambda>v. Inr (k, v)))
       [''id'', ''task_id'', ''task'', ''date'', ''state'', ''started_at'', ''updated_at'']) (\<lambda>fields.
     bind_r (work_session_elapsed session (if dget session ''state'' = PStr ''running'' then current_time else PNone)) (\<lambda>elapsed.
     bind_r (dindex session ''worklog_state'') (\<lambda>worklog_state.
     Inr (fields @ [(''elapsed_seconds'', PInt elapsed), (''worklog_state'', worklog_state)]))))"

definition is_active :: "dict \<Rightarrow> bool" where
  "is_active session \<longleftrightarrow> in_tuple (dget session ''state'') ACTIVE_STATES"

definition is_pending :: "dict \<Rightarrow> bool" where
  "is_pending session \<longleftrightarrow> dget session ''state'' = PStr ''stopped'' \<and> dget session ''worklog_state'' = PStr ''pending''"

text \<open>\<open>sorted(..., reverse=True)\<close> keeps the order of equal keys.\<close>

definition newest_first :: "dict list \<Rightarrow> dict list result" where
  "newest_first sessions =
     bind_r (sorted_by (\<lambda>s. Inr [dget s ''updated_at'', dget s ''id'']) (List.rev sessions)) (\<lambda>xs. Inr (List.rev xs))"

definition work_sessions_projection :: "env \<Rightarrow> dict command" where
  "work_sessions_projection env =
     bind_c (load Worklog_Doc) (\<lambda>worklog.
     bind_c (lift_c (work_session_records worklog)) (\<lambda>placed.
     bind_c (utc_now env) (\<lambda>current_time.
     let sessions = map (\<lambda>(d, k, s). s) placed in
     bind_c (lift_c (newest_first (filter is_pending sessions))) (\<lambda>pending.
     bind_c (lift_c (case find is_active sessions of
         None \<Rightarrow> Inr PNone
       | Some current \<Rightarrow> bind_r (project_work_session current (PStr current_time)) (\<lambda>p. Inr (PDict p)))) (\<lambda>current.
     bind_c (lift_c (map_r (\<lambda>s. project_work_session s PNone) pending)) (\<lambda>pending.
     return_c [(''current'', current), (''pending'', PList (map PDict pending))]))))))"

section \<open>Commands\<close>

definition session_conflict :: "string \<Rightarrow> dict \<Rightarrow> pyexc" where
  "session_conflict message details = DomainError Work_Session_Conflict message details"

definition new_session :: "string \<Rightarrow> pyval \<Rightarrow> pyval \<Rightarrow> string \<Rightarrow> string \<Rightarrow> dict" where
  "new_session i task_id title date timestamp =
     [(''id'', PStr i), (''task_id'', task_id), (''task'', title), (''date'', PStr date), (''state'', PStr ''running''),
      (''started_at'', PStr timestamp), (''updated_at'', PStr timestamp),
      (''segments'', PList [PDict [(''started_at'', PStr timestamp), (''ended_at'', PNone)]]),
      (''worklog_state'', PStr ''not_ready'')]"

definition append_session :: "dict \<Rightarrow> string \<Rightarrow> dict \<Rightarrow> dict result" where
  "append_session worklog date session =
     bind_r (open_day worklog date) (\<lambda>(worklog, day).
     bind_r (as_dict day) (\<lambda>day.
     bind_r (append_row (dsetdefault day ''sessions'' (PList [])) ''sessions'' session) (\<lambda>day.
     Inr (put_day worklog date day))))"

text \<open>A session changed in place.\<close>

definition put_session :: "dict \<Rightarrow> string \<Rightarrow> nat \<Rightarrow> dict \<Rightarrow> dict" where
  "put_session worklog date k session =
     put_day worklog date (put_row (dict_of (dget (dict_of (dget worklog ''days'')) date)) ''sessions'' k session)"

definition start_intent :: "env \<Rightarrow> dict \<Rightarrow> pyval \<Rightarrow> string \<Rightarrow> string \<Rightarrow> dict \<Rightarrow> response command" where
  "start_intent env task key path digest activity =
     bind_c (load Worklog_Doc) (\<lambda>worklog.
     bind_c (lift_c (work_session_records worklog)) (\<lambda>placed.
     bind_c (lift_c (if list_ex (\<lambda>(d, k, s). is_active s) placed
       then Inl (session_conflict ''another work session is already active'' []) else Inr ())) (\<lambda>_.
     bind_c (utc_now env) (\<lambda>timestamp.
     bind_c (today env) (\<lambda>day.
     bind_c (lift_c (review_date (PStr day))) (\<lambda>date.
     bind_c (lift_c (next_id (map (\<lambda>(d, k, s). PDict s) placed) ''WS'' 6)) (\<lambda>i.
     bind_c (lift_c (dindex task ''title'')) (\<lambda>title.
     let session = new_session i (dget task ''id'') title date timestamp in
     bind_c (lift_c (append_session worklog date session)) (\<lambda>worklog.
     bind_c (lift_c (project_work_session session (PStr timestamp))) (\<lambda>projected.
     commit_keyed env activity key ''POST'' path digest 201 (response_body projected) [(Worklog_Doc, worklog)] []
       (''work-session-start-'' @ str_of key)))))))))))"

definition start_work_session_v1 :: "env \<Rightarrow> dict \<Rightarrow> pyval \<Rightarrow> string \<Rightarrow> response command" where
  "start_work_session_v1 env body key path =
     bind_c (lift_c (validate_idempotency_key key)) (\<lambda>_.
     bind_c (lift_c (body_task_id body)) (\<lambda>task_id.
     bind_c (fetch_task task_id) (\<lambda>task.
     bind_c (lift_c (dindex task ''id'')) (\<lambda>i.
     let digest = canonical_digest env (PDict [(''task_id'', i)]) in
     keyed_command key ''POST'' path digest (start_intent env task key path digest)))))"

definition allowed_states :: "string \<Rightarrow> string list" where
  "allowed_states action =
     (if action = ''stop'' then [''running'', ''paused''] else if action = ''pause'' then [''running''] else [''paused''])"

definition after_action :: "string \<Rightarrow> string" where
  "after_action action = (if action = ''pause'' then ''paused'' else if action = ''resume'' then ''running'' else ''stopped'')"

definition close_last :: "pyval list \<Rightarrow> string \<Rightarrow> pyval list" where
  "close_last segments timestamp =
     segments[length segments - 1 := PDict (dset (dict_of (last segments)) ''ended_at'' (PStr timestamp))]"

text \<open>The segments of a validated session are a non-empty list of dictionaries.\<close>

definition moved_segments :: "string \<Rightarrow> string \<Rightarrow> pyval list \<Rightarrow> string \<Rightarrow> pyval list" where
  "moved_segments action state segments timestamp =
     (let segments = (if action \<in> {''pause'', ''stop''} \<and> state = ''running'' then close_last segments timestamp else segments) in
      if action = ''resume'' then segments @ [PDict [(''started_at'', PStr timestamp), (''ended_at'', PNone)]] else segments)"

definition move_session :: "string \<Rightarrow> string \<Rightarrow> dict \<Rightarrow> dict" where
  "move_session action timestamp session =
     (let state = str_of (dget session ''state'');
          session = dset session ''segments'' (PList (moved_segments action state (list_of (dget session ''segments'')) timestamp));
          session = dset session ''state'' (PStr (after_action action));
          session = (if action = ''stop'' then dset session ''worklog_state'' (PStr ''pending'') else session)
      in dset session ''updated_at'' (PStr timestamp))"

definition transition_session_intent ::
  "env \<Rightarrow> string \<Rightarrow> string \<Rightarrow> pyval \<Rightarrow> string \<Rightarrow> string \<Rightarrow> dict \<Rightarrow> response command" where
  "transition_session_intent env wanted_id action key path digest activity =
     bind_c (load Worklog_Doc) (\<lambda>worklog.
     bind_c (lift_c (work_session_records worklog)) (\<lambda>placed.
     bind_c (lift_c (find_record (map (\<lambda>(d, k, s). PDict s) placed) wanted_id ''work session'')) (\<lambda>(n, session).
     bind_c (lift_c (if \<not> in_tuple (dget session ''state'') (allowed_states action)
       then Inl (session_conflict (''cannot '' @ action @ '' a '' @ py_str (dget session ''state'') @ '' work session'')
              [(''session_id'', dget session ''id''), (''state'', dget session ''state'')]) else Inr ())) (\<lambda>_.
     bind_c (utc_now env) (\<lambda>timestamp.
     let session = move_session action timestamp session; (date, k, s) = placed ! n in
     bind_c (lift_c (project_work_session session (PStr timestamp))) (\<lambda>projected.
     commit_keyed env activity key ''POST'' path digest 200 (response_body projected)
       [(Worklog_Doc, put_session worklog date k session)] [] (''work-session-'' @ action @ ''-'' @ str_of key)))))))"

text \<open>\<open>str(session_id).strip().upper()\<close>, and \<open>path or ...\<close>\<close>

definition path_or :: "string \<Rightarrow> string \<Rightarrow> string" where
  "path_or path default_path = (if path = [] then default_path else path)"

definition transition_work_session_v1 ::
  "env \<Rightarrow> string \<Rightarrow> string \<Rightarrow> pyval \<Rightarrow> string \<Rightarrow> response command" where
  "transition_work_session_v1 env session_id action key path =
     bind_c (lift_c (validate_idempotency_key key)) (\<lambda>_.
     let wanted_id = upper_strip session_id in
     if action \<notin> {''pause'', ''resume'', ''stop''}
     then raise_c (domain_error ''work session action is invalid'' [(''action'', PStr action)])
     else
     let digest = canonical_digest env (PDict []);
         path = path_or path (''/api/v1/work-sessions/'' @ wanted_id @ ''/'' @ action) in
     keyed_command key ''POST'' path digest (transition_session_intent env wanted_id action key path digest))"

text \<open>\<open>worklog["days"][date].setdefault("entries", []).append(entry)\<close>, the day being a validated one.\<close>

definition append_entry :: "dict \<Rightarrow> string \<Rightarrow> dict \<Rightarrow> dict result" where
  "append_entry worklog date entry =
     (let day = dsetdefault (dict_of (dget (dict_of (dget worklog ''days'')) date)) ''entries'' (PList []) in
      bind_r (append_row day ''entries'' entry) (\<lambda>day. Inr (put_day worklog date day)))"

definition session_entry :: "dict \<Rightarrow> dict \<Rightarrow> int \<Rightarrow> dict" where
  "session_entry session canonical duration =
     [(''task_id'', dget session ''task_id''), (''task'', dget session ''task''), (''done'', dget canonical ''done''),
      (''next'', dget canonical ''next''), (''blockers'', dget canonical ''blockers''), (''session_id'', dget session ''id''),
      (''duration_seconds'', PInt duration)]"

definition record_session_intent ::
  "env \<Rightarrow> string \<Rightarrow> dict \<Rightarrow> pyval \<Rightarrow> string \<Rightarrow> string \<Rightarrow> dict \<Rightarrow> response command" where
  "record_session_intent env wanted_id canonical key path digest activity =
     bind_c (load Worklog_Doc) (\<lambda>worklog.
     bind_c (lift_c (work_session_records worklog)) (\<lambda>placed.
     bind_c (lift_c (find_record (map (\<lambda>(d, k, s). PDict s) placed) wanted_id ''work session'')) (\<lambda>(n, session).
     bind_c (lift_c (if \<not> is_pending session
       then Inl (session_conflict ''work session is not ready for a worklog''
              [(''session_id'', dget session ''id''), (''state'', dget session ''state'')]) else Inr ())) (\<lambda>_.
     bind_c (lift_c (work_session_elapsed session PNone)) (\<lambda>duration.
     let entry = session_entry session canonical duration; (date, k, s) = placed ! n in
     bind_c (lift_c (append_entry worklog date entry)) (\<lambda>worklog.
     bind_c (utc_now env) (\<lambda>timestamp.
     let session = dset (dset session ''worklog_state'' (PStr ''recorded'')) ''updated_at'' (PStr timestamp) in
     commit_keyed env activity key ''POST'' path digest 201 (response_body ((''date'', dget session ''date'') # entry))
       [(Worklog_Doc, put_session worklog date k session)] [] (''work-session-worklog-'' @ str_of key))))))))"

definition record_work_session_v1 :: "env \<Rightarrow> string \<Rightarrow> dict \<Rightarrow> pyval \<Rightarrow> string \<Rightarrow> response command" where
  "record_work_session_v1 env session_id body key path =
     bind_c (lift_c (validate_idempotency_key key)) (\<lambda>_.
     let wanted_id = upper_strip session_id in
     bind_c (lift_c (body_items body)) (\<lambda>canonical.
     bind_c (lift_c (require_item canonical)) (\<lambda>_.
     let digest = canonical_digest env (PDict canonical);
         path = path_or path (''/api/v1/work-sessions/'' @ wanted_id @ ''/worklog'') in
     keyed_command key ''POST'' path digest (record_session_intent env wanted_id canonical key path digest))))"

end
