(* ===== verification/WS_SessionLaws.thy ===== *)
theory WS_SessionLaws
  imports WS_WorkSessions WS_Service
begin

text \<open>
  The laws of \<open>service_work_sessions.py\<close>. The loop over the work log is characterised by conditions on the
  list of all stored sessions that do not mention the loop: every session is well formed for its day,
  the identifiers are distinct, at most one session is active. On these conditions it is shown what each
  command leaves behind.
\<close>

section \<open>The clock\<close>

lemma utc_second_cases:
  assumes "utc_second s"
  obtains a b c d e f g h i j k l m n where "list_all is_digit [a, b, c, d, e, f, g, h, i, j, k, l, m, n]"
    "s = [a, b, c, d, CHR ''-'', e, f, CHR ''-'', g, h, CHR ''T'', i, j, CHR '':'', k, l, CHR '':'', m, n, CHR ''Z'']"
proof -
  have "length s = 20" "list_all2 (\<lambda>p c. if p = CHR ''0'' then is_digit c else c = p) ''0000-00-00T00:00:00Z'' s"
    using assms by (simp_all add: utc_second_def)
  then show thesis using that by (auto simp: list_all2_Cons1)
qed

lemma utc_text_instant:
  assumes dg: "list_all is_digit [a, b, c, d, e, f, g, h, i', j, k, l, m, n']"
  and i: "datetime_fromisoformat (butlast [a, b, c, d, CHR ''-'', e, f, CHR ''-'', g, h, CHR ''T'', i', j, CHR '':'', k, l, CHR '':'', m, n', CHR ''Z''] @ ''+00:00'') = Some i"
  shows "i_offset i = Some 0 \<and> i_micro i = 0"
proof -
  have W: "e \<noteq> CHR ''W''" using dg by (auto simp: is_digit_def)
  have tz: "\<not> is_tz_start x" if "is_digit x" for x using that by (auto simp: is_tz_start_def is_digit_def)
  have z: "takeWhile (\<lambda>c. \<not> is_tz_start c) [i', j, CHR '':'', k, l, CHR '':'', m, n', CHR ''+'', CHR ''0'', CHR ''0'', CHR '':'', CHR ''0'', CHR ''0''] = [i', j, CHR '':'', k, l, CHR '':'', m, n']"
    using dg tz by (simp add: is_tz_start_def [of "CHR '':''"]) (simp add: is_tz_start_def)
  have nul: "CHR ''+'' \<noteq> char_of (0 :: nat)" by code_simp
  have p1: "parse_hms [i', j, CHR '':'', k, l, CHR '':'', m, n', CHR ''+'', CHR ''0'', CHR ''0'', CHR '':'', CHR ''0'', CHR ''0''] 0 8 = Some (digits_val [i', j], digits_val [k, l], digits_val [m, n'], 0, True)"
    using dg nul by (simp add: parse_hms_def parse_digits_def char_at_def all_digits_def)
  have p2: "parse_hms [i', j, CHR '':'', k, l, CHR '':'', m, n', CHR ''+'', CHR ''0'', CHR ''0'', CHR '':'', CHR ''0'', CHR ''0''] 9 14 = Some (0, 0, 0, 0, False)"
    by code_simp
  have l: "length [i', j, CHR '':'', k, l, CHR '':'', m, n'] = 8"
    "length [i', j, CHR '':'', k, l, CHR '':'', m, n', CHR ''+'', CHR ''0'', CHR ''0'', CHR '':'', CHR ''0'', CHR ''0''] = 14" by simp_all
  have nth: "[i', j, CHR '':'', k, l, CHR '':'', m, n', CHR ''+'', CHR ''0'', CHR ''0'', CHR '':'', CHR ''0'', CHR ''0''] ! 8 = CHR ''+''" by simp
  have pt: "parse_iso_time [i', j, CHR '':'', k, l, CHR '':'', m, n', CHR ''+'', CHR ''0'', CHR ''0'', CHR '':'', CHR ''0'', CHR ''0''] dd = Some x \<Longrightarrow>
      i_offset x = Some 0 \<and> i_micro x = 0" for dd x
    unfolding parse_iso_time_def Let_def z l nth by (auto simp: p1 p2)
  have i2: "datetime_fromisoformat [a, b, c, d, CHR ''-'', e, f, CHR ''-'', g, h, CHR ''T'', i', j, CHR '':'', k, l, CHR '':'', m, n', CHR ''+'', CHR ''0'', CHR ''0'', CHR '':'', CHR ''0'', CHR ''0''] = Some i"
    using i by simp
  have sep: "datetime_separator [a, b, c, d, CHR ''-'', e, f, CHR ''-'', g, h, CHR ''T'', i', j, CHR '':'', k, l, CHR '':'', m, n', CHR ''+'', CHR ''0'', CHR ''0'', CHR '':'', CHR ''0'', CHR ''0''] = Some 10"
    using W by (simp add: datetime_separator_def char_at_def)
  have dr: "drop (10 + 1) [a, b, c, d, CHR ''-'', e, f, CHR ''-'', g, h, CHR ''T'', i', j, CHR '':'', k, l, CHR '':'', m, n', CHR ''+'', CHR ''0'', CHR ''0'', CHR '':'', CHR ''0'', CHR ''0'']
     = [i', j, CHR '':'', k, l, CHR '':'', m, n', CHR ''+'', CHR ''0'', CHR ''0'', CHR '':'', CHR ''0'', CHR ''0'']" by simp
  show ?thesis using i2 unfolding datetime_fromisoformat_def sep option.case dr
    by (auto dest: pt split: option.splits if_splits)
qed

lemma clock_instant:
  assumes "clock_ok env"
  shows "\<exists>i. work_session_timestamp (PStr (utc_at env n)) field = Inr i"
proof -
  let ?s = "utc_at env n"
  have u: "utc_second ?s" and "datetime_fromisoformat (butlast ?s @ ''+00:00'') \<noteq> None"
    using assms by (auto simp: clock_ok_def planning_timestamp_def dest!: spec [of _ n] split: if_splits)
  then obtain i where i: "datetime_fromisoformat (butlast ?s @ ''+00:00'') = Some i" by blast
  have "i_offset i = Some 0 \<and> i_micro i = 0 \<and> ?s \<noteq> [] \<and> last ?s = CHR ''Z''"
    using u
  proof (rule utc_second_cases)
    fix a b c d e f g h i' j k l m n'
    assume dg: "list_all is_digit [a, b, c, d, e, f, g, h, i', j, k, l, m, n']"
      and s: "?s = [a, b, c, d, CHR ''-'', e, f, CHR ''-'', g, h, CHR ''T'', i', j, CHR '':'', k, l, CHR '':'', m, n', CHR ''Z'']"
    show "i_offset i = Some 0 \<and> i_micro i = 0 \<and> ?s \<noteq> [] \<and> last ?s = CHR ''Z''"
      using utc_text_instant [OF dg] i s by simp
  qed
  with i show ?thesis by (simp add: work_session_timestamp_def)
qed


section \<open>All stored sessions at once\<close>

definition id_of :: "dict \<Rightarrow> string" where
  "id_of s = str_of (dget s ''id'')"

lemma in_set_true: "in_set_r v ss = Inr True \<longleftrightarrow> (\<exists>s \<in> set ss. v = PStr s)"
  by (auto simp: in_set_r_def in_tuple_iff split: if_splits)

lemma in_set_then: "bind_r (in_set_r v ss) (\<lambda>b. if \<not> b then Inl e else m) = Inr y \<longleftrightarrow> (\<exists>s \<in> set ss. v = PStr s) \<and> m = Inr y"
  unfolding in_set_true [symmetric] bind_r_Inr by (auto split: if_splits)

lemma shape_Inr:
  "work_session_shape c date = Inr (s, st) \<longleftrightarrow> s = c \<and> dget c ''state'' = PStr st \<and> st \<in> {''running'', ''paused'', ''stopped''} \<and>
     dget c ''date'' = PStr date \<and> (\<exists>t. dget c ''task_id'' = PStr t \<and> is_any_task_id t) \<and>
     (\<exists>t. dget c ''task'' = PStr t \<and> py_strip t \<noteq> []) \<and> (\<exists>x \<in> set (worklog_states st). dget c ''worklog_state'' = PStr x) \<and>
     (\<exists>i. work_session_timestamp (dget c ''started_at'') ''started_at'' = Inr i) \<and>
     (\<exists>i. work_session_timestamp (dget c ''updated_at'') ''updated_at'' = Inr i)"
proof -
  have str: "(\<not> is_str v \<or> \<not> P (str_of v)) \<longleftrightarrow> \<not> (\<exists>t. v = PStr t \<and> P t)" "(\<not> is_str v \<or> Q (str_of v) = []) \<longleftrightarrow> \<not> (\<exists>t. v = PStr t \<and> Q t \<noteq> [])"
    for v and P :: "string \<Rightarrow> bool" and Q :: "string \<Rightarrow> string" by (cases v; simp)+
  show ?thesis
    unfolding work_session_shape_def if_Inl_eq_Inr Let_def in_set_then str not_not
    unfolding bind_r_Inr sum.inject prod.inject
    by (auto simp del: dget_or_def)
qed

definition session_ok :: "string \<Rightarrow> dict \<Rightarrow> bool" where
  "session_ok date s \<longleftrightarrow> (\<exists>i st. dget s ''id'' = PStr i \<and> is_session_id i \<and> work_session_shape s date = Inr (s, st) \<and>
     validate_work_session_segments s st = Inr ())"

lemma header_Inr:
  "work_session_header c date seen = Inr (s, st) \<longleftrightarrow>
     c = PDict s \<and> (\<exists>i. dget s ''id'' = PStr i \<and> is_session_id i) \<and> work_session_shape s date = Inr (s, st) \<and> id_of s \<notin> set seen"
proof (cases c)
  case (PDict d)
  have "work_session_shape d date = Inr (s, st) \<Longrightarrow> s = d" by (simp add: shape_Inr)
  then show ?thesis
    unfolding work_session_header_def PDict pyval.case if_Inl_eq_Inr id_of_def by (auto simp: is_str_iff)
qed (simp_all add: work_session_header_def)

lemma active_state: "work_session_shape s date = Inr (s, st) \<Longrightarrow> is_active s \<longleftrightarrow> st \<in> set ACTIVE_STATES"
  by (simp add: is_active_def shape_Inr)

lemma Cons_map_ex: "(\<exists>new. c # cs = map f new \<and> P new) \<longleftrightarrow> (\<exists>s new. c = f s \<and> cs = map f new \<and> P (s # new))"
  by (auto simp: Cons_eq_map_conv)

lemma day_records_Inr:
  "day_records date k cs (ss, seen, n) = Inr (ss', seen', n') \<longleftrightarrow>
     (\<exists>new. cs = map PDict new \<and> (\<forall>s \<in> set new. session_ok date s) \<and> distinct (map id_of new) \<and> set (map id_of new) \<inter> set seen = {} \<and>
        ss' = ss @ map (\<lambda>(k, s). (date, k, s)) (enumerate k new) \<and> seen' = List.rev (map id_of new) @ seen \<and>
        n' = n + length (filter is_active new))"
proof (induction cs arbitrary: k ss seen n)
  case Nil
  show ?case by auto
next
  case (Cons c cs)
  have step: "day_records date k (c # cs) (ss, seen, n) = Inr (ss', seen', n') \<longleftrightarrow>
      (\<exists>s. c = PDict s \<and> session_ok date s \<and> id_of s \<notin> set seen \<and>
        day_records date (Suc k) cs (ss @ [(date, k, s)], id_of s # seen, n + (if is_active s then 1 else 0)) = Inr (ss', seen', n'))"
    (is "?l \<longleftrightarrow> ?r")
    unfolding day_records.simps bind_r_Inr split_paired_Ex case_prod_conv header_Inr session_ok_def
    using active_state [of _ date] by (auto simp: id_of_def)
  show ?case
    unfolding step Cons.IH Cons_map_ex by (intro ex_cong1) (auto simp: ac_simps)
qed

definition day_ok :: "string \<times> pyval \<Rightarrow> dict list \<Rightarrow> bool" where
  "day_ok p new \<longleftrightarrow> review_date (PStr (fst p)) = Inr (fst p) \<and>
     (\<exists>d. snd p = PDict d \<and> dget_or d ''sessions'' (PList []) = PList (map PDict new)) \<and> (\<forall>s \<in> set new. session_ok (fst p) s)"

definition places :: "string \<times> pyval \<Rightarrow> dict list \<Rightarrow> placed list" where
  "places p new = map (\<lambda>(k, s). (fst p, k, s)) (enumerate 0 new)"

lemma review_date_same: "review_date (PStr s) = Inr d \<Longrightarrow> d = s \<and> review_date (PStr s) = Inr s"
  by (auto simp: review_date_def split: if_splits option.splits)

lemma work_session_day_Inr:
  "work_session_day date day = Inr (date', cs) \<longleftrightarrow> date' = date \<and> review_date (PStr date) = Inr date \<and>
     (\<exists>d. day = PDict d \<and> dget_or d ''sessions'' (PList []) = PList cs)"
proof (cases day)
  case (PDict d)
  then show ?thesis by (cases "dget_or d ''sessions'' (PList [])") (auto simp: work_session_day_def bind_r_Inr dest: review_date_same)
qed (simp_all add: work_session_day_def bind_r_Inr)

lemma day_sessions_Inr:
  "day_sessions p (ss, seen, n) = Inr (ss', seen', n') \<longleftrightarrow>
     (\<exists>new. day_ok p new \<and> distinct (map id_of new) \<and> set (map id_of new) \<inter> set seen = {} \<and>
        ss' = ss @ places p new \<and> seen' = List.rev (map id_of new) @ seen \<and> n' = n + length (filter is_active new))"
  unfolding day_sessions_def bind_r_Inr split_paired_Ex case_prod_conv work_session_day_Inr day_records_Inr day_ok_def places_def
  by blast

lemma days_Inr:
  "fold_r day_sessions days (ss, seen, n) = Inr (ss', seen', n') \<longleftrightarrow>
     (\<exists>rs. list_all2 day_ok days rs \<and> distinct (map id_of (concat rs)) \<and> set (map id_of (concat rs)) \<inter> set seen = {} \<and>
        ss' = ss @ concat (map2 places days rs) \<and> seen' = List.rev (map id_of (concat rs)) @ seen \<and>
        n' = n + length (filter is_active (concat rs)))"
proof (induction days arbitrary: ss seen n)
  case Nil
  show ?case by auto
next
  case (Cons p days)
  have all2: "(\<exists>rs. list_all2 day_ok (p # days) rs \<and> P rs) \<longleftrightarrow> (\<exists>new. day_ok p new \<and> (\<exists>rs. list_all2 day_ok days rs \<and> P (new # rs)))" for P
    by (auto simp: list_all2_Cons1)
  have step: "fold_r day_sessions (p # days) (ss, seen, n) = Inr (ss', seen', n') \<longleftrightarrow> (\<exists>new. day_ok p new \<and>
      distinct (map id_of new) \<and> set (map id_of new) \<inter> set seen = {} \<and>
      fold_r day_sessions days (ss @ places p new, List.rev (map id_of new) @ seen, n + length (filter is_active new)) = Inr (ss', seen', n'))"
    unfolding fold_r.simps bind_r_Inr split_paired_Ex day_sessions_Inr by blast
  show ?case
    unfolding step Cons.IH all2
    by (intro ex_cong1, simp only: ex_simps(1,2) [symmetric], intro ex_cong1) (auto simp: ac_simps simp del: set_map)
qed

lemma records_Inr:
  "work_session_records w = Inr placed \<longleftrightarrow> (\<exists>days rs. dget w ''days'' = PDict days \<and> list_all2 day_ok days rs \<and>
     distinct (map id_of (concat rs)) \<and> length (filter is_active (concat rs)) \<le> 1 \<and> placed = concat (map2 places days rs))"
  unfolding work_session_records_def
  by (cases "dget w ''days''") (simp_all add: bind_r_Inr split_paired_Ex days_Inr if_Inl_eq_Inr not_less, blast)

section \<open>The ladder of segments\<close>

definition starts_after :: "instant option \<Rightarrow> instant \<Rightarrow> bool" where
  "starts_after previous i \<longleftrightarrow> (case previous of None \<Rightarrow> True | Some p \<Rightarrow> instant_seconds p \<le> instant_seconds i)"

definition segment_from :: "pyval \<Rightarrow> dict \<Rightarrow> instant \<Rightarrow> bool" where
  "segment_from seg c i \<longleftrightarrow> seg = PDict c \<and> exact_keys c [''started_at'', ''ended_at''] \<and>
     work_session_timestamp (dget c ''started_at'') ''segment.started_at'' = Inr i"

definition closed_segment :: "pyval \<Rightarrow> instant \<Rightarrow> instant \<Rightarrow> bool" where
  "closed_segment seg i j \<longleftrightarrow> (\<exists>c. segment_from seg c i \<and> dget c ''ended_at'' \<noteq> PNone \<and>
     work_session_timestamp (dget c ''ended_at'') ''segment.ended_at'' = Inr j \<and> instant_seconds i \<le> instant_seconds j)"

definition open_segment :: "pyval \<Rightarrow> instant \<Rightarrow> bool" where
  "open_segment seg i \<longleftrightarrow> (\<exists>c. segment_from seg c i \<and> dget c ''ended_at'' = PNone)"

text \<open>Closed segments, one after the other, from one end to the next.\<close>

inductive ladder :: "instant option \<Rightarrow> pyval list \<Rightarrow> instant option \<Rightarrow> bool" where
  ladder_Nil: "ladder p [] p"
| ladder_Cons: "closed_segment x i j \<Longrightarrow> starts_after p i \<Longrightarrow> ladder (Some j) xs q \<Longrightarrow> ladder p (x # xs) q"

inductive_simps ladder_simps [simp]: "ladder p [] q" "ladder p (x # xs) q"

lemma ladder_append: "ladder p (xs @ ys) q \<longleftrightarrow> (\<exists>r. ladder p xs r \<and> ladder r ys q)"
  by (induction xs arbitrary: p) auto

text \<open>A session that runs has one open segment, the last.\<close>

definition running_ladder :: "instant option \<Rightarrow> pyval list \<Rightarrow> bool" where
  "running_ladder p xs \<longleftrightarrow> (\<exists>ys y q i. xs = ys @ [y] \<and> ladder p ys q \<and> open_segment y i \<and> starts_after q i)"

lemma segment_Inr:
  "work_session_segment seg pos n p = Inr r \<longleftrightarrow>
     (\<exists>i j. closed_segment seg i j \<and> starts_after p i \<and> r = (Some j, False)) \<or>
     (\<exists>i. open_segment seg i \<and> starts_after p i \<and> pos = n - 1 \<and> r = (None, True))"
proof (cases seg)
  case (PDict c)
  have sa: "(case p of None \<Rightarrow> False | Some p \<Rightarrow> instant_seconds i < instant_seconds p) \<longleftrightarrow> \<not> starts_after p i" for i
    by (auto simp: starts_after_def split: option.split)
  show ?thesis
    unfolding PDict work_session_segment_def pyval.case if_Inl_eq_Inr sa
    by (cases "dget c ''ended_at'' = PNone")
      (auto simp: bind_r_Inr if_Inl_eq_Inr closed_segment_def open_segment_def segment_from_def not_less)
qed (simp_all add: work_session_segment_def closed_segment_def open_segment_def segment_from_def)

lemma running_Cons: "running_ladder p (x # xs) \<longleftrightarrow>
   (xs = [] \<and> (\<exists>i. open_segment x i \<and> starts_after p i)) \<or> (\<exists>i j. closed_segment x i j \<and> starts_after p i \<and> running_ladder (Some j) xs)"
  by (auto simp: running_ladder_def Cons_eq_append_conv) blast+

lemma open_segments_Inr:
  "pos + length xs = n \<Longrightarrow> open_segments pos n p xs = Inr m \<longleftrightarrow> (m = 0 \<and> (\<exists>q. ladder p xs q)) \<or> (m = 1 \<and> running_ladder p xs)"
proof (induction xs arbitrary: pos p m)
  case Nil
  show ?case by (auto simp: running_ladder_def)
next
  case (Cons x xs)
  have pos: "pos = n - 1 \<longleftrightarrow> xs = []" using Cons.prems by auto
  have IH: "open_segments (Suc pos) n r xs = Inr m \<longleftrightarrow> (m = 0 \<and> (\<exists>q. ladder r xs q)) \<or> (m = 1 \<and> running_ladder r xs)" for r m
    using Cons.IH [of "Suc pos" r m] Cons.prems by simp
  have "open_segments pos n p (x # xs) = Inr m \<longleftrightarrow>
      (\<exists>i j k. closed_segment x i j \<and> starts_after p i \<and> open_segments (Suc pos) n (Some j) xs = Inr m) \<or>
      (\<exists>i k. open_segment x i \<and> starts_after p i \<and> xs = [] \<and> m = 1)"
    unfolding open_segments.simps bind_r_Inr split_paired_Ex case_prod_conv segment_Inr pos
    by (auto, rule exI [of _ None], rule exI [of _ True], blast)
  then show ?case unfolding IH running_Cons by auto
qed

lemma validate_Inr:
  assumes "st \<in> {''running'', ''paused'', ''stopped''}"
  shows "validate_work_session_segments s st = Inr () \<longleftrightarrow> (\<exists>xs. dget s ''segments'' = PList xs \<and> xs \<noteq> [] \<and>
     (if st = ''running'' then running_ladder None xs else \<exists>q. ladder None xs q))"
  using assms unfolding validate_work_session_segments_def
  by (cases "dget s ''segments''") (auto simp: bind_r_Inr open_segments_Inr if_Inl_eq_Inr)

section \<open>The effect of a move\<close>

lemma timestamp_field: "work_session_timestamp v f = Inr i \<longleftrightarrow> work_session_timestamp v g = Inr i"
  by (auto simp: work_session_timestamp_def split: pyval.splits if_splits option.splits)

lemma segment_seconds_closed:
  assumes "segment_seconds now (PDict c) = Inr n" and "dget c ''ended_at'' \<noteq> PNone"
    and "work_session_timestamp (dget c ''started_at'') f = Inr i"
  shows "\<exists>j. work_session_timestamp (dget c ''ended_at'') g = Inr j \<and> instant_seconds i \<le> instant_seconds j"
proof -
  obtain a i' j where a: "map_of c ''started_at'' = Some a" "work_session_timestamp a ''segment.started_at'' = Inr i'"
    and e: "work_session_timestamp (dget c ''ended_at'') ''segment.ended_at'' = Inr j"
      "(if instant_seconds j < instant_seconds i' then Inl (session_corrupt ''work session segment has negative duration'')
            else Inr (instant_seconds j - instant_seconds i')) = Inr n"
    using assms(1) unfolding segment_seconds_def getitem_def vget_def pyval.case as_dict_simps bind_r_simps if_P [OF assms(2)]
      bind_r_Inr dindex_Inr sum.inject
    by - (elim exE conjE, rule that, assumption+, hypsubst, simp only: option.case)
  then have j: "instant_seconds i' \<le> instant_seconds j" by (simp split: if_splits)
  have i: "work_session_timestamp (dget c ''started_at'') ''segment.started_at'' = Inr i'" using a dget_map_of by metis
  have "i' = i" using timestamp_field [THEN iffD1, OF i, of f] assms(3) by simp
  then show ?thesis using j timestamp_field [THEN iffD1, OF e(1), of g] by blast
qed

lemma fold_segments: "fold_r (add_segment now) xs a = Inr n \<Longrightarrow> x \<in> set xs \<Longrightarrow> \<exists>m. segment_seconds now x = Inr m"
  by (induction xs arbitrary: a) (auto simp: bind_r_Inr add_segment_def)

lemma projected_segments:
  assumes "project_work_session s v = Inr p" and "dget s ''segments'' = PList xs" and "x \<in> set xs"
  shows "\<exists>now m. segment_seconds now x = Inr m"
proof -
  obtain u n where "work_session_elapsed s u = Inr n"
    using assms(1) by (auto simp: project_work_session_def bind_r_Inr)
  then obtain now where "fold_r (add_segment now) xs 0 = Inr n"
    using assms(2) by (auto simp: work_session_elapsed_def bind_r_Inr dindex_Inr dget_map_of)
  then show ?thesis using fold_segments assms(3) by blast
qed

text \<open>The open segment of a running session, closed at a time that its duration admits.\<close>

lemma close_running:
  assumes "running_ladder None xs" and t: "work_session_timestamp (PStr t) [] = Inr j"
    and proj: "\<And>x. x \<in> set (close_last xs t) \<Longrightarrow> \<exists>now m. segment_seconds now x = Inr m"
  shows "close_last xs t \<noteq> [] \<and> (\<exists>q. ladder None (close_last xs t) q)"
proof -
  obtain ys y q i c where xs: "xs = ys @ [y]" and l: "ladder None ys q" "starts_after q i" and c: "segment_from y c i" "dget c ''ended_at'' = PNone"
    using assms(1) by (auto simp: running_ladder_def open_segment_def)
  let ?c = "dset c ''ended_at'' (PStr t)"
  have y: "y = PDict c" using c(1) by (simp add: segment_from_def)
  have cl: "close_last xs t = ys @ [PDict ?c]" by (simp add: close_last_def xs y)
  then obtain now m where "segment_seconds now (PDict ?c) = Inr m" using proj [of "PDict ?c"] by auto
  then have "instant_seconds i \<le> instant_seconds j"
    using segment_seconds_closed [of now ?c m "''segment.started_at''" i "[]"] c(1) t by (auto simp: segment_from_def)
  then have "closed_segment (PDict ?c) i j"
    using c(1) t timestamp_field [of "PStr t" "[]" j]
    by (auto simp: closed_segment_def segment_from_def exact_keys_def dkeys_dset)
  then show ?thesis using cl l by (auto simp: ladder_append)
qed

definition last_end :: "dict \<Rightarrow> pyval" where
  "last_end s = dget (dict_of (last (list_of (dget s ''segments'')))) ''ended_at''"

text \<open>The clock has not gone back behind the end of the last segment.\<close>

definition resumes_after :: "dict \<Rightarrow> string \<Rightarrow> bool" where
  "resumes_after s t \<longleftrightarrow> (case work_session_timestamp (last_end s) [] of
       Inl _ \<Rightarrow> False
     | Inr e \<Rightarrow> (case work_session_timestamp (PStr t) [] of Inl _ \<Rightarrow> False | Inr i \<Rightarrow> instant_seconds e \<le> instant_seconds i))"

lemma ladder_last: "ladder p xs q \<Longrightarrow> xs \<noteq> [] \<Longrightarrow> \<exists>c e. last xs = PDict c \<and> q = Some e \<and> work_session_timestamp (dget c ''ended_at'') f = Inr e"
proof (induction rule: ladder.induct)
  case (ladder_Cons x i j p xs q)
  show ?case
  proof (cases "xs = []")
    case True
    with ladder_Cons.hyps show ?thesis
      using timestamp_field [of _ "''segment.ended_at''" j f] by (auto simp: closed_segment_def segment_from_def)
  qed (use ladder_Cons.IH in simp)
qed simp

lemma resume_paused:
  assumes l: "ladder None xs q" and xs: "dget s ''segments'' = PList xs" "xs \<noteq> []" and r: "resumes_after s t"
  shows "running_ladder None (xs @ [PDict [(''started_at'', PStr t), (''ended_at'', PNone)]])"
proof -
  obtain c e where c: "last xs = PDict c" "q = Some e" "work_session_timestamp (dget c ''ended_at'') [] = Inr e"
    using ladder_last [OF l xs(2)] by blast
  then obtain i where i: "work_session_timestamp (PStr t) [] = Inr i" "instant_seconds e \<le> instant_seconds i"
    using r xs by (auto simp: resumes_after_def last_end_def split: sum.splits)
  have "open_segment (PDict [(''started_at'', PStr t), (''ended_at'', PNone)]) i"
    using i(1) timestamp_field [of "PStr t" "[]" i]
    by (simp add: open_segment_def segment_from_def exact_keys_def dkeys_def dget_def dget_or_def dhas_def)
  then show ?thesis
    unfolding running_ladder_def using l i(2) c(2)
    by (intro exI [of _ xs] exI [of _ "PDict [(''started_at'', PStr t), (''ended_at'', PNone)]"] exI [of _ q] exI [of _ i]) (simp add: starts_after_def)
qed

lemma move_gets:
  "dget (move_session action t s) k =
     (if k = ''updated_at'' then PStr t
      else if k = ''worklog_state'' \<and> action = ''stop'' then PStr ''pending''
      else if k = ''state'' then PStr (after_action action)
      else if k = ''segments'' then PList (moved_segments action (str_of (dget s ''state'')) (list_of (dget s ''segments'')) t)
      else dget s k)"
  by (simp add: move_session_def Let_def)

lemma session_okD:
  assumes "session_ok date s"
  obtains i st xs where "dget s ''id'' = PStr i" "is_session_id i" "work_session_shape s date = Inr (s, st)" "dget s ''state'' = PStr st"
    "st \<in> {''running'', ''paused'', ''stopped''}" "dget s ''segments'' = PList xs" "xs \<noteq> []"
    "if st = ''running'' then running_ladder None xs else \<exists>q. ladder None xs q"
proof -
  obtain i st where 1: "dget s ''id'' = PStr i" "is_session_id i" "work_session_shape s date = Inr (s, st)"
    "validate_work_session_segments s st = Inr ()" using assms by (auto simp: session_ok_def)
  then have "dget s ''state'' = PStr st" "st \<in> {''running'', ''paused'', ''stopped''}" by (auto simp: shape_Inr)
  with 1 that validate_Inr [of st s] show thesis by blast
qed

text \<open>The segments a move leaves fit the state it leaves.\<close>

lemma moved_ladder:
  assumes st: "st \<in> set (allowed_states action)" "action \<in> {''pause'', ''resume'', ''stop''}"
    and xs: "dget s ''state'' = PStr st" "dget s ''segments'' = PList xs" "xs \<noteq> []"
      "if st = ''running'' then running_ladder None xs else \<exists>q. ladder None xs q"
    and t: "work_session_timestamp (PStr t) [] = Inr j" and p: "project_work_session (move_session action t s) v = Inr p"
    and r: "action = ''resume'' \<Longrightarrow> resumes_after s t"
  shows "moved_segments action st xs t \<noteq> [] \<and> (if after_action action = ''running'' then running_ladder None (moved_segments action st xs t)
     else \<exists>q. ladder None (moved_segments action st xs t) q)"
proof -
  have g: "dget (move_session action t s) ''segments'' = PList (moved_segments action st xs t)" by (simp add: move_gets xs)
  consider (close) "action \<in> {''pause'', ''stop''}" "st = ''running''" | (late) "action = ''stop''" "st = ''paused''" | (resume) "action = ''resume''" "st = ''paused''"
    using st by (auto simp: allowed_states_def split: if_splits)
  then show ?thesis
  proof cases
    case close
    then have m: "moved_segments action st xs t = close_last xs t" "after_action action \<noteq> ''running''"
      by (auto simp: moved_segments_def after_action_def)
    have "close_last xs t \<noteq> [] \<and> (\<exists>q. ladder None (close_last xs t) q)"
      using close xs(4) projected_segments [OF p g] m(1) by (intro close_running [OF _ t]) auto
    with m show ?thesis by simp
  next
    case late
    then show ?thesis using xs by (simp add: moved_segments_def after_action_def)
  next
    case resume
    then obtain q where "ladder None xs q" using xs(4) by auto
    then show ?thesis
      using resume resume_paused [OF _ xs(2,3) r] by (simp add: moved_segments_def after_action_def)
  qed
qed

lemma move_ok:
  assumes ok: "session_ok date s" and a: "action \<in> {''pause'', ''resume'', ''stop''}" "in_tuple (dget s ''state'') (allowed_states action)"
    and t: "work_session_timestamp (PStr t) [] = Inr j" and p: "project_work_session (move_session action t s) v = Inr p"
    and r: "action = ''resume'' \<Longrightarrow> resumes_after s t"
  shows "session_ok date (move_session action t s) \<and> id_of (move_session action t s) = id_of s \<and>
    is_active s \<and> (is_active (move_session action t s) \<longleftrightarrow> action \<noteq> ''stop'')"
proof -
  obtain i st xs where o: "dget s ''id'' = PStr i" "is_session_id i" "work_session_shape s date = Inr (s, st)" "dget s ''state'' = PStr st"
    "st \<in> {''running'', ''paused'', ''stopped''}" "dget s ''segments'' = PList xs" "xs \<noteq> []"
    "if st = ''running'' then running_ladder None xs else \<exists>q. ladder None xs q"
    by (rule session_okD [OF ok])
  let ?s = "move_session action t s" and ?st = "after_action action"
  have st: "st \<in> set (allowed_states action)" using a(2) o(4) by (auto simp: in_tuple_iff)
  have act: "st \<in> set ACTIVE_STATES" using st a(1) by (auto simp: allowed_states_def ACTIVE_STATES_def split: if_splits)
  have wl: "\<exists>x \<in> set (worklog_states ?st). dget ?s ''worklog_state'' = PStr x"
    using o(3) act a(1) by (auto simp: shape_Inr worklog_states_def move_gets after_action_def ACTIVE_STATES_def)
  have ts: "\<exists>i. work_session_timestamp (PStr t) ''updated_at'' = Inr i" using t timestamp_field by blast
  have shape: "work_session_shape ?s date = Inr (?s, ?st)"
    using o(3) wl ts a(1) by (auto simp: shape_Inr move_gets after_action_def)
  have "?st \<in> {''running'', ''paused'', ''stopped''}" using a(1) by (auto simp: after_action_def)
  moreover have "dget ?s ''segments'' = PList (moved_segments action st xs t)" by (simp add: move_gets o)
  ultimately have "validate_work_session_segments ?s ?st = Inr ()"
    using moved_ladder [OF st a(1) o(4,6,7,8) t p r] validate_Inr by blast
  then have "session_ok date ?s" using shape o(1,2) by (simp add: session_ok_def move_gets)
  moreover have "is_active s" using act active_state [OF o(3)] by simp
  moreover have "is_active ?s \<longleftrightarrow> action \<noteq> ''stop''"
    using active_state [OF shape] a(1) by (auto simp: ACTIVE_STATES_def after_action_def)
  ultimately show ?thesis by (simp add: id_of_def move_gets)
qed

section \<open>Replacing one session\<close>

lemma places_length [simp]: "length (places p new) = length new"
  by (simp add: places_def)

lemma places_nth: "k < length new \<Longrightarrow> places p new ! k = (fst p, k, new ! k)"
  by (simp add: places_def nth_enumerate_eq)

lemma places_update: "k < length new \<Longrightarrow> places p (new[k := s]) = (places p new)[k := (fst p, k, s)]"
  by (rule nth_equalityI) (simp_all add: places_nth nth_list_update)

lemma places_same_day: "places (d, v) new = places (d, v') new"
  by (simp add: places_def)

lemma placed_at:
  assumes "list_all2 day_ok days rs" and "n < length (concat (map2 places days rs))" and "concat (map2 places days rs) ! n = (d, k, s)"
  shows "\<exists>days1 v days2 rs1 new rs2. days = days1 @ (d, v) # days2 \<and> rs = rs1 @ new # rs2 \<and> length days1 = length rs1 \<and>
    k < length new \<and> new ! k = s \<and> n = length (concat (map2 places days1 rs1)) + k"
  using assms
proof (induction arbitrary: n rule: list_all2_induct)
  case (Cons p days new rs)
  show ?case
  proof (cases "n < length new")
    case True
    with Cons.prems have p: "fst p = d" "k = n" "new ! n = s" by (auto simp: nth_append places_nth)
    have k: "new ! k = s" using p(3) unfolding p(2) .
    have "p # days = [] @ (d, snd p) # days" "new # rs = [] @ new # rs" using p by (simp_all add: prod_eq_iff)
    with p(1,2) k True show ?thesis by (intro exI [of _ "[]"] exI [of _ "snd p"] exI [of _ days] exI [of _ new] exI [of _ rs] conjI) (simp_all add: prod_eq_iff)
  next
    case False
    then obtain m where m: "n = length new + m" by (metis le_Suc_ex not_less)
    with Cons.prems have "m < length (concat (map2 places days rs))" "concat (map2 places days rs) ! m = (d, k, s)"
      by (simp_all add: nth_append)
    from Cons.IH [OF this] obtain days1 v days2 rs1 x rs2 where
      "days = days1 @ (d, v) # days2" "rs = rs1 @ x # rs2" "length days1 = length rs1" "k < length x" "x ! k = s"
      "m = length (concat (map2 places days1 rs1)) + k" by blast
    with m show ?thesis
      by (intro exI [of _ "p # days1"] exI [of _ v] exI [of _ days2] exI [of _ "new # rs1"] exI [of _ x] exI [of _ rs2]) simp
  qed
qed simp

lemma stored_session_ok:
  assumes "work_session_records w = Inr placed" and "n < length placed" and "placed ! n = (d, k, s)"
  shows "session_ok d s"
proof -
  obtain days rs where w: "list_all2 day_ok days rs" "placed = concat (map2 places days rs)" using assms(1) by (auto simp: records_Inr)
  obtain ds1 v ds2 rs1 new rs2 where p: "days = ds1 @ (d, v) # ds2" "rs = rs1 @ new # rs2" "length ds1 = length rs1" "k < length new" "new ! k = s"
    using placed_at [OF w(1)] assms(2,3) w(2) by (metis (no_types))
  then have "day_ok (d, v) new" using w(1) by (auto simp: list_all2_append)
  with p show ?thesis by (auto simp: day_ok_def)
qed

lemma dset_present: "d \<notin> set (dkeys xs) \<Longrightarrow> dset (xs @ (d, v) # ys) d w = xs @ (d, w) # ys"
  by (induction xs) (auto simp: dset_def dkeys_def)

lemma filter_update: "k < length xs \<Longrightarrow> (P y \<Longrightarrow> P (xs ! k)) \<Longrightarrow> length (filter P (xs[k := y])) \<le> length (filter P xs)"
  by (induction xs arbitrary: k) (auto simp: nth_Cons split: nat.splits)

definition days_of :: "dict \<Rightarrow> dict" where
  "days_of worklog = dict_of (dget worklog ''days'')"

lemma dset_absent: "d \<notin> set (dkeys xs) \<Longrightarrow> dset xs d v = xs @ [(d, v)]"
  by (induction xs) (auto simp: dset_def dkeys_def)

lemma dget_split: "d \<notin> set (dkeys xs) \<Longrightarrow> dget (xs @ (d, v) # ys) d = v"
  by (induction xs) (auto simp: dget_def dget_or_def dkeys_def)

lemma put_day_days:
  assumes "dget w ''days'' = PDict (ds1 @ (d, v) # ds2)" and "distinct (dkeys (ds1 @ (d, v) # ds2))"
  shows "dget (put_day w d dd) ''days'' = PDict (ds1 @ (d, PDict dd) # ds2)" "distinct (dkeys (days_of (put_day w d dd)))"
proof -
  have "d \<notin> set (dkeys ds1)" using assms(2) by (simp add: dkeys_def)
  then show 1: "dget (put_day w d dd) ''days'' = PDict (ds1 @ (d, PDict dd) # ds2)"
    using assms(1) by (simp add: put_day_def dset_present)
  show "distinct (dkeys (days_of (put_day w d dd)))" using assms(2) 1 by (simp add: days_of_def dkeys_def)
qed

text \<open>A stored day and its sessions, in the middle of the others.\<close>

definition at_day :: "dict \<Rightarrow> placed list \<Rightarrow> string \<Rightarrow> dict \<Rightarrow> dict list \<Rightarrow> dict \<Rightarrow> dict list list \<Rightarrow> dict \<Rightarrow> dict list list \<Rightarrow> bool" where
  "at_day w placed d dd new ds1 rs1 ds2 rs2 \<longleftrightarrow>
     dget w ''days'' = PDict (ds1 @ (d, PDict dd) # ds2) \<and> list_all2 day_ok ds1 rs1 \<and> day_ok (d, PDict dd) new \<and> list_all2 day_ok ds2 rs2 \<and>
     distinct (dkeys (ds1 @ (d, PDict dd) # ds2)) \<and> distinct (map id_of (concat (rs1 @ new # rs2))) \<and>
     length (filter is_active (concat (rs1 @ new # rs2))) \<le> 1 \<and>
     placed = concat (map2 places ds1 rs1) @ places (d, PDict dd) new @ concat (map2 places ds2 rs2)"

lemma at_day_records:
  assumes "at_day w placed d dd new ds1 rs1 ds2 rs2"
  shows "work_session_records w = Inr placed" "distinct (dkeys (days_of w))" "days_of w = ds1 @ (d, PDict dd) # ds2" "dget (days_of w) d = PDict dd"
proof -
  have "length ds1 = length rs1" using assms by (auto simp: at_day_def list_all2_lengthD)
  then have "list_all2 day_ok (ds1 @ (d, PDict dd) # ds2) (rs1 @ new # rs2)"
    "placed = concat (map2 places (ds1 @ (d, PDict dd) # ds2) (rs1 @ new # rs2))"
    using assms by (simp_all add: at_day_def list_all2_append)
  then show "work_session_records w = Inr placed"
    unfolding records_Inr using assms unfolding at_day_def by blast
  show 1: "days_of w = ds1 @ (d, PDict dd) # ds2" using assms by (simp add: at_day_def days_of_def)
  then show 2: "distinct (dkeys (days_of w))" using assms by (simp add: at_day_def)
  then have "d \<notin> set (dkeys ds1)" using 1 by (simp add: dkeys_def)
  then show "dget (days_of w) d = PDict dd" using 1 dget_split by simp
qed

lemma put_at_day:
  assumes "at_day w placed d dd new ds1 rs1 ds2 rs2" and "day_ok (d, PDict dd') new'"
    and "distinct (map id_of (concat (rs1 @ new' # rs2)))" and "length (filter is_active (concat (rs1 @ new' # rs2))) \<le> 1"
  shows "at_day (put_day w d dd') (concat (map2 places ds1 rs1) @ places (d, PDict dd') new' @ concat (map2 places ds2 rs2)) d dd' new' ds1 rs1 ds2 rs2"
  using assms put_day_days(1) [of w ds1 d "PDict dd" ds2 dd'] unfolding at_day_def by (simp add: dkeys_def del: filter_concat map_concat)

lemma at_dayI:
  assumes "work_session_records w = Inr placed" and "distinct (dkeys (days_of w))" and "d \<in> set (dkeys (days_of w))"
  obtains dd new ds1 rs1 ds2 rs2 where "at_day w placed d dd new ds1 rs1 ds2 rs2"
proof -
  obtain days rs where w: "dget w ''days'' = PDict days" "list_all2 day_ok days rs" "distinct (map id_of (concat rs))"
    "length (filter is_active (concat rs)) \<le> 1" "placed = concat (map2 places days rs)" using assms(1) by (auto simp: records_Inr)
  have "days_of w = days" using w(1) by (simp add: days_of_def)
  then obtain v where "(d, v) \<in> set days" using assms(3) by (auto simp: dkeys_def)
  then obtain ds1 ds2 where d: "days = ds1 @ (d, v) # ds2" using split_list by metis
  then obtain rs1 new rs2 where r: "rs = rs1 @ new # rs2" "list_all2 day_ok ds1 rs1" "day_ok (d, v) new" "list_all2 day_ok ds2 rs2"
    using w(2) by (auto simp: list_all2_append1 list_all2_Cons1)
  obtain dd where dd: "v = PDict dd" using r(3) by (auto simp: day_ok_def)
  have "length ds1 = length rs1" using r(2) by (rule list_all2_lengthD)
  then have "at_day w placed d dd new ds1 rs1 ds2 rs2"
    using w r d dd assms(2) unfolding at_day_def by (simp add: days_of_def)
  then show thesis by (rule that)
qed

lemma at_day_sessions:
  assumes "at_day w placed d dd new ds1 rs1 ds2 rs2" and "new \<noteq> []"
  shows "dget dd ''sessions'' = PList (map PDict new)"
  using assms by (cases "map_of dd ''sessions''") (auto simp: at_day_def day_ok_def dget_or_def dget_def)

lemma placed_day:
  assumes "work_session_records w = Inr placed" and "n < length placed" and "placed ! n = (d, k, s)" and "distinct (dkeys (days_of w))"
  obtains dd new ds1 rs1 ds2 rs2 where "at_day w placed d dd new ds1 rs1 ds2 rs2" "k < length new" "new ! k = s"
    "n = length (concat (map2 places ds1 rs1)) + k" "session_ok d s"
proof -
  obtain days rs where w: "dget w ''days'' = PDict days" "list_all2 day_ok days rs" "distinct (map id_of (concat rs))"
    "length (filter is_active (concat rs)) \<le> 1" "placed = concat (map2 places days rs)" using assms(1) by (auto simp: records_Inr)
  obtain ds1 v ds2 rs1 new rs2 where p: "days = ds1 @ (d, v) # ds2" "rs = rs1 @ new # rs2" "length ds1 = length rs1" "k < length new" "new ! k = s"
     "n = length (concat (map2 places ds1 rs1)) + k"
    using placed_at [OF w(2)] assms(2,3) w(5) by (metis (no_types))
  then have a: "list_all2 day_ok ds1 rs1" "day_ok (d, v) new" "list_all2 day_ok ds2 rs2" using w(2) by (auto simp: list_all2_append)
  then obtain dd where dd: "v = PDict dd" by (auto simp: day_ok_def)
  then have "at_day w placed d dd new ds1 rs1 ds2 rs2"
    using w p a assms(4) unfolding at_day_def by (simp add: days_of_def)
  moreover have "session_ok d s" using a(2) p by (auto simp: day_ok_def)
  ultimately show thesis using that p by blast
qed

lemma put_session_records:
  assumes r: "work_session_records w = Inr placed" and n: "n < length placed" "placed ! n = (d, k, s)"
    and u: "distinct (dkeys (days_of w))" and s': "session_ok d s'" "id_of s' = id_of s" "is_active s' \<Longrightarrow> is_active s"
  shows "work_session_records (put_session w d k s') = Inr (placed[n := (d, k, s')]) \<and> distinct (dkeys (days_of (put_session w d k s')))"
proof -
  obtain dd new ds1 rs1 ds2 rs2 where a: "at_day w placed d dd new ds1 rs1 ds2 rs2" "k < length new" "new ! k = s"
    "n = length (concat (map2 places ds1 rs1)) + k" by (rule placed_day [OF r n u])
  let ?new = "new[k := s']" and ?dd = "dset dd ''sessions'' (PList (map PDict (new[k := s'])))"
  have ne: "new \<noteq> []" using a(2) by auto
  have put: "put_session w d k s' = put_day w d ?dd"
    using at_day_sessions [OF a(1) ne] at_day_records(4) [OF a(1)]
    by (auto simp: put_session_def put_row_def map_update days_of_def)
  have "map id_of ?new = map id_of new" using a(2,3) s'(2) by (simp add: map_update list_update_same_conv)
  then have "distinct (map id_of (concat (rs1 @ ?new # rs2)))" using a(1) by (simp add: at_day_def del: set_map distinct_map)
  moreover have "length (filter is_active (concat (rs1 @ ?new # rs2))) \<le> 1"
    using a s'(3) filter_update [of k new is_active s'] by (simp add: at_day_def)
  moreover have "day_ok (d, PDict ?dd) ?new"
    using a(1) s'(1) set_update_subset_insert [of new k s'] by (fastforce simp: day_ok_def at_day_def)
  ultimately have at: "at_day (put_session w d k s') (concat (map2 places ds1 rs1) @ places (d, PDict ?dd) ?new @ concat (map2 places ds2 rs2)) d ?dd ?new ds1 rs1 ds2 rs2"
    unfolding put by (intro put_at_day [OF a(1)])
  have "placed[n := (d, k, s')] = concat (map2 places ds1 rs1) @ places (d, PDict ?dd) ?new @ concat (map2 places ds2 rs2)"
    using a by (simp add: at_day_def list_update_append places_update places_same_day [of d "PDict dd" _ "PDict ?dd"])
  then show ?thesis using at_day_records(1,2) [OF at] by simp
qed

section \<open>Adding a session and adding an entry\<close>

lemma day_ok_keeps: "day_ok (d, PDict dd) new \<Longrightarrow> dget_or dd' ''sessions'' (PList []) = dget_or dd ''sessions'' (PList []) \<Longrightarrow> day_ok (d, PDict dd') new"
  by (simp add: day_ok_def)

lemma put_day_keeps:
  assumes a: "at_day w placed d dd new ds1 rs1 ds2 rs2" and "dget_or dd' ''sessions'' (PList []) = dget_or dd ''sessions'' (PList [])"
  shows "at_day (put_day w d dd') placed d dd' new ds1 rs1 ds2 rs2"
proof -
  have "day_ok (d, PDict dd') new" using a assms(2) day_ok_keeps by (auto simp: at_day_def)
  then have "at_day (put_day w d dd') (concat (map2 places ds1 rs1) @ places (d, PDict dd') new @ concat (map2 places ds2 rs2)) d dd' new ds1 rs1 ds2 rs2"
    using a by (intro put_at_day [OF a]) (simp_all only: at_day_def)
  moreover have "placed = concat (map2 places ds1 rs1) @ places (d, PDict dd') new @ concat (map2 places ds2 rs2)"
    using a by (simp add: at_day_def places_same_day [of d "PDict dd" _ "PDict dd'"])
  ultimately show ?thesis by simp
qed

lemma append_entry_records:
  assumes "work_session_records w = Inr placed" and "n < length placed" and "placed ! n = (d, k, s)"
    and "distinct (dkeys (days_of w))" and "append_entry w d entry = Inr w'"
  shows "work_session_records w' = Inr placed \<and> distinct (dkeys (days_of w'))"
proof -
  obtain dd new ds1 rs1 ds2 rs2 where a: "at_day w placed d dd new ds1 rs1 ds2 rs2"
    by (rule placed_day [OF assms(1-4)])
  obtain es where w': "w' = put_day w d (dset (dsetdefault dd ''entries'' (PList [])) ''entries'' es)"
    using assms(5) at_day_records(4) [OF a] by (auto simp: append_entry_def Let_def append_row_def bind_r_Inr days_of_def)
  have "at_day w' placed d (dset (dsetdefault dd ''entries'' (PList [])) ''entries'' es) new ds1 rs1 ds2 rs2"
    unfolding w' by (rule put_day_keeps [OF a]) (simp add: dsetdefault_def)
  from at_day_records(1,2) [OF this] show ?thesis by blast
qed

lemma open_day_records:
  assumes "work_session_records w = Inr placed" and "distinct (dkeys (days_of w))" and "review_date (PStr d) = Inr d"
    and "open_day w d = Inr (w1, day)"
  shows "work_session_records w1 = Inr placed \<and> distinct (dkeys (days_of w1)) \<and> d \<in> set (dkeys (days_of w1)) \<and> day = dget (days_of w1) d"
proof -
  obtain days rs where w: "dget w ''days'' = PDict days" "list_all2 day_ok days rs" "distinct (map id_of (concat rs))"
    "length (filter is_active (concat rs)) \<le> 1" "placed = concat (map2 places days rs)" using assms(1) by (auto simp: records_Inr)
  let ?v = "PDict [(''entries'', PList [])]"
  have d: "dget (dsetdefault w ''days'' (PDict [])) ''days'' = PDict days" using w(1) by (auto simp: dsetdefault_def dhas_def dget_def dget_or_def split: option.splits)
  have w1: "w1 = dset (dsetdefault w ''days'' (PDict [])) ''days'' (PDict (dsetdefault days d ?v))" "day = dget (dsetdefault days d ?v) d"
    using assms(4) d by (auto simp: open_day_Inr)
  then have days: "dget w1 ''days'' = PDict (dsetdefault days d ?v)" by simp
  show ?thesis
  proof (cases "dhas days d")
    case True
    then have "dget w1 ''days'' = PDict days" using days by (simp add: dsetdefault_def)
    then show ?thesis
      using w True assms(2) w1(2) unfolding records_Inr by (auto simp: days_of_def dhas_iff dsetdefault_def)
  next
    case False
    then have e: "dsetdefault days d ?v = days @ [(d, ?v)]"
      using dset_absent [of d days ?v] by (simp add: dsetdefault_def dhas_iff)
    have "day_ok (d, ?v) []" using assms(3) by (simp add: day_ok_def dget_or_def)
    then have "list_all2 day_ok (days @ [(d, ?v)]) (rs @ [[]])" using w(2) by (simp add: list_all2_appendI)
    moreover have "placed = concat (map2 places (days @ [(d, ?v)]) (rs @ [[]]))"
      using w(5) list_all2_lengthD [OF w(2)] by (simp add: places_def)
    ultimately have "work_session_records w1 = Inr placed"
      using days w(3,4) unfolding records_Inr e by (intro exI [of _ "days @ [(d, ?v)]"] exI [of _ "rs @ [[]]"]) simp
    then show ?thesis using days e w1(2) False assms(2) w(1) by (simp add: days_of_def dkeys_def dhas_iff)
  qed
qed

lemma placed_sessions: "list_all2 day_ok days rs \<Longrightarrow> map (\<lambda>(d, k, s). s) (concat (map2 places days rs)) = concat rs"
  by (induction rule: list_all2_induct) (simp_all add: places_def comp_def case_prod_beta)

lemma at_day_stored:
  assumes "at_day w placed d dd new ds1 rs1 ds2 rs2"
  shows "map (\<lambda>(d, k, s). s) placed = concat (rs1 @ new # rs2)"
proof -
  have "length ds1 = length rs1" using assms by (auto simp: at_day_def list_all2_lengthD)
  moreover have "list_all2 day_ok (ds1 @ (d, PDict dd) # ds2) (rs1 @ new # rs2)" using assms by (simp add: at_day_def list_all2_appendI)
  ultimately show ?thesis using placed_sessions [of "ds1 @ (d, PDict dd) # ds2" "rs1 @ new # rs2"] assms by (simp add: at_day_def)
qed

lemma distinct_between: "distinct (map f (xs @ ys)) \<Longrightarrow> f s \<notin> f ` set (xs @ ys) \<Longrightarrow> distinct (map f (xs @ s # ys))"
  by auto

lemma append_session_records:
  assumes r: "work_session_records w = Inr placed" and u: "distinct (dkeys (days_of w))" and date: "review_date (PStr d) = Inr d"
    and ap: "append_session w d s = Inr w'" and s: "session_ok d s" "id_of s \<notin> set (map (\<lambda>(d, k, s). id_of s) placed)"
    and no: "\<not> list_ex (\<lambda>(d, k, s). is_active s) placed"
  shows "\<exists>P Q k. placed = P @ Q \<and> work_session_records w' = Inr (P @ (d, k, s) # Q) \<and> distinct (dkeys (days_of w'))"
proof -
  obtain w1 day where o: "open_day w d = Inr (w1, day)" using ap by (auto simp: append_session_def bind_r_Inr)
  note w1 = open_day_records [OF r u date o]
  obtain dd new ds1 rs1 ds2 rs2 where a: "at_day w1 placed d dd new ds1 rs1 ds2 rs2"
    by (rule at_dayI [of w1 placed d]) (use w1 in blast)+
  have day: "day = PDict dd" using w1 at_day_records(4) [OF a] by simp
  have ss: "dget_or dd ''sessions'' (PList []) = PList (map PDict new)" using a by (auto simp: at_day_def day_ok_def)
  let ?new = "new @ [s]" and ?dd = "dset (dsetdefault dd ''sessions'' (PList [])) ''sessions'' (PList (map PDict (new @ [s])))"
  have "map_of (dsetdefault dd ''sessions'' (PList [])) ''sessions'' = Some (PList (map PDict new))"
    using ss by (auto simp: dsetdefault_def dhas_def dget_or_def split: option.splits)
  then have w': "w' = put_day w1 d ?dd"
    using ap o day by (auto simp: append_session_def append_row_def bind_r_Inr dindex_Inr as_list_Inr)
  have ids: "set (map (\<lambda>(d, k, s). id_of s) placed) = id_of ` set (concat (rs1 @ new # rs2))"
    using at_day_stored [OF a, symmetric] by (force simp: image_iff)
  have act: "filter is_active (concat (rs1 @ new # rs2)) = []"
    using at_day_stored [OF a, symmetric] no by (auto simp: filter_empty_conv list_ex_iff)
  have "day_ok (d, PDict ?dd) ?new" using a s(1) by (auto simp: at_day_def day_ok_def)
  moreover have "distinct (map id_of (concat (rs1 @ ?new # rs2)))"
    using distinct_between [of id_of "concat rs1 @ new" "concat rs2" s] a s(2)[unfolded ids] by (simp add: at_day_def)
  moreover have "length (filter is_active (concat (rs1 @ ?new # rs2))) \<le> 1" using act by simp
  ultimately have at: "at_day w' (concat (map2 places ds1 rs1) @ places (d, PDict ?dd) ?new @ concat (map2 places ds2 rs2)) d ?dd ?new ds1 rs1 ds2 rs2"
    unfolding w' by (intro put_at_day [OF a])
  have "places (d, PDict ?dd) ?new = places (d, PDict dd) new @ [(d, length new, s)]" by (simp add: places_def enumerate_append_eq)
  then have "work_session_records w' = Inr ((concat (map2 places ds1 rs1) @ places (d, PDict dd) new) @ (d, length new, s) # concat (map2 places ds2 rs2))"
    "placed = (concat (map2 places ds1 rs1) @ places (d, PDict dd) new) @ concat (map2 places ds2 rs2)"
    using at_day_records(1) [OF at] a by (simp_all add: at_day_def)
  then show ?thesis using at_day_records(2) [OF at] by blast
qed

section \<open>Transitions\<close>

lemma session_id_upper: "is_session_id i \<Longrightarrow> py_upper i = i"
proof -
  assume i: "is_session_id i"
  then have e: "i = ''WS-'' @ drop 3 i" and d: "all_digits (drop 3 i)" unfolding is_session_id_def by (metis append_take_drop_id)+
  have "py_upper (''WS-'' @ drop 3 i) = py_upper ''WS-'' @ py_upper (drop 3 i)" by (simp add: py_upper_def)
  moreover have "py_upper ''WS-'' = ''WS-''" by code_simp
  ultimately show "py_upper i = i" using e upper_digits [OF d] by metis
qed

lemma found_session:
  assumes "session_ok d s" and "find_record rs (upper_strip sid) label = Inr (n, s)"
  shows "id_of s = upper_strip sid"
proof -
  obtain i where i: "dget s ''id'' = PStr i" "is_session_id i" using assms(1) by (auto simp: session_ok_def)
  then have "dget_or s ''id'' (PStr []) = PStr i" by (auto simp: dget_def dget_or_def split: option.splits)
  with find_record_Inr(3) [OF assms(2)] i session_id_upper show ?thesis by (simp add: id_of_def upper_strip_idem)
qed

text \<open>What an accepted transition did, when it was not the repetition of an earlier one.\<close>

lemma transition_run:
  assumes "transition_work_session_v1 env sid action key path w = (Inr (st, answer), w')" and "st \<noteq> 200 \<or> saved w' \<noteq> saved w"
  obtains placed n d k s p a where "st = 200" "work_session_records (documents w Worklog_Doc) = Inr placed"
    "find_record (map (\<lambda>(d, k, s). PDict s) placed) (upper_strip sid) ''work session'' = Inr (n, s)" "placed ! n = (d, k, s)"
    "action \<in> {''pause'', ''resume'', ''stop''}" "in_tuple (dget s ''state'') (allowed_states action)"
    "project_work_session (move_session action (utc_at env (clock_reads w)) s) (PStr (utc_at env (clock_reads w))) = Inr p" "answer = response_body p"
    "documents w' = (documents w)(Worklog_Doc := put_session (documents w Worklog_Doc) d k (move_session action (utc_at env (clock_reads w)) s), Activity_Doc := a)"
    "saved w' = saved w @ [(''work-session-'' @ action @ ''-'' @ str_of key, [(Worklog_Doc, documents w' Worklog_Doc), (Activity_Doc, documents w' Activity_Doc)])]"
proof -
  let ?t = "utc_at env (clock_reads w)"
  have a: "action \<in> {''pause'', ''resume'', ''stop''}"
    using assms(1) by (auto simp: transition_work_session_v1_def Let_def runs split: if_splits)
  obtain path' where k: "keyed_command key ''POST'' path' (canonical_digest env (PDict []))
      (transition_session_intent env (upper_strip sid) action key path' (canonical_digest env (PDict []))) w = (Inr (st, answer), w')"
    using assms(1) a by (auto simp: transition_work_session_v1_def Let_def result_iffs split: if_splits)
  have i: "transition_session_intent env (upper_strip sid) action key path' (canonical_digest env (PDict [])) (with_ledger (documents w Activity_Doc)) w
      = (Inr (st, answer), w')"
    by (rule keyed_command_new [OF k]) (rule assms(2))
  obtain placed n s p where r: "work_session_records (documents w Worklog_Doc) = Inr placed"
    and f: "find_record (map (\<lambda>(d, k, s). PDict s) placed) (upper_strip sid) ''work session'' = Inr (n, s)"
    and stt: "in_tuple (dget s ''state'') (allowed_states action)"
    and p: "project_work_session (move_session action ?t s) (PStr ?t) = Inr p"
    and c: "commit_keyed env (with_ledger (documents w Activity_Doc)) key ''POST'' path' (canonical_digest env (PDict [])) 200 (response_body p)
       [(Worklog_Doc, put_session (documents w Worklog_Doc) (fst (placed ! n)) (fst (snd (placed ! n))) (move_session action ?t s))] []
       (''work-session-'' @ action @ ''-'' @ str_of key) (tick w) = (Inr (st, answer), w')"
    using i unfolding transition_session_intent_def Let_def
    by (simp only: runs plumbing case_prod_beta fst_conv snd_conv if_Inl_eq_Inr not_not) (elim exE conjE, rule that, assumption+)
  obtain d k s' where e: "placed ! n = (d, k, s')" by (cases "placed ! n") auto
  with find_record_Inr(1,2) [OF f] have s': "s' = s" by simp
  obtain a' where st: "st = 200" and a': "answer = response_body p"
    "documents w' = write_all [(Worklog_Doc, put_session (documents w Worklog_Doc) d k (move_session action ?t s)), (Activity_Doc, a')] (documents w)"
    "saved w' = saved w @ [(''work-session-'' @ action @ ''-'' @ str_of key,
       [(Worklog_Doc, put_session (documents w Worklog_Doc) d k (move_session action ?t s)), (Activity_Doc, a')])]"
    by (rule commit_keyed_Inr [OF c]) (auto simp: e)
  show thesis using that [OF st r f e [unfolded s'] a stt p a'(1)] a'(2,3) by simp
qed

text \<open>The stored sessions and their places, when the document is one that every reader accepts.\<close>

definition clock_not_back :: "env \<Rightarrow> world \<Rightarrow> bool" where
  "clock_not_back env w \<longleftrightarrow> (case work_session_records (documents w Worklog_Doc) of
       Inl e \<Rightarrow> False
     | Inr placed \<Rightarrow> list_all (\<lambda>(d, k, s). dget s ''state'' = PStr ''paused'' \<longrightarrow> resumes_after s (utc_at env (clock_reads w))) placed)"

lemma transition_effect:
  assumes "transition_work_session_v1 env sid action key path w = (Inr (st, answer), w')" and "st \<noteq> 200 \<or> saved w' \<noteq> saved w"
    and "clock_ok env" and "action = ''resume'' \<Longrightarrow> clock_not_back env w" and "distinct (dkeys (days_of (documents w Worklog_Doc)))"
  obtains placed n d k s where "work_session_records (documents w Worklog_Doc) = Inr placed" "n < length placed" "placed ! n = (d, k, s)"
    "id_of s = upper_strip sid" "in_tuple (dget s ''state'') (allowed_states action)"
    "is_active (move_session action (utc_at env (clock_reads w)) s) \<longleftrightarrow> action \<noteq> ''stop''"
    "work_session_records (documents w' Worklog_Doc) = Inr (placed[n := (d, k, move_session action (utc_at env (clock_reads w)) s)])"
    "distinct (dkeys (days_of (documents w' Worklog_Doc)))"
proof -
  let ?t = "utc_at env (clock_reads w)"
  obtain placed n d k s p a where r: "work_session_records (documents w Worklog_Doc) = Inr placed"
    and f: "find_record (map (\<lambda>(d, k, s). PDict s) placed) (upper_strip sid) ''work session'' = Inr (n, s)" "placed ! n = (d, k, s)"
    and a: "action \<in> {''pause'', ''resume'', ''stop''}" "in_tuple (dget s ''state'') (allowed_states action)"
    and p: "project_work_session (move_session action ?t s) (PStr ?t) = Inr p"
    and w': "documents w' = (documents w)(Worklog_Doc := put_session (documents w Worklog_Doc) d k (move_session action ?t s), Activity_Doc := a)"
    by (rule transition_run [OF assms(1,2)])
  have n: "n < length placed" using find_record_Inr(1) [OF f(1)] by simp
  obtain j where t: "work_session_timestamp (PStr ?t) [] = Inr j" using clock_instant [OF assms(3)] by blast
  have ok: "session_ok d s" by (rule stored_session_ok [OF r n f(2)])
  have onward: "action = ''resume'' \<Longrightarrow> resumes_after s ?t"
    using assms(4) a(2) nth_mem [OF n] f(2) r by (auto simp: clock_not_back_def allowed_states_def in_tuple_iff list_all_iff)
  note m = move_ok [OF ok a t p onward]
  have "work_session_records (put_session (documents w Worklog_Doc) d k (move_session action ?t s)) = Inr (placed[n := (d, k, move_session action ?t s)]) \<and>
    distinct (dkeys (days_of (put_session (documents w Worklog_Doc) d k (move_session action ?t s))))"
    using put_session_records [OF r n f(2) assms(5)] m by blast
  then show thesis
    using that [OF r n f(2) found_session [OF ok f(1)] a(2)] m w' by simp
qed

text \<open>
  C31. An accepted transition of a work session changes exactly one stored session and leaves the work log
  readable: the session found under the identifier, in whatever case and with blanks around it, was in a
  state the action allows, and afterwards every reader finds the same sessions in the same places, this one
  moved at the time of the call. The session stays the active one unless it was stopped. A resume is asked
  to happen no earlier than the end of the last segment; nothing is asked of the other actions, whose
  segment would have a negative duration and which are refused.
\<close>
theorem session_transition_moves_one:
  assumes "transition_work_session_v1 env sid action key path w = (Inr (200, answer), w')" and "saved w' \<noteq> saved w"
    and "clock_ok env" and "action = ''resume'' \<Longrightarrow> clock_not_back env w" and "distinct (dkeys (days_of (documents w Worklog_Doc)))"
  shows "\<exists>placed n d k s. work_session_records (documents w Worklog_Doc) = Inr placed \<and> n < length placed \<and> placed ! n = (d, k, s) \<and>
    id_of s = upper_strip sid \<and> in_tuple (dget s ''state'') (allowed_states action) \<and>
    (let s' = move_session action (utc_at env (clock_reads w)) s in
      work_session_records (documents w' Worklog_Doc) = Inr (placed[n := (d, k, s')]) \<and> (is_active s' \<longleftrightarrow> action \<noteq> ''stop''))"
  by (rule transition_effect [OF assms(1) disjI2 [OF assms(2)] assms(3-5)]) (simp_all add: Let_def, blast)

section \<open>Starting\<close>

definition task_fits :: "dict \<Rightarrow> bool" where
  "task_fits task \<longleftrightarrow> is_any_task_id (str_of (dget task ''id'')) \<and> is_str (dget task ''id'') \<and>
     is_str (dget task ''title'') \<and> py_strip (str_of (dget task ''title'')) \<noteq> []"

lemma new_session_gets:
  "dget (new_session i tid title d t) ''id'' = PStr i" "dget (new_session i tid title d t) ''task_id'' = tid"
  "dget (new_session i tid title d t) ''task'' = title" "dget (new_session i tid title d t) ''date'' = PStr d"
  "dget (new_session i tid title d t) ''state'' = PStr ''running''" "dget (new_session i tid title d t) ''started_at'' = PStr t"
  "dget (new_session i tid title d t) ''updated_at'' = PStr t" "dget (new_session i tid title d t) ''worklog_state'' = PStr ''not_ready''"
  "dget (new_session i tid title d t) ''segments'' = PList [PDict [(''started_at'', PStr t), (''ended_at'', PNone)]]"
  by (simp_all add: new_session_def dget_def dget_or_def)

lemma new_session_ok:
  assumes "is_session_id i" and "task_fits task" and "dget task ''title'' = title" and t: "work_session_timestamp (PStr t) [] = Inr j"
  shows "session_ok d (new_session i (dget task ''id'') title d t)"
proof -
  let ?s = "new_session i (dget task ''id'') title d t"
  obtain n m where n: "dget task ''id'' = PStr n" "is_any_task_id n" "title = PStr m" "py_strip m \<noteq> []"
    using assms(2,3) by (auto simp: task_fits_def is_str_iff)
  have ts: "work_session_timestamp (PStr t) f = Inr j" for f using timestamp_field [THEN iffD1, OF t] .
  have shape: "work_session_shape ?s d = Inr (?s, ''running'')"
    using n ts by (auto simp: shape_Inr new_session_gets worklog_states_def ACTIVE_STATES_def)
  have "open_segment (PDict [(''started_at'', PStr t), (''ended_at'', PNone)]) j"
    using ts by (simp add: open_segment_def segment_from_def exact_keys_def dkeys_def dget_def dget_or_def dhas_def)
  then have "running_ladder None [PDict [(''started_at'', PStr t), (''ended_at'', PNone)]]"
    by (auto simp: running_Cons starts_after_def)
  then have "validate_work_session_segments ?s ''running'' = Inr ()"
    using validate_Inr [of "''running''" ?s] by (simp add: new_session_gets)
  with shape assms(1) show ?thesis by (simp add: session_ok_def new_session_gets)
qed

lemma session_id_format: "is_session_id (format_id ''WS'' 6 n)"
proof -
  have "py_upper ''WS'' = ''WS''" by code_simp
  then show ?thesis using length_pad_nat [of 6 n] by (simp add: is_session_id_def format_id_def)
qed

lemma fresh_session_id:
  assumes "next_id (map (\<lambda>(d, k, s). PDict s) placed) ''WS'' 6 = Inr i" and "(d, k, s) \<in> set placed" and "session_ok d s"
  shows "id_of s \<noteq> i"
proof -
  have "PDict s \<in> set (map (\<lambda>(d, k, s). PDict s) placed)" using assms(2) by force
  then have f: "rec_number ''WS'' (PDict s) \<noteq> id_number ''WS'' i" by (rule domain_ids.alloc_fresh [OF assms(1)])
  obtain x where x: "dget s ''id'' = PStr x" using assms(3) by (auto simp: session_ok_def)
  then have "dget_or s ''id'' (PStr []) = PStr x" by (auto simp: dget_def dget_or_def split: option.splits)
  then have "rec_number ''WS'' (PDict s) = id_number ''WS'' x" by (simp add: rec_number_def record_number_def vget_or_def)
  with f x show ?thesis by (auto simp: id_of_def)
qed

lemma start_run:
  assumes "start_work_session_v1 env body key path w = (Inr (st, answer), w')" and "st \<noteq> 200 \<or> saved w' \<noteq> saved w"
  obtains tid task placed d i worklog p a where "st = 201" "body_task_id body = Inr tid" "fetch_task tid w = (Inr task, w)"
    "work_session_records (documents w Worklog_Doc) = Inr placed" "\<not> list_ex (\<lambda>(d, k, s). is_active s) placed"
    "review_date (PStr (today_at env (Suc (clock_reads w)))) = Inr d" "next_id (map (\<lambda>(d, k, s). PDict s) placed) ''WS'' 6 = Inr i"
    "append_session (documents w Worklog_Doc) d (new_session i (dget task ''id'') (dget task ''title'') d (utc_at env (clock_reads w))) = Inr worklog"
    "project_work_session (new_session i (dget task ''id'') (dget task ''title'') d (utc_at env (clock_reads w))) (PStr (utc_at env (clock_reads w))) = Inr p"
    "answer = response_body p" "documents w' = (documents w)(Worklog_Doc := worklog, Activity_Doc := a)"
    "saved w' = saved w @ [(''work-session-start-'' @ str_of key, [(Worklog_Doc, worklog), (Activity_Doc, a)])]"
proof -
  let ?t = "utc_at env (clock_reads w)"
  obtain tid task w1 n where b: "body_task_id body = Inr tid" "fetch_task tid w = (Inr task, w1)" and n: "dindex task ''id'' = Inr n"
    and k: "keyed_command key ''POST'' path (canonical_digest env (PDict [(''task_id'', n)]))
      (start_intent env task key path (canonical_digest env (PDict [(''task_id'', n)]))) w1 = (Inr (st, answer), w')"
    using assms(1) unfolding start_work_session_v1_def Let_def
    by (simp only: runs plumbing bind_c_Inr [of "fetch_task t" for t]) blast
  have w1: "w1 = w" using b(2) by (simp add: fetch_task_def runs)
  have i: "start_intent env task key path (canonical_digest env (PDict [(''task_id'', n)])) (with_ledger (documents w Activity_Doc)) w
      = (Inr (st, answer), w')"
    by (rule keyed_command_new [OF k [unfolded w1] assms(2)])
  obtain placed u d i title worklog p where r: "work_session_records (documents w Worklog_Doc) = Inr placed"
    and no: "(if list_ex (\<lambda>(d, k, s). is_active s) placed then Inl (session_conflict ''another work session is already active'' []) else Inr ()) = Inr u"
    and d: "review_date (PStr (today_at env (clock_reads (tick w)))) = Inr d"
    and id: "next_id (map (\<lambda>(d, k, s). PDict s) placed) ''WS'' 6 = Inr i" and title: "dindex task ''title'' = Inr title"
    and ap: "append_session (documents w Worklog_Doc) d (new_session i (dget task ''id'') title d ?t) = Inr worklog"
    and p: "project_work_session (new_session i (dget task ''id'') title d ?t) (PStr ?t) = Inr p"
    and c: "commit_keyed env (with_ledger (documents w Activity_Doc)) key ''POST'' path (canonical_digest env (PDict [(''task_id'', n)])) 201 (response_body p)
       [(Worklog_Doc, worklog)] [] (''work-session-start-'' @ str_of key) (tick (tick w)) = (Inr (st, answer), w')"
    using i unfolding start_intent_def Let_def
    by (simp only: runs split_paired_Ex Let_def) (elim exE conjE, rule that, assumption+)
  have title: "dget task ''title'' = title" using title by (simp add: dindex_Inr dget_map_of)
  obtain a where a: "st = 201" "answer = response_body p" "documents w' = write_all [(Worklog_Doc, worklog), (Activity_Doc, a)] (documents w)"
    "saved w' = saved w @ [(''work-session-start-'' @ str_of key, [(Worklog_Doc, worklog), (Activity_Doc, a)])]"
    by (rule commit_keyed_Inr [OF c]) auto
  show thesis
    by (rule that [of tid task placed d i worklog p a]) (use b w1 r no d id ap p a title in \<open>auto simp: tick_def split: if_splits\<close>)
qed

lemma start_effect:
  assumes "start_work_session_v1 env body key path w = (Inr (st, answer), w')" and "st \<noteq> 200 \<or> saved w' \<noteq> saved w"
    and "\<And>tid task. body_task_id body = Inr tid \<Longrightarrow> fetch_task tid w = (Inr task, w) \<Longrightarrow> task_fits task" and "clock_ok env"
    and "distinct (dkeys (days_of (documents w Worklog_Doc)))"
  obtains P Q d k s tid task where "work_session_records (documents w Worklog_Doc) = Inr (P @ Q)"
    "work_session_records (documents w' Worklog_Doc) = Inr (P @ (d, k, s) # Q)" "is_active s" "\<not> list_ex (\<lambda>(d, k, s). is_active s) (P @ Q)"
    "id_of s \<notin> set (map (\<lambda>(d, k, s). id_of s) (P @ Q))" "body_task_id body = Inr tid" "fetch_task tid w = (Inr task, w)"
    "dget s ''task_id'' = dget task ''id''" "distinct (dkeys (days_of (documents w' Worklog_Doc)))"
proof -
  let ?t = "utc_at env (clock_reads w)"
  obtain tid task placed d i worklog p a where r: "work_session_records (documents w Worklog_Doc) = Inr placed" "\<not> list_ex (\<lambda>(d, k, s). is_active s) placed"
    and d: "review_date (PStr (today_at env (Suc (clock_reads w)))) = Inr d" and i: "next_id (map (\<lambda>(d, k, s). PDict s) placed) ''WS'' 6 = Inr i"
    and ap: "append_session (documents w Worklog_Doc) d (new_session i (dget task ''id'') (dget task ''title'') d ?t) = Inr worklog"
    and w': "documents w' = (documents w)(Worklog_Doc := worklog, Activity_Doc := a)"
    and b: "body_task_id body = Inr tid" "fetch_task tid w = (Inr task, w)"
    by (rule start_run [OF assms(1,2)])
  let ?s = "new_session i (dget task ''id'') (dget task ''title'') d ?t"
  obtain j where t: "work_session_timestamp (PStr ?t) [] = Inr j" using clock_instant [OF assms(4)] by blast
  have sid: "is_session_id i" using i by (auto simp: next_id_def bind_r_Inr session_id_format)
  have ok: "session_ok d ?s" by (rule new_session_ok [OF sid assms(3) [OF b] refl t])
  have idof: "id_of ?s = i" by (simp add: id_of_def new_session_gets)
  have fresh: "id_of ?s \<notin> set (map (\<lambda>(d, k, s). id_of s) placed)"
  proof
    assume "id_of ?s \<in> set (map (\<lambda>(d, k, s). id_of s) placed)"
    then obtain d' k s where m: "(d', k, s) \<in> set placed" "id_of s = i" by (auto simp: idof)
    then obtain n where "n < length placed" "placed ! n = (d', k, s)" by (auto simp: in_set_conv_nth)
    then show False using fresh_session_id [OF i m(1)] stored_session_ok [OF r(1)] m(2) by blast
  qed
  have "review_date (PStr d) = Inr d" using d review_date_same by blast
  from append_session_records [OF r(1) assms(5) this ap ok fresh r(2)] obtain P Q k where
    pq: "placed = P @ Q" "work_session_records worklog = Inr (P @ (d, k, ?s) # Q)" "distinct (dkeys (days_of worklog))" by blast
  show thesis
    using that [of P Q d k ?s tid task] b r pq w' fresh by (simp add: new_session_gets is_active_def ACTIVE_STATES_def in_tuple_iff)
qed


section \<open>Recording\<close>

definition mark_recorded :: "string \<Rightarrow> dict \<Rightarrow> dict" where
  "mark_recorded timestamp session = dset (dset session ''worklog_state'' (PStr ''recorded'')) ''updated_at'' (PStr timestamp)"

lemma mark_ok:
  assumes "session_ok d s" and "is_pending s" and t: "work_session_timestamp (PStr t) [] = Inr j"
  shows "session_ok d (mark_recorded t s)" "id_of (mark_recorded t s) = id_of s" "is_active (mark_recorded t s) = is_active s"
proof -
  obtain i st where o: "dget s ''id'' = PStr i" "is_session_id i" "work_session_shape s d = Inr (s, st)"
    "validate_work_session_segments s st = Inr ()" using assms(1) by (auto simp: session_ok_def)
  have st: "st = ''stopped''" using o(3) assms(2) by (simp add: shape_Inr is_pending_def)
  have ts: "work_session_timestamp (PStr t) ''updated_at'' = Inr j" using timestamp_field [THEN iffD1, OF t] .
  have "work_session_shape (mark_recorded t s) d = Inr (mark_recorded t s, st)"
    using o(3) st ts by (auto simp: shape_Inr mark_recorded_def worklog_states_def ACTIVE_STATES_def)
  moreover have "validate_work_session_segments (mark_recorded t s) st = Inr ()"
    using o(4) by (simp add: validate_work_session_segments_def mark_recorded_def)
  ultimately show "session_ok d (mark_recorded t s)" using o(1,2) by (simp add: session_ok_def mark_recorded_def)
  show "id_of (mark_recorded t s) = id_of s" by (simp add: id_of_def mark_recorded_def)
  show "is_active (mark_recorded t s) = is_active s" by (simp add: is_active_def mark_recorded_def)
qed

lemma record_run:
  assumes "record_work_session_v1 env sid body key path w = (Inr (st, answer), w')" and "st \<noteq> 200 \<or> saved w' \<noteq> saved w"
  obtains canonical placed n d k s duration worklog a where "st = 201" "body_items body = Inr canonical"
    "work_session_records (documents w Worklog_Doc) = Inr placed"
    "find_record (map (\<lambda>(d, k, s). PDict s) placed) (upper_strip sid) ''work session'' = Inr (n, s)" "placed ! n = (d, k, s)" "is_pending s"
    "work_session_elapsed s PNone = Inr duration"
    "append_entry (documents w Worklog_Doc) d (session_entry s canonical duration) = Inr worklog"
    "documents w' = (documents w)(Worklog_Doc := put_session worklog d k (mark_recorded (utc_at env (clock_reads w)) s), Activity_Doc := a)"
proof -
  let ?t = "utc_at env (clock_reads w)"
  obtain canonical path' digest where b: "body_items body = Inr canonical"
    and k: "keyed_command key ''POST'' path' digest (record_session_intent env (upper_strip sid) canonical key path' digest) w = (Inr (st, answer), w')"
    using assms(1) unfolding record_work_session_v1_def Let_def by (simp only: runs) blast
  have i: "record_session_intent env (upper_strip sid) canonical key path' digest (with_ledger (documents w Activity_Doc)) w = (Inr (st, answer), w')"
    by (rule keyed_command_new [OF k assms(2)])
  obtain placed n s duration worklog where r: "work_session_records (documents w Worklog_Doc) = Inr placed"
    and f: "find_record (map (\<lambda>(d, k, s). PDict s) placed) (upper_strip sid) ''work session'' = Inr (n, s)" and pe: "is_pending s"
    and e: "work_session_elapsed s PNone = Inr duration"
    and ap: "append_entry (documents w Worklog_Doc) (fst (placed ! n)) (session_entry s canonical duration) = Inr worklog"
    and c: "commit_keyed env (with_ledger (documents w Activity_Doc)) key ''POST'' path' digest 201
        (response_body ((''date'', dget (mark_recorded ?t s) ''date'') # session_entry s canonical duration))
       [(Worklog_Doc, put_session worklog (fst (placed ! n)) (fst (snd (placed ! n))) (mark_recorded ?t s))] []
       (''work-session-worklog-'' @ str_of key) (tick w) = (Inr (st, answer), w')"
    using i unfolding record_session_intent_def Let_def mark_recorded_def
    by (simp only: runs plumbing case_prod_beta fst_conv snd_conv if_Inl_eq_Inr not_not) (elim exE conjE, rule that, assumption+, unfold mark_recorded_def, assumption)
  obtain d k s' where x: "placed ! n = (d, k, s')" by (cases "placed ! n") auto
  with find_record_Inr(1,2) [OF f] have s': "s' = s" by simp
  obtain a where a: "st = 201" "documents w' = write_all [(Worklog_Doc, put_session worklog d k (mark_recorded ?t s)), (Activity_Doc, a)] (documents w)"
    by (rule commit_keyed_Inr [OF c]) (auto simp: x)
  show thesis using that [OF a(1) b r f x [unfolded s'] pe e] ap a(2) x by simp
qed

lemma record_effect:
  assumes "record_work_session_v1 env sid body key path w = (Inr (st, answer), w')" and "st \<noteq> 200 \<or> saved w' \<noteq> saved w" and "clock_ok env"
    and "distinct (dkeys (days_of (documents w Worklog_Doc)))"
  obtains placed n d k s canonical duration old where "work_session_records (documents w Worklog_Doc) = Inr placed" "n < length placed"
    "placed ! n = (d, k, s)" "id_of s = upper_strip sid" "is_pending s"
    "work_session_records (documents w' Worklog_Doc) = Inr (placed[n := (d, k, mark_recorded (utc_at env (clock_reads w)) s)])"
    "entries_on (documents w Worklog_Doc) d = PList old \<or> old = []" "work_session_elapsed s PNone = Inr duration" "body_items body = Inr canonical"
    "entries_on (documents w' Worklog_Doc) d = PList (old @ [PDict (session_entry s canonical duration)])"
    "distinct (dkeys (days_of (documents w' Worklog_Doc)))"
proof -
  let ?t = "utc_at env (clock_reads w)"
  obtain canonical placed n d k s duration worklog a where b: "body_items body = Inr canonical"
    and r: "work_session_records (documents w Worklog_Doc) = Inr placed"
    and f: "find_record (map (\<lambda>(d, k, s). PDict s) placed) (upper_strip sid) ''work session'' = Inr (n, s)" "placed ! n = (d, k, s)"
    and pe: "is_pending s" and e: "work_session_elapsed s PNone = Inr duration"
    and ap: "append_entry (documents w Worklog_Doc) d (session_entry s canonical duration) = Inr worklog"
    and w': "documents w' = (documents w)(Worklog_Doc := put_session worklog d k (mark_recorded ?t s), Activity_Doc := a)"
    by (rule record_run [OF assms(1,2)])
  have n: "n < length placed" using find_record_Inr(1) [OF f(1)] by simp
  have ok: "session_ok d s" by (rule stored_session_ok [OF r n f(2)])
  obtain j where t: "work_session_timestamp (PStr ?t) [] = Inr j" using clock_instant [OF assms(3)] by blast
  have w1: "work_session_records worklog = Inr placed" "distinct (dkeys (days_of worklog))"
    using append_entry_records [OF r n f(2) assms(4) ap] by blast+
  have w2: "work_session_records (put_session worklog d k (mark_recorded ?t s)) = Inr (placed[n := (d, k, mark_recorded ?t s)]) \<and>
    distinct (dkeys (days_of (put_session worklog d k (mark_recorded ?t s))))"
    using put_session_records [OF w1(1) n f(2) w1(2) mark_ok(1,2) [OF ok pe t]] mark_ok(3) [OF ok pe t] by blast
  let ?day = "dsetdefault (dict_of (dget (days_of (documents w Worklog_Doc)) d)) ''entries'' (PList [])"
  obtain old where o: "map_of ?day ''entries'' = Some (PList old)"
    and wl: "worklog = put_day (documents w Worklog_Doc) d (dset ?day ''entries'' (PList (old @ [PDict (session_entry s canonical duration)])))"
    using ap unfolding append_entry_def Let_def append_row_def days_of_def bind_r_Inr dindex_Inr as_list_Inr by blast
  have old: "dget ?day ''entries'' = PList old" by (rule dget_map_of [OF o])
  have "entries_on (put_session worklog d k (mark_recorded ?t s)) d = entries_on worklog d"
    by (simp add: put_session_def entries_on_put put_row_def) (simp add: entries_on_def)
  moreover have "entries_on worklog d = PList (old @ [PDict (session_entry s canonical duration)])" by (simp add: wl entries_on_put)
  moreover have "entries_on (documents w Worklog_Doc) d = PList old \<or> old = []"
    using old by (auto simp: entries_on_def days_of_def split: if_splits)
  ultimately show thesis
    using that [OF r n f(2) found_session [OF ok f(1)] pe _ _ e b] w2 w' by simp
qed


section \<open>A clock that goes back\<close>

lemma two_of_one: "length (filter P xs) \<le> 1 \<Longrightarrow> x \<in> set xs \<Longrightarrow> y \<in> set xs \<Longrightarrow> P x \<Longrightarrow> P y \<Longrightarrow> x = y"
  by (induction xs) (auto simp: filter_empty_conv split: if_splits)

lemma only_one_active:
  assumes "work_session_records w = Inr placed" and "(d, k, s) \<in> set placed" and "(d', k', s') \<in> set placed" and "is_active s" and "is_active s'"
  shows "s = s'"
proof -
  obtain days rs where w: "list_all2 day_ok days rs" "length (filter is_active (concat rs)) \<le> 1" "placed = concat (map2 places days rs)"
    using assms(1) by (auto simp: records_Inr)
  have "set (concat rs) = (\<lambda>(d, k, s). s) ` set placed" using placed_sessions [OF w(1)] w(3) by (metis set_map)
  then have "s \<in> set (concat rs)" "s' \<in> set (concat rs)" using assms(2,3) by force+
  then show ?thesis using two_of_one [OF w(2)] assms(4,5) by blast
qed

lemma resumed_in_order:
  assumes "session_ok d s" and "dget s ''state'' = PStr ''paused''" and "session_ok d (move_session ''resume'' t s)"
  shows "resumes_after s t"
proof -
  obtain st xs where o: "dget s ''state'' = PStr st" "dget s ''segments'' = PList xs" "xs \<noteq> []"
    "if st = ''running'' then running_ladder None xs else \<exists>q. ladder None xs q" by (rule session_okD [OF assms(1)])
  obtain q where q: "ladder None xs q" using o assms(2) by auto
  let ?y = "PDict [(''started_at'', PStr t), (''ended_at'', PNone)]"
  have g: "dget (move_session ''resume'' t s) ''segments'' = PList (xs @ [?y])" "dget (move_session ''resume'' t s) ''state'' = PStr ''running''"
    using o(2) assms(2) by (simp_all add: move_gets moved_segments_def after_action_def)
  obtain st' xs' where o': "dget (move_session ''resume'' t s) ''state'' = PStr st'" "dget (move_session ''resume'' t s) ''segments'' = PList xs'"
    "if st' = ''running'' then running_ladder None xs' else \<exists>q. ladder None xs' q" by (rule session_okD [OF assms(3)])
  then have "running_ladder None (xs @ [?y])" using g by simp
  then obtain r i where r: "ladder None xs r" "open_segment ?y i" "starts_after r i" by (auto simp: running_ladder_def)
  obtain c e where c: "last xs = PDict c" "r = Some e" "work_session_timestamp (dget c ''ended_at'') [] = Inr e"
    using ladder_last [OF r(1) o(3)] by blast
  have "work_session_timestamp (PStr t) ''segment.started_at'' = Inr i"
    using r(2) by (simp add: open_segment_def segment_from_def dget_def dget_or_def)
  then have "work_session_timestamp (PStr t) [] = Inr i" using timestamp_field [THEN iffD1] by blast
  then show ?thesis using c r(3) o(2) by (simp add: resumes_after_def last_end_def starts_after_def)
qed

lemma put_session_readable:
  assumes r: "work_session_records w = Inr placed" and n: "n < length placed" "placed ! n = (d, k, s)"
    and u: "distinct (dkeys (days_of w))" and r': "work_session_records (put_session w d k s') = Inr placed'"
  shows "session_ok d s'"
proof -
  obtain dd new ds1 rs1 ds2 rs2 where a: "at_day w placed d dd new ds1 rs1 ds2 rs2" "k < length new"
    by (rule placed_day [OF r n u]) blast
  let ?dd = "dset dd ''sessions'' (PList (map PDict (new[k := s'])))"
  have ne: "new \<noteq> []" using a(2) by auto
  have put: "put_session w d k s' = put_day w d ?dd"
    using at_day_sessions [OF a(1) ne] at_day_records(4) [OF a(1)]
    by (auto simp: put_session_def put_row_def map_update days_of_def)
  have "dget (put_session w d k s') ''days'' = PDict (ds1 @ (d, PDict ?dd) # ds2)"
    unfolding put using a(1) by (intro put_day_days(1)) (auto simp: at_day_def)
  then obtain rs where rs: "list_all2 day_ok (ds1 @ (d, PDict ?dd) # ds2) rs" using r' by (auto simp: records_Inr)
  then obtain x where "day_ok (d, PDict ?dd) x" by (auto simp: list_all2_append1 list_all2_Cons1)
  then have x: "map PDict x = map PDict (new[k := s'])" "\<forall>s \<in> set x. session_ok d s" by (auto simp: day_ok_def)
  then have "x = new[k := s']" by (simp add: inj_map_eq_map inj_def)
  then show ?thesis using x(2) a(2) set_update_memI by metis
qed

text \<open>
  C34. What an accepted resume leaves is readable exactly if the clock has not gone back behind the end of the
  last segment of the session. The command does not compare the two: with a clock that has been set back it
  answers 200 and saves overlapping segments, which every later read of the work log refuses as corrupt.
\<close>
theorem resume_readable_iff_clock_onward:
  assumes "transition_work_session_v1 env sid ''resume'' key path w = (Inr (200, answer), w')" and "saved w' \<noteq> saved w"
    and "clock_ok env" and "distinct (dkeys (days_of (documents w Worklog_Doc)))"
  shows "(\<exists>placed. work_session_records (documents w' Worklog_Doc) = Inr placed) = clock_not_back env w"
proof -
  let ?t = "utc_at env (clock_reads w)"
  obtain placed n d k s p a where r: "work_session_records (documents w Worklog_Doc) = Inr placed"
    and f: "find_record (map (\<lambda>(d, k, s). PDict s) placed) (upper_strip sid) ''work session'' = Inr (n, s)" "placed ! n = (d, k, s)"
    and st: "in_tuple (dget s ''state'') (allowed_states ''resume'')"
    and p: "project_work_session (move_session ''resume'' ?t s) (PStr ?t) = Inr p"
    and w': "documents w' = (documents w)(Worklog_Doc := put_session (documents w Worklog_Doc) d k (move_session ''resume'' ?t s), Activity_Doc := a)"
    by (rule transition_run [OF assms(1) disjI2 [OF assms(2)]])
  have n: "n < length placed" using find_record_Inr(1) [OF f(1)] by simp
  have paused: "dget s ''state'' = PStr ''paused''" using st by (simp add: allowed_states_def in_tuple_iff)
  have ok: "session_ok d s" by (rule stored_session_ok [OF r n f(2)])
  have s: "(d, k, s) \<in> set placed" using n f(2) nth_mem by metis
  obtain j where t: "work_session_timestamp (PStr ?t) [] = Inr j" using clock_instant [OF assms(3)] by blast
  have clock: "clock_not_back env w \<longleftrightarrow> resumes_after s ?t"
  proof
    show "clock_not_back env w \<Longrightarrow> resumes_after s ?t" using r s paused by (auto simp: clock_not_back_def list_all_iff)
    assume ra: "resumes_after s ?t"
    have "s' = s" if "(d', k', s') \<in> set placed" "dget s' ''state'' = PStr ''paused''" for d' k' s'
      using only_one_active [OF r that(1) s] that(2) paused by (simp add: is_active_def ACTIVE_STATES_def in_tuple_iff)
    then show "clock_not_back env w" using ra r by (auto simp: clock_not_back_def list_all_iff)
  qed
  show ?thesis unfolding clock
  proof
    assume "resumes_after s ?t"
    then have "session_ok d (move_session ''resume'' ?t s) \<and> id_of (move_session ''resume'' ?t s) = id_of s \<and> is_active s \<and>
      (is_active (move_session ''resume'' ?t s) \<longleftrightarrow> ''resume'' \<noteq> ''stop'')"
      using move_ok [OF ok _ st t p] by blast
    then show "\<exists>placed. work_session_records (documents w' Worklog_Doc) = Inr placed"
      using put_session_records [OF r n f(2) assms(4)] w' by auto
  next
    assume "\<exists>placed. work_session_records (documents w' Worklog_Doc) = Inr placed"
    then have "session_ok d (move_session ''resume'' ?t s)" using put_session_readable [OF r n f(2) assms(4)] w' by auto
    then show "resumes_after s ?t" by (rule resumed_in_order [OF ok paused])
  qed
qed

section \<open>Whatever the outcomes\<close>

lemma all_or_nothing_fetch [commits]: "(\<And>x. all_or_nothing (f x)) \<Longrightarrow> all_or_nothing (bind_c (fetch_task t) f)"
  by (rule all_or_nothing_bind) (unfold fetch_task_def, intro commits)

lemma all_or_nothing_sessions:
  "all_or_nothing (start_work_session_v1 env body key path)" "all_or_nothing (transition_work_session_v1 env sid action key path)"
  "all_or_nothing (record_work_session_v1 env sid body key path)"
  unfolding start_work_session_v1_def start_intent_def transition_work_session_v1_def transition_session_intent_def
    record_work_session_v1_def record_session_intent_def Let_def
  by (intro commits)+

lemma outcome: "all_or_nothing m \<Longrightarrow> m w = (r, w') \<Longrightarrow> documents w' = documents w \<or> (\<exists>x. r = Inr x \<and> saved w' \<noteq> saved w)"
  by (auto simp: all_or_nothing_def dest: spec [of _ w])

text \<open>
  One call of a session command with any outcome. Two things are asked of the surroundings: a session is
  started for a task with an identifier and a title, and a session is not resumed by a clock that has gone
  back behind the end of its last segment.
\<close>

inductive session_step :: "env \<Rightarrow> world \<Rightarrow> world \<Rightarrow> bool" for env where
  started: "start_work_session_v1 env body key path w = (r, w') \<Longrightarrow>
     (\<And>tid task. body_task_id body = Inr tid \<Longrightarrow> fetch_task tid w = (Inr task, w) \<Longrightarrow> task_fits task) \<Longrightarrow> session_step env w w'"
| transition: "transition_work_session_v1 env sid action key path w = (r, w') \<Longrightarrow>
     (action = ''resume'' \<Longrightarrow> clock_not_back env w) \<Longrightarrow> session_step env w w'"
| recorded: "record_work_session_v1 env sid body key path w = (r, w') \<Longrightarrow> session_step env w w'"

text \<open>The stored sessions and their number of active ones.\<close>

definition sessions_ready :: "dict \<Rightarrow> bool" where
  "sessions_ready worklog \<longleftrightarrow> distinct (dkeys (days_of worklog)) \<and>
     (case work_session_records worklog of Inl e \<Rightarrow> False | Inr placed \<Rightarrow>
        (let sessions = map (\<lambda>(d, k, s). s) placed in length (filter is_active sessions) \<le> 1 \<and> distinct (map id_of sessions)))"

lemma sessions_readyI:
  assumes "work_session_records w = Inr placed" and "distinct (dkeys (days_of w))"
  shows "sessions_ready w"
proof -
  obtain days rs where w: "list_all2 day_ok days rs" "distinct (map id_of (concat rs))" "length (filter is_active (concat rs)) \<le> 1"
    "placed = concat (map2 places days rs)" using assms(1) by (auto simp: records_Inr)
  have e: "concat rs = map (\<lambda>(d, k, s). s) placed" using placed_sessions [OF w(1)] w(4) by simp
  show ?thesis using assms w(2,3) by (simp add: sessions_ready_def e)
qed

lemma sessions_readyD: "sessions_ready w \<Longrightarrow> (\<exists>placed. work_session_records w = Inr placed) \<and> distinct (dkeys (days_of w))"
  by (auto simp: sessions_ready_def split: sum.splits)

lemma session_step_ready:
  assumes "session_step env w w'" and "clock_ok env" and "sessions_ready (documents w Worklog_Doc)"
  shows "sessions_ready (documents w' Worklog_Doc)"
proof -
  have u: "distinct (dkeys (days_of (documents w Worklog_Doc)))" using sessions_readyD [OF assms(3)] by blast
  show ?thesis
  using assms(1)
proof cases
  case (started body key path r)
  from outcome [OF all_or_nothing_sessions(1) started(1)] show ?thesis
  proof
    assume "\<exists>x. r = Inr x \<and> saved w' \<noteq> saved w"
    then obtain st b where r: "start_work_session_v1 env body key path w = (Inr (st, b), w')" "st \<noteq> 200 \<or> saved w' \<noteq> saved w" using started(1) by auto
    show ?thesis by (rule start_effect [OF r _ assms(2) u]) (use started(2) in blast, rule sessions_readyI)
  qed (simp add: assms(3))
next
  case (transition sid action key path r)
  from outcome [OF all_or_nothing_sessions(2) transition(1)] show ?thesis
  proof
    assume "\<exists>x. r = Inr x \<and> saved w' \<noteq> saved w"
    then obtain st b where r: "transition_work_session_v1 env sid action key path w = (Inr (st, b), w')" "st \<noteq> 200 \<or> saved w' \<noteq> saved w"
      using transition(1) by auto
    show ?thesis by (rule transition_effect [OF r assms(2) transition(2) u]) (assumption, rule sessions_readyI)
  qed (simp add: assms(3))
next
  case (recorded sid body key path r)
  from outcome [OF all_or_nothing_sessions(3) recorded(1)] show ?thesis
  proof
    assume "\<exists>x. r = Inr x \<and> saved w' \<noteq> saved w"
    then obtain st b where r: "record_work_session_v1 env sid body key path w = (Inr (st, b), w')" "st \<noteq> 200 \<or> saved w' \<noteq> saved w"
      using recorded(1) by auto
    show ?thesis by (rule record_effect [OF r assms(2) u]) (rule sessions_readyI)
  qed (simp add: assms(3))
qed
qed

text \<open>
  C30. Whatever session commands are called, with whatever outcomes, a readable work log stays readable: its
  sessions pass validation, their identifiers are distinct, and at most one is running or paused. Asked of
  the surroundings is that a session is started for a Task with an identifier and a title, and is not
  resumed by a clock that went back.
\<close>
theorem sessions_stay_readable:
  assumes "(session_step env)\<^sup>*\<^sup>* w w'" and "clock_ok env" and "sessions_ready (documents w Worklog_Doc)"
  shows "sessions_ready (documents w' Worklog_Doc)"
  using assms(1) by induction (use assms(2,3) session_step_ready in blast)+

section \<open>The laws at work\<close>

text \<open>A clock in the first year keeps the evaluation of instants small.\<close>

definition session_env :: env where
  "session_env = sample_env\<lparr>utc_at := (\<lambda>n. ''0001-03-04T05:06:07Z''), today_at := (\<lambda>n. ''0001-03-04'')\<rparr>"

lemma session_clock_ok: "clock_ok session_env"
proof -
  have "planning_timestamp (PStr ''0001-03-04T05:06:07Z'') = Inr ''0001-03-04T05:06:07Z''" by code_simp
  then show ?thesis by (simp add: clock_ok_def session_env_def)
qed

definition stored_session :: "string \<Rightarrow> string \<Rightarrow> pyval \<Rightarrow> dict" where
  "stored_session state worklog_state ended_at =
     [(''id'', PStr ''WS-000001''), (''task_id'', PStr ''T-0001''), (''task'', PStr ''Write''), (''date'', PStr ''0001-03-04''),
      (''state'', PStr state), (''started_at'', PStr ''0001-03-04T05:00:00Z''), (''updated_at'', PStr ''0001-03-04T05:00:00Z''),
      (''segments'', PList [PDict [(''started_at'', PStr ''0001-03-04T05:00:00Z''), (''ended_at'', ended_at)]]),
      (''worklog_state'', PStr worklog_state)]"

definition session_world :: "dict \<Rightarrow> world" where
  "session_world s = sample_world\<lparr>documents := sample_documents(Worklog_Doc := [(''days'', PDict [(''0001-03-04'',
     PDict [(''entries'', PList []), (''sessions'', PList [PDict s])])])])\<rparr>"


lemma session_pauses: "commits_once (transition_work_session_v1 session_env ''ws-000001'' ''pause'' (PStr ''abcdefgh'') [])
    (session_world (stored_session ''running'' ''not_ready'' PNone))"
  by code_simp

lemma session_resumes: "commits_once (transition_work_session_v1 session_env ''ws-000001'' ''resume'' (PStr ''abcdefgh'') [])
    (session_world (stored_session ''paused'' ''not_ready'' (PStr ''0002-01-01T00:00:00Z'')))"
  by code_simp


lemma days_distinct: "distinct (dkeys (days_of (documents (session_world s) Worklog_Doc)))" "distinct (dkeys (days_of (documents sample_world Worklog_Doc)))"
  by (simp_all add: session_world_def sample_world_def sample_documents_def days_of_def dkeys_def dget_def dget_or_def)

theorem session_transition_moves_one_witness:
  "\<exists>answer w' n d k s. transition_work_session_v1 session_env ''ws-000001'' ''pause'' (PStr ''abcdefgh'') []
      (session_world (stored_session ''running'' ''not_ready'' PNone)) = (Inr (200, answer), w') \<and>
    (\<exists>placed. work_session_records (documents w' Worklog_Doc) = Inr (placed[n := (d, k, move_session ''pause'' ''0001-03-04T05:06:07Z'' s)])) \<and>
    is_active (move_session ''pause'' ''0001-03-04T05:06:07Z'' s)"
proof -
  let ?w = "session_world (stored_session ''running'' ''not_ready'' PNone)"
  obtain x w' where r: "transition_work_session_v1 session_env ''ws-000001'' ''pause'' (PStr ''abcdefgh'') [] ?w = (Inr x, w')" "saved w' \<noteq> saved ?w"
    by (rule run_commits [OF session_pauses])
  obtain st b where x: "x = (st, b)" by (cases x)
  have "st = 200" by (rule transition_run [OF r(1) [unfolded x] disjI2 [OF r(2)]])
  with r(1) x have r1: "transition_work_session_v1 session_env ''ws-000001'' ''pause'' (PStr ''abcdefgh'') [] ?w = (Inr (200, b), w')" by simp
  have t: "utc_at session_env n = ''0001-03-04T05:06:07Z''" for n by (simp add: session_env_def)
  have "''pause'' = ''resume'' \<Longrightarrow> clock_not_back session_env ?w" by simp
  from session_transition_moves_one [OF r1 r(2) session_clock_ok this days_distinct(1), unfolded t Let_def] r1 show ?thesis by fastforce
qed



theorem resume_readable_iff_clock_onward_witness:
  "\<exists>answer w'. transition_work_session_v1 session_env ''ws-000001'' ''resume'' (PStr ''abcdefgh'') []
      (session_world (stored_session ''paused'' ''not_ready'' (PStr ''0002-01-01T00:00:00Z''))) = (Inr (200, answer), w') \<and>
    \<not> (\<exists>placed. work_session_records (documents w' Worklog_Doc) = Inr placed)"
proof -
  let ?w = "session_world (stored_session ''paused'' ''not_ready'' (PStr ''0002-01-01T00:00:00Z''))"
  obtain x w' where r: "transition_work_session_v1 session_env ''ws-000001'' ''resume'' (PStr ''abcdefgh'') [] ?w = (Inr x, w')" "saved w' \<noteq> saved ?w"
    by (rule run_commits [OF session_resumes])
  obtain st b where x: "x = (st, b)" by (cases x)
  have "st = 200" by (rule transition_run [OF r(1) [unfolded x] disjI2 [OF r(2)]])
  with r(1) x have r1: "transition_work_session_v1 session_env ''ws-000001'' ''resume'' (PStr ''abcdefgh'') [] ?w = (Inr (200, b), w')" by simp
  have "\<not> clock_not_back session_env ?w" by code_simp
  with resume_readable_iff_clock_onward [OF r1 r(2) session_clock_ok days_distinct(1)] r1 show ?thesis by blast
qed

theorem sessions_stay_readable_witness:
  "\<exists>w'. (session_step session_env)\<^sup>*\<^sup>* (session_world (stored_session ''running'' ''not_ready'' PNone)) w' \<and>
    saved w' \<noteq> saved (session_world (stored_session ''running'' ''not_ready'' PNone)) \<and> sessions_ready (documents w' Worklog_Doc)"
proof -
  let ?w = "session_world (stored_session ''running'' ''not_ready'' PNone)"
  obtain x w' where r: "transition_work_session_v1 session_env ''ws-000001'' ''pause'' (PStr ''abcdefgh'') [] ?w = (Inr x, w')" "saved w' \<noteq> saved ?w"
    by (rule run_commits [OF session_pauses])
  then have s: "(session_step session_env)\<^sup>*\<^sup>* ?w w'" by (intro r_into_rtranclp session_step.transition [OF r(1)]) simp
  have "sessions_ready (documents ?w Worklog_Doc)" by code_simp
  from sessions_stay_readable [OF s session_clock_ok this] s r(2) show ?thesis by blast
qed

end
