(* ===== verification/WS_Numbers.thy ===== *)
theory WS_Numbers
  imports WS_Json
begin

text \<open>
  Python's \<open>int\<close> on the text of a number, in base ten and sixteen, and on the other values; hexadecimal
  numerals of a fixed width; \<open>uuid.UUID\<close> on any of the spellings it accepts.
\<close>

text \<open>Digits with single underscores between them.\<close>

fun int_digits :: "(char \<Rightarrow> bool) \<Rightarrow> string \<Rightarrow> string option" where
  "int_digits ok [] = None"
| "int_digits ok [c] = (if ok c then Some [c] else None)"
| "int_digits ok (c # e # cs) =
     (if \<not> ok c then None
      else map_option ((#) c) (int_digits ok (if e = CHR ''_'' then cs else e # cs)))"

definition int_text :: "string \<Rightarrow> int option" where
  "int_text s =
     (let t = py_strip s; signed = take 1 t \<in> {''+'', ''-''} in
      case int_digits is_digit (if signed then drop 1 t else t) of
        None \<Rightarrow> None
      | Some ds \<Rightarrow> (if 4300 < length ds then None
                   else Some (if take 1 t = ''-'' then - int (digits_val ds) else int (digits_val ds))))"

text \<open>\<open>int(v)\<close>: a float is truncated.\<close>

fun int_r :: "pyval \<Rightarrow> int result" where
  "int_r (PInt n) = Inr n"
| "int_r (PBool b) = Inr (if b then 1 else 0)"
| "int_r (PStr s) = (case int_text s of None \<Rightarrow> Inl (ValueErr ''invalid literal for int()'') | Some n \<Rightarrow> Inr n)"
| "int_r (PFloat r) =
     (if r \<in> {''inf'', ''-inf''} then Inl OverflowError
      else if r = ''nan'' then Inl (ValueErr ''cannot convert float NaN to integer'')
      else Inr (case float_int r of Some n \<Rightarrow> n | None \<Rightarrow> (if take 1 r = ''-'' then float_floor r + 1 else float_floor r)))"
| "int_r _ = Inl TypeError"

section \<open>Hexadecimal\<close>

definition is_hex :: "char \<Rightarrow> bool" where
  "is_hex c \<longleftrightarrow> hex_value c \<noteq> None"

definition hex_val :: "string \<Rightarrow> nat" where
  "hex_val s = foldl (\<lambda>n c. 16 * n + the (hex_value c)) 0 s"

primrec hex_pad :: "nat \<Rightarrow> nat \<Rightarrow> string" where
  "hex_pad 0 n = []"
| "hex_pad (Suc k) n = hex_pad k (n div 16) @ [hex_digit (n mod 16)]"

text \<open>\<open>int(s, 16)\<close>: a prefix \<open>0x\<close> and one underscore after it are accepted.\<close>

definition hex_text :: "string \<Rightarrow> int option" where
  "hex_text s =
     (let t = py_strip s;
          u = (if take 1 t \<in> {''+'', ''-''} then drop 1 t else t);
          v = (if take 2 u \<in> {''0x'', ''0X''} then (if take 1 (drop 2 u) = ''_'' then drop 3 u else drop 2 u) else u) in
      case int_digits is_hex v of
        None \<Rightarrow> None
      | Some ds \<Rightarrow> Some (if take 1 t = ''-'' then - int (hex_val ds) else int (hex_val ds)))"

section \<open>Permissive UUID texts\<close>

text \<open>\<open>s.replace(w, "")\<close>\<close>

function remove_text :: "string \<Rightarrow> string \<Rightarrow> string" where
  "remove_text w [] = []"
| "remove_text w (c # cs) =
     (if take (length w) (c # cs) = w then remove_text w (drop (length w - 1) cs) else c # remove_text w cs)"
  by pat_completeness auto

termination by (relation "measure (\<lambda>(w, s). length s)") auto

definition strip_chars :: "(char \<Rightarrow> bool) \<Rightarrow> string \<Rightarrow> string" where
  "strip_chars P s = rev (dropWhile P (rev (dropWhile P s)))"

text \<open>\<open>uuid.UUID(s).int\<close>, None where it raises \<open>ValueError\<close>\<close>

definition uuid_int :: "string \<Rightarrow> nat option" where
  "uuid_int s =
     (let t = remove_text ''-'' (strip_chars (\<lambda>c. c \<in> {CHR ''{'', CHR ''}''}) (remove_text ''uuid:'' (remove_text ''urn:'' s))) in
      if length t \<noteq> 32 then None
      else case hex_text t of
          None \<Rightarrow> None
        | Some n \<Rightarrow> (if 0 \<le> n \<and> n < 2 ^ 128 then Some (nat n) else None))"

definition uuid_text :: "nat \<Rightarrow> string" where
  "uuid_text n =
     (let h = hex_pad 32 n in
      take 8 h @ ''-'' @ take 4 (drop 8 h) @ ''-'' @ take 4 (drop 12 h) @ ''-'' @ take 4 (drop 16 h) @ ''-'' @ drop 20 h)"

end
