(* ===== verification/WS_SessionContract.thy ===== *)
theory WS_SessionContract
  imports WS_SessionLaws WS_Numbers "HOL-Library.AList"
begin

text \<open>
  \<open>workstack/storage/canonical.py\<close> and \<open>workstack/storage/work_session_contract.py\<close>: the same life cycle
  of a work session once more, as pure functions of the stream storage, with its own validation and its own
  refusals. The laws relate it to the commands of the service: on stored sessions both accept the same
  segments and compute the same moves, answers and durations. The fold over the
  event stream rebuilds the sessions from their last events.
\<close>

section \<open>Canonical JSON\<close>

definition MAX_CANONICAL_INTEGER :: int where
  "MAX_CANONICAL_INTEGER = 9007199254740991"

definition validate_integer :: "int \<Rightarrow> string \<Rightarrow> unit result" where
  "validate_integer n location =
     (if - MAX_CANONICAL_INTEGER \<le> n \<and> n \<le> MAX_CANONICAL_INTEGER then Inr () else Inl (CanonicalJsonError ''UNSAFE_INTEGER'' location))"

text \<open>
  The children of a container, each at a location of its own. The members of a dictionary come in the order
  of their keys. Values are trees, so no value is met inside itself; every ASCII text is encodable.
\<close>

fun validate_children :: "string \<Rightarrow> nat \<Rightarrow> (string \<Rightarrow> unit result) list \<Rightarrow> unit result" where
  "validate_children location k [] = Inr ()"
| "validate_children location k (check # checks) =
     bind_r (check (location @ nat_str k)) (\<lambda>_. validate_children location (Suc k) checks)"

primrec validate_value :: "pyval \<Rightarrow> string \<Rightarrow> unit result" where
  "validate_value PNone = (\<lambda>location. Inr ())"
| "validate_value (PBool b) = (\<lambda>location. Inr ())"
| "validate_value (PStr s) = (\<lambda>location. Inr ())"
| "validate_value (PInt n) = validate_integer n"
| "validate_value (PFloat r) = (\<lambda>location. Inl (CanonicalJsonError ''UNSUPPORTED_FLOAT'' location))"
| "validate_value (PList xs) = (\<lambda>location. validate_children (location @ ''/items/'') 0 (map validate_value xs))"
| "validate_value (PDict d) = (\<lambda>location. validate_children (location @ ''/members/'') 0
     (map snd (sort_key fst (map (map_prod id validate_value) d))))"

definition canonical_sha256 :: "env \<Rightarrow> pyval \<Rightarrow> string result" where
  "canonical_sha256 env v = bind_r (validate_value v ''$'') (\<lambda>_. Inr (''sha256:'' @ sha256 env (json_compact v)))"

section \<open>Timestamps, segments and durations\<close>

definition contract_fail :: "string \<Rightarrow> 'a result" where
  "contract_fail code = Inl (IntentContractError code)"

definition contract_timestamp :: "pyval \<Rightarrow> instant result" where
  "contract_timestamp v =
     (case v of
        PStr s \<Rightarrow>
          (if s = [] \<or> last s \<noteq> CHR ''Z'' then contract_fail ''WORK_SESSION_TIMESTAMP_INVALID''
           else case datetime_fromisoformat (butlast s @ ''+00:00'') of
               None \<Rightarrow> contract_fail ''WORK_SESSION_TIMESTAMP_INVALID''
             | Some parsed \<Rightarrow>
                 (if i_offset parsed \<noteq> Some 0 \<or> i_micro parsed \<noteq> 0 then contract_fail ''WORK_SESSION_TIMESTAMP_INVALID''
                  else Inr parsed))
      | _ \<Rightarrow> contract_fail ''WORK_SESSION_TIMESTAMP_INVALID'')"

text \<open>\<open>set(segment) != {...}\<close> and the subscripts after it, for whatever stands in the list of segments.\<close>

definition segment_bounds :: "pyval \<Rightarrow> (instant \<times> instant option) result" where
  "segment_bounds segment =
     (case segment of
        PDict c \<Rightarrow>
          (if \<not> exact_keys c [''started_at'', ''ended_at''] then contract_fail ''WORK_SESSION_SEGMENT_INVALID''
           else
           bind_r (contract_timestamp (dget c ''started_at'')) (\<lambda>started.
           if dget c ''ended_at'' = PNone then Inr (started, None)
           else
           bind_r (contract_timestamp (dget c ''ended_at'')) (\<lambda>ended.
           if instant_seconds ended < instant_seconds started then contract_fail ''WORK_SESSION_SEGMENT_NEGATIVE''
           else Inr (started, Some ended))))
      | PList xs \<Rightarrow>
          (if list_all hashable xs \<and> set xs \<noteq> {PStr ''started_at'', PStr ''ended_at''}
           then contract_fail ''WORK_SESSION_SEGMENT_INVALID'' else Inl TypeError)
      | PStr s \<Rightarrow> contract_fail ''WORK_SESSION_SEGMENT_INVALID''
      | _ \<Rightarrow> Inl TypeError)"

fun validate_segments :: "nat \<Rightarrow> nat \<Rightarrow> instant option \<Rightarrow> pyval list \<Rightarrow> nat result" where
  "validate_segments pos size_of previous_end [] = Inr 0"
| "validate_segments pos size_of previous_end (segment # segments) =
     bind_r (segment_bounds segment) (\<lambda>(started, ended).
     if (case previous_end of None \<Rightarrow> False | Some p \<Rightarrow> instant_seconds started < instant_seconds p)
     then contract_fail ''WORK_SESSION_SEGMENTS_OVERLAP''
     else if ended = None \<and> pos \<noteq> size_of - 1 then contract_fail ''WORK_SESSION_OPEN_SEGMENT_INVALID''
     else
     bind_r (validate_segments (Suc pos) size_of ended segments) (\<lambda>n.
     Inr ((if ended = None then 1 else 0) + n)))"

definition validate_session :: "dict \<Rightarrow> unit result" where
  "validate_session session =
     bind_r (dindex session ''state'') (\<lambda>state.
     bind_r (in_set_r state [''running'', ''paused'']) (\<lambda>active.
     bind_r (dindex session ''worklog_state'') (\<lambda>worklog_state.
     bind_r (in_set_r worklog_state (if active then [''not_ready''] else [''pending'', ''recorded''])) (\<lambda>expected.
     if \<not> expected then contract_fail ''WORK_SESSION_WORKLOG_STATE_INVALID''
     else
     bind_r (dindex session ''segments'') (\<lambda>segments. case segments of
         PList segs \<Rightarrow>
           (if segs = [] then contract_fail ''WORK_SESSION_SEGMENT_INVALID''
            else
            bind_r (validate_segments 0 (length segs) None segs) (\<lambda>n.
            if (state = PStr ''running'') \<noteq> (n = 1) then contract_fail ''WORK_SESSION_OPEN_SEGMENT_INCONSISTENT'' else Inr ()))
       | _ \<Rightarrow> contract_fail ''WORK_SESSION_SEGMENT_INVALID'')))))"

definition elapsed_segment :: "instant option \<Rightarrow> pyval \<Rightarrow> int \<Rightarrow> int result" where
  "elapsed_segment now segment elapsed =
     bind_r (bind_r (getitem segment ''started_at'') contract_timestamp) (\<lambda>started.
     bind_r (getitem segment ''ended_at'') (\<lambda>ended_value.
     bind_r (if ended_value \<noteq> PNone then bind_r (contract_timestamp ended_value) (\<lambda>i. Inr (Some i)) else Inr now) (\<lambda>ended.
     case ended of
         None \<Rightarrow> contract_fail ''WORK_SESSION_SEGMENT_INVALID''
       | Some ended \<Rightarrow>
           (if instant_seconds ended < instant_seconds started then contract_fail ''WORK_SESSION_SEGMENT_INVALID''
            else Inr (elapsed + (instant_seconds ended - instant_seconds started))))))"

definition elapsed_seconds :: "dict \<Rightarrow> pyval \<Rightarrow> int result" where
  "elapsed_seconds session current_time =
     bind_r (if current_time \<noteq> PNone then bind_r (contract_timestamp current_time) (\<lambda>i. Inr (Some i)) else Inr None) (\<lambda>now.
     bind_r (bind_r (dindex session ''segments'') iter_r) (\<lambda>segments.
     fold_r (elapsed_segment now) segments 0))"

definition project_session :: "dict \<Rightarrow> pyval \<Rightarrow> dict result" where
  "project_session session current_time =
     bind_r (map_r (\<lambda>k. bind_r (dindex session k) (\<lambda>v. Inr (k, v)))
       [''id'', ''task_id'', ''task'', ''date'', ''state'', ''started_at'', ''updated_at'']) (\<lambda>fields.
     bind_r (elapsed_seconds session (if dget session ''state'' = PStr ''running'' then current_time else PNone)) (\<lambda>elapsed.
     bind_r (dindex session ''worklog_state'') (\<lambda>worklog_state.
     Inr (fields @ [(''elapsed_seconds'', PInt elapsed), (''worklog_state'', worklog_state)]))))"

section \<open>Intents\<close>

record normalized_intent =
  intent_path :: string
  intent_digest :: string
  response_data :: dict
  authority_value :: dict

definition session_number :: "dict \<Rightarrow> nat option" where
  "session_number session =
     (let s = py_str (dget_or session ''id'' (PStr [])); t = drop 3 s in
      if py_upper (take 3 s) = ''WS-'' \<and> t \<noteq> [] \<and> all_digits t then Some (digits_val t) else None)"

definition next_session_id :: "dict list \<Rightarrow> string" where
  "next_session_id sessions = ''WS-'' @ pad_nat 6 (fold (\<lambda>s n. case session_number s of None \<Rightarrow> n | Some m \<Rightarrow> max n m) sessions 0 + 1)"

fun any_active :: "dict list \<Rightarrow> bool result" where
  "any_active [] = Inr False"
| "any_active (s # ss) =
     bind_r (dindex s ''state'') (\<lambda>v. bind_r (in_set_r v [''running'', ''paused'']) (\<lambda>b. if b then Inr True else any_active ss))"

definition normalize_session_start :: "env \<Rightarrow> dict \<Rightarrow> dict list \<Rightarrow> string \<Rightarrow> string \<Rightarrow> string \<Rightarrow> normalized_intent result" where
  "normalize_session_start env task sessions timestamp work_date path =
     bind_r (any_active sessions) (\<lambda>active.
     if active then contract_fail ''WORK_SESSION_ALREADY_ACTIVE''
     else
     bind_r (dindex task ''id'') (\<lambda>task_id.
     bind_r (dindex task ''title'') (\<lambda>title.
     let session = new_session (next_session_id sessions) task_id title work_date timestamp in
     bind_r (canonical_sha256 env (PDict [(''task_id'', task_id)])) (\<lambda>digest.
     bind_r (project_session session (PStr timestamp)) (\<lambda>response.
     Inr \<lparr>intent_path = path, intent_digest = digest, response_data = response, authority_value = session\<rparr>)))))"

text \<open>\<open>segments[-1]["ended_at"] = timestamp\<close> and \<open>segments.append(...)\<close>\<close>

definition end_last :: "pyval \<Rightarrow> string \<Rightarrow> pyval result" where
  "end_last segments timestamp =
     (case segments of
        PList segs \<Rightarrow>
          (if segs = [] then Inl IndexError
           else case last segs of
               PDict c \<Rightarrow> Inr (PList (segs[length segs - 1 := PDict (dset c ''ended_at'' (PStr timestamp))]))
             | _ \<Rightarrow> Inl TypeError)
      | PDict d \<Rightarrow> Inl (KeyError ''-1'')
      | PStr s \<Rightarrow> Inl (if s = [] then IndexError else TypeError)
      | _ \<Rightarrow> Inl TypeError)"

definition open_next :: "pyval \<Rightarrow> string \<Rightarrow> pyval result" where
  "open_next segments timestamp =
     bind_r (as_list segments) (\<lambda>segs. Inr (PList (segs @ [PDict [(''started_at'', PStr timestamp), (''ended_at'', PNone)]])))"

definition transition_valid :: "pyval \<Rightarrow> string \<Rightarrow> bool result" where
  "transition_valid current_state action =
     (if action = ''stop'' then in_set_r current_state [''running'', ''paused'']
      else Inr (current_state = PStr (if action = ''pause'' then ''running'' else ''paused'')))"

definition normalize_session_transition :: "env \<Rightarrow> dict \<Rightarrow> string \<Rightarrow> string \<Rightarrow> string \<Rightarrow> normalized_intent result" where
  "normalize_session_transition env session action timestamp path =
     (if action \<notin> {''pause'', ''resume'', ''stop''} then contract_fail ''WORK_SESSION_ACTION_INVALID''
      else
      let current_state = dget session ''state'' in
      bind_r (transition_valid current_state action) (\<lambda>valid.
      if \<not> valid then contract_fail ''WORK_SESSION_TRANSITION_CONFLICT''
      else
      bind_r (if action \<in> {''pause'', ''stop''} \<and> current_state = PStr ''running''
              then bind_r (dindex session ''segments'') (\<lambda>segments. bind_r (end_last segments timestamp) (\<lambda>v. Inr (dset session ''segments'' v)))
              else Inr session) (\<lambda>updated.
      bind_r (if action = ''resume''
              then bind_r (dindex updated ''segments'') (\<lambda>segments. bind_r (open_next segments timestamp) (\<lambda>v. Inr (dset updated ''segments'' v)))
              else Inr updated) (\<lambda>updated.
      let updated = dset updated ''state'' (PStr (after_action action));
          updated = (if action = ''stop'' then dset updated ''worklog_state'' (PStr ''pending'') else updated);
          updated = dset updated ''updated_at'' (PStr timestamp) in
      bind_r (canonical_sha256 env (PDict [])) (\<lambda>digest.
      bind_r (project_session updated (PStr timestamp)) (\<lambda>response.
      Inr \<lparr>intent_path = path, intent_digest = digest, response_data = response, authority_value = updated\<rparr>))))))"

definition contract_item :: "string \<Rightarrow> pyval \<Rightarrow> string list \<Rightarrow> string list result" where
  "contract_item code item found =
     (case item of
        PStr s \<Rightarrow> (if 1000 < length (py_strip s) then contract_fail code
                   else Inr (if py_strip s = [] then found else found @ [py_strip s]))
      | _ \<Rightarrow> contract_fail code)"

definition contract_items :: "pyval \<Rightarrow> string \<Rightarrow> string list result" where
  "contract_items v code =
     (case v of
        PList items \<Rightarrow> (if 20 < length items then contract_fail code else fold_r (contract_item code) items [])
      | _ \<Rightarrow> contract_fail code)"

definition canonical_session_worklog :: "dict \<Rightarrow> dict result" where
  "canonical_session_worklog body =
     bind_r (contract_items (dget body ''done'') ''WORK_SESSION_DONE_INVALID'') (\<lambda>n_done.
     bind_r (contract_items (dget body ''next'') ''WORK_SESSION_NEXT_INVALID'') (\<lambda>n_next.
     bind_r (contract_items (dget body ''blockers'') ''WORK_SESSION_BLOCKERS_INVALID'') (\<lambda>n_blockers.
     if n_done = [] \<and> n_next = [] \<and> n_blockers = [] then contract_fail ''WORK_SESSION_WORKLOG_REQUIRED''
     else Inr [(''done'', strs n_done), (''next'', strs n_next), (''blockers'', strs n_blockers)])))"

definition normalize_session_worklog ::
  "env \<Rightarrow> dict \<Rightarrow> dict \<Rightarrow> string \<Rightarrow> string \<Rightarrow> (normalized_intent \<times> dict) result" where
  "normalize_session_worklog env session body timestamp path =
     bind_r (canonical_session_worklog body) (\<lambda>canonical.
     if dget session ''state'' \<noteq> PStr ''stopped'' \<or> dget session ''worklog_state'' \<noteq> PStr ''pending''
     then contract_fail ''WORK_SESSION_WORKLOG_CONFLICT''
     else
     let updated = dset (dset session ''worklog_state'' (PStr ''recorded'')) ''updated_at'' (PStr timestamp) in
     bind_r (dindex session ''task_id'') (\<lambda>task_id.
     bind_r (dindex session ''task'') (\<lambda>title.
     bind_r (dindex session ''id'') (\<lambda>session_id.
     bind_r (elapsed_seconds session PNone) (\<lambda>duration.
     let entry = [(''task_id'', task_id), (''task'', title)] @ canonical @ [(''session_id'', session_id), (''duration_seconds'', PInt duration)] in
     bind_r (dindex session ''date'') (\<lambda>date.
     bind_r (canonical_sha256 env (PDict canonical)) (\<lambda>digest.
     Inr (\<lparr>intent_path = path, intent_digest = digest, response_data = (''date'', date) # entry, authority_value = updated\<rparr>, entry))))))))"

section \<open>The fold over the event stream\<close>

definition legacy_session :: "dict \<Rightarrow> dict result" where
  "legacy_session event =
     map_r (\<lambda>(k, field). bind_r (dindex event field) (\<lambda>v. Inr (k, v)))
       [(''id'', ''session_id''), (''task_id'', ''task_display_id''), (''task'', ''task_title''), (''date'', ''work_date''),
        (''state'', ''state''), (''started_at'', ''started_at''), (''updated_at'', ''updated_at''), (''segments'', ''segments''),
        (''worklog_state'', ''worklog_state'')]"

definition fold_event :: "dict \<Rightarrow> (string \<times> dict) list \<Rightarrow> (string \<times> dict) list result" where
  "fold_event event ordered =
     bind_r (dindex event ''kind'') (\<lambda>kind.
     if kind \<noteq> PStr ''session'' then Inr ordered
     else
     bind_r (legacy_session event) (\<lambda>session. Inr (AList.update (py_str (dget event ''session_id'')) session ordered)))"

fun count_active :: "dict list \<Rightarrow> nat result" where
  "count_active [] = Inr 0"
| "count_active (s # ss) =
     bind_r (dindex s ''state'') (\<lambda>v. bind_r (in_set_r v [''running'', ''paused'']) (\<lambda>b.
     bind_r (count_active ss) (\<lambda>n. Inr ((if b then 1 else 0) + n))))"

definition fold_session_events :: "dict list \<Rightarrow> dict list result" where
  "fold_session_events events =
     bind_r (map_r (\<lambda>e. bind_r (bind_r (dindex e ''sequence'') int_r) (\<lambda>n. Inr (n, e))) events) (\<lambda>numbered.
     bind_r (fold_r fold_event (map snd (sort_key fst numbered)) []) (\<lambda>ordered.
     let sessions = map snd ordered in
     bind_r (fold_r (\<lambda>s _. validate_session s) sessions ()) (\<lambda>_.
     bind_r (count_active sessions) (\<lambda>n.
     if 1 < n then contract_fail ''WORK_SESSION_MULTIPLE_ACTIVE'' else Inr sessions))))"

section \<open>Agreement with the commands of the service\<close>

lemma contract_timestamp_iff: "contract_timestamp v = Inr i \<longleftrightarrow> work_session_timestamp v f = Inr i"
  by (auto simp: contract_timestamp_def work_session_timestamp_def contract_fail_def split: pyval.splits if_splits option.splits)

lemma contract_timestamp_eq:
  "contract_timestamp v = (case work_session_timestamp v f of Inl e \<Rightarrow> contract_fail ''WORK_SESSION_TIMESTAMP_INVALID'' | Inr i \<Rightarrow> Inr i)"
  by (simp add: contract_timestamp_def work_session_timestamp_def split: pyval.split option.split)

lemma segment_bounds_Inr:
  "segment_bounds seg = Inr (i, e) \<longleftrightarrow> (\<exists>j. closed_segment seg i j \<and> e = Some j) \<or> (open_segment seg i \<and> e = None)"
proof (cases seg)
  case (PDict c)
  show ?thesis
    unfolding PDict segment_bounds_def pyval.case contract_fail_def if_Inl_eq_Inr bind_r_Inr
      contract_timestamp_iff [of "dget c ''started_at''" _ "''segment.started_at''"]
      contract_timestamp_iff [of "dget c ''ended_at''" _ "''segment.ended_at''"]
    by (cases "dget c ''ended_at'' = PNone")
      (auto simp: bind_r_Inr if_Inl_eq_Inr closed_segment_def open_segment_def segment_from_def not_less
        contract_timestamp_iff [of "dget c ''ended_at''" _ "''segment.ended_at''"])
qed (auto simp: segment_bounds_def contract_fail_def closed_segment_def open_segment_def segment_from_def)

lemma validate_segments_Inr:
  "pos + length xs = n \<Longrightarrow> validate_segments pos n p xs = Inr m \<longleftrightarrow> open_segments pos n p xs = Inr m"
proof (induction xs arbitrary: pos p m)
  case (Cons x xs)
  have pos: "pos = n - 1 \<longleftrightarrow> xs = []" using Cons.prems by auto
  have IH: "validate_segments (Suc pos) n r xs = Inr m \<longleftrightarrow> open_segments (Suc pos) n r xs = Inr m" for r m
    using Cons.IH [of "Suc pos" r m] Cons.prems by simp
  have sa: "(case p of None \<Rightarrow> False | Some p \<Rightarrow> instant_seconds i < instant_seconds p) \<longleftrightarrow> \<not> starts_after p i" for i
    by (auto simp: starts_after_def split: option.split)
  show ?case
    unfolding validate_segments.simps open_segments.simps contract_fail_def bind_r_Inr split_paired_Ex case_prod_conv sa if_Inl_eq_Inr
      segment_bounds_Inr segment_Inr IH pos not_not
    by (auto simp: ac_simps)
qed simp

lemma validate_session_iff:
  assumes "work_session_shape s d = Inr (s, st)"
  shows "validate_session s = Inr () \<longleftrightarrow> validate_work_session_segments s st = Inr ()"
proof -
  obtain x where st: "dget s ''state'' = PStr st" "st \<in> {''running'', ''paused'', ''stopped''}"
    and x: "x \<in> set (worklog_states st)" "dget s ''worklog_state'' = PStr x" using assms by (auto simp: shape_Inr)
  have m: "map_of s ''state'' = Some (PStr st)" "map_of s ''worklog_state'' = Some (PStr x)"
    using st(1) x(2) by (auto intro!: dget_neq_None)
  have a: "in_set_r (PStr st) [''running'', ''paused''] = Inr (st \<in> set ACTIVE_STATES)"
    by (simp add: in_set_r_def in_tuple_iff ACTIVE_STATES_def)
  have b: "in_set_r (PStr x) (if st \<in> set ACTIVE_STATES then [''not_ready''] else [''pending'', ''recorded'']) = Inr True"
    using x(1) by (simp add: in_set_r_def in_tuple_iff worklog_states_def)
  have v: "validate_session s = bind_r (dindex s ''segments'') (\<lambda>segments. case segments of
         PList segs \<Rightarrow>
           (if segs = [] then contract_fail ''WORK_SESSION_SEGMENT_INVALID''
            else
            bind_r (validate_segments 0 (length segs) None segs) (\<lambda>n.
            if (PStr st = PStr ''running'') \<noteq> (n = 1) then contract_fail ''WORK_SESSION_OPEN_SEGMENT_INCONSISTENT'' else Inr ()))
       | _ \<Rightarrow> contract_fail ''WORK_SESSION_SEGMENT_INVALID'')"
    unfolding validate_session_def dindex_def m option.case bind_r_simps a b not_True_eq_False if_False by simp
  have w: "(\<exists>n. open_segments 0 (length xs) None xs = Inr n \<and> (st = ''running'') = (n = 1)) \<longleftrightarrow>
      (if st = ''running'' then running_ladder None xs else \<exists>q. ladder None xs q)" for xs
    by (auto simp: open_segments_Inr)
  show ?thesis
  proof (cases "map_of s ''segments''")
    case None
    then show ?thesis using validate_Inr [OF st(2), of s] unfolding v by (auto simp: dindex_def dget_def dget_or_def)
  next
    case (Some y)
    then have y: "dget s ''segments'' = y" by (rule dget_map_of)
    show ?thesis
      unfolding v validate_Inr [OF st(2)] w [symmetric] y dindex_def Some option.case bind_r_simps
      by (cases y) (auto simp: contract_fail_def bind_r_Inr validate_segments_Inr)
  qed
qed

text \<open>The segments of a stored session are dictionaries with the two keys, also after a move.\<close>

definition keyed_segments :: "pyval list \<Rightarrow> bool" where
  "keyed_segments xs \<longleftrightarrow> (\<forall>x \<in> set xs. \<exists>c. x = PDict c \<and> exact_keys c [''started_at'', ''ended_at''])"

lemma ladder_keyed: "ladder p xs q \<Longrightarrow> keyed_segments xs"
  by (induction rule: ladder.induct) (auto simp: keyed_segments_def closed_segment_def segment_from_def)

lemma running_keyed: "running_ladder p xs \<Longrightarrow> keyed_segments xs"
  by (auto simp: running_ladder_def open_segment_def segment_from_def keyed_segments_def dest!: ladder_keyed)

lemma keyed_last: "keyed_segments xs \<Longrightarrow> xs \<noteq> [] \<Longrightarrow> \<exists>c. last xs = PDict c \<and> exact_keys c [''started_at'', ''ended_at'']"
  by (simp add: keyed_segments_def)

lemma elapsed_segment_iff:
  assumes "exact_keys c [''started_at'', ''ended_at'']"
  shows "elapsed_segment now (PDict c) e = Inr n \<longleftrightarrow> add_segment now (PDict c) e = Inr n"
proof -
  obtain a b where m: "map_of c ''started_at'' = Some a" "map_of c ''ended_at'' = Some b"
    using assms by (auto simp: exact_keys_def dhas_def)
  have g: "dget c ''ended_at'' = b" using m(2) by (rule dget_map_of)
  show ?thesis
    unfolding elapsed_segment_def add_segment_def segment_seconds_def getitem_def vget_def pyval.case as_dict_simps bind_r_simps
      dindex_def m option.case g contract_fail_def contract_timestamp_eq [of a "''segment.started_at''"] contract_timestamp_eq [of b "''segment.ended_at''"]
    by (cases "work_session_timestamp a ''segment.started_at''"; cases "work_session_timestamp b ''segment.ended_at''"; cases now; cases "b = PNone") simp_all
qed

lemma elapsed_fold:
  "keyed_segments xs \<Longrightarrow> fold_r (elapsed_segment now) xs e = Inr n \<longleftrightarrow> fold_r (add_segment now) xs e = Inr n"
proof (induction xs arbitrary: e)
  case (Cons x xs)
  then obtain c where c: "x = PDict c" "exact_keys c [''started_at'', ''ended_at'']" and k: "keyed_segments xs" by (auto simp: keyed_segments_def)
  show ?case unfolding fold_r.simps bind_r_Inr c(1) elapsed_segment_iff [OF c(2)] Cons.IH [OF k] ..
qed simp

lemma elapsed_iff:
  assumes "dget s ''segments'' = PList xs" and "keyed_segments xs" and "u = PNone \<or> (\<exists>t. u = PStr t \<and> t \<noteq> [])"
  shows "elapsed_seconds s u = Inr n \<longleftrightarrow> work_session_elapsed s u = Inr n"
proof -
  have m: "map_of s ''segments'' = Some (PList xs)" using assms(1) by (auto intro!: dget_neq_None)
  have u: "truthy u \<longleftrightarrow> u \<noteq> PNone" using assms(3) by auto
  show ?thesis
    unfolding elapsed_seconds_def work_session_elapsed_def dindex_def m option.case bind_r_simps iter_r.simps u bind_r_Inr elapsed_fold [OF assms(2)]
    by (cases "u = PNone") (auto simp: bind_r_Inr contract_timestamp_iff [of u _ "''current_time''"])
qed

lemma project_iff:
  assumes "dget s ''segments'' = PList xs" and "keyed_segments xs" and "t \<noteq> []"
  shows "project_session s (PStr t) = Inr p \<longleftrightarrow> project_work_session s (PStr t) = Inr p"
  unfolding project_session_def project_work_session_def bind_r_Inr
  using elapsed_iff [OF assms(1,2), of "if dget s ''state'' = PStr ''running'' then PStr t else PNone"] assms(3) by auto

lemma digest_empty: "canonical_sha256 env (PDict []) = Inr (canonical_digest env (PDict []))"
  by (simp add: canonical_sha256_def canonical_digest_def)

lemma moved_keyed: "keyed_segments xs \<Longrightarrow> xs \<noteq> [] \<Longrightarrow> keyed_segments (moved_segments action st xs t)"
proof -
  assume k: "keyed_segments xs" "xs \<noteq> []"
  obtain c where c: "last xs = PDict c" "exact_keys c [''started_at'', ''ended_at'']" using keyed_last [OF k] by blast
  have "exact_keys (dset c ''ended_at'' (PStr t)) [''started_at'', ''ended_at'']"
    using c(2) by (auto simp: exact_keys_def dkeys_dset)
  then have "keyed_segments (close_last xs t)"
    using k(1) c(1) by (auto simp: close_last_def keyed_segments_def dest!: set_update_subset_insert [THEN subsetD])
  moreover have "exact_keys [(''started_at'', PStr t), (''ended_at'', PNone)] [''started_at'', ''ended_at'']"
    by (simp add: exact_keys_def dkeys_def dhas_def)
  ultimately show ?thesis using k(1) by (auto simp: moved_segments_def keyed_segments_def Let_def)
qed

lemma transition_valid_iff:
  assumes "action \<in> {''pause'', ''resume'', ''stop''}" and "dget s ''state'' = PStr st"
  shows "transition_valid (dget s ''state'') action = Inr (in_tuple (dget s ''state'') (allowed_states action))"
  using assms by (auto simp: transition_valid_def allowed_states_def in_set_r_def in_tuple_iff)

text \<open>The contract assigns the fields the move assigns, in the same order, and no other.\<close>

lemma contract_move:
  assumes ok: "session_ok d s" and a: "action \<in> {''pause'', ''resume'', ''stop''}" "in_tuple (dget s ''state'') (allowed_states action)"
  shows "normalize_session_transition env s action t path = bind_r (project_session (move_session action t s) (PStr t)) (\<lambda>response.
     Inr \<lparr>intent_path = path, intent_digest = canonical_digest env (PDict []), response_data = response,
       authority_value = move_session action t s\<rparr>)"
proof -
  obtain st xs where o: "dget s ''state'' = PStr st" "dget s ''segments'' = PList xs" "xs \<noteq> []"
    "if st = ''running'' then running_ladder None xs else \<exists>q. ladder None xs q" by (rule session_okD [OF ok])
  have k: "keyed_segments xs" using o(4) by (auto split: if_splits dest: running_keyed ladder_keyed)
  obtain c where c: "last xs = PDict c" using keyed_last [OF k o(3)] by blast
  have m: "map_of s ''segments'' = Some (PList xs)" using o(2) by (auto intro!: dget_neq_None)
  have x: "end_last (PList xs) t = Inr (PList (close_last xs t))" using o(3) c by (simp add: end_last_def close_last_def)
  have y: "open_next (PList xs) t = Inr (PList (xs @ [PDict [(''started_at'', PStr t), (''ended_at'', PNone)]]))" by (simp add: open_next_def)
  have z: "dset s ''segments'' (PList xs) = s" by (rule dset_same [OF m])
  have v: "transition_valid (dget s ''state'') action = Inr True" using transition_valid_iff [OF a(1) o(1)] a(2) by simp
  have st: "st \<in> set (allowed_states action)" using a(2) o(1) by (simp add: in_tuple_iff)
  consider (pause) "action = ''pause''" "st = ''running''" | (resume) "action = ''resume''" "st = ''paused''"
    | (stop) "action = ''stop''" "st = ''running''" | (late) "action = ''stop''" "st = ''paused''"
    using a(1) st by (auto simp: allowed_states_def split: if_splits)
  then show ?thesis
    unfolding normalize_session_transition_def Let_def v digest_empty bind_r_simps o(1)
    by cases (use v in \<open>simp_all add: dindex_def m x y z o move_session_def moved_segments_def after_action_def\<close>)
qed

text \<open>
  C0. The life cycle of a work session is written twice, in the service and in the contract of the stream
  storage, and the two agree: on a stored session the contract accepts a transition exactly when the service
  would, that is, when the state of the session allows the action and no segment gets a negative duration,
  and then its answer, its digest and the session it leaves are those of the service.
\<close>
theorem contract_agrees_on_transitions:
  assumes "session_ok d s" and "action \<in> {''pause'', ''resume'', ''stop''}" and "t \<noteq> []"
  shows "normalize_session_transition env s action t path = Inr intent \<longleftrightarrow>
    in_tuple (dget s ''state'') (allowed_states action) \<and> (\<exists>p. project_work_session (move_session action t s) (PStr t) = Inr p \<and>
      intent = \<lparr>intent_path = path, intent_digest = canonical_digest env (PDict []), response_data = p, authority_value = move_session action t s\<rparr>)"
proof (cases "in_tuple (dget s ''state'') (allowed_states action)")
  case True
  obtain st xs where o: "dget s ''segments'' = PList xs" "xs \<noteq> []"
    "if st = ''running'' then running_ladder None xs else \<exists>q. ladder None xs q" by (rule session_okD [OF assms(1)])
  then have "keyed_segments xs" by (auto split: if_splits dest: running_keyed ladder_keyed)
  then have k: "keyed_segments (moved_segments action (str_of (dget s ''state'')) xs t)" by (rule moved_keyed [OF _ o(2)])
  have g: "dget (move_session action t s) ''segments'' = PList (moved_segments action (str_of (dget s ''state'')) xs t)" by (simp add: move_gets o)
  show ?thesis unfolding contract_move [OF assms(1,2) True] bind_r_Inr project_iff [OF g k assms(3)] using True by auto
next
  case False
  obtain st where "dget s ''state'' = PStr st" by (rule session_okD [OF assms(1)])
  then have "transition_valid (dget s ''state'') action = Inr False" using transition_valid_iff [OF assms(2)] False by simp
  then show ?thesis using assms(2) False by (auto simp: normalize_session_transition_def Let_def contract_fail_def)
qed

lemma sample_session_stored:
  "work_session_records (documents (session_world (stored_session ''running'' ''not_ready'' PNone)) Worklog_Doc) =
     Inr [(''0001-03-04'', 0, stored_session ''running'' ''not_ready'' PNone)]"
  by code_simp

lemma sample_session_moves:
  "\<not> isl (project_work_session (move_session ''pause'' ''0001-03-04T05:06:07Z'' (stored_session ''running'' ''not_ready'' PNone)) (PStr ''0001-03-04T05:06:07Z''))"
  by code_simp

theorem contract_agrees_on_transitions_witness:
  "\<exists>intent. normalize_session_transition sample_env (stored_session ''running'' ''not_ready'' PNone) ''pause'' ''0001-03-04T05:06:07Z'' [] = Inr intent \<and>
     authority_value intent = move_session ''pause'' ''0001-03-04T05:06:07Z'' (stored_session ''running'' ''not_ready'' PNone)"
proof -
  let ?s = "stored_session ''running'' ''not_ready'' PNone" and ?t = "''0001-03-04T05:06:07Z''"
  have ok: "session_ok ''0001-03-04'' ?s" using stored_session_ok [OF sample_session_stored, of 0 "''0001-03-04''" 0] by simp
  obtain p where p: "project_work_session (move_session ''pause'' ?t ?s) (PStr ?t) = Inr p"
    using sample_session_moves by (cases "project_work_session (move_session ''pause'' ?t ?s) (PStr ?t)") auto
  have "in_tuple (dget ?s ''state'') (allowed_states ''pause'')"
    by (simp add: stored_session_def dget_def dget_or_def allowed_states_def in_tuple_iff)
  moreover have "''pause'' \<in> {''pause'', ''resume'', ''stop''}" "?t \<noteq> []" by simp_all
  ultimately have "normalize_session_transition sample_env ?s ''pause'' ?t [] = Inr \<lparr>intent_path = [],
     intent_digest = canonical_digest sample_env (PDict []), response_data = p, authority_value = move_session ''pause'' ?t ?s\<rparr>"
    using contract_agrees_on_transitions [OF ok, of "''pause''" ?t sample_env "[]"] p by blast
  then show ?thesis by simp
qed

end
