(* ===== verification/WS_JsonLaws.thy ===== *)
theory WS_JsonLaws
  imports WS_Json
begin

text \<open>
  The JSON reader reads back what the compact writer writes, for values without floats whose dictionaries
  are written in the order of their keys and whose integers have at most 4300 digits.
\<close>

section \<open>Strings\<close>

lemma hex_value_digit: "k < 16 \<Longrightarrow> hex_value (hex_digit k) = Some k"
  by (auto simp: hex_value_def hex_digit_def is_digit_def Let_def)

lemma char_is: "(of_char c :: nat) = of_char d \<Longrightarrow> c = d"
  by simp

lemma quote_chars: "char_of (34 :: nat) = CHR 0x22" "char_of (92 :: nat) = CHR 0x5C"
  by (rule char_is, simp)+

lemma read_string_char: "read_string (json_char c @ cs) = map_option (\<lambda>(t, rest). (c # t, rest)) (read_string cs)"
proof -
  let ?n = "of_char c :: nat"
  have n: "c = char_of ?n" "?n < 256" by simp_all
  consider "c = CHR 0x22" | "c = CHR 0x5C" | "c = CHR 0x0A" | "c = CHR 0x0D" | "c = CHR 0x09" | "c = CHR 0x08" | "c = CHR 0x0C"
    | (control) "?n < 32" "?n \<notin> {34, 92, 10, 13, 9, 8, 12}" | (plain) "32 \<le> ?n" "?n \<noteq> 34" "?n \<noteq> 92"
  proof -
    have "?n = 34 \<Longrightarrow> c = CHR 0x22" "?n = 92 \<Longrightarrow> c = CHR 0x5C" "?n = 10 \<Longrightarrow> c = CHR 0x0A" "?n = 13 \<Longrightarrow> c = CHR 0x0D"
      "?n = 9 \<Longrightarrow> c = CHR 0x09" "?n = 8 \<Longrightarrow> c = CHR 0x08" "?n = 12 \<Longrightarrow> c = CHR 0x0C"
      by (rule char_is, simp)+
    then show ?thesis using that by (meson insert_iff empty_iff not_less)
  qed
  then show ?thesis
  proof cases
    case control
    then have h: "?n div 16 < 16" "?n mod 16 < 16" by auto
    have j: "json_char c = CHR 0x5C # CHR ''u'' # CHR ''0'' # CHR ''0'' # hex_digit (?n div 16) # hex_digit (?n mod 16) # []"
      using control by (simp add: json_char_def Let_def quote_chars)
    have "hex_value CHR ''0'' = Some 0" by (simp add: hex_value_def is_digit_def)
    then show ?thesis unfolding j using n by (simp add: hex_value_digit [OF h(1)] hex_value_digit [OF h(2)] split: option.split prod.split)
  next
    case plain
    then have "c \<noteq> CHR 0x22" "c \<noteq> CHR 0x5C" "json_char c = [c]" by (auto simp: json_char_def Let_def)
    then show ?thesis using plain by simp
  qed (simp_all add: json_char_def unescape_def quote_chars)
qed

lemma read_string_back: "read_string (concat (map json_char s) @ CHR 0x22 # rest) = Some (s, rest)"
  by (induction s) (simp_all add: read_string_char)

lemma json_string_text: "json_string s = CHR 0x22 # concat (map json_char s) @ [CHR 0x22]"
  by (simp add: json_string_def quote_chars)

section \<open>Integers\<close>

definition ends_number :: "string \<Rightarrow> bool" where
  "ends_number s \<longleftrightarrow> s = [] \<or> hd s \<in> set '',]}''"

lemma digit_cases: "is_digit c \<Longrightarrow> c \<in> set ''0123456789''"
  by (cases c) (auto simp: is_digit_bits)

lemma nat_str_split: "\<exists>c cs. nat_str n = c # cs \<and> c \<in> set ''0123456789'' \<and> (c = CHR ''0'' \<longrightarrow> nat_str n = ''0'')"
proof (induction n rule: nat_str.induct)
  case (1 n)
  show ?case
  proof (cases "n < 10")
    case True
    have "is_digit (digit_char n)" using True by simp
    from digit_cases [OF this] show ?thesis using True
      by (subst nat_str.simps, subst (2) nat_str.simps) (auto simp: digit_char_def)
  next
    case False
    with 1 obtain c cs where c: "nat_str (n div 10) = c # cs" "c \<in> set ''0123456789''"
      "c = CHR ''0'' \<longrightarrow> nat_str (n div 10) = ''0''" by blast
    have "nat_str (n div 10) \<noteq> ''0''"
    proof
      assume "nat_str (n div 10) = ''0''"
      then have "digits_val (nat_str (n div 10)) = 0" by (simp add: digits_val_def)
      with False show False by simp
    qed
    then show ?thesis using False c by (subst nat_str.simps, subst (2) nat_str.simps) auto
  qed
qed

lemma takeWhile_nat_str:
  assumes "ends_number rest"
  shows "takeWhile is_digit (nat_str n @ rest) = nat_str n"
proof -
  have "\<forall>x \<in> set (nat_str n). is_digit x" using all_digits_nat_str [of n] by (simp add: all_digits_def list_all_iff)
  moreover have "takeWhile is_digit rest = []" using assms by (cases rest) (auto simp: ends_number_def is_digit_def)
  ultimately show ?thesis by (simp add: takeWhile_append2)
qed

lemma int_str_parts:
  "int_str i = (if i < 0 then ''-'' else []) @ nat_str (nat \<bar>i\<bar>)"
  by (simp add: int_str_def)

lemma read_int_part_back:
  assumes "ends_number rest"
  shows "read_int_part (int_str i @ rest) = Some (int_str i, rest)"
proof -
  obtain c cs where c: "nat_str (nat \<bar>i\<bar>) = c # cs" "c \<in> set ''0123456789''" "c = CHR ''0'' \<longrightarrow> nat_str (nat \<bar>i\<bar>) = ''0''"
    using nat_str_split by blast
  have t: "takeWhile is_digit (c # cs @ rest) = c # cs" using takeWhile_nat_str [OF assms, of "nat \<bar>i\<bar>"] c(1) by simp
  have z: "c = CHR ''0'' \<Longrightarrow> cs = []" using c by simp
  show ?thesis using c(2) by (cases "c = CHR ''0''") (auto simp: read_int_part_def int_str_parts c(1) t z Let_def simp del: takeWhile.simps)
qed

lemma int_value_back: "int_value (int_str i) = i"
proof -
  obtain c cs where c: "nat_str (nat \<bar>i\<bar>) = c # cs" "c \<in> set ''0123456789''" using nat_str_split by blast
  have "digits_val (c # cs) = nat \<bar>i\<bar>" using digits_val_nat_str [of "nat \<bar>i\<bar>"] c(1) by simp
  then show ?thesis using c(2) by (auto simp: int_value_def int_str_parts c(1))
qed

lemma digits_of_int_str: "filter is_digit (int_str i) = nat_str (nat \<bar>i\<bar>)"
proof -
  have "filter is_digit (nat_str n) = nat_str n" for n
    using all_digits_nat_str [of n] by (auto simp: all_digits_def list_all_iff filter_id_conv)
  then show ?thesis by (simp add: int_str_parts is_digit_def)
qed

lemma no_fraction: "ends_number rest \<Longrightarrow> read_frac rest = ([], rest)" "ends_number rest \<Longrightarrow> read_exp rest = ([], rest)"
  by (cases rest; auto simp: ends_number_def read_frac_def read_exp_def Let_def)+

lemma read_number_back:
  "ends_number rest \<Longrightarrow> length (nat_str (nat \<bar>i\<bar>)) \<le> 4300 \<Longrightarrow> read_number (int_str i @ rest) = Some (PInt i, rest)"
  by (simp add: read_number_def read_int_part_back no_fraction int_value_back digits_of_int_str)

lemma read_literal_int:
  assumes "ends_number rest" and "length (nat_str (nat \<bar>i\<bar>)) \<le> 4300"
  shows "read_literal (int_str i @ rest) = Some (PInt i, rest)"
proof -
  obtain c cs where c: "nat_str (nat \<bar>i\<bar>) = c # cs" "c \<in> set ''0123456789''" using nat_str_split by blast
  have "find (\<lambda>(w, v). take (length w) (int_str i @ rest) = w)
      [(''null'', PNone), (''true'', PBool True), (''false'', PBool False), (''NaN'', PFloat ''nan''),
       (''Infinity'', PFloat ''inf''), (''-Infinity'', PFloat ''-inf'')] = None"
    using c by (auto simp: int_str_parts)
  then show ?thesis by (simp only: read_literal_def option.case read_number_back [OF assms])
qed

section \<open>Values\<close>

lemma dset_new_key: "k \<notin> fst ` set d \<Longrightarrow> dset d k v = d @ [(k, v)]"
  by (induction d) (auto simp: dset_def)

primrec json_plain :: "pyval \<Rightarrow> bool" where
  "json_plain PNone \<longleftrightarrow> True"
| "json_plain (PBool b) \<longleftrightarrow> True"
| "json_plain (PInt i) \<longleftrightarrow> length (nat_str (nat \<bar>i\<bar>)) \<le> 4300"
| "json_plain (PFloat r) \<longleftrightarrow> False"
| "json_plain (PStr s) \<longleftrightarrow> True"
| "json_plain (PList xs) \<longleftrightarrow> list_all id (map json_plain xs)"
| "json_plain (PDict d) \<longleftrightarrow> sorted_wrt (<) (map fst d) \<and> list_all snd (map (map_prod id json_plain) d)"

lemma compact_start: "json_plain v \<Longrightarrow> \<exists>c cs. json_compact v = c # cs \<and> c \<in> insert CHR 0x22 (set ''ntf[{-0123456789'')"
proof (cases v)
  case (PInt i)
  obtain c cs where "nat_str (nat \<bar>i\<bar>) = c # cs" "c \<in> set ''0123456789''" using nat_str_split by blast
  then show ?thesis unfolding PInt by (auto simp: int_str_parts)
qed (auto simp: json_string_text)

lemma skip_compact: "json_plain v \<Longrightarrow> skip_space (json_compact v @ s) = json_compact v @ s"
  using compact_start [of v] by (auto simp: skip_space_def json_space_def)

definition reads_back :: "pyval \<Rightarrow> bool" where
  "reads_back v \<longleftrightarrow> (\<forall>n rest. length (json_compact v) \<le> n \<longrightarrow> ends_number rest \<longrightarrow> read_value n (json_compact v @ rest) = Some (v, rest))"

lemma reads_backD:
  "reads_back v \<Longrightarrow> length (json_compact v) \<le> n \<Longrightarrow> ends_number rest \<Longrightarrow> read_value n (json_compact v @ rest) = Some (v, rest)"
  by (simp add: reads_back_def)

lemma ends_number_simps [simp]: "ends_number (CHR '','' # s)" "ends_number (CHR '']'' # s)" "ends_number (CHR 0x7D # s)"
  by (simp_all add: ends_number_def)

lemma skip_space_simps [simp]: "skip_space (CHR '','' # s) = CHR '','' # s" "skip_space (CHR '']'' # s) = CHR '']'' # s"
  "skip_space (CHR 0x7D # s) = CHR 0x7D # s" "skip_space (CHR 0x22 # s) = CHR 0x22 # s" "skip_space (CHR '':'' # s) = CHR '':'' # s"
  by (simp_all add: skip_space_def json_space_def)

lemma read_items_back:
  assumes "xs \<noteq> []" and "\<And>x. x \<in> set xs \<Longrightarrow> json_plain x \<and> reads_back x"
    and "length (py_join '','' (map json_compact xs)) < n"
  shows "read_items n (py_join '','' (map json_compact xs) @ CHR '']'' # rest) = Some (xs, rest)"
  using assms
proof (induction xs arbitrary: n)
  case (Cons x xs)
  then obtain m where n: "n = Suc m" by (cases n) auto
  have x: "json_plain x" "reads_back x" using Cons.prems(2) by auto
  show ?case
  proof (cases xs)
    case Nil
    then show ?thesis using Cons.prems(3) reads_backD [OF x(2)] n by simp
  next
    case (Cons y ys)
    have ne: "xs \<noteq> []" using Cons by simp
    have j: "py_join '','' (map json_compact (x # xs)) = json_compact x @ CHR '','' # py_join '','' (map json_compact xs)"
      using Cons by simp
    have y: "json_plain y" using Cons.prems(2) Cons by auto
    have s: "skip_space (py_join '','' (map json_compact xs) @ t) = py_join '','' (map json_compact xs) @ t" for t
      using skip_compact [OF y] Cons by (cases ys) auto
    have "read_items m (py_join '','' (map json_compact xs) @ CHR '']'' # rest) = Some (xs, rest)"
      using Cons.prems(3) n unfolding j by (intro Cons.IH [OF ne]) (use Cons.prems(2) in auto)
    moreover have "read_value m (json_compact x @ CHR '','' # py_join '','' (map json_compact xs) @ CHR '']'' # rest) =
        Some (x, CHR '','' # py_join '','' (map json_compact xs) @ CHR '']'' # rest)"
      using Cons.prems(3) n unfolding j by (intro reads_backD [OF x(2)]) auto
    ultimately show ?thesis unfolding j n by (simp add: s)
  qed
qed simp

definition member_text :: "string \<times> pyval \<Rightarrow> string" where
  "member_text m = json_string (fst m) @ '':'' @ json_compact (snd m)"

lemma read_members_back:
  assumes "d \<noteq> []" and "\<And>k v. (k, v) \<in> set d \<Longrightarrow> json_plain v \<and> reads_back v" and "distinct (map fst (acc @ d))"
    and "length (py_join '','' (map member_text d)) < n"
  shows "read_members n acc (py_join '','' (map member_text d) @ CHR 0x7D # rest) = Some (acc @ d, rest)"
  using assms
proof (induction d arbitrary: n acc)
  case (Cons m d)
  obtain k v where m: "m = (k, v)" by (cases m)
  obtain p where n: "n = Suc p" using Cons.prems(4) by (cases n) auto
  have v: "json_plain v" "reads_back v" using Cons.prems(2) m by auto
  have new: "dset acc k v = acc @ [(k, v)]"
    using Cons.prems(3) m by (intro dset_new_key) auto
  have t: "member_text (k, v) @ u = CHR 0x22 # concat (map json_char k) @ CHR 0x22 # CHR '':'' # json_compact v @ u" for u
    by (simp add: member_text_def json_string_text)
  show ?case
  proof (cases d)
    case Nil
    have "read_value p (json_compact v @ CHR 0x7D # rest) = Some (v, CHR 0x7D # rest)"
      using Cons.prems(4) n Nil m by (intro reads_backD [OF v(2)]) (auto simp: member_text_def)
    then show ?thesis unfolding Nil n by (simp add: t read_string_back skip_compact [OF v(1)] new m)
  next
    case (Cons y ys)
    have ne: "d \<noteq> []" using Cons by simp
    have j: "py_join '','' (map member_text (m # d)) = member_text m @ CHR '','' # py_join '','' (map member_text d)"
      using Cons by simp
    have s: "skip_space (py_join '','' (map member_text d) @ u) = py_join '','' (map member_text d) @ u" for u
      using Cons by (cases ys) (auto simp: member_text_def json_string_text)
    have "read_members p (acc @ [(k, v)]) (py_join '','' (map member_text d) @ CHR 0x7D # rest) = Some ((acc @ [(k, v)]) @ d, rest)"
      using Cons.prems(4) n unfolding j by (intro Cons.IH [OF ne]) (use Cons.prems(2,3) m in auto)
    moreover have "read_value p (json_compact v @ CHR '','' # py_join '','' (map member_text d) @ CHR 0x7D # rest) =
        Some (v, CHR '','' # py_join '','' (map member_text d) @ CHR 0x7D # rest)"
      using Cons.prems(4) n m unfolding j by (intro reads_backD [OF v(2)]) (auto simp: member_text_def)
    ultimately show ?thesis unfolding j n by (simp add: t read_string_back skip_compact [OF v(1)] new s m)
  qed
qed simp

lemma compact_dict:
  assumes "sorted_wrt (<) (map fst d)"
  shows "json_compact (PDict d) = CHR 0x7B # py_join '','' (map member_text d) @ [CHR 0x7D]"
proof -
  have "map fst (map (map_prod id json_compact) d) = map fst d" by (induction d) auto
  then have "sort_key fst (map (map_prod id json_compact) d) = map (map_prod id json_compact) d"
    using assms by (intro sort_key_id_if_sorted) (auto simp: strict_sorted_iff)
  then show ?thesis by (simp add: comp_def case_prod_beta member_text_def [abs_def])
qed

lemma plain_reads_back: "json_plain v \<Longrightarrow> reads_back v"
proof (induction v)
  case (PList xs)
  then have ok: "\<And>x. x \<in> set xs \<Longrightarrow> json_plain x \<and> reads_back x" by (auto simp: list_all_iff)
  show ?case unfolding reads_back_def
  proof (intro allI impI)
    fix n rest
    assume n: "length (json_compact (PList xs)) \<le> n"
    then obtain m where m: "n = Suc m" by (cases n) auto
    show "read_value n (json_compact (PList xs) @ rest) = Some (PList xs, rest)"
    proof (cases xs)
      case (Cons y ys)
      have r: "read_items m (py_join '','' (map json_compact xs) @ CHR '']'' # rest) = Some (xs, rest)"
        using n m Cons ok by (intro read_items_back) auto
      obtain c cs where c: "json_compact y = c # cs" "c \<in> insert CHR 0x22 (set ''ntf[{-0123456789'')"
        using compact_start ok Cons by (metis list.set_intros(1))
      obtain ds where j: "py_join '','' (map json_compact xs) = c # ds" using c(1) Cons by (cases ys) auto
      have "skip_space ((c # ds) @ CHR '']'' # rest) = (c # ds) @ CHR '']'' # rest"
        using c(2) by (auto simp: skip_space_def json_space_def)
      then show ?thesis using c(2) r unfolding m by (auto simp: j)
    qed (simp add: m)
  qed
next
  case (PDict d)
  then have s: "sorted_wrt (<) (map fst d)" and ok: "\<And>k v. (k, v) \<in> set d \<Longrightarrow> json_plain v \<and> reads_back v"
    by (auto simp: list_all_iff)
  have dist: "distinct (map fst ([] @ d))" using s by (simp add: strict_sorted_iff)
  show ?case unfolding reads_back_def
  proof (intro allI impI)
    fix n rest
    assume n: "length (json_compact (PDict d)) \<le> n"
    then obtain m where m: "n = Suc m" by (cases n) auto
    show "read_value n (json_compact (PDict d) @ rest) = Some (PDict d, rest)"
    proof (cases d)
      case (Cons y ys)
      have r: "read_members m [] (py_join '','' (map member_text d) @ CHR 0x7D # rest) = Some (d, rest)"
        using n m Cons ok read_members_back [OF _ ok dist, where n = m and rest = rest] unfolding compact_dict [OF s] by simp
      obtain ds where j: "py_join '','' (map member_text d) = CHR 0x22 # ds"
        using Cons by (cases ys) (auto simp: member_text_def json_string_text)
      show ?thesis using r unfolding m compact_dict [OF s] by (simp add: j)
    qed (simp add: m)
  qed
next
  case (PInt i)
  show ?case unfolding reads_back_def
  proof (intro allI impI)
    fix n rest
    assume n: "length (json_compact (PInt i)) \<le> n" and e: "ends_number rest"
    obtain c cs where c: "nat_str (nat \<bar>i\<bar>) = c # cs" "c \<in> set ''0123456789''" using nat_str_split by blast
    obtain b bs where b: "int_str i @ rest = b # bs" "b \<in> set ''-0123456789''" using c that by (cases "i < 0") (auto simp: int_str_parts)
    obtain m where m: "n = Suc m" using n c by (cases n) (auto simp: int_str_parts)
    have "read_value n (b # bs) = read_literal (b # bs)" using b(2) unfolding m by auto
    then show "read_value n (json_compact (PInt i) @ rest) = Some (PInt i, rest)"
      using read_literal_int [OF e, of i] PInt b(1) by simp
  qed
next
  case (PStr s)
  show ?case unfolding reads_back_def
    by (auto simp: json_string_text read_string_back dest: Suc_le_D)
qed (auto simp: reads_back_def read_literal_def dest!: Suc_le_D)

theorem json_loads_compact: "json_plain v \<Longrightarrow> json_loads (json_compact v) = Some v"
  using reads_backD [OF plain_reads_back, of v "3 * length (json_compact v) + 3" "[]"] skip_compact [of v "[]"]
  by (simp add: json_loads_def ends_number_def skip_space_def)

end
