(* ===== verification/WS_CaptureUnlink.thy ===== *)
theory WS_CaptureUnlink
  imports WS_Receipts WS_Numbers WS_JsonLaws WS_Order
begin

text \<open>
  \<open>workstack/capture_unlink_policy.py\<close> and \<open>workstack/capture_unlink_receipt.py\<close>: the decision to remove a link
  from a Capture to a Task and to put it back, and the receipt in the activity list that makes the removal
  reversible. A receipt is stored as its canonical JSON text; readers accept no other spelling, and a blob
  that names the identity of a receipt without being one refuses that identity.
\<close>

section \<open>Policy\<close>

definition policy_fail :: "string \<Rightarrow> 'a result" where
  "policy_fail code = Inl (CaptureUnlinkPolicyError code)"

record capture_unlink_plan =
  plan_duplicate :: bool
  plan_links :: "pyval list"
  plan_status :: string
  plan_mutate :: bool

record capture_undo_plan =
  undo_links :: "pyval list"
  undo_status :: string

definition admit_displayed_capture_revision :: "pyval \<Rightarrow> int result" where
  "admit_displayed_capture_revision v =
     (case v of
        PInt n \<Rightarrow> (if 0 \<le> n \<and> n \<le> MAX_REVISION then Inr n else policy_fail ''invalid_revision'')
      | _ \<Rightarrow> policy_fail ''invalid_revision'')"

definition plan_capture_unlink ::
  "pyval \<Rightarrow> pyval \<Rightarrow> string \<Rightarrow> pyval \<Rightarrow> pyval \<Rightarrow> int \<Rightarrow> capture_unlink_plan result" where
  "plan_capture_unlink linked_task_ids converted_task_ids status task_id stored_revision displayed_revision =
     (if \<not> py_eq (PInt displayed_revision) stored_revision then policy_fail ''revision_conflict''
      else
      bind_r (iter_r linked_task_ids) (\<lambda>current.
      if \<not> list_ex (py_eq task_id) current
      then Inr \<lparr>plan_duplicate = True, plan_links = current, plan_status = status, plan_mutate = False\<rparr>
      else
      let remaining = filter (\<lambda>item. \<not> py_eq item task_id) current in
      Inr \<lparr>plan_duplicate = False, plan_links = remaining,
           plan_status = (if status = ''linked'' \<and> remaining = [] \<and> \<not> truthy converted_task_ids then ''inbox'' else status),
           plan_mutate = True\<rparr>))"

definition advance_capture_revision :: "pyval \<Rightarrow> int result" where
  "advance_capture_revision stored_revision =
     bind_r (admit_displayed_capture_revision stored_revision) (\<lambda>admitted.
     if MAX_REVISION \<le> admitted then policy_fail ''revision_exhausted'' else Inr (admitted + 1))"

definition plan_capture_unlink_undo ::
  "pyval \<Rightarrow> pyval \<Rightarrow> int \<Rightarrow> pyval \<Rightarrow> string \<Rightarrow> pyval \<Rightarrow> pyval \<Rightarrow> string \<Rightarrow> capture_undo_plan result" where
  "plan_capture_unlink_undo linked_task_ids stored_revision displayed_revision after_revision stored_digest after_digest
     task_id status_before =
     (if \<not> py_eq (PInt displayed_revision) stored_revision \<or> \<not> py_eq stored_revision after_revision
      then policy_fail ''revision_conflict''
      else if PStr stored_digest \<noteq> after_digest then policy_fail ''capture_unlink_undo_conflict''
      else
      bind_r (iter_r linked_task_ids) (\<lambda>current.
      if list_ex (py_eq task_id) current then policy_fail ''capture_unlink_undo_conflict''
      else
      bind_r (sorted_by (\<lambda>x. Inr [x]) (current @ [task_id])) (\<lambda>links.
      Inr \<lparr>undo_links = links, undo_status = status_before\<rparr>)))"

section \<open>Receipts\<close>

definition UNLINK_FORMAT :: string where "UNLINK_FORMAT = ''workstack.capture-unlink-receipt''"
definition UNLINK_EVENT_TYPE :: string where "UNLINK_EVENT_TYPE = ''capture.unlink_receipt''"
definition MAX_RECEIPT_BLOB :: nat where "MAX_RECEIPT_BLOB = 8192"
definition MAX_RECEIPT_ID_TEXT :: nat where "MAX_RECEIPT_ID_TEXT = 48"

definition RECEIPT_FIELDS :: "string list" where
  "RECEIPT_FIELDS = [''format'', ''schema_version'', ''receipt_id'', ''workspace_uid'', ''capture_id'', ''task_id'', ''task_uid'',
     ''status_before'', ''before_revision'', ''after_revision'', ''after_digest'', ''idempotency_key'', ''commit_state'']"

definition RECEIPT_NS :: string where
  "RECEIPT_NS = ''https://workstack.local/contracts/workstack-capture-unlink-receipt-v1''"

definition unlink_refuse :: "string \<Rightarrow> 'a result" where
  "unlink_refuse code = Inl (CaptureUnlinkReceiptError code)"

definition receipt_text :: "pyval \<Rightarrow> string result" where
  "receipt_text v = (case v of PStr s \<Rightarrow> Inr s | _ \<Rightarrow> unlink_refuse ''malformed'')"

definition receipt_uuid :: "pyval \<Rightarrow> string result" where
  "receipt_uuid v =
     bind_r (receipt_text v) (\<lambda>s.
     if uuid_shape s \<and> uuid_nonzero s \<and> uuid_rfc4122 s then Inr s else unlink_refuse ''malformed'')"

definition admit_receipt_id :: "pyval \<Rightarrow> string result" where
  "admit_receipt_id v = receipt_uuid v"

definition derive_receipt_id :: "env \<Rightarrow> string \<Rightarrow> string \<Rightarrow> string result" where
  "derive_receipt_id env workspace_uid idempotency_key = namespaced_uuid env RECEIPT_NS (workspace_uid @ '':'' @ idempotency_key)"

definition receipt_key :: "pyval \<Rightarrow> string result" where
  "receipt_key v = bind_r (receipt_text v) (\<lambda>key. if class_run key_char 8 128 key then Inr key else unlink_refuse ''malformed'')"

text \<open>\<open>C-\d{4,}\<close>, \<open>T-\d{4,}\<close>\<close>

definition receipt_display_id :: "string \<Rightarrow> pyval \<Rightarrow> string result" where
  "receipt_display_id prefix v =
     bind_r (receipt_text v) (\<lambda>s.
     case strip_prefix prefix s of
         Some ds \<Rightarrow> (if 4 \<le> length ds \<and> all_digits ds then Inr s else unlink_refuse ''malformed'')
       | None \<Rightarrow> unlink_refuse ''malformed'')"

definition receipt_revision :: "pyval \<Rightarrow> int result" where
  "receipt_revision v = (case admit_displayed_capture_revision v of Inl e \<Rightarrow> unlink_refuse ''malformed'' | Inr n \<Rightarrow> Inr n)"

definition capture_row_digest :: "env \<Rightarrow> dict \<Rightarrow> string" where
  "capture_row_digest env capture = canonical_digest env (PDict capture)"

definition unlink_record ::
  "string \<Rightarrow> int \<Rightarrow> int \<Rightarrow> string \<Rightarrow> string \<Rightarrow> string \<Rightarrow> string \<Rightarrow> string \<Rightarrow> string \<Rightarrow> string \<Rightarrow> dict" where
  "unlink_record digest after_revision before_revision capture_id key receipt_id status task_id task_uid workspace_uid =
     [(''after_digest'', PStr digest), (''after_revision'', PInt after_revision), (''before_revision'', PInt before_revision),
      (''capture_id'', PStr capture_id), (''commit_state'', PStr ''committed''), (''format'', PStr UNLINK_FORMAT),
      (''idempotency_key'', PStr key), (''receipt_id'', PStr receipt_id), (''schema_version'', PInt 1),
      (''status_before'', PStr status), (''task_id'', PStr task_id), (''task_uid'', PStr task_uid),
      (''workspace_uid'', PStr workspace_uid)]"

definition validate_receipt :: "env \<Rightarrow> pyval \<Rightarrow> dict result" where
  "validate_receipt env v =
     (case v of
        PDict d \<Rightarrow>
          (if \<not> exact_keys d RECEIPT_FIELDS \<or> dget d ''format'' \<noteq> PStr UNLINK_FORMAT \<or> dget d ''schema_version'' \<noteq> PInt 1 \<or>
              dget d ''commit_state'' \<noteq> PStr ''committed''
           then unlink_refuse ''malformed''
           else
           bind_r (receipt_uuid (dget d ''workspace_uid'')) (\<lambda>workspace_uid.
           bind_r (receipt_key (dget d ''idempotency_key'')) (\<lambda>key.
           bind_r (admit_receipt_id (dget d ''receipt_id'')) (\<lambda>receipt_id.
           bind_r (derive_receipt_id env workspace_uid key) (\<lambda>derived.
           if receipt_id \<noteq> derived then unlink_refuse ''malformed''
           else
           bind_r (receipt_revision (dget d ''before_revision'')) (\<lambda>before_revision.
           bind_r (receipt_revision (dget d ''after_revision'')) (\<lambda>after_revision.
           if after_revision \<noteq> before_revision + 1 then unlink_refuse ''malformed''
           else
           bind_r (receipt_text (dget d ''after_digest'')) (\<lambda>digest.
           if \<not> is_sha256 digest then unlink_refuse ''malformed''
           else
           bind_r (receipt_text (dget d ''status_before'')) (\<lambda>status.
           if status \<notin> set CAPTURE_STATUSES then unlink_refuse ''malformed''
           else
           bind_r (receipt_display_id ''C-'' (dget d ''capture_id'')) (\<lambda>capture_id.
           bind_r (receipt_display_id ''T-'' (dget d ''task_id'')) (\<lambda>task_id.
           bind_r (receipt_uuid (dget d ''task_uid'')) (\<lambda>task_uid.
           Inr (unlink_record digest after_revision before_revision capture_id key receipt_id status task_id task_uid workspace_uid)))))))))))))
      | _ \<Rightarrow> unlink_refuse ''malformed'')"

definition serialize_receipt :: "env \<Rightarrow> pyval \<Rightarrow> string result" where
  "serialize_receipt env v = bind_r (validate_receipt env v) (\<lambda>d. Inr (json_compact (PDict d)))"

text \<open>\<open>before_revision + 1\<close> for whatever number was stored.\<close>

definition next_after :: "pyval \<Rightarrow> int \<Rightarrow> unit result" where
  "next_after before_revision after_revision =
     (if \<not> is_number before_revision then Inl TypeError
      else if num_int before_revision \<noteq> Some (after_revision - 1) then unlink_refuse ''malformed'' else Inr ())"

definition build_receipt :: "env \<Rightarrow> pyval \<Rightarrow> dict \<Rightarrow> dict \<Rightarrow> string \<Rightarrow> pyval \<Rightarrow> pyval \<Rightarrow> dict result" where
  "build_receipt env workspace_uid capture task status_before before_revision idempotency_key =
     bind_r (receipt_uuid workspace_uid) (\<lambda>workspace.
     bind_r (receipt_key idempotency_key) (\<lambda>key.
     bind_r (receipt_revision (dget capture ''revision'')) (\<lambda>after_revision.
     bind_r (next_after before_revision after_revision) (\<lambda>_.
     bind_r (dindex capture ''id'') (\<lambda>capture_id.
     bind_r (derive_receipt_id env workspace key) (\<lambda>receipt_id.
     bind_r (dindex task ''id'') (\<lambda>task_id.
     bind_r (dindex task ''uid'') (\<lambda>task_uid.
     validate_receipt env (PDict
       [(''after_digest'', PStr (capture_row_digest env capture)), (''after_revision'', PInt after_revision),
        (''before_revision'', before_revision), (''capture_id'', capture_id), (''commit_state'', PStr ''committed''),
        (''format'', PStr UNLINK_FORMAT), (''idempotency_key'', PStr key), (''receipt_id'', PStr receipt_id),
        (''schema_version'', PInt 1), (''status_before'', PStr status_before), (''task_id'', task_id),
        (''task_uid'', task_uid), (''workspace_uid'', PStr workspace)])))))))))"

section \<open>Reading receipt events\<close>

definition recovered_receipt_identity :: "pyval \<Rightarrow> string option" where
  "recovered_receipt_identity v =
     (case v of
        PStr s \<Rightarrow>
          (if s = [] \<or> MAX_RECEIPT_ID_TEXT < length s then None
           else case uuid_int s of
               None \<Rightarrow> None
             | Some n \<Rightarrow> (if n = 0 \<or> n div 2 ^ 62 mod 4 \<noteq> 2 then None else Some (uuid_text n)))
      | _ \<Rightarrow> None)"

definition parsed_receipt_blob :: "pyval \<Rightarrow> dict option" where
  "parsed_receipt_blob blob =
     (case blob of
        PStr s \<Rightarrow>
          (if s = [] \<or> MAX_RECEIPT_BLOB < length s then None
           else case json_loads s of Some (PDict d) \<Rightarrow> Some d | _ \<Rightarrow> None)
      | _ \<Rightarrow> None)"

definition canonical_receipt_body :: "env \<Rightarrow> dict \<Rightarrow> string \<Rightarrow> dict option result" where
  "canonical_receipt_body env parsed blob =
     (case validate_receipt env (PDict parsed) of
        Inl e \<Rightarrow> (if is_value_error e \<or> e = TypeError then Inr None else Inl e)
      | Inr receipt \<Rightarrow>
          bind_r (serialize_receipt env (PDict receipt)) (\<lambda>text. Inr (if text = blob then Some receipt else None)))"

definition envelope_binds :: "dict \<Rightarrow> dict option \<Rightarrow> bool" where
  "envelope_binds event canonical =
     (case canonical of
        None \<Rightarrow> True
      | Some c \<Rightarrow> dget event ''capture_id'' = dget c ''capture_id'' \<and> dget event ''task_id'' = dget c ''task_id'')"

definition classified_idempotency_key :: "dict \<Rightarrow> dict option \<Rightarrow> string option" where
  "classified_idempotency_key parsed canonical =
     (case canonical of
        Some c \<Rightarrow> Some (py_str (dget c ''idempotency_key''))
      | None \<Rightarrow> (case dget parsed ''idempotency_key'' of PStr s \<Rightarrow> Some s | _ \<Rightarrow> None))"

record receipt_event =
  envelope_ok :: bool
  event_key :: "string option"
  event_receipt :: "dict option"
  event_identity :: string

definition classified_receipt_event :: "env \<Rightarrow> pyval \<Rightarrow> receipt_event option result" where
  "classified_receipt_event env event =
     (case event of
        PDict ev \<Rightarrow>
          (if dget ev ''type'' \<noteq> PStr UNLINK_EVENT_TYPE then Inr None
           else case dget ev ''details'' of
               PDict details \<Rightarrow>
                 (case parsed_receipt_blob (dget details ''receipt'') of
                    None \<Rightarrow> Inr None
                  | Some parsed \<Rightarrow>
                      (case recovered_receipt_identity (dget parsed ''receipt_id'') of
                         None \<Rightarrow> Inr None
                       | Some identity \<Rightarrow>
                           bind_r (if exact_keys details [''receipt'']
                                   then canonical_receipt_body env parsed (str_of (dget details ''receipt''))
                                   else Inr None) (\<lambda>canonical.
                           Inr (Some \<lparr>envelope_ok = envelope_binds ev canonical,
                             event_key = classified_idempotency_key parsed canonical,
                             event_receipt = canonical, event_identity = identity\<rparr>))))
             | _ \<Rightarrow> Inr None)
      | _ \<Rightarrow> Inr None)"

text \<open>\<open>activity.get("activity") or []\<close>, iterated\<close>

definition activity_events :: "dict \<Rightarrow> pyval list result" where
  "activity_events activity = (if truthy (dget activity ''activity'') then iter_r (dget activity ''activity'') else Inr [])"

definition match_event :: "env \<Rightarrow> string \<Rightarrow> pyval \<Rightarrow> receipt_event list \<Rightarrow> receipt_event list result" where
  "match_event env receipt_id event matches =
     bind_r (classified_receipt_event env event) (\<lambda>classified. case classified of
         None \<Rightarrow> Inr matches
       | Some c \<Rightarrow> Inr (if event_identity c \<noteq> receipt_id then matches else matches @ [c]))"

definition matching_receipt_events :: "env \<Rightarrow> dict \<Rightarrow> string \<Rightarrow> receipt_event list result" where
  "matching_receipt_events env activity receipt_id =
     bind_r (activity_events activity) (\<lambda>events. fold_r (match_event env receipt_id) events [])"

definition canonical_receipt_for_id :: "env \<Rightarrow> dict \<Rightarrow> string \<Rightarrow> string \<Rightarrow> dict option result" where
  "canonical_receipt_for_id env activity receipt_id tainted_alone =
     bind_r (matching_receipt_events env activity receipt_id) (\<lambda>matches.
     if matches = [] then Inr None
     else if list_ex (\<lambda>c. event_receipt c \<noteq> None \<and> \<not> envelope_ok c) matches then unlink_refuse ''malformed''
     else
     let canonical = List.map_filter event_receipt matches in
     if list_ex (\<lambda>c. event_receipt c = None) matches
     then (if canonical \<noteq> [] then unlink_refuse ''malformed'' else unlink_refuse tainted_alone)
     else
     bind_r (map_r (\<lambda>c. serialize_receipt env (PDict c)) canonical) (\<lambda>blobs.
     if length (remdups blobs) \<noteq> 1 then unlink_refuse ''idempotency_conflict'' else Inr (Some (hd canonical))))"

section \<open>Recording and finding a receipt\<close>

definition receipt_event_row :: "string \<Rightarrow> string \<Rightarrow> dict \<Rightarrow> string \<Rightarrow> dict" where
  "receipt_event_row event_id created_at receipt text =
     [(''id'', PStr event_id), (''type'', PStr UNLINK_EVENT_TYPE), (''created_at'', PStr created_at),
      (''capture_id'', dget receipt ''capture_id''), (''task_id'', dget receipt ''task_id''),
      (''details'', PDict [(''receipt'', PStr text)])]"

definition record_committed_unlink_receipt :: "env \<Rightarrow> dict \<Rightarrow> dict \<Rightarrow> string \<Rightarrow> (dict \<times> dict) result" where
  "record_committed_unlink_receipt env activity receipt created_at =
     bind_r (validate_receipt env (PDict receipt)) (\<lambda>validated.
     bind_r (canonical_receipt_for_id env activity (str_of (dget validated ''receipt_id'')) ''malformed'') (\<lambda>existing.
     case existing of
         Some old \<Rightarrow>
           bind_r (serialize_receipt env (PDict old)) (\<lambda>a.
           bind_r (serialize_receipt env (PDict validated)) (\<lambda>b.
           if a \<noteq> b then unlink_refuse ''idempotency_conflict'' else Inr (old, activity)))
       | None \<Rightarrow>
           (let activity = dsetdefault activity ''activity'' (PList []) in
            bind_r (iter_r (dget activity ''activity'')) (\<lambda>events.
            bind_r (next_activity_event_id events) (\<lambda>event_id.
            bind_r (serialize_receipt env (PDict validated)) (\<lambda>text.
            bind_r (as_list (dget activity ''activity'')) (\<lambda>old_events.
            Inr (validated, dset activity ''activity''
              (PList (old_events @ [PDict (receipt_event_row event_id created_at validated text)]))))))))))"

definition find_unlink_receipt :: "env \<Rightarrow> dict \<Rightarrow> pyval \<Rightarrow> pyval \<Rightarrow> pyval \<Rightarrow> dict result" where
  "find_unlink_receipt env activity receipt_id workspace_uid capture_id =
     bind_r (admit_receipt_id receipt_id) (\<lambda>wanted.
     bind_r (receipt_uuid workspace_uid) (\<lambda>workspace.
     bind_r (receipt_display_id ''C-'' capture_id) (\<lambda>capture.
     bind_r (canonical_receipt_for_id env activity wanted ''not_found'') (\<lambda>found. case found of
         None \<Rightarrow> unlink_refuse ''not_found''
       | Some receipt \<Rightarrow>
           (if dget receipt ''workspace_uid'' \<noteq> PStr workspace \<or> dget receipt ''capture_id'' \<noteq> PStr capture
            then unlink_refuse ''not_found'' else Inr receipt)))))"

definition related_id :: "env \<Rightarrow> string \<Rightarrow> pyval \<Rightarrow> string list \<Rightarrow> string list result" where
  "related_id env idempotency_key event ids =
     bind_r (classified_receipt_event env event) (\<lambda>classified. case classified of
         None \<Rightarrow> Inr ids
       | Some c \<Rightarrow> Inr (if event_key c \<noteq> Some idempotency_key \<or> event_identity c \<in> set ids then ids else ids @ [event_identity c]))"

definition receipt_id_for_idempotency_key :: "env \<Rightarrow> dict \<Rightarrow> string \<Rightarrow> string option result" where
  "receipt_id_for_idempotency_key env activity idempotency_key =
     bind_r (bind_r (activity_events activity) (\<lambda>events. fold_r (related_id env idempotency_key) events [])) (\<lambda>ids. case ids of
         [] \<Rightarrow> Inr None
       | [i] \<Rightarrow>
           (case canonical_receipt_for_id env activity i ''not_found'' of
              Inl e \<Rightarrow> (if e = CaptureUnlinkReceiptError ''not_found'' then Inr None else Inl e)
            | Inr None \<Rightarrow> Inr None
            | Inr (Some receipt) \<Rightarrow> Inr (Some (py_str (dget receipt ''receipt_id''))))
       | _ \<Rightarrow> unlink_refuse ''idempotency_conflict'')"

end
