(* ===== verification/WS_UuidLaws.thy ===== *)
theory WS_UuidLaws
  imports WS_Numbers
begin

text \<open>A canonical UUID text is the text of the number it is parsed to.\<close>

section \<open>Hexadecimal numerals\<close>

lemma lower_hex_digit: "is_lower_hex c \<longleftrightarrow> (\<exists>k < 16. c = hex_digit k)"
proof
  assume c: "is_lower_hex c"
  let ?n = "of_char c :: nat"
  have "?n \<in> {48..57} \<or> ?n \<in> {97..102}" using c by (simp add: is_lower_hex_def Let_def)
  then have "(of_char c :: nat) = of_char (hex_digit (if ?n < 58 then ?n - 48 else ?n - 87))" by (auto simp: hex_digit_def)
  then have "c = hex_digit (if ?n < 58 then ?n - 48 else ?n - 87)" by simp
  moreover have "(if ?n < 58 then ?n - 48 else ?n - 87) < 16" using c by (auto simp: is_lower_hex_def Let_def)
  ultimately show "\<exists>k < 16. c = hex_digit k" by blast
next
  assume "\<exists>k < 16. c = hex_digit k"
  then obtain k where "k < 16" "c = hex_digit k" by blast
  then show "is_lower_hex c" by (cases "k < 10") (auto simp: hex_digit_def is_lower_hex_def Let_def)
qed

lemma hex_value_of_digit: "k < 16 \<Longrightarrow> hex_value (hex_digit k) = Some k"
  by (auto simp: hex_value_def hex_digit_def is_digit_def Let_def)

lemma hex_val_snoc: "hex_val (s @ [c]) = 16 * hex_val s + the (hex_value c)"
  by (simp add: hex_val_def)

lemma hex_pad_val: "list_all is_lower_hex h \<Longrightarrow> hex_pad (length h) (hex_val h) = h"
proof (induction h rule: rev_induct)
  case (snoc c h)
  obtain k where k: "k < 16" "c = hex_digit k" using snoc.prems lower_hex_digit by auto
  have "hex_val (h @ [c]) div 16 = hex_val h" "hex_val (h @ [c]) mod 16 = k"
    using k hex_value_of_digit [OF k(1)] by (simp_all add: hex_val_snoc)
  then show ?case using snoc k by simp
qed simp

lemma hex_val_less: "list_all is_lower_hex h \<Longrightarrow> hex_val h < 16 ^ length h"
proof (induction h rule: rev_induct)
  case (snoc c h)
  obtain k where k: "k < 16" "c = hex_digit k" using snoc.prems lower_hex_digit by auto
  then show ?case using snoc hex_value_of_digit [OF k(1)] by (simp add: hex_val_snoc)
qed (simp add: hex_val_def)

lemma length_hex_pad [simp]: "length (hex_pad k n) = k"
  by (induction k arbitrary: n) auto

lemma hex_pad_nth: "i < k \<Longrightarrow> hex_pad k n ! i = hex_digit (n div 16 ^ (k - 1 - i) mod 16)"
proof (induction k arbitrary: n)
  case (Suc k)
  show ?case
  proof (cases "i = k")
    case False
    with Suc.prems have "i < k" by simp
    moreover from this have "k - i = Suc (k - 1 - i)" by simp
    ultimately show ?thesis using Suc.IH [of "n div 16"] by (simp add: nth_append div_mult2_eq)
  qed (simp add: nth_append)
qed simp

lemma hex_pad_zero: "hex_pad k 0 = replicate k (CHR ''0'')"
proof (induction k)
  case (Suc k)
  have "(of_char (hex_digit 0) :: nat) = of_char (CHR ''0'')" by (simp add: hex_digit_def)
  then have "hex_digit 0 = CHR ''0''" by (simp only: of_char_eq_iff)
  with Suc show ?case by (simp add: replicate_append_same)
qed simp

lemma hex_chars: "is_lower_hex c \<Longrightarrow> c \<notin> set ''-_{}uxX+''" "is_lower_hex c \<Longrightarrow> \<not> py_space c"
  by (auto simp: is_lower_hex_def py_space_def Let_def)

lemma trim_id: "(\<And>c. c \<in> set s \<Longrightarrow> \<not> P c) \<Longrightarrow> rev (dropWhile P (rev (dropWhile P s))) = s"
proof -
  assume *: "\<And>c. c \<in> set s \<Longrightarrow> \<not> P c"
  then have "s = [] \<or> \<not> P (last s)" by (metis last_in_set)
  with * have "dropWhile P s = s" "dropWhile P (rev s) = rev s" by (auto simp: dropWhile_eq_self_iff hd_rev)
  then show ?thesis by simp
qed

lemma hex_text_lower:
  assumes "list_all is_lower_hex h" and "h \<noteq> []"
  shows "hex_text h = Some (int (hex_val h))"
proof -
  have h: "c \<notin> set ''-_{}uxX+''" "\<not> py_space c" if "c \<in> set h" for c using assms(1) that hex_chars by (auto simp: list_all_iff)
  have "py_strip h = h" unfolding py_strip_def by (rule trim_id) (rule h(2))
  moreover have "take 1 h \<notin> {''+'', ''-''}" using h(1) [of "hd h"] assms(2) by (cases h) auto
  moreover have "take 2 h \<notin> {''0x'', ''0X''}" using h(1) [of "h ! 1"] by (cases h; cases "tl h") auto
  moreover have "int_digits is_hex h = Some h"
  proof -
    have "list_all is_hex h \<and> CHR ''_'' \<notin> set h \<Longrightarrow> h \<noteq> [] \<Longrightarrow> int_digits is_hex h = Some h" for h
    proof (induction h rule: induct_list012)
      case (3 c e cs)
      then show ?case by auto
    qed auto
    moreover have "list_all is_hex h" using assms(1)
      by (auto simp: list_all_iff is_hex_def lower_hex_digit hex_value_of_digit)
    moreover have "CHR ''_'' \<notin> set h" using h(1) by auto
    ultimately show ?thesis using assms(2) by blast
  qed
  ultimately show ?thesis by (simp add: hex_text_def Let_def)
qed

section \<open>Canonical texts\<close>

definition dashed :: "string \<Rightarrow> string" where
  "dashed h = take 8 h @ ''-'' @ take 4 (drop 8 h) @ ''-'' @ take 4 (drop 12 h) @ ''-'' @ take 4 (drop 16 h) @ ''-'' @ drop 20 h"

lemma uuid_text_dashed: "uuid_text n = dashed (hex_pad 32 n)"
  by (simp add: uuid_text_def dashed_def Let_def)

lemma dashed_parts:
  assumes "length a = 8" "length b = 4" "length c = 4" "length d = 4"
  shows "dashed (a @ b @ c @ d @ e) = a @ ''-'' @ b @ ''-'' @ c @ ''-'' @ d @ ''-'' @ e"
  using assms by (simp add: dashed_def)

lemma hex_segment:
  "list_all2 (\<lambda>m c. if m = CHR ''-'' then c = CHR ''-'' else is_lower_hex c) (replicate n (CHR ''0'')) u \<Longrightarrow>
   length u = n \<and> list_all is_lower_hex u"
  by (induction n arbitrary: u) (auto simp: list_all2_Cons1)

lemma hex_group:
  assumes "list_all2 (\<lambda>m c. if m = CHR ''-'' then c = CHR ''-'' else is_lower_hex c) (replicate n (CHR ''0'') @ CHR ''-'' # t) s"
  shows "\<exists>a u. s = a @ CHR ''-'' # u \<and> length a = n \<and> list_all is_lower_hex a \<and>
    list_all2 (\<lambda>m c. if m = CHR ''-'' then c = CHR ''-'' else is_lower_hex c) t u"
proof -
  obtain a v where "s = a @ v" and a: "list_all2 (\<lambda>m c. if m = CHR ''-'' then c = CHR ''-'' else is_lower_hex c) (replicate n (CHR ''0'')) a"
    and v: "list_all2 (\<lambda>m c. if m = CHR ''-'' then c = CHR ''-'' else is_lower_hex c) (CHR ''-'' # t) v"
    using assms unfolding list_all2_append1 by blast
  moreover obtain u where "v = CHR ''-'' # u" "list_all2 (\<lambda>m c. if m = CHR ''-'' then c = CHR ''-'' else is_lower_hex c) t u"
    using v unfolding list_all2_Cons1 by auto
  ultimately show ?thesis using hex_segment [OF a] by blast
qed

lemma uuid_shape_dashed:
  assumes "uuid_shape s"
  shows "\<exists>h. s = dashed h \<and> length h = 32 \<and> list_all is_lower_hex h"
proof -
  let ?P = "\<lambda>m c. if m = CHR ''-'' then c = CHR ''-'' else is_lower_hex c"
  have t: "''00000000-0000-0000-0000-000000000000'' =
      replicate 8 (CHR ''0'') @ CHR ''-'' # replicate 4 (CHR ''0'') @ CHR ''-'' # replicate 4 (CHR ''0'') @ CHR ''-'' #
      replicate 4 (CHR ''0'') @ CHR ''-'' # replicate 12 (CHR ''0'')" by (simp add: numeral_eq_Suc)
  have "list_all2 ?P ''00000000-0000-0000-0000-000000000000'' s" using assms by (simp add: uuid_shape_def)
  from hex_group [OF this [unfolded t]] obtain a s1 where a: "s = a @ CHR ''-'' # s1" "length a = 8" "list_all is_lower_hex a"
    and s1: "list_all2 ?P (replicate 4 (CHR ''0'') @ CHR ''-'' # replicate 4 (CHR ''0'') @ CHR ''-'' #
      replicate 4 (CHR ''0'') @ CHR ''-'' # replicate 12 (CHR ''0'')) s1" by blast
  from hex_group [OF s1] obtain b s2 where b: "s1 = b @ CHR ''-'' # s2" "length b = 4" "list_all is_lower_hex b"
    and s2: "list_all2 ?P (replicate 4 (CHR ''0'') @ CHR ''-'' # replicate 4 (CHR ''0'') @ CHR ''-'' # replicate 12 (CHR ''0'')) s2" by blast
  from hex_group [OF s2] obtain c s3 where c: "s2 = c @ CHR ''-'' # s3" "length c = 4" "list_all is_lower_hex c"
    and s3: "list_all2 ?P (replicate 4 (CHR ''0'') @ CHR ''-'' # replicate 12 (CHR ''0'')) s3" by blast
  from hex_group [OF s3] obtain d e where d: "s3 = d @ CHR ''-'' # e" "length d = 4" "list_all is_lower_hex d"
    and "list_all2 ?P (replicate 12 (CHR ''0'')) e" by blast
  then have e: "length e = 12" "list_all is_lower_hex e" using hex_segment by blast+
  have "s = dashed (a @ b @ c @ d @ e)" using dashed_parts [of a b c d e] a b c d by simp
  then show ?thesis using a b c d e by (intro exI [of _ "a @ b @ c @ d @ e"]) simp
qed

lemma remove_absent: "w \<noteq> [] \<Longrightarrow> hd w \<notin> set s \<Longrightarrow> remove_text w s = s"
proof (induction s)
  case (Cons c s)
  then have "take (length w) (c # s) \<noteq> w" by (cases w) auto
  with Cons show ?case by simp
qed simp

lemma remove_dashes: "remove_text ''-'' s = filter (\<lambda>c. c \<noteq> CHR ''-'') s"
  by (induction s) auto

lemma strip_chars_id: "(\<And>c. c \<in> set s \<Longrightarrow> \<not> P c) \<Longrightarrow> strip_chars P s = s"
  unfolding strip_chars_def by (rule trim_id)

lemma set_dashed: "set (dashed h) \<subseteq> insert CHR ''-'' (set h)"
  by (auto simp: dashed_def dest: in_set_takeD in_set_dropD)

lemma undash: "CHR ''-'' \<notin> set h \<Longrightarrow> filter (\<lambda>c. c \<noteq> CHR ''-'') (dashed h) = h"
proof -
  assume "CHR ''-'' \<notin> set h"
  then have f: "filter (\<lambda>c. c \<noteq> CHR ''-'') (take i (drop j h)) = take i (drop j h)" "filter (\<lambda>c. c \<noteq> CHR ''-'') (drop j h) = drop j h" for i j
    by (auto simp: filter_id_conv dest: in_set_takeD in_set_dropD)
  have d: "drop 20 h = drop 4 (drop 16 h)" "drop 16 h = drop 4 (drop 12 h)" "drop 12 h = drop 4 (drop 8 h)" by simp_all
  have "take 8 h @ take 4 (drop 8 h) @ take 4 (drop 12 h) @ take 4 (drop 16 h) @ drop 20 h = h"
    by (metis append_take_drop_id d)
  then show ?thesis using f(1) [of 8 0] by (simp add: dashed_def f)
qed

lemma uuid_int_dashed:
  assumes "list_all is_lower_hex h" and "length h = 32"
  shows "uuid_int (dashed h) = Some (hex_val h)"
proof -
  have c: "x \<notin> set ''_{}uxX+''" if "x \<in> set (dashed h)" for x
  proof -
    have "x = CHR ''-'' \<or> is_lower_hex x" using assms(1) that set_dashed [of h] by (auto simp: list_all_iff)
    then show ?thesis using hex_chars(1) [of x] by auto
  qed
  have "remove_text ''urn:'' (dashed h) = dashed h" by (rule remove_absent) (use c in auto)
  moreover have "remove_text ''uuid:'' (dashed h) = dashed h" by (rule remove_absent) (use c in auto)
  moreover have "strip_chars (\<lambda>x. x \<in> {CHR ''{'', CHR ''}''}) (dashed h) = dashed h" by (rule strip_chars_id) (use c in auto)
  moreover have "CHR ''-'' \<notin> set h" using assms(1) hex_chars(1) by (auto simp: list_all_iff)
  moreover have "hex_val h < 2 ^ 128" using hex_val_less [OF assms(1)] assms(2) by simp
  ultimately show ?thesis
    using assms(2) hex_text_lower [OF assms(1)] by (cases "h = []") (simp_all add: uuid_int_def Let_def remove_dashes undash)
qed

lemma variant_bits:
  assumes "hex_digit k \<in> {CHR ''8'', CHR ''9'', CHR ''a'', CHR ''b''}" and "k < 16"
  shows "k div 4 = 2"
proof -
  have "hex_value (hex_digit k) \<in> {Some 8, Some 9, Some 10, Some 11}"
    using assms(1) by (auto simp: hex_value_def is_digit_def)
  then show ?thesis using hex_value_of_digit [OF assms(2)] by auto
qed

text \<open>The number of a canonical UUID text of the RFC 4122 variant that is not nil, and its text.\<close>

lemma canonical_uuid:
  assumes "uuid_shape s" and "uuid_nonzero s" and "uuid_rfc4122 s"
  obtains n where "uuid_int s = Some n" "n \<noteq> 0" "n div 2 ^ 62 mod 4 = 2" "uuid_text n = s"
proof -
  obtain h where h: "s = dashed h" "length h = 32" "list_all is_lower_hex h" using uuid_shape_dashed [OF assms(1)] by blast
  let ?n = "hex_val h"
  have pad_back: "hex_pad 32 ?n = h" using hex_pad_val [OF h(3)] h(2) by simp
  have "?n \<noteq> 0"
  proof
    assume "?n = 0"
    with pad_back have "h = replicate 32 (CHR ''0'')" by (simp add: hex_pad_zero)
    then have "set s \<subseteq> set ''-0''" using set_dashed [of h] h(1) by auto
    then show False using assms(2) by (auto simp: uuid_nonzero_def list_ex_iff)
  qed
  moreover have "?n div 2 ^ 62 mod 4 = 2"
  proof -
    have "s ! 19 = h ! 16" using h(1,2) by (simp add: dashed_def nth_append)
    then have "hex_digit (?n div 16 ^ 15 mod 16) \<in> {CHR ''8'', CHR ''9'', CHR ''a'', CHR ''b''}"
      using assms(3) hex_pad_nth [of 16 32 ?n] pad_back by (simp add: uuid_rfc4122_def)
    then have "(?n div 16 ^ 15 mod 16) div 4 = 2" by (rule variant_bits) simp
    moreover have "?n div 2 ^ 62 = ?n div 16 ^ 15 div 4"
      by (simp only: div_mult2_eq [symmetric]) (simp add: power_numeral_reduce)
    moreover have "(m mod 16) div 4 = m div 4 mod 4" for m :: nat
      using mod_mult2_eq [of m 4 4] by simp
    ultimately show ?thesis by (simp only:)
  qed
  moreover have "uuid_text ?n = s" using pad_back h(1) by (simp add: uuid_text_dashed)
  ultimately show thesis using that [of ?n] uuid_int_dashed [OF h(3,2)] h(1) by simp
qed

end
