(* ===== verification/WS_UnlinkLaws.thy ===== *)
theory WS_UnlinkLaws
  imports WS_CaptureUnlink WS_UuidLaws
begin

text \<open>
  A receipt that has been recorded is found again under its identity: the text written into the activity
  is read back as the receipt, whatever other events there are. The plan of an undo is the inverse of the
  plan of the unlink.
\<close>

section \<open>Validated receipts\<close>

definition canonical_uid :: "string \<Rightarrow> bool" where
  "canonical_uid s \<longleftrightarrow> uuid_shape s \<and> uuid_nonzero s \<and> uuid_rfc4122 s"

definition numbered :: "string \<Rightarrow> string \<Rightarrow> bool" where
  "numbered prefix s \<longleftrightarrow> (\<exists>ds. strip_prefix prefix s = Some ds \<and> 4 \<le> length ds \<and> all_digits ds)"

named_theorems receipt_iffs

lemma receipt_text_Inr [receipt_iffs]: "receipt_text v = Inr s \<longleftrightarrow> v = PStr s"
  by (cases v) (auto simp: receipt_text_def unlink_refuse_def)

lemma receipt_uuid_Inr [receipt_iffs]: "receipt_uuid v = Inr s \<longleftrightarrow> v = PStr s \<and> canonical_uid s"
  by (auto simp: receipt_uuid_def result_iffs receipt_iffs unlink_refuse_def canonical_uid_def split: if_splits)

lemma admit_receipt_id_Inr [receipt_iffs]: "admit_receipt_id v = Inr s \<longleftrightarrow> v = PStr s \<and> canonical_uid s"
  by (simp add: admit_receipt_id_def receipt_iffs)

lemma receipt_key_Inr [receipt_iffs]: "receipt_key v = Inr s \<longleftrightarrow> v = PStr s \<and> class_run key_char 8 128 s"
  by (auto simp: receipt_key_def result_iffs receipt_iffs unlink_refuse_def split: if_splits)

lemma receipt_display_id_Inr [receipt_iffs]: "receipt_display_id p v = Inr s \<longleftrightarrow> v = PStr s \<and> numbered p s"
  by (auto simp: receipt_display_id_def result_iffs receipt_iffs unlink_refuse_def numbered_def split: if_splits option.splits)

lemma admit_revision_Inr [receipt_iffs]:
  "admit_displayed_capture_revision v = Inr n \<longleftrightarrow> v = PInt n \<and> 0 \<le> n \<and> n \<le> MAX_REVISION"
  by (cases v) (auto simp: admit_displayed_capture_revision_def policy_fail_def)

lemma receipt_revision_Inr [receipt_iffs]: "receipt_revision v = Inr n \<longleftrightarrow> v = PInt n \<and> 0 \<le> n \<and> n \<le> MAX_REVISION"
  using admit_revision_Inr [of v n] by (cases "admit_displayed_capture_revision v") (auto simp: receipt_revision_def unlink_refuse_def)

lemma receipt_eqs:
  "canonical_uid s \<Longrightarrow> receipt_uuid (PStr s) = Inr s" "canonical_uid s \<Longrightarrow> admit_receipt_id (PStr s) = Inr s"
  "class_run key_char 8 128 s \<Longrightarrow> receipt_key (PStr s) = Inr s" "numbered p s \<Longrightarrow> receipt_display_id p (PStr s) = Inr s"
  "0 \<le> n \<Longrightarrow> n \<le> MAX_REVISION \<Longrightarrow> receipt_revision (PInt n) = Inr n" "receipt_text (PStr s) = Inr s"
  by (simp_all add: receipt_iffs)

lemma unlink_record_gets [simp]:
  "dget (unlink_record dg a b c k r s t u w) ''after_digest'' = PStr dg" "dget (unlink_record dg a b c k r s t u w) ''after_revision'' = PInt a"
  "dget (unlink_record dg a b c k r s t u w) ''before_revision'' = PInt b" "dget (unlink_record dg a b c k r s t u w) ''capture_id'' = PStr c"
  "dget (unlink_record dg a b c k r s t u w) ''commit_state'' = PStr ''committed''" "dget (unlink_record dg a b c k r s t u w) ''format'' = PStr UNLINK_FORMAT"
  "dget (unlink_record dg a b c k r s t u w) ''idempotency_key'' = PStr k" "dget (unlink_record dg a b c k r s t u w) ''receipt_id'' = PStr r"
  "dget (unlink_record dg a b c k r s t u w) ''schema_version'' = PInt 1" "dget (unlink_record dg a b c k r s t u w) ''status_before'' = PStr s"
  "dget (unlink_record dg a b c k r s t u w) ''task_id'' = PStr t" "dget (unlink_record dg a b c k r s t u w) ''task_uid'' = PStr u"
  "dget (unlink_record dg a b c k r s t u w) ''workspace_uid'' = PStr w"
  by (simp_all add: unlink_record_def dget_def dget_or_def)

lemma unlink_record_keys: "exact_keys (unlink_record dg a b c k r s t u w) RECEIPT_FIELDS"
  by (auto simp: exact_keys_iff dkeys_def RECEIPT_FIELDS_def unlink_record_def)

definition receipt_ok :: "env \<Rightarrow> dict \<Rightarrow> bool" where
  "receipt_ok env r \<longleftrightarrow> (\<exists>dg b c k i s t u w. r = unlink_record dg (b + 1) b c k i s t u w \<and> canonical_uid w \<and> canonical_uid i \<and>
     canonical_uid u \<and> class_run key_char 8 128 k \<and> derive_receipt_id env w k = Inr i \<and> 0 \<le> b \<and> b + 1 \<le> MAX_REVISION \<and>
     is_sha256 dg \<and> s \<in> set CAPTURE_STATUSES \<and> numbered ''C-'' c \<and> numbered ''T-'' t)"

lemma receipt_okI:
  "canonical_uid w \<Longrightarrow> canonical_uid i \<Longrightarrow> canonical_uid u \<Longrightarrow> class_run key_char 8 128 k \<Longrightarrow> derive_receipt_id env w k = Inr i \<Longrightarrow>
   0 \<le> b \<Longrightarrow> b + 1 \<le> MAX_REVISION \<Longrightarrow> is_sha256 dg \<Longrightarrow> s \<in> set CAPTURE_STATUSES \<Longrightarrow> numbered ''C-'' c \<Longrightarrow> numbered ''T-'' t \<Longrightarrow>
   receipt_ok env (unlink_record dg (b + 1) b c k i s t u w)"
  unfolding receipt_ok_def by blast

lemma validate_receipt_ok: "validate_receipt env v = Inr r \<Longrightarrow> receipt_ok env r"
  by (cases v)
    (auto simp: validate_receipt_def unlink_refuse_def result_iffs receipt_iffs split: if_splits intro: receipt_okI)

lemma validate_receipt_stable: "receipt_ok env r \<Longrightarrow> validate_receipt env (PDict r) = Inr r"
  unfolding receipt_ok_def
  by (elim exE conjE) (simp add: validate_receipt_def unlink_record_keys receipt_eqs)

lemma serialize_ok: "receipt_ok env r \<Longrightarrow> serialize_receipt env (PDict r) = Inr (json_compact (PDict r))"
  by (simp add: serialize_receipt_def validate_receipt_stable)

section \<open>The text of a receipt\<close>

lemma nat_str_short: "n < 10 ^ k \<Longrightarrow> 0 < k \<Longrightarrow> length (nat_str n) \<le> k"
proof (induction k arbitrary: n)
  case (Suc k)
  show ?case
  proof (cases "n < 10")
    case False
    then have "k \<noteq> 0" using Suc.prems(1) by (cases k) auto
    then have "length (nat_str (n div 10)) \<le> k" using Suc.prems(1) by (intro Suc.IH) auto
    then show ?thesis using False by (subst nat_str.simps) simp
  qed (subst nat_str.simps, simp)
qed simp

lemma revision_text: "0 \<le> n \<Longrightarrow> n \<le> MAX_REVISION \<Longrightarrow> length (nat_str (nat \<bar>n\<bar>)) \<le> 4300"
  by (rule order_trans [OF nat_str_short [of _ 16]]) (auto simp: MAX_REVISION_def)

lemma record_keys_sorted: "sorted_wrt (<) (map fst (unlink_record dg a b c k r s t u w))"
proof -
  have "map fst (unlink_record dg a b c k r s t u w) = sort RECEIPT_FIELDS" unfolding unlink_record_def RECEIPT_FIELDS_def by code_simp
  moreover have "distinct RECEIPT_FIELDS" by (simp add: RECEIPT_FIELDS_def)
  ultimately show ?thesis by (simp only: strict_sorted_iff sorted_sort distinct_sort simp_thms)
qed

lemma receipt_plain: "receipt_ok env r \<Longrightarrow> json_plain (PDict r)"
proof -
  assume "receipt_ok env r"
  then obtain dg b c k i s t u w where r: "r = unlink_record dg (b + 1) b c k i s t u w" and b: "0 \<le> b" "b + 1 \<le> MAX_REVISION"
    by (auto simp: receipt_ok_def)
  have "length (nat_str (nat \<bar>1\<bar>)) \<le> 4300" by (rule revision_text) (simp_all add: MAX_REVISION_def)
  then show ?thesis using record_keys_sorted revision_text [of b] revision_text [of "b + 1"] b
    unfolding r by (simp add: unlink_record_def)
qed

lemma receipt_text_inj:
  "receipt_ok env r \<Longrightarrow> receipt_ok env q \<Longrightarrow> json_compact (PDict r) = json_compact (PDict q) \<Longrightarrow> r = q"
  using json_loads_compact [OF receipt_plain, of env r] json_loads_compact [OF receipt_plain, of env q] by simp

lemma receipt_text_start: "json_compact (PDict d) \<noteq> []"
  by simp

lemma parsed_receipt:
  "receipt_ok env r \<Longrightarrow> length (json_compact (PDict r)) \<le> MAX_RECEIPT_BLOB \<Longrightarrow>
   parsed_receipt_blob (PStr (json_compact (PDict r))) = Some r"
  using json_loads_compact [OF receipt_plain] by (simp add: parsed_receipt_blob_def receipt_text_start del: json_compact.simps)

lemma recovered_identity: "canonical_uid s \<Longrightarrow> recovered_receipt_identity (PStr s) = Some s"
proof -
  assume s: "canonical_uid s"
  then have "length s = 36" by (simp add: canonical_uid_def uuid_shape_def)
  moreover obtain n where "uuid_int s = Some n" "n \<noteq> 0" "n div 2 ^ 62 mod 4 = 2" "uuid_text n = s"
    using s canonical_uuid [of s] by (auto simp: canonical_uid_def)
  ultimately show ?thesis by (auto simp: recovered_receipt_identity_def MAX_RECEIPT_ID_TEXT_def)
qed

lemma canonical_body: "receipt_ok env r \<Longrightarrow> canonical_receipt_body env r (json_compact (PDict r)) = Inr (Some r)"
  by (simp add: canonical_receipt_body_def validate_receipt_stable serialize_ok del: json_compact.simps)

definition receipt_found :: "dict \<Rightarrow> receipt_event" where
  "receipt_found r = \<lparr>envelope_ok = True, event_key = Some (str_of (dget r ''idempotency_key'')), event_receipt = Some r,
     event_identity = str_of (dget r ''receipt_id'')\<rparr>"

lemma classified_recorded:
  assumes "receipt_ok env r" and "length (json_compact (PDict r)) \<le> MAX_RECEIPT_BLOB"
  shows "classified_receipt_event env (PDict (receipt_event_row i at r (json_compact (PDict r)))) = Inr (Some (receipt_found r))"
proof -
  obtain k s where k: "dget r ''idempotency_key'' = PStr k" "dget r ''receipt_id'' = PStr s" "canonical_uid s"
    using assms(1) by (auto simp: receipt_ok_def)
  have g: "dget (receipt_event_row i at r x) ''type'' = PStr UNLINK_EVENT_TYPE"
    "dget (receipt_event_row i at r x) ''details'' = PDict [(''receipt'', PStr x)]"
    "dget (receipt_event_row i at r x) ''capture_id'' = dget r ''capture_id''"
    "dget (receipt_event_row i at r x) ''task_id'' = dget r ''task_id''" for x
    by (simp_all add: receipt_event_row_def dget_def [of "_ # _"] dget_or_def)
  have e: "dget [(''receipt'', PStr x)] ''receipt'' = PStr x" "exact_keys [(''receipt'', PStr x)] [''receipt'']" for x
    by (simp_all add: dget_def dget_or_def exact_keys_def dkeys_def dhas_def)
  show ?thesis
    using k by (simp add: classified_receipt_event_def g e parsed_receipt [OF assms] recovered_identity canonical_body [OF assms(1)]
        envelope_binds_def classified_idempotency_key_def receipt_found_def py_str_def del: json_compact.simps)
qed

section \<open>Matching\<close>

lemma fold_r_snoc: "fold_r f (xs @ [x]) s = bind_r (fold_r f xs s) (f x)"
proof (induction xs arbitrary: s)
  case Nil
  show ?case by (cases "f x s") simp_all
next
  case (Cons a xs)
  then show ?case by (cases "f a s") simp_all
qed

lemma match_event_ok:
  "match_event env i e ms = Inr ns \<Longrightarrow> \<forall>c \<in> set ms. \<forall>r. event_receipt c = Some r \<longrightarrow> receipt_ok env r \<Longrightarrow>
   \<forall>c \<in> set ns. \<forall>r. event_receipt c = Some r \<longrightarrow> receipt_ok env r"
proof -
  assume m: "match_event env i e ms = Inr ns" and ok: "\<forall>c \<in> set ms. \<forall>r. event_receipt c = Some r \<longrightarrow> receipt_ok env r"
  have body: "receipt_ok env r" if "canonical_receipt_body env p b = Inr (Some r)" for p b r
    using that by (auto simp: canonical_receipt_body_def result_iffs validate_receipt_ok split: sum.splits if_splits)
  have "receipt_ok env r" if "classified_receipt_event env e = Inr (Some c)" "event_receipt c = Some r" for c r
    using that by (auto simp: classified_receipt_event_def result_iffs body split: pyval.splits option.splits if_splits)
  moreover obtain k where "classified_receipt_event env e = Inr k" using m by (auto simp: match_event_def bind_r_Inr)
  ultimately show ?thesis using m ok by (cases k) (auto simp: match_event_def split: if_splits)
qed

lemma matching_ok:
  "fold_r (match_event env i) es ms = Inr ns \<Longrightarrow> \<forall>c \<in> set ms. \<forall>r. event_receipt c = Some r \<longrightarrow> receipt_ok env r \<Longrightarrow>
   \<forall>c \<in> set ns. \<forall>r. event_receipt c = Some r \<longrightarrow> receipt_ok env r"
proof (induction es arbitrary: ms)
  case (Cons e es)
  then obtain ps where p: "match_event env i e ms = Inr ps" "fold_r (match_event env i) es ps = Inr ns" by (auto simp: bind_r_Inr)
  show ?case by (rule Cons.IH [OF p(2)]) (rule match_event_ok [OF p(1) Cons.prems(2)])
qed simp

lemma canonical_found_ok: "canonical_receipt_for_id env a i t = Inr (Some r) \<Longrightarrow> receipt_ok env r"
proof -
  assume c: "canonical_receipt_for_id env a i t = Inr (Some r)"
  then obtain ms where m: "matching_receipt_events env a i = Inr ms" by (auto simp: canonical_receipt_for_id_def result_iffs)
  then have ok: "\<forall>c \<in> set ms. \<forall>r. event_receipt c = Some r \<longrightarrow> receipt_ok env r"
    using matching_ok [of env i _ "[]" ms] by (auto simp: matching_receipt_events_def result_iffs)
  from c m have "r = hd (List.map_filter event_receipt ms)" "ms \<noteq> []" "\<not> list_ex (\<lambda>c. event_receipt c = None) ms"
    by (auto simp: canonical_receipt_for_id_def Let_def unlink_refuse_def result_iffs split: if_splits)
  then show ?thesis using ok by (cases ms) (auto simp: map_filter_simps)
qed

text \<open>What is found does not depend on how a tainted event alone is reported.\<close>

lemma all_canonical: "ms \<noteq> [] \<Longrightarrow> \<not> list_ex (\<lambda>c. event_receipt c = None) ms \<Longrightarrow> List.map_filter event_receipt ms \<noteq> []"
  by (cases ms) (auto simp: map_filter_simps)

lemma canonical_found_any: "canonical_receipt_for_id env a i t = Inr found \<Longrightarrow> canonical_receipt_for_id env a i u = Inr found"
  by (cases "matching_receipt_events env a i") (simp_all add: canonical_receipt_for_id_def Let_def unlink_refuse_def all_canonical split: if_splits)

lemma activity_events_list:
  "as_list (dget (dsetdefault a ''activity'' (PList [])) ''activity'') = Inr es \<Longrightarrow> activity_events a = Inr es"
  by (auto simp: activity_events_def dsetdefault_def dhas_def dget_def dget_or_def as_list_def split: option.splits pyval.splits if_splits)

section \<open>Recording, then finding\<close>

lemma numbered_own: "receipt_ok env r \<Longrightarrow> \<exists>i w c. dget r ''receipt_id'' = PStr i \<and> canonical_uid i \<and> dget r ''workspace_uid'' = PStr w \<and>
    canonical_uid w \<and> dget r ''capture_id'' = PStr c \<and> numbered ''C-'' c"
  unfolding receipt_ok_def by auto

lemma found_own:
  assumes "receipt_ok env r" and "canonical_receipt_for_id env a (str_of (dget r ''receipt_id'')) ''not_found'' = Inr (Some r)"
  shows "find_unlink_receipt env a (dget r ''receipt_id'') (dget r ''workspace_uid'') (dget r ''capture_id'') = Inr r"
  using numbered_own [OF assms(1)] assms(2) by (auto simp: find_unlink_receipt_def receipt_eqs)

lemma canonical_alone:
  "receipt_ok env r \<Longrightarrow> matching_receipt_events env a i = Inr [receipt_found r] \<Longrightarrow> canonical_receipt_for_id env a i t = Inr (Some r)"
  by (simp add: canonical_receipt_for_id_def receipt_found_def map_filter_simps serialize_ok del: json_compact.simps)

lemma no_match:
  assumes "canonical_receipt_for_id env a i t = Inr None"
  shows "matching_receipt_events env a i = Inr []"
  using assms by (auto simp: canonical_receipt_for_id_def bind_r_Inr Let_def unlink_refuse_def split: if_splits)

lemma recorded_found:
  assumes rec: "record_committed_unlink_receipt env activity receipt created_at = Inr (r, activity')"
    and short: "length (json_compact (PDict r)) \<le> MAX_RECEIPT_BLOB"
  shows "receipt_ok env r \<and> validate_receipt env (PDict receipt) = Inr r \<and>
    canonical_receipt_for_id env activity' (str_of (dget r ''receipt_id'')) ''not_found'' = Inr (Some r)"
proof -
  obtain v existing where v: "validate_receipt env (PDict receipt) = Inr v"
    and e: "canonical_receipt_for_id env activity (str_of (dget v ''receipt_id'')) ''malformed'' = Inr existing"
    using rec by (auto simp: record_committed_unlink_receipt_def bind_r_Inr)
  have ok: "receipt_ok env v" by (rule validate_receipt_ok [OF v])
  show ?thesis
  proof (cases existing)
    case (Some old)
    have old: "receipt_ok env old" using canonical_found_ok e Some by blast
    have "json_compact (PDict old) = json_compact (PDict v)" "r = old" "activity' = activity"
      using rec v e Some by (auto simp: record_committed_unlink_receipt_def serialize_ok [OF old] serialize_ok [OF ok] unlink_refuse_def
          simp del: json_compact.simps split: if_splits)
    moreover from this have "old = v" using receipt_text_inj [OF old ok] by simp
    ultimately show ?thesis using canonical_found_any [OF e, of "''not_found''"] Some ok v by simp
  next
    case None
    obtain i es where r: "r = v" "as_list (dget (dsetdefault activity ''activity'' (PList [])) ''activity'') = Inr es"
      "activity' = dset (dsetdefault activity ''activity'' (PList [])) ''activity''
         (PList (es @ [PDict (receipt_event_row i created_at v (json_compact (PDict v)))]))"
      using rec v e None
      by (auto simp: record_committed_unlink_receipt_def serialize_ok [OF ok] bind_r_Inr Let_def simp del: json_compact.simps)
    have "fold_r (match_event env (str_of (dget v ''receipt_id''))) es [] = Inr []"
      using no_match [of env activity _ "''malformed''"] e None activity_events_list [OF r(2)]
      by (simp add: matching_receipt_events_def)
    moreover have "activity_events activity' = Inr (es @ [PDict (receipt_event_row i created_at v (json_compact (PDict v)))])"
      unfolding r(3) by (simp add: activity_events_def)
    ultimately have "matching_receipt_events env activity' (str_of (dget v ''receipt_id'')) = Inr [receipt_found v]"
      using short r(1) by (simp add: matching_receipt_events_def fold_r_snoc match_event_def classified_recorded [OF ok]
          receipt_found_def del: json_compact.simps)
    then show ?thesis using canonical_alone [OF ok] ok v r(1) by simp
  qed
qed

text \<open>
  C0. The receipt of an unlink is found again. Whatever the activity list holds, once a receipt has been
  recorded in it - as a new event, or because the same receipt was there already - looking its identity up
  in its workspace and for its Capture returns exactly the recorded fields, provided its text fits the limit
  the reader puts on a stored text. The writer itself has no such limit.
\<close>
theorem recorded_receipt_is_found:
  assumes "record_committed_unlink_receipt env activity receipt created_at = Inr (r, activity')"
    and "length (json_compact (PDict r)) \<le> MAX_RECEIPT_BLOB"
  shows "find_unlink_receipt env activity' (dget r ''receipt_id'') (dget r ''workspace_uid'') (dget r ''capture_id'') = Inr r"
  using recorded_found [OF assms] by (intro found_own) blast+

definition sample_receipt :: dict where
  "sample_receipt = unlink_record (''sha256:'' @ replicate 64 (CHR ''a'')) 4 3 ''C-0001'' ''abcdefgh''
     ''11111111-2222-5333-8444-555555555555'' ''linked'' ''T-0001'' sample_uid sample_uid"

lemma sample_receipt_ok: "receipt_ok sample_env sample_receipt"
proof -
  have "receipt_ok sample_env (unlink_record (''sha256:'' @ replicate 64 (CHR ''a'')) (3 + 1) 3 ''C-0001'' ''abcdefgh''
     ''11111111-2222-5333-8444-555555555555'' ''linked'' ''T-0001'' sample_uid sample_uid)"
  proof (rule receipt_okI)
    show "canonical_uid sample_uid" "canonical_uid sample_uid" "canonical_uid ''11111111-2222-5333-8444-555555555555''" by code_simp+
    show "class_run key_char 8 128 ''abcdefgh''" by code_simp
    show "is_sha256 (''sha256:'' @ replicate 64 (CHR ''a''))" by code_simp
    show "numbered ''C-'' ''C-0001''" "numbered ''T-'' ''T-0001''" unfolding numbered_def strip_prefix_Some by (auto simp: all_digits_def is_digit_def)
  qed (simp_all add: derive_receipt_id_def namespaced_uuid_def sample_env_def MAX_REVISION_def CAPTURE_STATUSES_def)
  then show ?thesis by (simp add: sample_receipt_def)
qed

lemma sample_receipt_short: "length (json_compact (PDict sample_receipt)) \<le> MAX_RECEIPT_BLOB"
  by code_simp

lemma sample_recorded:
  "\<exists>a. record_committed_unlink_receipt sample_env [] sample_receipt ''0001-01-01T00:00:00Z'' = Inr (sample_receipt, a)"
proof -
  have "canonical_receipt_for_id sample_env [] i t = Inr None" for i t
    by (simp add: canonical_receipt_for_id_def matching_receipt_events_def activity_events_def dget_def dget_or_def)
  then show ?thesis
    by (simp add: record_committed_unlink_receipt_def validate_receipt_stable [OF sample_receipt_ok] serialize_ok [OF sample_receipt_ok]
        dsetdefault_def dhas_def dset_def dget_def dget_or_def next_activity_event_id_def largest_number_def del: json_compact.simps)
qed

theorem recorded_receipt_is_found_witness:
  "\<exists>a. record_committed_unlink_receipt sample_env [] sample_receipt ''0001-01-01T00:00:00Z'' = Inr (sample_receipt, a) \<and>
     find_unlink_receipt sample_env a (dget sample_receipt ''receipt_id'') (dget sample_receipt ''workspace_uid'')
       (dget sample_receipt ''capture_id'') = Inr sample_receipt"
  using sample_recorded recorded_receipt_is_found [OF _ sample_receipt_short] by blast

end
