(* ===== verification/WS_Captures.thy ===== *)
theory WS_Captures
  imports WS_CaptureUnlink WS_WorkSessions
begin

text \<open>
  \<open>workstack/service_captures.py\<close> and the rules of \<open>service_capture_rules.py\<close> it uses: reading Captures,
  linking them to Tasks and unlinking them, the undo of an unlink, dismissal, and the two ways a Capture
  becomes a Task. The ingestion of a packet is not modelled. The projection of the retrieval state of a
  record of schema 1.1 (\<open>stored_retrieval_projection\<close> of \<open>knowledge_capture_packets.py\<close>) is the argument
  \<open>shown\<close>, None where it refuses.
\<close>

section \<open>Reading\<close>

definition CAPTURE_FIELDS :: "string list" where
  "CAPTURE_FIELDS = [''id'', ''schema_version'', ''source_key'', ''source'', ''normalized'', ''task_hints'',
     ''provenance'', ''status'', ''linked_task_ids'', ''converted_task_ids'', ''revision'', ''created_at'', ''updated_at'']"

definition projected_capture_retrieval :: "(pyval \<Rightarrow> dict option) \<Rightarrow> dict \<Rightarrow> dict option result" where
  "projected_capture_retrieval shown capture =
     (if dget capture ''schema_version'' \<noteq> PStr ''1.1'' then Inr None
      else case shown (dget capture ''retrieval'') of
          None \<Rightarrow> Inl (StoreCorruptError ''captures.json knowledge import record is invalid'')
        | Some r \<Rightarrow> Inr (Some r))"

definition project_capture :: "(pyval \<Rightarrow> dict option) \<Rightarrow> dict \<Rightarrow> dict result" where
  "project_capture shown capture =
     bind_r (map_r (\<lambda>f. bind_r (dindex capture f) (\<lambda>v. Inr (f, v))) CAPTURE_FIELDS) (\<lambda>projected.
     bind_r (projected_capture_retrieval shown capture) (\<lambda>retrieval.
     Inr (case retrieval of None \<Rightarrow> projected | Some r \<Rightarrow> dset projected ''retrieval'' (PDict r))))"

definition list_captures :: "(pyval \<Rightarrow> dict option) \<Rightarrow> dict \<Rightarrow> string \<Rightarrow> dict list result" where
  "list_captures shown captures_data status =
     (if status \<noteq> ''all'' \<and> status \<notin> set CAPTURE_STATUSES then Inl (domain_error ''invalid capture status'' [])
      else
      bind_r (rows_or captures_data ''captures'') (\<lambda>captures.
      bind_r (if status \<noteq> ''all'' then collect_r (\<lambda>c. bind_r (vget c ''status'') (\<lambda>v. Inr (v = PStr status))) Inr captures
              else Inr captures) (\<lambda>captures.
      bind_r (sorted_by (\<lambda>c. bind_r (getitem c ''id'') (\<lambda>i. Inr [i])) captures) (\<lambda>captures.
      map_r (\<lambda>c. bind_r (as_dict c) (project_capture shown)) captures))))"

section \<open>What the commands share\<close>

text \<open>\<open>request_digest or self._request_digest(body)\<close>\<close>

definition digest_or :: "env \<Rightarrow> string \<Rightarrow> dict \<Rightarrow> string" where
  "digest_or env request_digest body = (if request_digest = [] then canonical_digest env (PDict body) else request_digest)"

definition find_row_or :: "dict \<Rightarrow> string \<Rightarrow> string \<Rightarrow> string \<Rightarrow> (nat \<times> dict) result" where
  "find_row_or doc field record_id label = bind_r (rows_or doc field) (\<lambda>rs. find_record rs record_id label)"

text \<open>\<open>v in container\<close>\<close>

definition contained_r :: "pyval \<Rightarrow> pyval \<Rightarrow> bool result" where
  "contained_r v container =
     (case container of
        PList xs \<Rightarrow> Inr (list_ex (py_eq v) xs)
      | PStr s \<Rightarrow> (case v of PStr t \<Rightarrow> Inr (text_in t s) | _ \<Rightarrow> Inl TypeError)
      | PDict d \<Rightarrow> (if \<not> hashable v then Inl TypeError else Inr (list_ex (\<lambda>k. v = PStr k) (dkeys d)))
      | _ \<Rightarrow> Inl TypeError)"

definition capture_body :: "dict \<Rightarrow> dict \<Rightarrow> pyval" where
  "capture_body data meta = PDict ((''data'', PDict data) # (if meta = [] then [] else [(''meta'', PDict meta)]))"

definition duplicate_meta :: "bool \<Rightarrow> dict" where
  "duplicate_meta duplicate = (if duplicate then [(''duplicate'', PBool True)] else [])"

text \<open>\<open>capture["revision"] = _next_revision(capture); capture["updated_at"] = self._utc_now()\<close>, then the event.\<close>

definition stamp_capture :: "env \<Rightarrow> dict \<Rightarrow> dict \<Rightarrow> string \<Rightarrow> pyval \<Rightarrow> dict \<Rightarrow> (dict \<times> dict) command" where
  "stamp_capture env activity capture event_type task_id details =
     bind_c (lift_c (next_revision capture)) (\<lambda>next_rev.
     bind_c (utc_now env) (\<lambda>updated_at.
     let capture = dset (dset capture ''revision'' (PInt next_rev)) ''updated_at'' (PStr updated_at) in
     bind_c (lift_c (dindex capture ''id'')) (\<lambda>capture_id.
     bind_c (append_event env activity event_type capture_id task_id PNone details) (\<lambda>(event, activity).
     return_c (capture, activity)))))"

section \<open>Linking\<close>

definition add_link :: "dict \<Rightarrow> pyval \<Rightarrow> dict result" where
  "add_link capture task_id =
     bind_r (as_list (dget capture ''linked_task_ids'')) (\<lambda>xs.
     bind_r (sorted_by (\<lambda>x. Inr [x]) (xs @ [task_id])) (\<lambda>links.
     let capture = dset capture ''linked_task_ids'' (PList links) in
     Inr (if dget capture ''status'' \<noteq> PStr ''converted'' then dset capture ''status'' (PStr ''linked'') else capture)))"

definition link_intent ::
  "env \<Rightarrow> (pyval \<Rightarrow> dict option) \<Rightarrow> string \<Rightarrow> string \<Rightarrow> pyval \<Rightarrow> string \<Rightarrow> string \<Rightarrow> dict \<Rightarrow> response command" where
  "link_intent env shown capture_id task_id key path digest activity =
     bind_c (load Tasks_Doc) (\<lambda>backlog.
     bind_c (lift_c (find_row_or backlog ''tasks'' task_id ''task'')) (\<lambda>(j, task).
     bind_c (load Captures_Doc) (\<lambda>captures_data.
     bind_c (lift_c (find_row_or captures_data ''captures'' capture_id ''capture'')) (\<lambda>(k, capture).
     let capture = dsetdefault capture ''linked_task_ids'' (PList []) in
     bind_c (lift_c (dindex task ''id'')) (\<lambda>task_id.
     bind_c (lift_c (contained_r task_id (dget capture ''linked_task_ids''))) (\<lambda>duplicate.
     bind_c (if duplicate then return_c (capture, activity)
             else bind_c (lift_c (add_link capture task_id)) (\<lambda>capture.
                  stamp_capture env activity capture ''capture.linked'' task_id [])) (\<lambda>(capture, activity).
     bind_c (lift_c (project_capture shown capture)) (\<lambda>projected.
     commit_keyed env activity key ''POST'' path digest 200 (capture_body projected (duplicate_meta duplicate))
       [(Captures_Doc, put_row captures_data ''captures'' k capture)] [] (''capture-link-'' @ str_of key)))))))))"

definition link_capture ::
  "env \<Rightarrow> (pyval \<Rightarrow> dict option) \<Rightarrow> string \<Rightarrow> string \<Rightarrow> pyval \<Rightarrow> string \<Rightarrow> string \<Rightarrow> response command" where
  "link_capture env shown capture_id task_id key request_digest path =
     (let digest = digest_or env request_digest [(''task_id'', PStr task_id)];
          path = path_or path (''/api/v1/captures/'' @ capture_id @ ''/link'') in
      keyed_command key ''POST'' path digest (link_intent env shown capture_id task_id key path digest))"

section \<open>Unlinking\<close>

definition receipt_refusal :: "pyexc \<Rightarrow> pyexc" where
  "receipt_refusal e =
     (case e of
        CaptureUnlinkReceiptError code \<Rightarrow>
          (if code = ''not_found'' then DomainError Not_Found ''capture unlink receipt not found'' []
           else if code = ''idempotency_conflict''
           then DomainError Idempotency_Conflict ''Idempotency-Key was already used for a different request''
                  [(''key'', PStr code)]
           else domain_error ''capture unlink receipt is invalid'' [])
      | _ \<Rightarrow> e)"

definition receipt_answer :: "'a result \<Rightarrow> 'a result" where
  "receipt_answer r = (case r of Inl e \<Rightarrow> Inl (receipt_refusal e) | Inr x \<Rightarrow> Inr x)"

definition record_unlink_receipt ::
  "env \<Rightarrow> dict \<Rightarrow> dict \<Rightarrow> dict \<Rightarrow> string \<Rightarrow> pyval \<Rightarrow> pyval \<Rightarrow> (dict \<times> dict) command" where
  "record_unlink_receipt env activity capture task status_before before_revision key =
     bind_c (ready_uid env) (\<lambda>workspace_uid.
     bind_c (lift_c (receipt_answer (build_receipt env (PStr workspace_uid) capture task status_before before_revision key))) (\<lambda>receipt.
     bind_c (utc_now env) (\<lambda>created_at.
     lift_c (receipt_answer (record_committed_unlink_receipt env activity receipt created_at)))))"

definition stale_capture :: "pyval \<Rightarrow> int \<Rightarrow> pyexc" where
  "stale_capture stored received =
     DomainError Revision_Conflict ''capture revision is stale'' [(''expected'', stored), (''received'', PInt received)]"

definition unlink_policy_answer :: "pyval \<Rightarrow> int \<Rightarrow> 'a result \<Rightarrow> 'a result" where
  "unlink_policy_answer stored received r =
     (case r of
        Inl (CaptureUnlinkPolicyError code) \<Rightarrow>
          Inl (if code = ''revision_conflict'' then stale_capture stored received else revision_required)
      | _ \<Rightarrow> r)"

definition text_or_empty :: "pyval \<Rightarrow> string" where
  "text_or_empty v = py_str (por v (PStr []))"

definition unlink_intent ::
  "env \<Rightarrow> (pyval \<Rightarrow> dict option) \<Rightarrow> string \<Rightarrow> string \<Rightarrow> int \<Rightarrow> pyval \<Rightarrow> string \<Rightarrow> string \<Rightarrow> dict \<Rightarrow> response command" where
  "unlink_intent env shown capture_id task_id admitted key path digest activity =
     bind_c (load Tasks_Doc) (\<lambda>backlog.
     bind_c (lift_c (find_row_or backlog ''tasks'' task_id ''task'')) (\<lambda>(j, task).
     bind_c (load Captures_Doc) (\<lambda>captures_data.
     bind_c (lift_c (find_row_or captures_data ''captures'' capture_id ''capture'')) (\<lambda>(k, capture).
     bind_c (lift_c (dindex task ''id'')) (\<lambda>task_id.
     bind_c (lift_c (dindex capture ''revision'')) (\<lambda>stored.
     bind_c (lift_c (unlink_policy_answer stored admitted
       (plan_capture_unlink (por (dget capture ''linked_task_ids'') (PList [])) (por (dget capture ''converted_task_ids'') (PList []))
         (text_or_empty (dget capture ''status'')) task_id stored admitted))) (\<lambda>plan.
     bind_c (if \<not> plan_mutate plan then return_c (capture, activity, [])
             else
             let changed = dset (dset capture ''linked_task_ids'' (PList (plan_links plan))) ''status'' (PStr (plan_status plan)) in
             bind_c (stamp_capture env activity changed ''capture.unlinked'' task_id []) (\<lambda>(changed, activity).
             bind_c (record_unlink_receipt env activity changed task (text_or_empty (dget capture ''status'')) stored key)
               (\<lambda>(receipt, activity).
             return_c (changed, activity, [(''undo_receipt_id'', dget receipt ''receipt_id'')])))) (\<lambda>(capture, activity, undo).
     bind_c (lift_c (project_capture shown capture)) (\<lambda>projected.
     commit_keyed env activity key ''POST'' path digest 200
       (capture_body projected ((''duplicate'', PBool (plan_duplicate plan)) # undo))
       [(Captures_Doc, put_row captures_data ''captures'' k capture)] [] (''capture-unlink-'' @ str_of key))))))))))"

definition unlink_capture ::
  "env \<Rightarrow> (pyval \<Rightarrow> dict option) \<Rightarrow> string \<Rightarrow> string \<Rightarrow> pyval \<Rightarrow> pyval \<Rightarrow> string \<Rightarrow> string \<Rightarrow> response command" where
  "unlink_capture env shown capture_id task_id revision key request_digest path =
     (case admit_displayed_capture_revision revision of
        Inl e \<Rightarrow> raise_c revision_required
      | Inr admitted \<Rightarrow>
          (let digest = digest_or env request_digest [(''task_id'', PStr task_id), (''revision'', PInt admitted)];
               path = path_or path (''/api/v1/captures/'' @ capture_id @ ''/unlink'') in
           keyed_command key ''POST'' path digest (unlink_intent env shown capture_id task_id admitted key path digest)))"

section \<open>The undo of an unlink\<close>

definition undo_required :: pyexc where
  "undo_required = domain_error ''undo-unlink requires receipt_id and revision'' []"

definition undo_conflict :: pyexc where
  "undo_conflict = DomainError Capture_Unlink_Undo_Conflict ''capture unlink undo conflicts with the recorded post-image'' []"

definition undo_policy_answer :: "pyval \<Rightarrow> int \<Rightarrow> 'a result \<Rightarrow> 'a result" where
  "undo_policy_answer stored received r =
     (case r of
        Inl (CaptureUnlinkPolicyError code) \<Rightarrow>
          Inl (if code = ''revision_conflict'' then stale_capture stored received
               else if code = ''capture_unlink_undo_conflict'' then undo_conflict else undo_required)
      | _ \<Rightarrow> r)"

definition undo_intent ::
  "env \<Rightarrow> (pyval \<Rightarrow> dict option) \<Rightarrow> string \<Rightarrow> string \<Rightarrow> int \<Rightarrow> pyval \<Rightarrow> string \<Rightarrow> string \<Rightarrow> dict \<Rightarrow> response command" where
  "undo_intent env shown capture_id receipt_id admitted key path digest activity =
     bind_c (load Captures_Doc) (\<lambda>captures_data.
     bind_c (lift_c (find_row_or captures_data ''captures'' capture_id ''capture'')) (\<lambda>(k, capture).
     bind_c (ready_uid env) (\<lambda>workspace_uid.
     bind_c (lift_c (dindex capture ''id'')) (\<lambda>stored_id.
     bind_c (lift_c (receipt_answer (find_unlink_receipt env activity (PStr receipt_id) (PStr workspace_uid) stored_id))) (\<lambda>receipt.
     bind_c (load Tasks_Doc) (\<lambda>backlog.
     bind_c (lift_c (find_row_or backlog ''tasks'' (str_of (dget receipt ''task_id'')) ''task'')) (\<lambda>(j, task).
     bind_c (lift_c (if dget task ''uid'' \<noteq> dget receipt ''task_uid'' then Inl undo_conflict
       else bind_r (dindex task ''id'') (\<lambda>i. if i \<noteq> dget receipt ''task_id'' then Inl undo_conflict else Inr ()))) (\<lambda>_.
     bind_c (lift_c (dindex capture ''revision'')) (\<lambda>stored.
     bind_c (lift_c (undo_policy_answer stored admitted
       (plan_capture_unlink_undo (por (dget capture ''linked_task_ids'') (PList [])) stored admitted (dget receipt ''after_revision'')
         (capture_row_digest env capture) (dget receipt ''after_digest'') (dget receipt ''task_id'')
         (str_of (dget receipt ''status_before''))))) (\<lambda>plan.
     let changed = dset (dset capture ''linked_task_ids'' (PList (undo_links plan))) ''status'' (PStr (undo_status plan)) in
     bind_c (stamp_capture env activity changed ''capture.unlink_undone'' (dget task ''id'') []) (\<lambda>(changed, activity).
     bind_c (lift_c (project_capture shown changed)) (\<lambda>projected.
     commit_keyed env activity key ''POST'' path digest 200 (capture_body projected [(''duplicate'', PBool False)])
       [(Captures_Doc, put_row captures_data ''captures'' k changed)] [] (''capture-undo-unlink-'' @ str_of key)))))))))))))"

definition undo_capture_unlink ::
  "env \<Rightarrow> (pyval \<Rightarrow> dict option) \<Rightarrow> string \<Rightarrow> pyval \<Rightarrow> pyval \<Rightarrow> pyval \<Rightarrow> string \<Rightarrow> string \<Rightarrow> response command" where
  "undo_capture_unlink env shown capture_id receipt_id revision key request_digest path =
     (case (admit_displayed_capture_revision revision, admit_receipt_id receipt_id) of
        (Inr admitted, Inr canonical_receipt_id) \<Rightarrow>
          (let digest = digest_or env request_digest [(''receipt_id'', PStr canonical_receipt_id), (''revision'', PInt admitted)];
               path = path_or path (''/api/v1/captures/'' @ capture_id @ ''/undo-unlink'') in
           keyed_command key ''POST'' path digest
             (undo_intent env shown capture_id canonical_receipt_id admitted key path digest))
      | _ \<Rightarrow> raise_c undo_required)"

section \<open>Dismissal\<close>

definition dismiss_intent ::
  "env \<Rightarrow> (pyval \<Rightarrow> dict option) \<Rightarrow> string \<Rightarrow> pyval \<Rightarrow> string \<Rightarrow> string \<Rightarrow> dict \<Rightarrow> response command" where
  "dismiss_intent env shown capture_id key path digest activity =
     bind_c (load Captures_Doc) (\<lambda>captures_data.
     bind_c (lift_c (find_row_or captures_data ''captures'' capture_id ''capture'')) (\<lambda>(k, capture).
     let duplicate = (dget capture ''status'' = PStr ''dismissed'') in
     bind_c (if duplicate then return_c (capture, activity)
             else stamp_capture env activity (dset capture ''status'' (PStr ''dismissed'')) ''capture.dismissed'' PNone [])
       (\<lambda>(capture, activity).
     bind_c (lift_c (project_capture shown capture)) (\<lambda>projected.
     commit_keyed env activity key ''POST'' path digest 200 (capture_body projected (duplicate_meta duplicate))
       [(Captures_Doc, put_row captures_data ''captures'' k capture)] [] (''capture-dismiss-'' @ str_of key)))))"

definition dismiss_capture ::
  "env \<Rightarrow> (pyval \<Rightarrow> dict option) \<Rightarrow> string \<Rightarrow> pyval \<Rightarrow> string \<Rightarrow> string \<Rightarrow> response command" where
  "dismiss_capture env shown capture_id key request_digest path =
     (let digest = digest_or env request_digest [];
          path = path_or path (''/api/v1/captures/'' @ capture_id @ ''/dismiss'') in
      keyed_command key ''POST'' path digest (dismiss_intent env shown capture_id key path digest))"

section \<open>A Task from a Capture\<close>

definition capture_fields_ok :: "dict \<Rightarrow> string list \<Rightarrow> (pyval \<Rightarrow> bool) \<Rightarrow> (string \<Rightarrow> string) \<Rightarrow> unit result" where
  "capture_fields_ok body names ok message =
     (case find (\<lambda>f. dhas body f \<and> \<not> ok (dget body f)) names of
        None \<Rightarrow> Inr ()
      | Some f \<Rightarrow> Inl (domain_error (message f) [(''field'', PStr f)]))"

definition validate_capture_task_scalars :: "dict \<Rightarrow> unit result" where
  "validate_capture_task_scalars body =
     bind_r (capture_fields_ok body [''detail'', ''priority''] is_str (\<lambda>f. f @ '' must be a string'')) (\<lambda>_.
     bind_r (capture_fields_ok body [''due''] (\<lambda>v. v = PNone \<or> is_str v) (\<lambda>f. ''due must be an ISO date or null'')) (\<lambda>_.
     capture_fields_ok body [''parent_id''] (\<lambda>v. v = PNone \<or> is_str v) (\<lambda>f. ''parent_id must be a task ID or null'')))"

definition validate_capture_task_arrays :: "dict \<Rightarrow> unit result" where
  "validate_capture_task_arrays body =
     capture_fields_ok body [''tags'', ''objective_ids'', ''dependencies''] (\<lambda>v. is_list v \<and> list_all is_str (list_of v))
       (\<lambda>f. f @ '' must be an array of strings'')"

definition capture_task_intent_id :: "dict \<Rightarrow> string option result" where
  "capture_task_intent_id body =
     (case dget body ''intent_id'' of
        PNone \<Rightarrow> Inr None
      | v \<Rightarrow> (if is_str v \<and> uuid_shape (str_of v) \<and> uuid_nonzero (str_of v) then Inr (Some (str_of v))
             else Inl (domain_error ''intent_id must be a canonical non-nil UUID'' [(''field'', PStr ''intent_id'')])))"

definition CAPTURE_TASK_FIELDS :: "string list" where
  "CAPTURE_TASK_FIELDS = [''intent_id'', ''title'', ''detail'', ''priority'', ''due'', ''tags'', ''objective_ids'', ''parent_id'', ''dependencies'']"

definition validate_capture_task_fields :: "dict \<Rightarrow> (string option \<times> dict) result" where
  "validate_capture_task_fields body =
     (let unknown = sorted_set (filter (\<lambda>k. k \<notin> set CAPTURE_TASK_FIELDS) (dkeys body)) in
      if unknown \<noteq> [] then Inl (domain_error ''unknown task fields'' [(''fields'', strs unknown)])
      else if \<not> is_str (dget body ''title'')
      then Inl (domain_error ''title is required and must be a string'' [(''field'', PStr ''title'')])
      else
      bind_r (validate_capture_task_scalars body) (\<lambda>_.
      bind_r (validate_capture_task_arrays body) (\<lambda>_.
      bind_r (capture_task_intent_id body) (\<lambda>intent_id.
      Inr (intent_id, filter (\<lambda>(k, v). k \<noteq> ''intent_id'') body)))))"

definition capture_action_matches_task :: "dict \<Rightarrow> dict \<Rightarrow> bool" where
  "capture_action_matches_task action task \<longleftrightarrow>
     list_all (\<lambda>(field, default_value). py_eq (dget_or action field default_value) (dget_or task field default_value))
       [(''title'', PStr []), (''detail'', PStr []), (''priority'', PStr ''P2''), (''due'', PNone)]"

text \<open>\<open>capture.get("normalized", {}).get("action_items", [])\<close>, and the item at a position changed in place.\<close>

definition action_items :: "dict \<Rightarrow> pyval list result" where
  "action_items capture = bind_r (vget_or (dget_or capture ''normalized'' (PDict [])) ''action_items'' (PList [])) iter_r"

definition put_action :: "dict \<Rightarrow> nat \<Rightarrow> dict \<Rightarrow> dict" where
  "put_action capture k action =
     dset capture ''normalized'' (PDict (put_row (dict_of (dget capture ''normalized'')) ''action_items'' k action))"

fun matching_actions :: "nat \<Rightarrow> pyval list \<Rightarrow> dict \<Rightarrow> (nat \<times> dict) list result" where
  "matching_actions k [] task = Inr []"
| "matching_actions k (v # vs) task =
     bind_r (as_dict v) (\<lambda>action.
     bind_r (matching_actions (Suc k) vs task) (\<lambda>found.
     Inr (if \<not> truthy (dget action ''task_id'') \<and> capture_action_matches_task action task then (k, action) # found else found)))"

definition link_unique_matching_capture_action :: "dict \<Rightarrow> dict \<Rightarrow> dict result" where
  "link_unique_matching_capture_action capture task =
     bind_r (bind_r (action_items capture) (\<lambda>items. matching_actions 0 items task)) (\<lambda>found. case found of
         [(k, action)] \<Rightarrow> bind_r (dindex task ''id'') (\<lambda>i. Inr (put_action capture k (dset action ''task_id'' i)))
       | _ \<Rightarrow> Inr capture)"

text \<open>\<open>converted = set(capture.setdefault("converted_task_ids", [])); converted.add(i); sorted(converted)\<close>\<close>

definition add_converted :: "dict \<Rightarrow> pyval \<Rightarrow> dict result" where
  "add_converted capture task_id =
     (let capture = dsetdefault capture ''converted_task_ids'' (PList []) in
      bind_r (iter_r (dget capture ''converted_task_ids'')) (\<lambda>ids.
      if \<not> list_all hashable (ids @ [task_id]) then Inl TypeError
      else bind_r (sorted_by (\<lambda>x. Inr [x]) (remdups (ids @ [task_id]))) (\<lambda>ids.
           Inr (dset capture ''converted_task_ids'' (PList ids)))))"

fun intent_event :: "pyval list \<Rightarrow> pyval \<Rightarrow> string \<Rightarrow> dict option result" where
  "intent_event [] capture_id intent_id = Inr None"
| "intent_event (v # vs) capture_id intent_id =
     bind_r (as_dict v) (\<lambda>item.
     if dget item ''type'' \<noteq> PStr ''capture.task_created'' \<or> \<not> py_eq (dget item ''capture_id'') capture_id
     then intent_event vs capture_id intent_id
     else bind_r (vget (dget_or item ''details'' (PDict [])) ''intent_id'') (\<lambda>i.
          if i \<noteq> PStr intent_id then intent_event vs capture_id intent_id else Inr (Some item)))"

definition find_by_value :: "dict \<Rightarrow> string \<Rightarrow> pyval \<Rightarrow> string \<Rightarrow> (nat \<times> dict) result" where
  "find_by_value doc field v label =
     (case v of PStr s \<Rightarrow> find_row_or doc field s label | _ \<Rightarrow> Inl AttributeError)"

text \<open>The answer of an intent whose Task was made before, None where no event names the intent.\<close>

definition capture_task_intent_replay ::
  "env \<Rightarrow> dict \<Rightarrow> dict \<Rightarrow> dict \<Rightarrow> string option \<Rightarrow> string \<Rightarrow> pyval \<Rightarrow> string \<Rightarrow> response option command" where
  "capture_task_intent_replay env activity backlog capture intent_id digest key path =
     (case intent_id of
        None \<Rightarrow> return_c None
      | Some intent \<Rightarrow>
          bind_c (lift_c (dindex capture ''id'')) (\<lambda>capture_id.
          bind_c (lift_c (bind_r (rows_or activity ''activity'') (\<lambda>events. intent_event events capture_id intent))) (\<lambda>found.
          case found of
            None \<Rightarrow> return_c None
          | Some event \<Rightarrow>
              bind_c (lift_c (vget (dget_or event ''details'' (PDict [])) ''request_digest'')) (\<lambda>d.
              if d \<noteq> PStr digest
              then raise_c (DomainError Idempotency_Conflict ''intent_id was already used for different Task fields''
                     [(''intent_id'', PStr intent)])
              else
              bind_c (lift_c (find_by_value backlog ''tasks'' (dget event ''task_id'') ''task'')) (\<lambda>(j, task).
              bind_c (lift_c (dindex task ''id'')) (\<lambda>task_id.
              bind_c (lift_c (contained_r task_id (dget_or capture ''converted_task_ids'' (PList [])))) (\<lambda>converted.
              if \<not> converted then raise_c (StoreCorruptError ''capture task intent link is incomplete'')
              else
              bind_c (lift_c (bind_r (validate_and_project backlog activity) (\<lambda>proj. index_status proj task_id))) (\<lambda>planning_status.
              bind_c (lift_c (project_task task 1 planning_status)) (\<lambda>projected.
              bind_c (commit_keyed env activity key ''POST'' path digest 200
                (capture_body projected [(''intent_replayed'', PBool True)]) [] []
                (''capture-task-intent-replay-'' @ str_of key)) (\<lambda>answer.
              return_c (Some answer)))))))))))"

definition create_capture_task_intent ::
  "env \<Rightarrow> string \<Rightarrow> string option \<Rightarrow> dict \<Rightarrow> pyval \<Rightarrow> string \<Rightarrow> string \<Rightarrow> dict \<Rightarrow> response command" where
  "create_capture_task_intent env capture_id intent_id task_input key path digest activity =
     bind_c (load Captures_Doc) (\<lambda>captures_data.
     bind_c (lift_c (find_row_or captures_data ''captures'' capture_id ''capture'')) (\<lambda>(k, capture).
     bind_c (load Tasks_Doc) (\<lambda>backlog.
     bind_c (capture_task_intent_replay env activity backlog capture intent_id digest key path) (\<lambda>replayed.
     case replayed of
       Some answer \<Rightarrow> return_c answer
     | None \<Rightarrow>
         bind_c (append_task env backlog (dget task_input ''title'') (dget_or task_input ''detail'' (PStr []))
           (dget_or task_input ''priority'' (PStr ''P2'')) (dget task_input ''due'') (list_of (dget_or task_input ''tags'' (PList [])))
           (list_of (dget_or task_input ''objective_ids'' (PList []))) (dget task_input ''parent_id'')
           (list_of (dget_or task_input ''dependencies'' (PList []))) PNone PNone) (\<lambda>(task, backlog, workspace).
         bind_c (utc_now env) (\<lambda>created_at.
         bind_c (lift_c (append_bootstrap activity task created_at ''workstack.capture'' ''api.v1.capture'')) (\<lambda>(item, activity, task).
         bind_c (lift_c (bind_r (dindex task ''id'') (add_converted capture))) (\<lambda>capture.
         bind_c (lift_c (link_unique_matching_capture_action capture task)) (\<lambda>capture.
         bind_c (stamp_capture env activity (dset capture ''status'' (PStr ''converted'')) ''capture.task_created'' (dget task ''id'')
           (case intent_id of None \<Rightarrow> [] | Some i \<Rightarrow> [(''intent_id'', PStr i), (''request_digest'', PStr digest)])) (\<lambda>(capture, activity).
         bind_c (lift_c (project_task task 1 (PStr ''open''))) (\<lambda>projected.
         commit_keyed env activity key ''POST'' path digest 201 (capture_body projected [])
           [(Tasks_Doc, put_last backlog ''tasks'' task), (Captures_Doc, put_row captures_data ''captures'' k capture)]
           [(Workspace_Doc, workspace)] (''capture-task-'' @ str_of key))))))))))))"

definition create_task_from_capture ::
  "env \<Rightarrow> string \<Rightarrow> dict \<Rightarrow> pyval \<Rightarrow> string \<Rightarrow> string \<Rightarrow> response command" where
  "create_task_from_capture env capture_id task_fields key request_digest path =
     bind_c (lift_c (validate_capture_task_fields task_fields)) (\<lambda>(intent_id, task_input).
     let digest = digest_or env request_digest task_fields;
         path = path_or path (''/api/v1/captures/'' @ capture_id @ ''/task'') in
     keyed_command key ''POST'' path digest (create_capture_task_intent env capture_id intent_id task_input key path digest))"

section \<open>Converting an action\<close>

definition converted_task ::
  "string \<Rightarrow> string \<Rightarrow> dict \<Rightarrow> pyval \<Rightarrow> pyval \<Rightarrow> string list \<Rightarrow> string \<Rightarrow> string \<Rightarrow> dict" where
  "converted_task task_id uid action title tags objective_ids day1 day2 =
     [(''id'', PStr task_id), (''uid'', PStr uid), (''title'', title), (''detail'', dget_or action ''detail'' (PStr [])),
      (''status'', PStr ''open''), (''priority'', dget_or action ''priority'' (PStr ''P2'')), (''due'', dget action ''due''),
      (''tags'', tags), (''objective_ids'', strs objective_ids), (''parent_id'', PNone), (''dependencies'', PList []),
      (''subtasks'', PList []), (''notes'', PList []), (''created'', PStr day1), (''updated_at'', PStr day2), (''revision'', PInt 0)]"

definition new_conversion ::
  "env \<Rightarrow> dict \<Rightarrow> dict \<Rightarrow> nat \<Rightarrow> dict \<Rightarrow> string list \<Rightarrow> dict \<Rightarrow> (dict \<times> dict \<times> dict \<times> dict \<times> dict) command" where
  "new_conversion env backlog capture a action objective_ids activity =
     (let backlog = dsetdefault backlog ''tasks'' (PList []) in
      bind_c (next_display backlog) (\<lambda>(task_id, workspace).
      bind_c (lift_c (bind_r (dindex workspace ''id'') workspace_text)) (\<lambda>workspace_id.
      bind_c (lift_c (uuid5 env workspace_id task_id)) (\<lambda>uid.
      bind_c (lift_c (dindex action ''title'')) (\<lambda>title.
      bind_c (lift_c (vget_or (dget_or capture ''normalized'' (PDict [])) ''tags'' (PList []))) (\<lambda>tags.
      bind_c (today env) (\<lambda>day1.
      bind_c (today env) (\<lambda>day2.
      let task = converted_task task_id uid action title tags objective_ids day1 day2 in
      bind_c (lift_c (append_row backlog ''tasks'' task)) (\<lambda>backlog.
      bind_c (utc_now env) (\<lambda>created_at.
      bind_c (lift_c (append_bootstrap activity task created_at ''workstack.capture'' ''api.v1.capture'')) (\<lambda>(item, activity, task).
      let capture = put_action capture a (dset action ''task_id'' (PStr task_id)) in
      bind_c (lift_c (add_converted capture (PStr task_id))) (\<lambda>capture.
      bind_c (lift_c (dindex action ''id'')) (\<lambda>action_id.
      bind_c (stamp_capture env activity (dset capture ''status'' (PStr ''converted'')) ''capture.action_converted'' (PStr task_id)
        [(''action_id'', action_id)]) (\<lambda>(capture, activity).
      return_c (task, put_last backlog ''tasks'' task, capture, activity, workspace)))))))))))))))"

definition convert_intent ::
  "env \<Rightarrow> string \<Rightarrow> string \<Rightarrow> string list \<Rightarrow> pyval \<Rightarrow> string \<Rightarrow> string \<Rightarrow> dict \<Rightarrow> response command" where
  "convert_intent env capture_id action_id objective_ids key path digest activity =
     bind_c (load Objectives_Doc) (\<lambda>objectives.
     bind_c (lift_c (bind_r (rows_or objectives ''objectives'') (map_r (\<lambda>v.
       bind_r (getitem v ''id'') (\<lambda>i. if hashable i then Inr i else Inl TypeError))))) (\<lambda>known.
     bind_c (lift_c (if missing_from objective_ids known \<noteq> []
       then Inl (domain_error ''unknown objective ids'' [(''ids'', strs (missing_from objective_ids known))]) else Inr ())) (\<lambda>_.
     bind_c (load Captures_Doc) (\<lambda>captures_data.
     bind_c (lift_c (find_row_or captures_data ''captures'' capture_id ''capture'')) (\<lambda>(k, capture).
     bind_c (lift_c (bind_r (action_items capture) (\<lambda>items. find_record items action_id ''capture action''))) (\<lambda>(a, action).
     bind_c (load Tasks_Doc) (\<lambda>backlog.
     bind_c (if truthy (dget action ''task_id'')
             then bind_c (lift_c (find_by_value backlog ''tasks'' (dget action ''task_id'') ''task'')) (\<lambda>(j, task).
                  return_c (task, backlog, capture, activity, []))
             else bind_c (new_conversion env backlog capture a action objective_ids activity) (\<lambda>(task, backlog, capture, activity, workspace).
                  return_c (task, backlog, capture, activity, [(Workspace_Doc, workspace)])))
       (\<lambda>(task, backlog, capture, activity, workspace).
     bind_c (lift_c (bind_r (validate_and_project backlog activity) (\<lambda>proj. bind_r (dindex task ''id'') (index_status proj)))) (\<lambda>projected_status.
     bind_c (lift_c (project_task task 1 projected_status)) (\<lambda>projected.
     let duplicate = truthy (dget action ''task_id'') in
     commit_keyed env activity key ''POST'' path digest (if duplicate then 200 else 201)
       (capture_body projected (duplicate_meta duplicate))
       [(Tasks_Doc, backlog), (Captures_Doc, put_row captures_data ''captures'' k capture)] workspace
       (''capture-convert-'' @ str_of key)))))))))))"

definition convert_capture_action ::
  "env \<Rightarrow> string \<Rightarrow> string \<Rightarrow> pyval list \<Rightarrow> pyval \<Rightarrow> string \<Rightarrow> string \<Rightarrow> response command" where
  "convert_capture_action env capture_id action_id objective_ids key request_digest path =
     (if \<not> list_all is_str objective_ids then raise_c (domain_error ''objective_ids entries must be strings'' [])
      else
      let ids = sorted_set (map upper_strip (filter (\<lambda>s. py_strip s \<noteq> []) (map str_of objective_ids)));
          digest = digest_or env request_digest [(''objective_ids'', strs ids)];
          path = path_or path (''/api/v1/captures/'' @ capture_id @ ''/actions/'' @ action_id @ ''/task'') in
      keyed_command key ''POST'' path digest (convert_intent env capture_id action_id ids key path digest))"

end
