(* ===== verification/Spec2Isabelle.thy ===== *)
theory Spec2Isabelle
  imports WS_DisplayId WS_Planning WS_Outcome WS_TaskRules WS_Notice WS_Receipts WS_Idempotency WS_Service WS_CheckpointProjection WS_SessionContract WS_UnlinkLaws WS_Captures
begin

text \<open>
  Work Stack: a verification development of the core of the package \<open>workstack/\<close>, the service
  that owns a workspace of Tasks, Objectives and an append-only activity history.

  Parts of the program and the theories that model them.

  A workspace is a set of JSON documents (\<open>WorkspaceDocument\<close>). The service loads documents,
  computes new ones and saves one or several together. The values are Python's: \<open>pyval\<close> in
  \<open>WS_Prelude\<close> (None, bool, unbounded int, float as its text, str, list, dict as an
  association list in insertion order), with exceptions as the left side of a sum (\<open>pyexc\<close>) and
  the reads that may raise written out.
    - \<open>WS_Prelude\<close>, \<open>WS_Text\<close>, \<open>WS_Dates\<close>, \<open>WS_Patterns\<close>, \<open>WS_Json\<close>, \<open>WS_Order\<close>: Python's
      values, strings, dates, regular expressions (a backtracking matcher over a fixed syntax),
      the JSON reader and writer, sorting by keys.
    - \<open>WS_Domain\<close>: \<open>service_domain.py\<close>: vocabulary, identifiers, lookup, revision guards. The
      interfaces \<open>revision_ladder\<close> and the allocation of identifiers are locales interpreted here
      and in \<open>WS_Objectives\<close>.
    - \<open>WS_DisplayId\<close>: \<open>task_display_id.py\<close>: identifiers \<open>T-n\<close> and their high-water mark.
    - \<open>WS_Planning\<close>: \<open>planning_status.py\<close>: the chain of facts that is the history of statuses.
    - \<open>WS_Outcome\<close>: \<open>outcome_write_invariant.py\<close>; \<open>WS_TaskRules\<close>: \<open>service_task_rules.py\<close>.
    - \<open>WS_Notice\<close>: \<open>mutation_notice.py\<close>; \<open>WS_Receipts\<close>: \<open>mutation_receipts.py\<close>.
    - \<open>WS_World\<close>: what a command runs in: the documents, a counter of clock reads, the log of
      saves; \<open>env\<close> holds what comes from outside. A command is a function from a world to a result
      and a world (\<open>'a command\<close>), composed by \<open>bind_c\<close>.
    - \<open>WS_Idempotency\<close>: \<open>service_idempotency.py\<close>; \<open>WS_Commands\<close>: the shape the commands share.
    - \<open>WS_TaskReads\<close>: \<open>service_task_reads.py\<close>; \<open>WS_Objectives\<close>: \<open>service_objectives.py\<close>;
      \<open>WS_TaskCommands\<close>: \<open>service_task_commands.py\<close>; \<open>WS_TaskStatus\<close>: the status commands of that
      module, \<open>patch_task\<close> of \<open>service.py\<close> and the undo of \<open>mutation_service.py\<close>.
    - \<open>WS_Checkpoint\<close>, \<open>WS_CheckpointHistory\<close>: \<open>checkpoint_transition.py\<close>, the pure contract by which
      recorded work entries are superseded and restored, and the laws of its projection.
    - \<open>WS_CheckpointChange\<close>: \<open>checkpoint_change.py\<close>; \<open>WS_Review\<close>: the entries of \<open>service_review.py\<close>;
      \<open>WS_CheckpointProjection\<close>: \<open>checkpoint_projection.py\<close> and \<open>service_checkpoints.py\<close>. An entry is
      written with a fact about it, the facts and the entries are the context the contract validates,
      and every reader of the work log sees the view without superseded entries.
    - \<open>WS_WorkSessions\<close>: \<open>service_work_sessions.py\<close>, the sessions stored inside the days of the work log;
      \<open>WS_SessionLaws\<close>: the loop that validates them characterised without the loop, what each command
      leaves behind, and \<open>session_step\<close>, the relation of any call of a session command.
    - \<open>WS_History\<close>, \<open>WS_TaskSteps\<close>, \<open>WS_Ledger\<close>, \<open>WS_Service\<close>: laws of all commands together. The
      commands are the constructors of \<open>service_op\<close>, \<open>perform\<close> runs one, \<open>reaches\<close> is what
      sequences of them lead to.

  What the groups of lemmas show. The component theories prove what each operation returns on
  each branch and the invariant it keeps (identifiers are never reused, the relationship graph
  stays acyclic, the fact chain stays linked, references resolve). \<open>WS_Commands\<close> turns "the
  command returned" into the values of its steps (\<open>runs\<close>) and proves that a command commits at
  most once (\<open>commits\<close>). \<open>WS_TaskSteps\<close> proves for every command that it is \<open>sound\<close>: the planning
  history of the new documents validates, every Task is kept, a changed Task has a higher
  revision. \<open>WS_Ledger\<close> proves for every command that receipts are only appended. \<open>WS_Service\<close>
  draws the consequences for any sequence of commands.

  Assumptions, as named hypotheses: \<open>clock_ok\<close> (the clock formats a second of UTC as
  \<open>YYYY-MM-DDTHH:MM:SSZ\<close>) and \<open>uuids_ok\<close> (\<open>uuid5\<close> returns a canonical non-nil UUID), the documented
  behaviour of Python's \<open>datetime\<close> and \<open>uuid\<close>; \<open>digests_ok\<close> (\<open>hexdigest\<close> is 64 lower-case hexadecimal digits).
  Nothing else is assumed of \<open>sha256\<close>, in particular not that it has no collisions. Each
  read of the clock may return anything; reads need not be monotone. Where a law of the work sessions does
  need the clock not to have gone back, that is the named premise \<open>clock_not_back\<close>, and
  \<open>resume_readable_iff_clock_onward\<close> shows what happens without it.

  Bounds and fuel. The relationship search terminates by a measure. The regular expression
  matcher is structural. The JSON reader takes fuel, three times the length of the text plus
  three: every call consumes a character or is one of two at the same place.

  Scope of the model. Strings are ASCII. Dictionaries have string keys. Documents are values:
  \<open>load\<close> returns a fresh copy, as the repository does, so no two commands share a record, and a
  record that was found and then changed is put back to its position. \<open>save_many\<close> is the commit
  that nothing disturbs; a commit interrupted by a crash is not modelled. Command backends
  injected for the experimental storage are not modelled: the commands are those of the released
  composition.

  Not modelled: the HTTP server, the command line, the desktop shell, the scripts and installers
  (transport and glue around the commands); captures and replies, weekly reports, the change feed
  of the store, the physical store and its recovery, the deletion plan (later parts of this development); the experimental storage v4; reports, snapshots, knowledge and agent modules.
\<close>

end
